(* ===== verification/Orange_Prelude.thy ===== *)
theory Orange_Prelude
  imports Main "HOL-Library.Word" "HOL-Library.AList"
begin

text \<open>
  Shared vocabulary of the development: the outcome of a Rust call (\<open>Ok\<close>, \<open>Err\<close> or a
  panic, which aborts the process in this workspace's profiles), the \<open>?\<close> operator and
  \<open>expect\<close> over state passing, unsigned integers with their width written out, byte
  arrays, UTF-8 string slicing and hexadecimal text, and the generic list and map lemmas
  the component theories share.
\<close>

named_theorems outcome_simps
named_theorems invs
named_theorems codec_simps

type_synonym u8 = "8 word"
type_synonym u64 = nat
type_synonym u32 = nat
type_synonym u16 = nat
type_synonym u128 = nat
type_synonym bytes = "u8 list"
type_synonym bytes32 = "u8 list"
type_synonym duration = nat

subsection \<open>Outcomes of calls\<close>

datatype ('e, 'a) result = Ok 'a | Err 'e | Panic string

fun and_then ::
  "('e, 'a) result \<times> 's \<Rightarrow> ('a \<Rightarrow> 's \<Rightarrow> ('e, 'b) result \<times> 's) \<Rightarrow> ('e, 'b) result \<times> 's" where
  "and_then (Ok a, s) f = f a s"
| "and_then (Err e, s) f = (Err e, s)"
| "and_then (Panic m, s) f = (Panic m, s)"

fun expect :: "string \<Rightarrow> ('e, 'a) result \<times> 's \<Rightarrow> ('f, 'a) result \<times> 's" where
  "expect msg (Ok a, s) = (Ok a, s)"
| "expect msg (Err e, s) = (Panic msg, s)"
| "expect msg (Panic m, s) = (Panic m, s)"

text \<open>A call whose Rust type is not a \<open>Result\<close>: it returns or panics, never errs.\<close>

definition infallible :: "(unit, 'a) result \<times> 's \<Rightarrow> ('e, 'a) result \<times> 's" where
  "infallible r = expect ''unreachable'' r"

fun map_err :: "('e \<Rightarrow> 'f) \<Rightarrow> ('e, 'a) result \<times> 's \<Rightarrow> ('f, 'a) result \<times> 's" where
  "map_err f (Ok a, s) = (Ok a, s)"
| "map_err f (Err e, s) = (Err (f e), s)"
| "map_err f (Panic m, s) = (Panic m, s)"

fun is_ok :: "('e, 'a) result \<Rightarrow> bool" where
  "is_ok (Ok _) = True"
| "is_ok _ = False"

fun is_panic :: "('e, 'a) result \<Rightarrow> bool" where
  "is_panic (Panic _) = True"
| "is_panic _ = False"

subsection \<open>Unsigned integers\<close>

definition u64_max :: u64 where "u64_max = 18446744073709551615"
definition u32_max :: u32 where "u32_max = 4294967295"

definition u64_wrapping_add :: "u64 \<Rightarrow> u64 \<Rightarrow> u64" where
  "u64_wrapping_add a b = (a + b) mod (u64_max + 1)"

definition u64_wrapping_mul :: "u64 \<Rightarrow> u64 \<Rightarrow> u64" where
  "u64_wrapping_mul a b = (a * b) mod (u64_max + 1)"

definition u64_saturating_add :: "u64 \<Rightarrow> u64 \<Rightarrow> u64" where
  "u64_saturating_add a b = min (a + b) u64_max"

definition u32_checked_add :: "u32 \<Rightarrow> u32 \<Rightarrow> u32 option" where
  "u32_checked_add a b = (if a + b \<le> u32_max then Some (a + b) else None)"

text \<open>\<open>x as u16\<close> and \<open>x as u64\<close>: the low bits.\<close>

definition as_u16 :: "nat \<Rightarrow> u16" where
  "as_u16 n = n mod 65536"

definition as_u64 :: "nat \<Rightarrow> u64" where
  "as_u64 n = n mod (u64_max + 1)"

text \<open>\<open>std::time::Duration\<close> as its total number of nanoseconds.\<close>

definition from_secs :: "u64 \<Rightarrow> duration" where
  "from_secs n = n * 1000000000"

definition as_secs :: "duration \<Rightarrow> u64" where
  "as_secs d = d div 1000000000"

subsection \<open>Strings as UTF-8 bytes\<close>

text \<open>
  A Rust \<open>str\<close> is its UTF-8 bytes, and \<open>char\<close> is a byte here. A slice at an index that
  is not on a character boundary panics; \<open>slice_to\<close> and \<open>slice_from\<close> are \<open>&s[..i]\<close> and
  \<open>&s[i..]\<close>.
\<close>

definition is_continuation_byte :: "char \<Rightarrow> bool" where
  "is_continuation_byte c \<longleftrightarrow> 128 \<le> (of_char c :: nat) \<and> (of_char c :: nat) < 192"

definition is_char_boundary :: "string \<Rightarrow> nat \<Rightarrow> bool" where
  "is_char_boundary s i \<longleftrightarrow>
     i = 0 \<or> i = length s \<or> (i < length s \<and> \<not> is_continuation_byte (s ! i))"

definition slice_to :: "string \<Rightarrow> nat \<Rightarrow> ('e, string) result" where
  "slice_to s i = (if is_char_boundary s i then Ok (take i s)
     else Panic ''byte index is not a char boundary'')"

definition slice_from :: "string \<Rightarrow> nat \<Rightarrow> ('e, string) result" where
  "slice_from s i = (if is_char_boundary s i then Ok (drop i s)
     else Panic ''byte index is not a char boundary'')"

subsection \<open>Hexadecimal text\<close>

text \<open>
  Lower-case hexadecimal, as every \<open>as_hex\<close> and \<open>to_lower_hex_string\<close> of the code writes
  it, and a reader that accepts both cases and an even number of digits.
\<close>

definition hex_digits :: string where
  "hex_digits = ''0123456789abcdef''"

definition hex_digit :: "nat \<Rightarrow> char" where
  "hex_digit n = hex_digits ! n"

definition hex_value :: "char \<Rightarrow> nat option" where
  "hex_value c =
     (let n = (of_char c :: nat) in
      if 48 \<le> n \<and> n \<le> 57 then Some (n - 48)
      else if 97 \<le> n \<and> n \<le> 102 then Some (n - 87)
      else if 65 \<le> n \<and> n \<le> 70 then Some (n - 55)
      else None)"

fun to_lower_hex_string :: "bytes \<Rightarrow> string" where
  "to_lower_hex_string [] = ''''"
| "to_lower_hex_string (b # bs) =
     hex_digit (unat b div 16) # hex_digit (unat b mod 16) # to_lower_hex_string bs"

fun from_hex :: "string \<Rightarrow> bytes option" where
  "from_hex [] = Some []"
| "from_hex [c] = None"
| "from_hex (c # d # cs) =
     (case (hex_value c, hex_value d, from_hex cs) of
        (Some h, Some l, Some bs) \<Rightarrow> Some (of_nat (16 * h + l) # bs)
      | _ \<Rightarrow> None)"

text \<open>\<open>FromHex for [u8; 32]\<close>: exactly 32 bytes.\<close>

definition from_hex32 :: "string \<Rightarrow> bytes32 option" where
  "from_hex32 s = (case from_hex s of
     Some bs \<Rightarrow> if length bs = 32 then Some bs else None
   | None \<Rightarrow> None)"

subsection \<open>Decimal text\<close>

fun decimal :: "nat \<Rightarrow> string" where
  "decimal n = (if n < 10 then [char_of (48 + n)]
     else decimal (n div 10) @ [char_of (48 + n mod 10)])"

declare decimal.simps [simp del]

subsection \<open>Lemmas: outcomes\<close>

lemma and_then_eq_Ok [simp]:
  "and_then r f = (Ok b, s') \<longleftrightarrow> (\<exists>a s. r = (Ok a, s) \<and> f a s = (Ok b, s'))"
  by (cases "(r, f)" rule: and_then.cases) auto

lemma expect_eq_Ok [simp]: "expect m r = (Ok a, s) \<longleftrightarrow> r = (Ok a, s)"
  by (cases "(m, r)" rule: expect.cases) auto

lemma map_err_eq_Ok [simp]: "map_err f r = (Ok a, s) \<longleftrightarrow> r = (Ok a, s)"
  by (cases "(f, r)" rule: map_err.cases) auto

lemma expect_not_Err [simp]: "expect m r \<noteq> (Err e, s)"
  by (cases "(m, r)" rule: expect.cases) auto

lemma fst_map_err_Ok [simp]: "fst (map_err f r) = Ok a \<longleftrightarrow> fst r = Ok a"
  by (cases "(f, r)" rule: map_err.cases) auto

lemma snd_map_err [simp]: "snd (map_err f r) = snd r"
  by (cases "(f, r)" rule: map_err.cases) auto

lemma snd_expect [simp]: "snd (expect m r) = snd r"
  by (cases "(m, r)" rule: expect.cases) auto

lemma is_ok_iff: "is_ok r \<longleftrightarrow> (\<exists>a. r = Ok a)"
  by (cases r) auto

lemma is_panic_iff: "is_panic r \<longleftrightarrow> (\<exists>m. r = Panic m)"
  by (cases r) auto

lemma and_then_not_panic:
  "and_then x f = (r, s') \<Longrightarrow> \<not> is_panic r \<Longrightarrow>
   (\<exists>a s. x = (Ok a, s) \<and> f a s = (r, s')) \<or> (\<exists>e. x = (Err e, s') \<and> r = Err e)"
  by (cases "(x, f)" rule: and_then.cases) auto

lemma expect_not_panic:
  "expect m x = (r, s') \<Longrightarrow> \<not> is_panic r \<Longrightarrow> \<exists>a. x = (Ok a, s') \<and> r = Ok a"
  by (cases "(m, x)" rule: expect.cases) auto

text \<open>A property of the state that both halves of a sequence keep, the sequence keeps.\<close>

lemma and_then_state [intro]:
  assumes "P (snd r)" and "\<And>a s. P s \<Longrightarrow> P (snd (f a s))"
  shows "P (snd (and_then r f))"
  using assms by (cases "(r, f)" rule: and_then.cases) auto

subsection \<open>Lemmas: integers\<close>

lemma u64_saturating_add_commute: "u64_saturating_add a b = u64_saturating_add b a"
  by (simp add: u64_saturating_add_def add.commute)

lemma u64_saturating_add_le_max [simp]: "u64_saturating_add a b \<le> u64_max"
  by (simp add: u64_saturating_add_def)

lemma u64_saturating_add_exact:
  "a + b \<le> u64_max \<Longrightarrow> u64_saturating_add a b = a + b"
  by (simp add: u64_saturating_add_def)

lemma as_secs_from_secs [simp]: "as_secs (from_secs n) = n"
  by (simp add: as_secs_def from_secs_def)

lemma from_secs_le_iff [simp]: "from_secs m \<le> from_secs n \<longleftrightarrow> m \<le> n"
  by (simp add: from_secs_def)

lemma u32_checked_add_eq_Some:
  "u32_checked_add a b = Some c \<longleftrightarrow> c = a + b \<and> a + b \<le> u32_max"
  by (auto simp: u32_checked_add_def)

subsection \<open>Lemmas: hexadecimal\<close>

lemma less_16_cases:
  "n < 16 \<Longrightarrow> (n :: nat) \<in> {0, 1, 2, 3, 4, 5, 6, 7, 8, 9, 10, 11, 12, 13, 14, 15}"
  by (simp, arith)

lemma hex_value_digit: "n < 16 \<Longrightarrow> hex_value (hex_digit n) = Some n"
proof -
  assume "n < 16"
  from less_16_cases [OF this] show ?thesis by (auto simp: hex_value_def hex_digit_def hex_digits_def)
qed

lemma length_to_lower_hex_string [simp]:
  "length (to_lower_hex_string bs) = 2 * length bs"
  by (induction bs) auto

lemma unat_u8_less [simp]: "unat (b :: u8) < 256"
proof -
  have "unat b < 2 ^ LENGTH(8)" by (rule unsigned_less)
  then show ?thesis by simp
qed

lemma from_hex_to_lower_hex_string [simp]: "from_hex (to_lower_hex_string bs) = Some bs"
proof (induction bs)
  case Nil
  then show ?case by simp
next
  case (Cons b bs)
  have "unat b div 16 < 16" and "unat b mod 16 < 16"
    using unat_u8_less [of b] by (simp_all add: less_mult_imp_div_less)
  with Cons show ?case
    by (simp add: hex_value_digit)
qed

lemma from_hex32_to_lower_hex_string [simp]:
  "length bs = 32 \<Longrightarrow> from_hex32 (to_lower_hex_string bs) = Some bs"
  by (simp add: from_hex32_def)

lemma length_from_hex32: "from_hex32 s = Some bs \<Longrightarrow> length bs = 32"
  by (auto simp: from_hex32_def split: option.splits if_splits)

lemma to_lower_hex_string_inj [simp]:
  "to_lower_hex_string xs = to_lower_hex_string ys \<longleftrightarrow> xs = ys"
  by (metis from_hex_to_lower_hex_string option.inject)

lemma hex_digits_ascii: "c \<in> set hex_digits \<Longrightarrow> \<not> is_continuation_byte c"
  by (auto simp: is_continuation_byte_def hex_digits_def)

lemma hex_digit_in: "n < 16 \<Longrightarrow> hex_digit n \<in> set hex_digits"
  unfolding hex_digit_def by (rule nth_mem) (simp add: hex_digits_def)

lemma set_to_lower_hex_string: "set (to_lower_hex_string bs) \<subseteq> set hex_digits"
proof (induction bs)
  case (Cons b bs)
  have "unat b div 16 < 16" and "unat b mod 16 < 16"
    using unat_u8_less [of b] by (simp_all add: less_mult_imp_div_less)
  with Cons hex_digit_in show ?case by simp
qed simp

subsection \<open>Lemmas: decimal text\<close>

lemma decimal_nonempty [simp]: "decimal n \<noteq> []"
  by (subst decimal.simps) simp

lemma decimal_digit:
  "c \<in> set (decimal n) \<Longrightarrow> 48 \<le> (of_char c :: nat) \<and> (of_char c :: nat) \<le> 57"
proof (induction n rule: decimal.induct)
  case (1 n)
  show ?case
  proof (cases "n < 10")
    case True
    with "1.prems" have "c = char_of (48 + n)" by (simp add: decimal.simps [of n])
    with True show ?thesis by simp
  next
    case False
    then have "n mod 10 < 10" by simp
    with False "1" show ?thesis
      by (auto simp: decimal.simps [of n])
  qed
qed

text \<open>The number a decimal text stands for.\<close>

definition decimal_value :: "string \<Rightarrow> nat" where
  "decimal_value cs = foldl (\<lambda>n c. 10 * n + ((of_char c :: nat) - 48)) 0 cs"

lemma decimal_value_decimal [simp]: "decimal_value (decimal n) = n"
proof (induction n rule: decimal.induct)
  case (1 n)
  show ?case
  proof (cases "n < 10")
    case True
    then show ?thesis by (simp add: decimal.simps [of n] decimal_value_def)
  next
    case False
    with "1.IH" have "decimal_value (decimal (n div 10)) = n div 10" by simp
    moreover have "n mod 10 < 10" by simp
    ultimately show ?thesis
      using False by (simp add: decimal.simps [of n] decimal_value_def)
  qed
qed

lemma decimal_inj [simp]: "decimal m = decimal n \<longleftrightarrow> m = n"
  by (metis decimal_value_decimal)

subsection \<open>Lemmas: lists and maps\<close>

lemma sorted_map_sort_key: "sorted (map f (sort_key f xs))"
  by simp

lemma map_of_AList_update [simp]:
  "map_of (AList.update k v xs) = (map_of xs)(k \<mapsto> v)"
  by (rule AList.update_conv')

lemma find_Some_iff_ex: "(\<exists>y. find P xs = Some y) \<longleftrightarrow> (\<exists>y \<in> set xs. P y)"
  by (induction xs) auto

lemma find_SomeD: "find P xs = Some y \<Longrightarrow> y \<in> set xs \<and> P y"
  by (auto simp: find_Some_iff)

end
