(* ===== verification/Amounts.thy ===== *)
theory Amounts
  imports Orange_Prelude
begin

text \<open>
  Amounts of bitcoin. \<open>Amount\<close> belongs to the crate \<open>bitcoin_payment_instructions\<close>, which is
  not part of this repository: an amount is identified with the number of millisatoshis its
  accessor \<open>milli_sats\<close> returns (the crate orders amounts by it), and its other functions are
  a parameter, the record \<open>amount_ops\<close>. The locale \<open>amount_laws\<close> states what the crate
  documents about them. The wrapper type that the foreign-language bindings expose
  (\<open>ffi/bitcoin_payment_instructions.rs\<close>) is modelled on top of it and inherits the laws.
\<close>

type_synonym Amount = nat

record amount_ops =
  from_sats :: "u64 \<Rightarrow> (unit, Amount) result"
  from_milli_sats :: "u64 \<Rightarrow> (unit, Amount) result"
  sats :: "Amount \<Rightarrow> (unit, u64) result"
  sats_rounding_up :: "Amount \<Rightarrow> u64"
  saturating_add :: "Amount \<Rightarrow> Amount \<Rightarrow> Amount"
  saturating_sub :: "Amount \<Rightarrow> Amount \<Rightarrow> Amount"

definition milli_sats :: "Amount \<Rightarrow> u64" where
  [simp]: "milli_sats a = a"

text \<open>21 million bitcoin, in millisatoshis: the largest amount the crate represents.\<close>

definition amount_max :: Amount where
  "amount_max = 21000000 * 100000000 * 1000"

fun result_unwrap :: "'a \<Rightarrow> ('e, 'a) result \<Rightarrow> 'a" where
  "result_unwrap d (Ok a) = a"
| "result_unwrap d _ = d"

locale amount_laws =
  fixes A :: amount_ops
  assumes from_milli_sats_ok: "n \<le> amount_max \<Longrightarrow> from_milli_sats A n = Ok n"
    and from_milli_sats_err: "amount_max < n \<Longrightarrow> from_milli_sats A n = Err ()"
    and from_sats_ok: "1000 * n \<le> amount_max \<Longrightarrow> from_sats A n = Ok (1000 * n)"
    and from_sats_err: "amount_max < 1000 * n \<Longrightarrow> from_sats A n = Err ()"
    and sats_ok: "a mod 1000 = 0 \<Longrightarrow> sats A a = Ok (a div 1000)"
    and sats_err: "a mod 1000 \<noteq> 0 \<Longrightarrow> sats A a = Err ()"
    and sats_rounding_up_eq: "sats_rounding_up A a = (a + 999) div 1000"
    and saturating_add_eq: "saturating_add A a b = min (a + b) amount_max"
    and saturating_sub_eq: "saturating_sub A a b = a - b"
begin

lemma sats_from_sats: "from_sats A n = Ok a \<Longrightarrow> sats A a = Ok n"
proof (cases "1000 * n \<le> amount_max")
  case True
  assume "from_sats A n = Ok a"
  then have "a = 1000 * n" by (simp only: from_sats_ok [OF True] result.inject)
  then show ?thesis by (simp add: sats_ok)
next
  case False
  assume "from_sats A n = Ok a"
  moreover have "from_sats A n = Err ()" using False by (intro from_sats_err) simp
  ultimately show ?thesis by simp
qed

lemma saturating_sub_le: "saturating_sub A a b \<le> a"
  by (simp add: saturating_sub_eq)

lemma saturating_add_within:
  "saturating_add A a b \<le> c \<Longrightarrow> c < amount_max \<Longrightarrow> a + b \<le> c"
  by (auto simp: saturating_add_eq min_def split: if_splits)

lemma le_sats_rounding_up: "a \<le> 1000 * sats_rounding_up A a"
  unfolding sats_rounding_up_eq by simp

end

subsection \<open>The bindings' wrapper\<close>

datatype AmountError =
    FractionalAmountOfSats u64
  | MoreThanTwentyOneMillionBitcoin u64

fun result_map_err :: "('e \<Rightarrow> 'f) \<Rightarrow> ('e, 'a) result \<Rightarrow> ('f, 'a) result" where
  "result_map_err f (Ok a) = Ok a"
| "result_map_err f (Err e) = Err (f e)"
| "result_map_err f (Panic m) = Panic m"

definition ffi_from_sats :: "amount_ops \<Rightarrow> u64 \<Rightarrow> (AmountError, Amount) result" where
  "ffi_from_sats A n =
     result_map_err (\<lambda>_. MoreThanTwentyOneMillionBitcoin n) (from_sats A n)"

definition ffi_from_milli_sats :: "amount_ops \<Rightarrow> u64 \<Rightarrow> (AmountError, Amount) result" where
  "ffi_from_milli_sats A n =
     result_map_err (\<lambda>_. MoreThanTwentyOneMillionBitcoin n) (from_milli_sats A n)"

definition ffi_sats :: "amount_ops \<Rightarrow> Amount \<Rightarrow> (AmountError, u64) result" where
  "ffi_sats A a = result_map_err (\<lambda>_. FractionalAmountOfSats (milli_sats a)) (sats A a)"

definition ffi_sats_rounding_up :: "amount_ops \<Rightarrow> Amount \<Rightarrow> u64" where
  "ffi_sats_rounding_up A a = sats_rounding_up A a"

definition ffi_saturating_add :: "amount_ops \<Rightarrow> Amount \<Rightarrow> Amount \<Rightarrow> Amount" where
  "ffi_saturating_add A a b = saturating_add A a b"

definition ffi_saturating_sub :: "amount_ops \<Rightarrow> Amount \<Rightarrow> Amount \<Rightarrow> Amount" where
  "ffi_saturating_sub A a b = saturating_sub A a b"

text \<open>The wrapper seen through the crate's interface: its error payload forgotten.\<close>

definition ffi_amount_ops :: "amount_ops \<Rightarrow> amount_ops" where
  "ffi_amount_ops A =
     \<lparr>from_sats = (\<lambda>n. result_map_err (\<lambda>_. ()) (ffi_from_sats A n)),
      from_milli_sats = (\<lambda>n. result_map_err (\<lambda>_. ()) (ffi_from_milli_sats A n)),
      sats = (\<lambda>a. result_map_err (\<lambda>_. ()) (ffi_sats A a)),
      sats_rounding_up = ffi_sats_rounding_up A,
      saturating_add = ffi_saturating_add A,
      saturating_sub = ffi_saturating_sub A\<rparr>"

lemmas ffi_amount_defs =
  ffi_amount_ops_def ffi_from_sats_def ffi_from_milli_sats_def ffi_sats_def
  ffi_sats_rounding_up_def ffi_saturating_add_def ffi_saturating_sub_def

lemma result_map_err_unit [simp]: "result_map_err (\<lambda>_. ()) (result_map_err f r) = r"
  by (cases r) auto

lemma ffi_amount_ops_id [simp]: "ffi_amount_ops A = A"
  by (cases A) (simp add: ffi_amount_defs fun_eq_iff)

text \<open>A concrete instance, on which the hypotheses of the properties are evaluated.\<close>

definition msat_ops :: amount_ops where
  "msat_ops =
     \<lparr>from_sats = (\<lambda>n. if 1000 * n \<le> amount_max then Ok (1000 * n) else Err ()),
      from_milli_sats = (\<lambda>n. if n \<le> amount_max then Ok n else Err ()),
      sats = (\<lambda>a. if a mod 1000 = 0 then Ok (a div 1000) else Err ()),
      sats_rounding_up = (\<lambda>a. (a + 999) div 1000),
      saturating_add = (\<lambda>a b. min (a + b) amount_max),
      saturating_sub = (\<lambda>a b. a - b)\<rparr>"

interpretation msat: amount_laws msat_ops
  by unfold_locales (auto simp: msat_ops_def)

interpretation ffi_msat: amount_laws "ffi_amount_ops msat_ops"
  by (simp add: msat.amount_laws_axioms)

end
