(* ===== verification/Kv_Store.thy ===== *)
theory Kv_Store
  imports Orange_Prelude
begin

text \<open>
  The persistence interface (\<open>dyn_store.rs\<close>). A backend is a \<open>PaginatedKVStore\<close> of the crate
  \<open>lightning\<close>, which is not part of this repository: its operations are the record
  \<open>kv_ops\<close>, each taking and returning the backend's state, and the locale \<open>kv_store\<close> states
  what that trait documents in terms of the contents a backend shows. The object-safe trait
  \<open>DynStore\<close>, its blanket implementation and the handle \<open>LdkNodeStore\<close> are forwarding layers,
  shown to keep the contract. \<open>read_keys_bounded\<close> reads many keys with a bounded number of
  tasks in flight; tasks complete in an order the scheduler picks.
\<close>

datatype io_error = NotFound | IoOther string

datatype page_token = PageToken string

record 's kv_ops =
  kv_read :: "'s \<Rightarrow> string \<Rightarrow> string \<Rightarrow> string \<Rightarrow> (io_error, bytes) result \<times> 's"
  kv_write :: "'s \<Rightarrow> string \<Rightarrow> string \<Rightarrow> string \<Rightarrow> bytes \<Rightarrow> (io_error, unit) result \<times> 's"
  kv_remove :: "'s \<Rightarrow> string \<Rightarrow> string \<Rightarrow> string \<Rightarrow> bool \<Rightarrow> (io_error, unit) result \<times> 's"
  kv_list :: "'s \<Rightarrow> string \<Rightarrow> string \<Rightarrow> (io_error, string list) result \<times> 's"
  kv_list_paginated :: "'s \<Rightarrow> string \<Rightarrow> string \<Rightarrow> page_token option \<Rightarrow>
      (io_error, string list \<times> page_token option) result \<times> 's"

type_synonym kv_view = "string \<times> string \<times> string \<Rightarrow> bytes option"

locale kv_store =
  fixes K :: "'s kv_ops" and view :: "'s \<Rightarrow> kv_view"
  assumes read_keeps: "view (snd (kv_read K s p q k)) = view s"
    and read_Ok: "fst (kv_read K s p q k) = Ok d \<Longrightarrow> view s (p, q, k) = Some d"
    and read_NotFound: "fst (kv_read K s p q k) = Err NotFound \<Longrightarrow> view s (p, q, k) = None"
    and write_Ok: "fst (kv_write K s p q k d) = Ok u \<Longrightarrow>
        view (snd (kv_write K s p q k d)) = (view s)((p, q, k) \<mapsto> d)"
    and write_any: "view (snd (kv_write K s p q k d)) \<in> {view s, (view s)((p, q, k) \<mapsto> d)}"
    and remove_Ok: "fst (kv_remove K s p q k False) = Ok u \<Longrightarrow>
        view (snd (kv_remove K s p q k False)) = (view s)((p, q, k) := None)"
    and remove_any: "view (snd (kv_remove K s p q k lazy)) \<in>
        {view s, (view s)((p, q, k) := None)}"
    and list_keeps: "view (snd (kv_list K s p q)) = view s"
    and list_Ok: "fst (kv_list K s p q) = Ok ks \<Longrightarrow>
        distinct ks \<and> set ks = {k. view s (p, q, k) \<noteq> None}"

text \<open>A backend whose calls all succeed, for the claims that an operation returns.\<close>

locale reliable_kv_store = kv_store +
  assumes read_total: "view s (p, q, k) = Some d \<Longrightarrow> fst (kv_read K s p q k) = Ok d"
    and read_missing: "view s (p, q, k) = None \<Longrightarrow> fst (kv_read K s p q k) = Err NotFound"
    and write_total: "fst (kv_write K s p q k d) = Ok ()"
    and remove_total: "fst (kv_remove K s p q k lazy) = Ok ()"
    and list_total: "\<exists>ks. fst (kv_list K s p q) = Ok ks"

subsection \<open>The forwarding layers\<close>

text \<open>
  \<open>impl DynStore for T\<close> boxes the backend's futures, \<open>impl KVStore for dyn DynStore\<close> and
  \<open>impl KVStore for LdkNodeStore\<close> forward to the boxed ones.
\<close>

definition read_async :: "'s kv_ops \<Rightarrow> 's \<Rightarrow> string \<Rightarrow> string \<Rightarrow> string \<Rightarrow>
    (io_error, bytes) result \<times> 's" where
  "read_async K s p q k = kv_read K s p q k"

definition write_async :: "'s kv_ops \<Rightarrow> 's \<Rightarrow> string \<Rightarrow> string \<Rightarrow> string \<Rightarrow> bytes \<Rightarrow>
    (io_error, unit) result \<times> 's" where
  "write_async K s p q k buf = kv_write K s p q k buf"

definition remove_async :: "'s kv_ops \<Rightarrow> 's \<Rightarrow> string \<Rightarrow> string \<Rightarrow> string \<Rightarrow> bool \<Rightarrow>
    (io_error, unit) result \<times> 's" where
  "remove_async K s p q k lazy = kv_remove K s p q k lazy"

definition list_async :: "'s kv_ops \<Rightarrow> 's \<Rightarrow> string \<Rightarrow> string \<Rightarrow>
    (io_error, string list) result \<times> 's" where
  "list_async K s p q = kv_list K s p q"

definition list_paginated_async :: "'s kv_ops \<Rightarrow> 's \<Rightarrow> string \<Rightarrow> string \<Rightarrow>
    page_token option \<Rightarrow> (io_error, string list \<times> page_token option) result \<times> 's" where
  "list_paginated_async K s p q token = kv_list_paginated K s p q token"

definition dyn_DynStore :: "'s kv_ops \<Rightarrow> 's kv_ops" where
  "dyn_DynStore K =
     \<lparr>kv_read = (\<lambda>s p q k. read_async K s p q k),
      kv_write = (\<lambda>s p q k buf. write_async K s p q k buf),
      kv_remove = (\<lambda>s p q k lazy. remove_async K s p q k lazy),
      kv_list = (\<lambda>s p q. list_async K s p q),
      kv_list_paginated = (\<lambda>s p q token. list_paginated_async K s p q token)\<rparr>"

definition LdkNodeStore :: "'s kv_ops \<Rightarrow> 's kv_ops" where
  "LdkNodeStore K =
     \<lparr>kv_read = (\<lambda>s p q k. read_async K s p q k),
      kv_write = (\<lambda>s p q k buf. write_async K s p q k buf),
      kv_remove = (\<lambda>s p q k lazy. remove_async K s p q k lazy),
      kv_list = (\<lambda>s p q. list_async K s p q),
      kv_list_paginated = (\<lambda>s p q token. list_paginated_async K s p q token)\<rparr>"

lemmas forwarding_defs =
  dyn_DynStore_def LdkNodeStore_def read_async_def write_async_def remove_async_def
  list_async_def list_paginated_async_def

lemma forwarding_id [simp]: "dyn_DynStore K = K" "LdkNodeStore K = K"
  by (simp_all add: forwarding_defs)

subsection \<open>Bounded concurrent reads\<close>

text \<open>
  The locals of \<open>read_keys_bounded\<close>: the keys not yet spawned with their positions, the tasks
  of the \<open>JoinSet\<close>, and the slots of the result. \<open>join_next\<close> yields the task the scheduler
  lets finish first, given by its position in the set.
\<close>

definition MAX_CONCURRENT_READS :: nat where
  "MAX_CONCURRENT_READS = 10"

record reads_state =
  pending :: "(nat \<times> string) list"
  reads :: "(nat \<times> string) list"
  results :: "(string \<times> bytes) option list"

definition spawn_next :: "reads_state \<Rightarrow> reads_state" where
  "spawn_next c = (case pending c of
     [] \<Rightarrow> c
   | t # ts \<Rightarrow> c\<lparr>pending := ts, reads := reads c @ [t]\<rparr>)"

definition reads_init :: "string list \<Rightarrow> reads_state" where
  "reads_init keys = (spawn_next ^^ MAX_CONCURRENT_READS)
     \<lparr>pending = enumerate 0 keys, reads = [], results = replicate (length keys) None\<rparr>"

definition remove_nth :: "nat \<Rightarrow> 'a list \<Rightarrow> 'a list" where
  "remove_nth i xs = take i xs @ drop (Suc i) xs"

text \<open>One turn of the \<open>while let\<close> loop, for the task at position \<open>i\<close>.\<close>

definition reads_turn :: "'s kv_ops \<Rightarrow> string \<Rightarrow> string \<Rightarrow> nat \<Rightarrow> reads_state \<Rightarrow> 's \<Rightarrow>
    (io_error, reads_state) result \<times> 's" where
  "reads_turn K p q i c s =
     (case reads c ! i of (index, key) \<Rightarrow>
      (case read_async K s p q key of
         (Panic m, s) \<Rightarrow> (Err (IoOther (''store read task failed: '' @ m)), s)
       | (Err e, s) \<Rightarrow> (Err e, s)
       | (Ok data, s) \<Rightarrow>
           (Ok (spawn_next (c\<lparr>reads := remove_nth i (reads c),
              results := (results c)[index := Some (key, data)]\<rparr>)), s)))"

definition reads_measure :: "reads_state \<Rightarrow> nat" where
  "reads_measure c = length (pending c) + length (reads c)"

fun collect_results :: "(string \<times> bytes) option list \<Rightarrow> (io_error, (string \<times> bytes) list) result"
where
  "collect_results [] = Ok []"
| "collect_results (None # rs) = Panic ''every bounded store read must complete''"
| "collect_results (Some r # rs) = (case collect_results rs of
     Ok xs \<Rightarrow> Ok (r # xs) | Err e \<Rightarrow> Err e | Panic m \<Rightarrow> Panic m)"

lemma length_remove_nth: "i < length xs \<Longrightarrow> length (remove_nth i xs) = length xs - 1"
  by (simp add: remove_nth_def)

lemma reads_measure_spawn_next [simp]: "reads_measure (spawn_next c) = reads_measure c"
  by (simp add: spawn_next_def reads_measure_def split: list.split)

lemma reads_turn_measure:
  assumes "reads_turn K p q i c s = (Ok c', s')" and "i < length (reads c)"
  shows "reads_measure c' < reads_measure c"
proof -
  from assms obtain data index key where
    "c' = spawn_next (c\<lparr>reads := remove_nth i (reads c),
       results := (results c)[index := Some (key, data)]\<rparr>)"
    by (auto simp: reads_turn_def split: prod.splits result.splits)
  then show ?thesis
    using assms(2) by (simp add: length_remove_nth) (simp add: reads_measure_def length_remove_nth)
qed

function reads_loop :: "'s kv_ops \<Rightarrow> string \<Rightarrow> string \<Rightarrow> (nat \<Rightarrow> nat) \<Rightarrow> nat \<Rightarrow> reads_state \<Rightarrow> 's \<Rightarrow>
    (io_error, (string \<times> bytes) list) result \<times> 's" where
  "reads_loop K p q sched n c s =
     (if reads c = [] then (collect_results (results c), s)
      else (case reads_turn K p q (sched n mod length (reads c)) c s of
              (Ok c', s') \<Rightarrow> reads_loop K p q sched (Suc n) c' s'
            | (Err e, s') \<Rightarrow> (Err e, s')
            | (Panic m, s') \<Rightarrow> (Panic m, s')))"
  by pat_completeness auto
termination
  by (relation "measure (\<lambda>(K, p, q, sched, n, c, s). reads_measure c)")
    (auto intro: reads_turn_measure [OF sym])

declare reads_loop.simps [simp del]

definition read_keys_bounded :: "'s kv_ops \<Rightarrow> (nat \<Rightarrow> nat) \<Rightarrow> string \<Rightarrow> string \<Rightarrow> string list \<Rightarrow> 's \<Rightarrow>
    (io_error, (string \<times> bytes) list) result \<times> 's" where
  "read_keys_bounded K sched p q keys s =
     (if keys = [] then (Ok [], s) else reads_loop K p q sched 0 (reads_init keys) s)"

text \<open>The configurations the loop can be in, over every order of completion.\<close>

inductive reads_reachable :: "'s kv_ops \<Rightarrow> string \<Rightarrow> string \<Rightarrow> string list \<Rightarrow> reads_state \<Rightarrow> bool"
  for K p q keys where
  reads_start: "reads_reachable K p q keys (reads_init keys)"
| reads_step: "reads_reachable K p q keys c \<Longrightarrow> i < length (reads c) \<Longrightarrow>
    reads_turn K p q i c s = (Ok c', s') \<Longrightarrow> reads_reachable K p q keys c'"

subsection \<open>Lemmas: bounded reads\<close>

definition reads_inv :: "kv_view \<Rightarrow> string \<Rightarrow> string \<Rightarrow> string list \<Rightarrow> reads_state \<Rightarrow> bool" where
  "reads_inv V p q keys c \<longleftrightarrow>
     length (results c) = length keys
   \<and> (\<forall>(i, k) \<in> set (pending c) \<union> set (reads c). i < length keys \<and> k = keys ! i)
   \<and> (\<forall>i < length keys. (i, keys ! i) \<in> set (pending c) \<union> set (reads c)
        \<or> (\<exists>d. results c ! i = Some (keys ! i, d) \<and> V (p, q, keys ! i) = Some d))"

definition reads_bounded :: "reads_state \<Rightarrow> bool" where
  "reads_bounded c \<longleftrightarrow> length (reads c) \<le> MAX_CONCURRENT_READS \<and> (reads c = [] \<longrightarrow> pending c = [])"

lemma spawn_next_inv [invs]: "reads_inv V p q keys c \<Longrightarrow> reads_inv V p q keys (spawn_next c)"
  by (auto simp: reads_inv_def spawn_next_def split: list.split)

lemma funpow_inv: "P c \<Longrightarrow> (\<And>c. P c \<Longrightarrow> P (f c)) \<Longrightarrow> P ((f ^^ n) c)"
  by (induction n) auto

lemma reads_init_inv: "reads_inv V p q keys (reads_init keys)"
  unfolding reads_init_def
proof (rule funpow_inv)
  show "reads_inv V p q keys
    \<lparr>pending = enumerate 0 keys, reads = [], results = replicate (length keys) None\<rparr>"
    by (auto simp: reads_inv_def in_set_enumerate_eq)
qed (rule spawn_next_inv)

lemma spawn_next_lengths:
  "length (reads ((spawn_next ^^ n) c)) = length (reads c) + min n (length (pending c))
   \<and> length (pending ((spawn_next ^^ n) c)) = length (pending c) - n"
  by (induction n) (auto simp: spawn_next_def split: list.split)

lemma reads_init_bounded: "reads_bounded (reads_init keys)"
  using spawn_next_lengths [of MAX_CONCURRENT_READS
      "\<lparr>pending = enumerate 0 keys, reads = [], results = replicate (length keys) None\<rparr>"]
  by (auto simp: reads_bounded_def reads_init_def MAX_CONCURRENT_READS_def
      simp flip: length_0_conv)

lemma reads_turn_Ok:
  assumes "reads_turn K p q i c s = (Ok c', s')"
  obtains index key data where "reads c ! i = (index, key)"
    and "kv_read K s p q key = (Ok data, s')"
    and "c' = spawn_next (c\<lparr>reads := remove_nth i (reads c),
       results := (results c)[index := Some (key, data)]\<rparr>)"
  using assms
  by (auto simp: reads_turn_def read_async_def split: prod.splits result.splits)

lemma reads_turn_bounded:
  assumes "reads_turn K p q i c s = (Ok c', s')" and "i < length (reads c)" and "reads_bounded c"
  shows "reads_bounded c'"
  using assms(1)
proof (cases rule: reads_turn_Ok)
  case (1 index key data)
  with assms(2,3) show ?thesis
    by (cases "pending c")
      (auto simp: reads_bounded_def spawn_next_def length_remove_nth)
qed

lemma set_remove_nth:
  "i < length xs \<Longrightarrow> set xs = insert (xs ! i) (set (remove_nth i xs))"
proof -
  assume "i < length xs"
  then have "set xs = set (take i xs @ xs ! i # drop (Suc i) xs)"
    by (simp add: id_take_nth_drop [symmetric])
  then show ?thesis by (simp add: remove_nth_def)
qed

context kv_store
begin

lemma reads_turn_inv:
  assumes "reads_turn K p q i c s = (Ok c', s')" and "i < length (reads c)"
    and "reads_inv (view s) p q keys c"
  shows "reads_inv (view s) p q keys c' \<and> view s' = view s"
  using assms(1)
proof (cases rule: reads_turn_Ok)
  case (1 index key data)
  let ?c = "c\<lparr>reads := remove_nth i (reads c), results := (results c)[index := Some (key, data)]\<rparr>"
  have "(index, key) \<in> set (reads c)" using 1 assms(2) by (metis nth_mem)
  with assms(3) have index: "index < length keys" "key = keys ! index" "index < length (results c)"
    by (auto simp: reads_inv_def)
  have "view s (p, q, key) = Some data" and view: "view s' = view s"
    using read_Ok [of s p q key data] read_keeps [of s p q key] 1(2) by auto
  then have "reads_inv (view s) p q keys ?c"
    using assms(3) index set_remove_nth [OF assms(2)] 1(1)
    by (auto simp: reads_inv_def nth_list_update)
  with 1(3) view show ?thesis by (auto intro: spawn_next_inv)
qed

lemma reads_turn_view: "view (snd (reads_turn K p q i c s)) = view s"
  using read_keeps
  by (auto simp: reads_turn_def read_async_def split: prod.splits result.splits) (metis snd_conv)+

lemma collect_results_inv:
  assumes "\<And>i. i < length keys \<Longrightarrow>
      \<exists>d. rs ! i = Some (keys ! i, d) \<and> V (p, q, keys ! i) = Some d"
    and "length rs = length keys"
  shows "collect_results rs = Ok (map (\<lambda>k. (k, the (V (p, q, k)))) keys)
    \<and> (\<forall>k \<in> set keys. V (p, q, k) \<noteq> None)"
  using assms
proof (induction keys arbitrary: rs)
  case (Cons k keys)
  from Cons.prems(2) obtain r rs' where rs: "rs = r # rs'" by (cases rs) auto
  have "\<exists>d. rs' ! i = Some (keys ! i, d) \<and> V (p, q, keys ! i) = Some d" if "i < length keys" for i
    using Cons.prems(1) [of "Suc i"] that rs by simp
  with Cons.IH [of rs'] Cons.prems(2) rs
  have "collect_results rs' = Ok (map (\<lambda>k. (k, the (V (p, q, k)))) keys)
    \<and> (\<forall>k \<in> set keys. V (p, q, k) \<noteq> None)" by simp
  moreover from Cons.prems(1) [of 0] rs obtain d where "r = Some (k, d)" "V (p, q, k) = Some d"
    by auto
  ultimately show ?case using rs by simp
qed simp

lemma reads_done:
  assumes "reads_inv V p q keys c" and "reads_bounded c" and "reads c = []"
  shows "collect_results (results c) = Ok (map (\<lambda>k. (k, the (V (p, q, k)))) keys)
    \<and> (\<forall>k \<in> set keys. V (p, q, k) \<noteq> None)"
  using assms by (intro collect_results_inv) (auto simp: reads_inv_def reads_bounded_def)

lemma reads_loop_spec:
  assumes "reads_inv (view s) p q keys c" and "reads_bounded c"
    and "reads_loop K p q sched n c s = (r, s')"
  shows "view s' = view s \<and> \<not> is_panic r \<and> (\<forall>rs. r = Ok rs \<longrightarrow>
    rs = map (\<lambda>k. (k, the (view s (p, q, k)))) keys \<and> (\<forall>k \<in> set keys. view s (p, q, k) \<noteq> None))"
  using assms
proof (induction "reads_measure c" arbitrary: c s n rule: less_induct)
  case less
  show ?case
  proof (cases "reads c = []")
    case True
    with less.prems(3) reads_done [OF less.prems(1,2) True] show ?thesis
      by (auto simp: reads_loop.simps [of K p q sched n])
  next
    case False
    let ?i = "sched n mod length (reads c)"
    from False have i: "?i < length (reads c)" by simp
    obtain t s1 where turn: "reads_turn K p q ?i c s = (t, s1)" by (cases "reads_turn K p q ?i c s")
    show ?thesis
    proof (cases t)
      case (Ok c')
      with turn have turn': "reads_turn K p q ?i c s = (Ok c', s1)" by simp
      note inv = reads_turn_inv [OF turn' i less.prems(1)]
      show ?thesis
        using less.hyps [of c' s1 "Suc n"] reads_turn_measure [OF turn' i] inv
          reads_turn_bounded [OF turn' i less.prems(2)] less.prems(3) turn' False
        by (simp add: reads_loop.simps [of K p q sched n])
    next
      case (Err e)
      with turn False less.prems(3) show ?thesis
        using reads_turn_view [of p q ?i c s]
        by (auto simp: reads_loop.simps [of K p q sched n])
    next
      case (Panic m)
      with turn show ?thesis
        by (auto simp: reads_turn_def split: prod.splits result.splits)
    qed
  qed
qed

lemma read_keys_bounded_spec:
  assumes "read_keys_bounded K sched p q keys s = (r, s')"
  shows "view s' = view s" and "\<not> is_panic r"
    and "r = Ok rs \<Longrightarrow> rs = map (\<lambda>k. (k, the (view s (p, q, k)))) keys"
    and "r = Ok rs \<Longrightarrow> k \<in> set keys \<Longrightarrow> view s (p, q, k) \<noteq> None"
  using assms reads_loop_spec [OF reads_init_inv reads_init_bounded,
      where s = s and keys = keys and n = 0 and r = r and s' = s']
  by (auto simp: read_keys_bounded_def split: if_splits)

end

subsection \<open>A store in memory\<close>

text \<open>
  An instance of the contract, used to evaluate the properties on concrete inputs: the
  contents are an association list without repeated keys.
\<close>

type_synonym mem_kv = "((string \<times> string \<times> string) \<times> bytes) list"

definition mem_view :: "mem_kv \<Rightarrow> kv_view" where
  "mem_view m = map_of m"

definition mem_keys :: "mem_kv \<Rightarrow> string \<Rightarrow> string \<Rightarrow> string list" where
  "mem_keys m p q =
     remdups (map (\<lambda>((_, _, k), _). k) (filter (\<lambda>((p', q', _), _). p' = p \<and> q' = q) m))"

definition mem_kv_ops :: "mem_kv kv_ops" where
  "mem_kv_ops =
     \<lparr>kv_read = (\<lambda>m p q k. (case map_of m (p, q, k) of
         Some d \<Rightarrow> Ok d | None \<Rightarrow> Err NotFound, m)),
      kv_write = (\<lambda>m p q k d. (Ok (), AList.update (p, q, k) d m)),
      kv_remove = (\<lambda>m p q k lazy. (Ok (), AList.delete (p, q, k) m)),
      kv_list = (\<lambda>m p q. (Ok (mem_keys m p q), m)),
      kv_list_paginated = (\<lambda>m p q token. (Ok (mem_keys m p q, None), m))\<rparr>"

lemma set_mem_keys: "set (mem_keys m p q) = {k. mem_view m (p, q, k) \<noteq> None}"
proof -
  have "k \<in> set (mem_keys m p q) \<longleftrightarrow> (p, q, k) \<in> fst ` set m" for k
    by (induction m) (auto simp: mem_keys_def)
  then show ?thesis by (auto simp: mem_view_def map_of_eq_None_iff)
qed

context reliable_kv_store
begin

lemma reads_turn_total:
  assumes "reads_inv V p q keys c" and "i < length (reads c)"
    and "\<forall>k \<in> set keys. view s (p, q, k) \<noteq> None"
  shows "is_ok (fst (reads_turn K p q i c s))"
proof -
  obtain index key where t: "reads c ! i = (index, key)" by fastforce
  with assms(2) have "(index, key) \<in> set (reads c)" by (metis nth_mem)
  with assms(1) have "index < length keys" and "key = keys ! index"
    by (auto simp: reads_inv_def)
  with assms(3) obtain d where "view s (p, q, key) = Some d" by force
  then have "fst (kv_read K s p q key) = Ok d" by (rule read_total)
  with t show ?thesis
    by (auto simp: reads_turn_def read_async_def split: prod.splits result.splits)
qed

lemma reads_loop_total:
  assumes "reads_inv (view s) p q keys c" and "reads_bounded c"
    and "\<forall>k \<in> set keys. view s (p, q, k) \<noteq> None"
  shows "is_ok (fst (reads_loop K p q sched n c s))"
  using assms
proof (induction "reads_measure c" arbitrary: c s n rule: less_induct)
  case less
  show ?case
  proof (cases "reads c = []")
    case True
    with reads_done [OF less.prems(1,2)] show ?thesis
      by (simp add: reads_loop.simps [of K p q sched n])
  next
    case False
    let ?i = "sched n mod length (reads c)"
    from False have i: "?i < length (reads c)" by simp
    from reads_turn_total [OF less.prems(1) i less.prems(3)] obtain c' s1
      where turn: "reads_turn K p q ?i c s = (Ok c', s1)"
      by (cases "reads_turn K p q ?i c s") (auto simp: is_ok_iff)
    show ?thesis
      using less.hyps [OF reads_turn_measure [OF turn i], of s1 "Suc n"] turn False
        reads_turn_inv [OF turn i less.prems(1)] reads_turn_bounded [OF turn i less.prems(2)]
        less.prems(3)
      by (simp add: reads_loop.simps [of K p q sched n])
  qed
qed

lemma read_keys_bounded_total:
  assumes "\<forall>k \<in> set keys. view s (p, q, k) \<noteq> None"
  shows "fst (read_keys_bounded K sched p q keys s) =
    Ok (map (\<lambda>k. (k, the (view s (p, q, k)))) keys)"
proof -
  obtain r s' where run: "read_keys_bounded K sched p q keys s = (r, s')" by fastforce
  have "is_ok r"
    using reads_loop_total [OF reads_init_inv reads_init_bounded assms, of sched 0] run
    by (auto simp: read_keys_bounded_def split: if_splits)
  then obtain rs where "r = Ok rs" by (auto simp: is_ok_iff)
  with run read_keys_bounded_spec(3) [OF run] show ?thesis by simp
qed

end

interpretation mem: reliable_kv_store mem_kv_ops mem_view
proof unfold_locales
  fix s p q ks
  assume "fst (kv_list mem_kv_ops s p q) = Ok ks"
  then have "ks = mem_keys s p q" by (simp add: mem_kv_ops_def)
  then show "distinct ks \<and> set ks = {k. mem_view s (p, q, k) \<noteq> None}"
    by (simp add: set_mem_keys) (simp add: mem_keys_def)
qed (auto simp: mem_kv_ops_def mem_view_def delete_conv' split: option.splits)

interpretation ldk_node_mem: reliable_kv_store "LdkNodeStore mem_kv_ops" mem_view
  by (simp add: mem.reliable_kv_store_axioms)

interpretation dyn_mem: reliable_kv_store "dyn_DynStore mem_kv_ops" mem_view
  by (simp add: mem.reliable_kv_store_axioms)

subsection \<open>Properties\<close>

text \<open>
  C36. \<open>read_keys_bounded\<close>, whatever order its tasks finish in: it never panics, it leaves the
  contents of the store alone, and when it returns \<open>Ok\<close> the records are exactly the stored
  values of the requested keys, in the order the keys were given; so a key that is missing
  makes it fail.
\<close>

theorem read_keys_bounded_correct:
  assumes "kv_store K view" and "read_keys_bounded K sched p q keys s = (r, s')"
  shows "view s' = view s \<and> \<not> is_panic r \<and>
    (\<forall>rs. r = Ok rs \<longrightarrow> map fst rs = keys
       \<and> map (\<lambda>(k, d). Some d) rs = map (\<lambda>k. view s (p, q, k)) keys)"
proof -
  note spec = kv_store.read_keys_bounded_spec [OF assms]
  show ?thesis using spec by (auto simp: comp_def)
qed

theorem read_keys_bounded_correct_witness:
  "\<exists>rs s'. read_keys_bounded mem_kv_ops (\<lambda>n. 1) ''a'' ''b'' [''x'', ''y'']
       [((''a'', ''b'', ''y''), [7]), ((''a'', ''b'', ''x''), [8 :: u8])] = (Ok rs, s')
     \<and> map fst rs = [''x'', ''y''] \<and> map (\<lambda>(k, d). Some d) rs = [Some [8], Some [7]]"
proof -
  let ?s = "[((''a'', ''b'', ''y''), [7]), ((''a'', ''b'', ''x''), [8 :: u8])]"
  obtain rs s' where run: "read_keys_bounded mem_kv_ops (\<lambda>n. 1) ''a'' ''b'' [''x'', ''y''] ?s = (Ok rs, s')"
    using mem.read_keys_bounded_total [of "[''x'', ''y'']" ?s "''a''" "''b''" "\<lambda>n. 1"]
    by (cases "read_keys_bounded mem_kv_ops (\<lambda>n. 1) ''a'' ''b'' [''x'', ''y''] ?s")
      (simp add: mem_view_def)
  with read_keys_bounded_correct [OF mem.kv_store_axioms run] show ?thesis
    by (simp add: mem_view_def)
qed

text \<open>
  Termination and success of \<open>read_keys_bounded\<close>: on a store whose calls succeed, it
  returns the record of every requested key that is present, under every schedule.
\<close>

theorem read_keys_bounded_returns:
  assumes "reliable_kv_store K view" and "\<forall>k \<in> set keys. view s (p, q, k) \<noteq> None"
  shows "fst (read_keys_bounded K sched p q keys s) =
    Ok (map (\<lambda>k. (k, the (view s (p, q, k)))) keys)"
  using assms by (rule reliable_kv_store.read_keys_bounded_total)

theorem read_keys_bounded_returns_witness:
  "fst (read_keys_bounded mem_kv_ops (\<lambda>n. n) ''a'' ''b'' [''x''] [((''a'', ''b'', ''x''), [8])])
   = Ok [(''x'', [8])]"
  using read_keys_bounded_returns [OF mem.reliable_kv_store_axioms,
      of "[''x'']" "[((''a'', ''b'', ''x''), [8])]" "''a''" "''b''" "\<lambda>n. n"]
  by (simp add: mem_view_def)

text \<open>
  The fan-out is bounded: in every configuration of \<open>read_keys_bounded\<close> that some order of
  task completion reaches, at most ten reads are in flight, and no key is left waiting once
  none is in flight.
\<close>

lemma read_keys_bounded_fan_out:
  assumes "reads_reachable K p q keys c"
  shows "length (reads c) \<le> 10 \<and> (reads c = [] \<longrightarrow> pending c = [])"
proof -
  from assms have "reads_bounded c"
    by induction (auto intro: reads_init_bounded reads_turn_bounded)
  then show ?thesis by (simp add: reads_bounded_def MAX_CONCURRENT_READS_def)
qed

lemma read_keys_bounded_fan_out_witness:
  "length (reads (reads_init [''x'', ''y''])) \<le> 10"
  using read_keys_bounded_fan_out [OF reads_start [of mem_kv_ops "''a''" "''b''" "[''x'', ''y'']"]]
  by blast

end
