(* ===== verification/Tx_Store.thy ===== *)
theory Tx_Store
  imports Amounts Kv_Store
begin

text \<open>
  The transaction metadata store (\<open>store.rs\<close>): payment identifiers and their text form, the
  kinds of metadata, the merge of the two legs of a multi-path payment, \<open>TxMetadataStore\<close>
  (an in-memory map mirrored in the key-value store) with all its operations, and
  \<open>RebalanceEnabledCache\<close>. The hexadecimal conversion and the TLV encoding come from the
  crates \<open>bitcoin\<close> and \<open>lightning\<close> and are fields of the environment record \<open>store_env\<close>.
\<close>

definition STORE_PRIMARY_KEY :: string where "STORE_PRIMARY_KEY = ''orange_sdk''"
definition STORE_SECONDARY_KEY :: string where "STORE_SECONDARY_KEY = ''payment_store''"
definition SPLICE_OUT_SECONDARY_KEY :: string where "SPLICE_OUT_SECONDARY_KEY = ''splice_out''"

subsection \<open>Data\<close>

datatype TxStatus = Pending | Completed | Failed

fun TxStatus_write :: "TxStatus \<Rightarrow> bytes" where
  "TxStatus_write Pending = [0]"
| "TxStatus_write Completed = [1]"
| "TxStatus_write Failed = [2]"

datatype DecodeError = InvalidValue | ShortRead

text \<open>A reader is the bytes it has left.\<close>

fun TxStatus_read :: "bytes \<Rightarrow> (DecodeError, TxStatus) result \<times> bytes" where
  "TxStatus_read [] = (Err ShortRead, [])"
| "TxStatus_read (n # rest) =
     (if n = 0 then (Ok Pending, rest)
      else if n = 1 then (Ok Completed, rest)
      else if n = 2 then (Ok Failed, rest)
      else (Err InvalidValue, rest))"

datatype PaymentId = SelfCustodial bytes32 | Trusted bytes32

type_synonym PaymentPreimage = bytes32
type_synonym PaymentHash = bytes32
type_synonym Txid = bytes32

datatype PaymentType =
    OutgoingLightningBolt12 "PaymentPreimage option"
  | OutgoingLightningBolt11 "PaymentPreimage option"
  | OutgoingOnChain "Txid option"
  | IncomingOnChain "Txid option"
  | IncomingLightning
  | TrustedInternal

record Transaction =
  tx_id :: PaymentId
  tx_status :: TxStatus
  tx_outbound :: bool
  tx_amount :: "Amount option"
  tx_fee :: "Amount option"
  tx_payment_type :: PaymentType
  tx_time_since_epoch :: duration

record StoreTransaction =
  st_status :: TxStatus
  st_outbound :: bool
  st_amount_msats :: "u64 option"
  st_fee_msats :: "u64 option"
  st_payment_type :: PaymentType
  st_time_since_epoch :: u64

definition StoreTransaction_from :: "Transaction \<Rightarrow> StoreTransaction" where
  "StoreTransaction_from tx =
     \<lparr>st_status = tx_status tx, st_outbound = tx_outbound tx,
      st_amount_msats = map_option milli_sats (tx_amount tx),
      st_fee_msats = map_option milli_sats (tx_fee tx),
      st_payment_type = tx_payment_type tx,
      st_time_since_epoch = as_secs (tx_time_since_epoch tx)\<rparr>"

text \<open>The fields of \<open>TxType::MppPayment\<close>.\<close>

record mpp_payment =
  surface_id :: PaymentId
  lightning_leg :: bytes32
  total_amount_msat :: u64
  mpp_ty :: PaymentType
  trusted_fee_msat :: "u64 option"
  lightning_fee_msat :: "u64 option"
  preimage :: "bytes32 option"
  failed :: bool
  finalized :: bool

datatype TxType =
    TrustedToLightning bytes32 bytes32 PaymentId
  | OnchainToLightning Txid Txid
  | PaymentTriggeringTransferLightning PaymentType
  | Payment PaymentType
  | PendingRebalance
  | MppPayment mpp_payment

fun is_rebalance :: "TxType \<Rightarrow> bool" where
  "is_rebalance PendingRebalance = True"
| "is_rebalance (TrustedToLightning _ _ _) = True"
| "is_rebalance (OnchainToLightning _ _) = True"
| "is_rebalance _ = False"

datatype MppOutcome =
    Mpp_Succeeded (out_payment_hash: bytes32) (out_preimage: bytes32) (out_fee_msat: u64)
  | Mpp_Failed (out_payment_hash: bytes32)

record TxMetadata =
  md_time :: duration
  md_ty :: TxType

subsection \<open>Environment\<close>

record 's store_env =
  kvs :: "'s kv_ops"
  as_hex :: "bytes \<Rightarrow> string"
  from_hex_array :: "string \<Rightarrow> bytes32 option"
  md_encode :: "TxMetadata \<Rightarrow> bytes"
  md_decode :: "bytes \<Rightarrow> TxMetadata option"
  bool_encode :: "bool \<Rightarrow> bytes"
  bool_decode :: "bytes \<Rightarrow> bool option"

subsection \<open>Payment identifiers as text\<close>

fun PaymentId_to_string :: "('s, 'e) store_env_scheme \<Rightarrow> PaymentId \<Rightarrow> string" where
  "PaymentId_to_string E (SelfCustodial bytes) = ''SC-'' @ as_hex E bytes"
| "PaymentId_to_string E (Trusted s) = ''TR-'' @ as_hex E s"

definition PaymentId_from_str :: "('s, 'e) store_env_scheme \<Rightarrow> string \<Rightarrow> (unit, PaymentId) result"
where
  "PaymentId_from_str E s =
     (if length s < 4 then Err ()
      else case slice_to s 3 of
        Ok prefix \<Rightarrow>
          (if prefix = ''SC-'' then
             (case slice_from s 3 of
                Ok rest \<Rightarrow> (case from_hex_array E rest of
                    Some bs \<Rightarrow> Ok (SelfCustodial bs) | None \<Rightarrow> Err ())
              | Err e \<Rightarrow> Err e | Panic m \<Rightarrow> Panic m)
           else if prefix = ''TR-'' then
             (case slice_from s 3 of
                Ok rest \<Rightarrow> (case from_hex_array E rest of
                    Some bs \<Rightarrow> Ok (Trusted bs) | None \<Rightarrow> Err ())
              | Err e \<Rightarrow> Err e | Panic m \<Rightarrow> Panic m)
           else Err ())
      | Err e \<Rightarrow> Err e
      | Panic m \<Rightarrow> Panic m)"

fun id_bytes :: "PaymentId \<Rightarrow> bytes32" where
  "id_bytes (SelfCustodial b) = b"
| "id_bytes (Trusted b) = b"

text \<open>The array type \<open>[u8; 32]\<close> of both variants.\<close>

definition wf_id :: "PaymentId \<Rightarrow> bool" where
  "wf_id i \<longleftrightarrow> length (id_bytes i) = 32"

subsection \<open>Merging the legs of a multi-path payment\<close>

datatype MppLegKind = Leg_Trusted | Leg_Lightning

record MppLeg =
  leg_status :: TxStatus
  leg_fee_msat :: u64

record MppMerge =
  mm_total_amount_msat :: u64
  mm_trusted :: "MppLeg option"
  mm_lightning :: "MppLeg option"
  mm_payment_type :: "PaymentType option"
  mm_time :: "duration option"

definition MppMerge_default :: MppMerge where
  "MppMerge_default = \<lparr>mm_total_amount_msat = 0, mm_trusted = None, mm_lightning = None,
     mm_payment_type = None, mm_time = None\<rparr>"

fun ty_has_preimage :: "PaymentType \<Rightarrow> bool" where
  "ty_has_preimage (OutgoingLightningBolt11 (Some _)) = True"
| "ty_has_preimage (OutgoingLightningBolt12 (Some _)) = True"
| "ty_has_preimage _ = False"

definition MppMerge_accumulate ::
  "MppMerge \<Rightarrow> MppLegKind \<Rightarrow> u64 \<Rightarrow> u64 \<Rightarrow> TxStatus \<Rightarrow> PaymentType \<Rightarrow> duration \<Rightarrow> MppMerge" where
  "MppMerge_accumulate m leg total_msat fee_msat status ty time =
     (let m = m\<lparr>mm_total_amount_msat := total_msat\<rparr>;
          slot = Some \<lparr>leg_status = status, leg_fee_msat = fee_msat\<rparr>;
          m = (case leg of
                 Leg_Trusted \<Rightarrow> m\<lparr>mm_trusted := slot\<rparr>
               | Leg_Lightning \<Rightarrow> m\<lparr>mm_lightning := slot\<rparr>);
          m = (if mm_payment_type m = None \<or> ty_has_preimage ty
               then m\<lparr>mm_payment_type := Some ty\<rparr> else m)
      in m\<lparr>mm_time := Some (case mm_time m of None \<Rightarrow> time | Some t \<Rightarrow> min t time)\<rparr>)"

definition MppMerge_status :: "MppMerge \<Rightarrow> TxStatus" where
  "MppMerge_status m =
     (if map_option leg_status (mm_trusted m) = Some Failed
         \<or> map_option leg_status (mm_lightning m) = Some Failed then Failed
      else if map_option leg_status (mm_trusted m) = Some Completed
         \<and> map_option leg_status (mm_lightning m) = Some Completed then Completed
      else Pending)"

fun map_or :: "'b \<Rightarrow> ('a \<Rightarrow> 'b) \<Rightarrow> 'a option \<Rightarrow> 'b" where
  "map_or d f None = d"
| "map_or d f (Some a) = f a"

definition MppMerge_into_transaction ::
  "amount_ops \<Rightarrow> MppMerge \<Rightarrow> PaymentId \<Rightarrow> (unit, Transaction) result" where
  "MppMerge_into_transaction A m surface =
     (let status = MppMerge_status m;
          fee = u64_saturating_add (map_or 0 leg_fee_msat (mm_trusted m))
                  (map_or 0 leg_fee_msat (mm_lightning m))
      in case from_milli_sats A (mm_total_amount_msat m) of
           Ok amount \<Rightarrow>
             (case from_milli_sats A fee of
                Ok fee \<Rightarrow> Ok
                  \<lparr>tx_id = surface, tx_status = status, tx_outbound = True,
                   tx_amount = Some amount, tx_fee = Some fee,
                   tx_payment_type = (case mm_payment_type m of
                       Some ty \<Rightarrow> ty | None \<Rightarrow> OutgoingLightningBolt11 None),
                   tx_time_since_epoch = map_or 0 (\<lambda>t. t) (mm_time m)\<rparr>
              | _ \<Rightarrow> Panic ''valid amount'')
         | _ \<Rightarrow> Panic ''valid amount'')"

subsection \<open>The metadata store\<close>

text \<open>
  \<open>TxMetadataStore\<close>: the store it shares with the other components and the in-memory map. An
  operation is one run of its body: the map changes under its write lock, then the entry is
  persisted. A write the backend refuses panics, after the map has changed.
\<close>

record 's tx_store =
  disk :: 's
  tx_metadata :: "PaymentId \<rightharpoonup> TxMetadata"

definition disk_write :: "('s, 'e) store_env_scheme \<Rightarrow> string \<Rightarrow> string \<Rightarrow> string \<Rightarrow> bytes \<Rightarrow>
    ('s, 'x) tx_store_scheme \<Rightarrow> (io_error, unit) result \<times> ('s, 'x) tx_store_scheme" where
  "disk_write E p q k d s =
     (case kv_write (kvs E) (disk s) p q k d of (r, d') \<Rightarrow> (r, s\<lparr>disk := d'\<rparr>))"

definition disk_read :: "('s, 'e) store_env_scheme \<Rightarrow> string \<Rightarrow> string \<Rightarrow> string \<Rightarrow>
    ('s, 'x) tx_store_scheme \<Rightarrow> (io_error, bytes) result \<times> ('s, 'x) tx_store_scheme" where
  "disk_read E p q k s =
     (case kv_read (kvs E) (disk s) p q k of (r, d') \<Rightarrow> (r, s\<lparr>disk := d'\<rparr>))"

fun load_records :: "('s, 'e) store_env_scheme \<Rightarrow> (string \<times> bytes) list \<Rightarrow>
    (PaymentId \<rightharpoonup> TxMetadata) \<Rightarrow> (unit, PaymentId \<rightharpoonup> TxMetadata) result" where
  "load_records E [] m = Ok m"
| "load_records E ((key, data_bytes) # records) m =
     (case PaymentId_from_str E key of
        Ok key \<Rightarrow> (case md_decode E data_bytes of
            Some data \<Rightarrow> load_records E records (m(key \<mapsto> data))
          | None \<Rightarrow> Panic ''Invalid data in transaction metadata storage'')
      | Err _ \<Rightarrow> Panic ''Invalid key in transaction metadata storage''
      | Panic msg \<Rightarrow> Panic msg)"

definition TxMetadataStore_new :: "('s, 'e) store_env_scheme \<Rightarrow> (nat \<Rightarrow> nat) \<Rightarrow> 's \<Rightarrow>
    (unit, 's tx_store) result \<times> 's" where
  "TxMetadataStore_new E sched d =
     and_then (expect ''We do not allow reads to fail''
         (kv_list (kvs E) d STORE_PRIMARY_KEY STORE_SECONDARY_KEY))
       (\<lambda>keys d. and_then (expect ''We do not allow reads to fail''
           (read_keys_bounded (kvs E) sched STORE_PRIMARY_KEY STORE_SECONDARY_KEY keys d))
         (\<lambda>records d. case load_records E records Map.empty of
             Ok m \<Rightarrow> (Ok \<lparr>disk = d, tx_metadata = m\<rparr>, d)
           | Err e \<Rightarrow> (Err e, d)
           | Panic msg \<Rightarrow> (Panic msg, d)))"

definition persist_entry :: "('s, 'e) store_env_scheme \<Rightarrow> PaymentId \<Rightarrow> TxMetadata \<Rightarrow>
    ('s, 'x) tx_store_scheme \<Rightarrow> (unit, unit) result \<times> ('s, 'x) tx_store_scheme" where
  "persist_entry E key value s =
     expect ''We do not allow writes to fail''
       (disk_write E STORE_PRIMARY_KEY STORE_SECONDARY_KEY (PaymentId_to_string E key)
          (md_encode E value) s)"

definition do_set :: "('s, 'e) store_env_scheme \<Rightarrow> PaymentId \<Rightarrow> TxMetadata \<Rightarrow>
    ('s, 'x) tx_store_scheme \<Rightarrow> (unit, bool) result \<times> ('s, 'x) tx_store_scheme" where
  "do_set E key value s =
     (let old = tx_metadata s key;
          s = s\<lparr>tx_metadata := (tx_metadata s)(key \<mapsto> value)\<rparr>
      in and_then (persist_entry E key value s) (\<lambda>_ s. (Ok (old \<noteq> None), s)))"

definition upsert :: "('s, 'e) store_env_scheme \<Rightarrow> PaymentId \<Rightarrow> TxMetadata \<Rightarrow>
    ('s, 'x) tx_store_scheme \<Rightarrow> (unit, unit) result \<times> ('s, 'x) tx_store_scheme" where
  "upsert E key value s = and_then (do_set E key value s) (\<lambda>_ s. (Ok (), s))"

text \<open>\<open>insert\<close> adds a \<open>debug_assert!\<close> on the old value, which release builds compile away.\<close>

definition insert_md :: "('s, 'e) store_env_scheme \<Rightarrow> PaymentId \<Rightarrow> TxMetadata \<Rightarrow>
    ('s, 'x) tx_store_scheme \<Rightarrow> (unit, unit) result \<times> ('s, 'x) tx_store_scheme" where
  "insert_md E key value s = and_then (do_set E key value s) (\<lambda>had_old s. (Ok (), s))"

definition set_tx_caused_rebalance :: "('s, 'e) store_env_scheme \<Rightarrow> PaymentId \<Rightarrow>
    ('s, 'x) tx_store_scheme \<Rightarrow> (unit, unit) result \<times> ('s, 'x) tx_store_scheme" where
  "set_tx_caused_rebalance E payment_id s =
     (case tx_metadata s payment_id of
        Some metadata \<Rightarrow>
          (case md_ty metadata of
             Payment ty \<Rightarrow>
               (let metadata = metadata\<lparr>md_ty := PaymentTriggeringTransferLightning ty\<rparr>;
                    s = s\<lparr>tx_metadata := (tx_metadata s)(payment_id \<mapsto> metadata)\<rparr>
                in persist_entry E payment_id metadata s)
           | _ \<Rightarrow> (Err (), s))
      | None \<Rightarrow> (Err (), s))"

text \<open>
  \<open>tokio::join!\<close> runs both writes to completion, in an order the runtime picks
  (\<open>splice_first\<close>), before either result is looked at.
\<close>

definition join_writes :: "('s, 'e) store_env_scheme \<Rightarrow> bool \<Rightarrow> PaymentId \<times> TxMetadata \<Rightarrow>
    PaymentId \<times> TxMetadata \<Rightarrow> ('s, 'x) tx_store_scheme \<Rightarrow>
    (unit, unit) result \<times> ('s, 'x) tx_store_scheme" where
  "join_writes E splice_first trigger_entry splice_entry s =
     (let w = (\<lambda>(key, value) s. disk_write E STORE_PRIMARY_KEY STORE_SECONDARY_KEY
                 (PaymentId_to_string E key) (md_encode E value) s)
      in if splice_first then
           (case w splice_entry s of (splice_res, s) \<Rightarrow>
            case w trigger_entry s of (trigger_res, s) \<Rightarrow>
              and_then (expect ''We do not allow writes to fail'' (trigger_res, s))
                (\<lambda>_ s. expect ''We do not allow writes to fail'' (splice_res, s)))
         else
           (case w trigger_entry s of (trigger_res, s) \<Rightarrow>
            case w splice_entry s of (splice_res, s) \<Rightarrow>
              and_then (expect ''We do not allow writes to fail'' (trigger_res, s))
                (\<lambda>_ s. expect ''We do not allow writes to fail'' (splice_res, s))))"

definition set_tx_caused_rebalance_with_splice :: "('s, 'e) store_env_scheme \<Rightarrow> bool \<Rightarrow>
    PaymentId \<Rightarrow> PaymentId \<Rightarrow> TxMetadata \<Rightarrow> ('s, 'x) tx_store_scheme \<Rightarrow>
    (unit, unit) result \<times> ('s, 'x) tx_store_scheme" where
  "set_tx_caused_rebalance_with_splice E splice_first trigger_id splice_id splice_metadata s =
     (case tx_metadata s trigger_id of
        Some metadata \<Rightarrow>
          (case md_ty metadata of
             Payment ty \<Rightarrow>
               (let trigger = metadata\<lparr>md_ty := PaymentTriggeringTransferLightning ty\<rparr>;
                    s = s\<lparr>tx_metadata := (tx_metadata s)(trigger_id \<mapsto> trigger,
                            splice_id \<mapsto> splice_metadata)\<rparr>
                in join_writes E splice_first (trigger_id, trigger)
                     (splice_id, splice_metadata) s)
           | _ \<Rightarrow> (Err (), s))
      | None \<Rightarrow> (Err (), s))"

definition set_preimage :: "('s, 'e) store_env_scheme \<Rightarrow> PaymentId \<Rightarrow> bytes32 \<Rightarrow>
    ('s, 'x) tx_store_scheme \<Rightarrow> (unit, unit) result \<times> ('s, 'x) tx_store_scheme" where
  "set_preimage E payment_id pre s =
     (let set_ty = (\<lambda>metadata ty.
            let metadata = metadata\<lparr>md_ty := Payment ty\<rparr>;
                s = s\<lparr>tx_metadata := (tx_metadata s)(payment_id \<mapsto> metadata)\<rparr>
            in persist_entry E payment_id metadata s)
      in case tx_metadata s payment_id of
           Some metadata \<Rightarrow>
             (case md_ty metadata of
                Payment ty \<Rightarrow>
                  (case ty of
                     OutgoingLightningBolt12 payment_preimage \<Rightarrow>
                       (if payment_preimage \<noteq> None then (Ok (), s)
                        else set_ty metadata (OutgoingLightningBolt12 (Some pre)))
                   | OutgoingLightningBolt11 payment_preimage \<Rightarrow>
                       (if payment_preimage \<noteq> None then (Ok (), s)
                        else set_ty metadata (OutgoingLightningBolt11 (Some pre)))
                   | _ \<Rightarrow> (Err (), s))
              | _ \<Rightarrow> (Ok (), s))
         | None \<Rightarrow> (Err (), s))"

subsection \<open>Recording the legs of a multi-path payment\<close>

text \<open>
  The inner block of \<open>record_mpp_leg\<close>: the surface entry with the leg's result folded in, and
  the outcome if this result completes the payment.
\<close>

definition mpp_record :: "bool \<Rightarrow> (u64 \<times> bytes32) option \<Rightarrow> mpp_payment \<Rightarrow>
    (unit, mpp_payment \<times> MppOutcome option) result" where
  "mpp_record is_trusted_leg success m =
     (let m = (case success of
            Some (fee_msat, leg_preimage) \<Rightarrow>
              (if is_trusted_leg then m\<lparr>trusted_fee_msat := Some fee_msat\<rparr>
               else m\<lparr>lightning_fee_msat := Some fee_msat\<rparr>)\<lparr>preimage := Some leg_preimage\<rparr>
          | None \<Rightarrow> m\<lparr>failed := True\<rparr>)
      in if failed m then Ok (m\<lparr>finalized := True\<rparr>, Some (Mpp_Failed (lightning_leg m)))
         else (case (trusted_fee_msat m, lightning_fee_msat m) of
             (Some trusted_fee, Some lightning_fee) \<Rightarrow>
               (case preimage m of
                  Some pre \<Rightarrow> Ok (m\<lparr>finalized := True\<rparr>,
                    Some (Mpp_Succeeded (lightning_leg m) pre
                       (u64_saturating_add trusted_fee lightning_fee)))
                | None \<Rightarrow> Panic ''set whenever a leg succeeds'')
           | _ \<Rightarrow> Ok (m, None)))"

definition record_mpp_leg :: "('s, 'e) store_env_scheme \<Rightarrow> PaymentId \<Rightarrow>
    (u64 \<times> bytes32) option \<Rightarrow> ('s, 'x) tx_store_scheme \<Rightarrow>
    (unit, (PaymentId \<times> MppOutcome) option) result \<times> ('s, 'x) tx_store_scheme" where
  "record_mpp_leg E leg_id success s =
     (case map_option md_ty (tx_metadata s leg_id) of
        Some (MppPayment leg) \<Rightarrow>
          (let surface = surface_id leg;
               is_trusted_leg = (leg_id = surface)
           in case tx_metadata s surface of
                None \<Rightarrow> (Ok None, s)
              | Some metadata \<Rightarrow>
                  (case md_ty metadata of
                     MppPayment m \<Rightarrow>
                       (if finalized m then (Ok None, s)
                        else case mpp_record is_trusted_leg success m of
                          Ok (m', outcome) \<Rightarrow>
                            (let metadata = metadata\<lparr>md_ty := MppPayment m'\<rparr>;
                                 s = s\<lparr>tx_metadata := (tx_metadata s)(surface \<mapsto> metadata)\<rparr>
                             in and_then (persist_entry E surface metadata s)
                                  (\<lambda>_ s. (Ok (map_option (\<lambda>out. (surface, out)) outcome), s)))
                        | Err e \<Rightarrow> (Err e, s)
                        | Panic msg \<Rightarrow> (Panic msg, s))
                   | _ \<Rightarrow> (Ok None, s)))
      | _ \<Rightarrow> (Ok None, s))"

subsection \<open>The cached rebalance switch\<close>

definition REBALANCE_ENABLED_KEY :: string where
  "REBALANCE_ENABLED_KEY = ''rebalance_enabled''"

text \<open>\<open>RebalanceEnabledCache\<close>: the cached value is a field beside the shared store.\<close>

record 's rebalance_cache = "'s tx_store" +
  cached :: "bool option"

definition RebalanceEnabledCache_write :: "('s, 'e) store_env_scheme \<Rightarrow> bool \<Rightarrow>
    ('s, 'x) rebalance_cache_scheme \<Rightarrow> (unit, unit) result \<times> ('s, 'x) rebalance_cache_scheme" where
  "RebalanceEnabledCache_write E enabled s =
     expect ''Failed to write rebalance_enabled''
       (disk_write E STORE_PRIMARY_KEY '''' REBALANCE_ENABLED_KEY (bool_encode E enabled) s)"

definition RebalanceEnabledCache_get :: "('s, 'e) store_env_scheme \<Rightarrow>
    ('s, 'x) rebalance_cache_scheme \<Rightarrow> (unit, bool) result \<times> ('s, 'x) rebalance_cache_scheme" where
  "RebalanceEnabledCache_get E s =
     (case cached s of
        Some value \<Rightarrow> (Ok value, s)
      | None \<Rightarrow>
          and_then
            (case disk_read E STORE_PRIMARY_KEY '''' REBALANCE_ENABLED_KEY s of
               (Ok bytes, s) \<Rightarrow> (case bool_decode E bytes of
                   Some value \<Rightarrow> (Ok value, s)
                 | None \<Rightarrow> (Panic ''Invalid data in rebalance_enabled'', s))
             | (Err NotFound, s) \<Rightarrow>
                 and_then (RebalanceEnabledCache_write E True s) (\<lambda>_ s. (Ok True, s))
             | (Err e, s) \<Rightarrow> (Panic ''Failed to read rebalance_enabled'', s)
             | (Panic m, s) \<Rightarrow> (Panic m, s))
            (\<lambda>value s. (Ok value, s\<lparr>cached := Some value\<rparr>)))"

definition RebalanceEnabledCache_set :: "('s, 'e) store_env_scheme \<Rightarrow> bool \<Rightarrow>
    ('s, 'x) rebalance_cache_scheme \<Rightarrow> (unit, unit) result \<times> ('s, 'x) rebalance_cache_scheme" where
  "RebalanceEnabledCache_set E enabled s =
     and_then (RebalanceEnabledCache_write E enabled s)
       (\<lambda>_ s. (Ok (), s\<lparr>cached := Some enabled\<rparr>))"

end
