(* ===== verification/Ldk_Types.thy ===== *)
theory Ldk_Types
  imports Tx_Store
begin

text \<open>
  The data of \<open>ldk-node\<close> that this repository reads and stores (payments, channels, outpoints),
  with the fields the source uses, and the conversions \<open>lightning_wallet.rs\<close> defines on them.
  Enumerations that are only passed along are opaque.
\<close>

typedecl PaymentFailureReason
typedecl ClosureReason

type_synonym PublicKey = bytes
type_synonym ChannelId = bytes32
type_synonym UserChannelId = u128
type_synonym LdkPaymentId = bytes32
type_synonym CustomTlvRecord = "u64 \<times> bytes"

record OutPoint =
  op_txid :: Txid
  op_vout :: u32

datatype ConfirmationStatus = Confirmed bytes32 u32 u64 | Unconfirmed

datatype PaymentDirection = Inbound | Outbound

datatype PaymentStatus = PS_Pending | PS_Succeeded | PS_Failed

datatype PaymentKind =
    Onchain Txid ConfirmationStatus
  | Bolt11 PaymentHash "PaymentPreimage option" "u64 option"
  | Bolt12Offer "PaymentHash option" "PaymentPreimage option"
  | Bolt12Refund "PaymentHash option" "PaymentPreimage option"
  | Spontaneous PaymentHash "PaymentPreimage option"

record PaymentDetails =
  pd_id :: LdkPaymentId
  pd_kind :: PaymentKind
  pd_amount_msat :: "u64 option"
  pd_fee_paid_msat :: "u64 option"
  pd_direction :: PaymentDirection
  pd_status :: PaymentStatus
  pd_latest_update_timestamp :: u64

record ChannelDetails =
  cd_user_channel_id :: UserChannelId
  cd_counterparty :: PublicKey
  cd_funding_txo :: "OutPoint option"
  cd_is_usable :: bool
  cd_inbound_capacity_msat :: u64
  cd_outbound_capacity_msat :: u64

fun TxStatus_from_PaymentStatus :: "PaymentStatus \<Rightarrow> TxStatus" where
  "TxStatus_from_PaymentStatus PS_Pending = Pending"
| "TxStatus_from_PaymentStatus PS_Succeeded = Completed"
| "TxStatus_from_PaymentStatus PS_Failed = Failed"

definition PaymentType_from_PaymentDetails :: "PaymentDetails \<Rightarrow> PaymentType" where
  "PaymentType_from_PaymentDetails d =
     (case (pd_kind d, pd_direction d = Outbound) of
        (Bolt11 _ pre _, True) \<Rightarrow> OutgoingLightningBolt11 pre
      | (Bolt12Offer _ pre, True) \<Rightarrow> OutgoingLightningBolt12 pre
      | (Bolt12Refund _ pre, True) \<Rightarrow> OutgoingLightningBolt12 pre
      | (Spontaneous _ pre, True) \<Rightarrow> OutgoingLightningBolt12 pre
      | (Onchain txid _, True) \<Rightarrow> OutgoingOnChain (Some txid)
      | (Onchain txid _, False) \<Rightarrow> IncomingOnChain (Some txid)
      | (_, False) \<Rightarrow> IncomingLightning)"

end
