(* ===== verification/Graduated_Rebalancer.thy ===== *)
theory Graduated_Rebalancer
  imports Amounts Ldk_Types
begin

text \<open>
  The crate \<open>graduated-rebalancer\<close>: moving funds from the trusted wallet, or from the chain,
  into lightning. The two wallets, the trigger and the event handler are traits of the crate;
  here they are records of operations over a world \<open>'w\<close> that every call threads through. An
  operation of a trait that is awaited returns; what the wallets answer is unconstrained.
\<close>

subsection \<open>Data\<close>

typedecl Offer
typedecl Address

text \<open>A BOLT 11 invoice is what the source reads of it: its payment hash and its amount.\<close>

record Bolt11Invoice =
  inv_payment_hash :: PaymentHash
  inv_amount_milli_satoshis :: "u64 option"

datatype PaymentMethod =
    LightningBolt11 Bolt11Invoice
  | LightningBolt12 Offer
  | OnChain Address

record TriggerParams =
  tp_id :: bytes32
  tp_amount :: Amount

record ReceivedLightningPayment =
  rp_id :: bytes32
  rp_fee_paid_msat :: "u64 option"

record LightningBalance =
  lb_lightning :: Amount
  lb_onchain :: Amount

record RebalanceTunables =
  rt_trusted_balance_limit :: Amount
  rt_rebalance_min :: Amount

definition RebalanceTunables_default :: "amount_ops \<Rightarrow> (unit, RebalanceTunables) result" where
  "RebalanceTunables_default A =
     (case (from_sats A 100000, from_sats A 5000) of
        (Ok limit, Ok m) \<Rightarrow> Ok \<lparr>rt_trusted_balance_limit = limit, rt_rebalance_min = m\<rparr>
      | _ \<Rightarrow> Panic ''valid amount'')"

datatype RebalancerEvent =
    Rb_RebalanceInitiated bytes32 bytes32 u64
  | Rb_RebalanceSuccessful bytes32 bytes32 bytes32 u64 u64
  | Rb_OnChainRebalanceInitiated bytes32 u128 OutPoint

subsection \<open>The traits\<close>

record ('w, 'te, 'le) rebalancer_ops =
  t_get_balance :: "'w \<Rightarrow> ('te, Amount) result \<times> 'w"
  t_get_bolt11_invoice :: "Amount option \<Rightarrow> 'w \<Rightarrow> ('te, Bolt11Invoice) result \<times> 'w"
  t_pay :: "PaymentMethod \<Rightarrow> Amount \<Rightarrow> 'w \<Rightarrow> ('te, bytes32) result \<times> 'w"
  t_estimate_fee :: "PaymentMethod \<Rightarrow> Amount \<Rightarrow> 'w \<Rightarrow> ('te, Amount) result \<times> 'w"
  t_await_payment_success :: "bytes32 \<Rightarrow> 'w \<Rightarrow> ReceivedLightningPayment option \<times> 'w"
  l_get_balance :: "'w \<Rightarrow> LightningBalance"
  l_get_bolt11_invoice :: "Amount option \<Rightarrow> 'w \<Rightarrow> ('le, Bolt11Invoice) result \<times> 'w"
  l_pay :: "PaymentMethod \<Rightarrow> Amount \<Rightarrow> 'w \<Rightarrow> ('le, bytes32) result \<times> 'w"
  l_await_payment_receipt :: "bytes32 \<Rightarrow> 'w \<Rightarrow> ReceivedLightningPayment option \<times> 'w"
  l_has_channel_with_lsp :: "'w \<Rightarrow> bool"
  l_open_channel_with_lsp :: "'w \<Rightarrow> ('le, u128) result \<times> 'w"
  l_await_channel_pending :: "u128 \<Rightarrow> 'w \<Rightarrow> OutPoint \<times> 'w"
  l_splice_to_lsp_channel :: "'w \<Rightarrow> ('le, u128) result \<times> 'w"
  l_await_splice_pending :: "u128 \<Rightarrow> 'w \<Rightarrow> OutPoint \<times> 'w"
  needs_trusted :: "'w \<Rightarrow> (unit, TriggerParams option) result \<times> 'w"
  needs_onchain :: "'w \<Rightarrow> (unit, TriggerParams option) result \<times> 'w"
  handle_event :: "RebalancerEvent \<Rightarrow> 'w \<Rightarrow> (unit, unit) result \<times> 'w"

definition IgnoringEventHandler :: "RebalancerEvent \<Rightarrow> 'w \<Rightarrow> (unit, unit) result \<times> 'w" where
  "IgnoringEventHandler event w = (Ok (), w)"

subsection \<open>Trusted to lightning\<close>

text \<open>
  The first part of \<open>do_trusted_rebalance_locked\<close>, up to the call of \<open>pay\<close>: the invoice to pay
  and the amount, reduced by the estimated fee so that both together stay within the amount of
  the trigger. \<open>None\<close> is an early return.
\<close>

definition plan_trusted_rebalance :: "amount_ops \<Rightarrow> ('w, 'te, 'le) rebalancer_ops \<Rightarrow> TriggerParams \<Rightarrow>
    'w \<Rightarrow> (unit, (Bolt11Invoice \<times> Amount) option) result \<times> 'w" where
  "plan_trusted_rebalance A R params w =
     (let transfer_amt = tp_amount params
      in case l_get_bolt11_invoice R (Some transfer_amt) w of
           (Ok invoice, w) \<Rightarrow>
             (case t_estimate_fee R (LightningBolt11 invoice) transfer_amt w of
                (Ok fee, w) \<Rightarrow>
                  (if transfer_amt \<le> fee then (Ok None, w)
                   else if tp_amount params < saturating_add A transfer_amt fee then
                     (let transfer_amt = saturating_sub A (tp_amount params) fee
                      in case l_get_bolt11_invoice R (Some transfer_amt) w of
                           (Ok reduced_inv, w) \<Rightarrow> (Ok (Some (reduced_inv, transfer_amt)), w)
                         | (Err e, w) \<Rightarrow> (Ok None, w)
                         | (Panic m, w) \<Rightarrow> (Panic m, w))
                   else (Ok (Some (invoice, transfer_amt)), w))
              | (Err e, w) \<Rightarrow> (Ok (Some (invoice, transfer_amt)), w)
              | (Panic m, w) \<Rightarrow> (Panic m, w))
         | (Err e, w) \<Rightarrow> (Ok None, w)
         | (Panic m, w) \<Rightarrow> (Panic m, w))"

text \<open>
  The rest: pay, report, wait for both sides, report. The fees are added with \<open>+\<close>, which wraps
  in a release build.
\<close>

definition execute_trusted_rebalance :: "('w, 'te, 'le) rebalancer_ops \<Rightarrow> TriggerParams \<Rightarrow>
    Bolt11Invoice \<Rightarrow> Amount \<Rightarrow> 'w \<Rightarrow> (unit, unit) result \<times> 'w" where
  "execute_trusted_rebalance R params invoice transfer_amt w =
     (let expected_hash = inv_payment_hash invoice
      in case t_pay R (LightningBolt11 invoice) transfer_amt w of
           (Ok rebalance_id, w) \<Rightarrow>
             and_then (handle_event R
                 (Rb_RebalanceInitiated (tp_id params) rebalance_id (milli_sats transfer_amt)) w)
               (\<lambda>_ w. case l_await_payment_receipt R expected_hash w of
                  (None, w) \<Rightarrow> (Ok (), w)
                | (Some ln_payment, w) \<Rightarrow>
                    (case t_await_payment_success R expected_hash w of
                       (None, w) \<Rightarrow> (Ok (), w)
                     | (Some trusted_payment, w) \<Rightarrow>
                         handle_event R (Rb_RebalanceSuccessful (tp_id params) rebalance_id
                           (rp_id ln_payment) (milli_sats transfer_amt)
                           (u64_wrapping_add (case_option 0 (\<lambda>f. f) (rp_fee_paid_msat ln_payment))
                              (case_option 0 (\<lambda>f. f) (rp_fee_paid_msat trusted_payment)))) w))
         | (Err e, w) \<Rightarrow> (Ok (), w)
         | (Panic m, w) \<Rightarrow> (Panic m, w))"

definition do_trusted_rebalance_locked :: "amount_ops \<Rightarrow> ('w, 'te, 'le) rebalancer_ops \<Rightarrow>
    TriggerParams \<Rightarrow> 'w \<Rightarrow> (unit, unit) result \<times> 'w" where
  "do_trusted_rebalance_locked A R params w =
     and_then (plan_trusted_rebalance A R params w)
       (\<lambda>plan w. case plan of
          Some (invoice, transfer_amt) \<Rightarrow> execute_trusted_rebalance R params invoice transfer_amt w
        | None \<Rightarrow> (Ok (), w))"

subsection \<open>On-chain to lightning\<close>

definition do_onchain_rebalance_locked :: "('w, 'te, 'le) rebalancer_ops \<Rightarrow> TriggerParams \<Rightarrow> 'w \<Rightarrow>
    (unit, unit) result \<times> 'w" where
  "do_onchain_rebalance_locked R params w =
     (let report = (\<lambda>user_chan_id (channel_outpoint, w).
            handle_event R (Rb_OnChainRebalanceInitiated (tp_id params) user_chan_id channel_outpoint) w)
      in if l_has_channel_with_lsp R w then
           (case l_splice_to_lsp_channel R w of
              (Ok chan_id, w) \<Rightarrow> report chan_id (l_await_splice_pending R chan_id w)
            | (Err e, w) \<Rightarrow> (Ok (), w)
            | (Panic m, w) \<Rightarrow> (Panic m, w))
         else
           (case l_open_channel_with_lsp R w of
              (Ok chan_id, w) \<Rightarrow> report chan_id (l_await_channel_pending R chan_id w)
            | (Err e, w) \<Rightarrow> (Ok (), w)
            | (Panic m, w) \<Rightarrow> (Panic m, w)))"

definition do_trusted_rebalance_if_needed :: "amount_ops \<Rightarrow> ('w, 'te, 'le) rebalancer_ops \<Rightarrow> 'w \<Rightarrow>
    (unit, unit) result \<times> 'w" where
  "do_trusted_rebalance_if_needed A R w =
     and_then (needs_trusted R w) (\<lambda>params w. case params of
        Some params \<Rightarrow> do_trusted_rebalance_locked A R params w | None \<Rightarrow> (Ok (), w))"

definition do_onchain_rebalance_if_needed :: "('w, 'te, 'le) rebalancer_ops \<Rightarrow> 'w \<Rightarrow>
    (unit, unit) result \<times> 'w" where
  "do_onchain_rebalance_if_needed R w =
     and_then (needs_onchain R w) (\<lambda>params w. case params of
        Some params \<Rightarrow> do_onchain_rebalance_locked R params w | None \<Rightarrow> (Ok (), w))"

definition do_rebalance_if_needed :: "amount_ops \<Rightarrow> ('w, 'te, 'le) rebalancer_ops \<Rightarrow> 'w \<Rightarrow>
    (unit, unit) result \<times> 'w" where
  "do_rebalance_if_needed A R w =
     and_then (do_trusted_rebalance_if_needed A R w) (\<lambda>_ w. do_onchain_rebalance_if_needed R w)"

subsection \<open>What the rebalancer does, as a trace\<close>

text \<open>
  Any wallets, trigger and handler, observed: the payments requested of the trusted wallet, the
  channel operations requested of the lightning wallet and the events handed out, in order.
\<close>

datatype rebalance_call =
    Called_pay PaymentMethod Amount
  | Called_ln_pay PaymentMethod Amount
  | Called_open
  | Called_splice
  | Called_handler RebalancerEvent

definition observe :: "('w, 'te, 'le) rebalancer_ops \<Rightarrow>
    ('w \<times> rebalance_call list, 'te, 'le) rebalancer_ops" where
  "observe R =
     (\<lparr>t_get_balance = (\<lambda>(w, log). case t_get_balance R w of (r, w') \<Rightarrow> (r, w', log)),
          t_get_bolt11_invoice =
            (\<lambda>a (w, log). case t_get_bolt11_invoice R a w of (r, w') \<Rightarrow> (r, w', log)),
          t_pay = (\<lambda>m a (w, log). case t_pay R m a w of (r, w') \<Rightarrow> (r, w', log @ [Called_pay m a])),
          t_estimate_fee = (\<lambda>m a (w, log). case t_estimate_fee R m a w of (r, w') \<Rightarrow> (r, w', log)),
          t_await_payment_success =
            (\<lambda>h (w, log). case t_await_payment_success R h w of (r, w') \<Rightarrow> (r, w', log)),
          l_get_balance = (\<lambda>(w, log). l_get_balance R w),
          l_get_bolt11_invoice =
            (\<lambda>a (w, log). case l_get_bolt11_invoice R a w of (r, w') \<Rightarrow> (r, w', log)),
          l_pay = (\<lambda>m a (w, log). case l_pay R m a w of (r, w') \<Rightarrow> (r, w', log @ [Called_ln_pay m a])),
          l_await_payment_receipt =
            (\<lambda>h (w, log). case l_await_payment_receipt R h w of (r, w') \<Rightarrow> (r, w', log)),
          l_has_channel_with_lsp = (\<lambda>(w, log). l_has_channel_with_lsp R w),
          l_open_channel_with_lsp =
            (\<lambda>(w, log). case l_open_channel_with_lsp R w of (r, w') \<Rightarrow> (r, w', log @ [Called_open])),
          l_await_channel_pending =
            (\<lambda>c (w, log). case l_await_channel_pending R c w of (r, w') \<Rightarrow> (r, w', log)),
          l_splice_to_lsp_channel =
            (\<lambda>(w, log). case l_splice_to_lsp_channel R w of (r, w') \<Rightarrow> (r, w', log @ [Called_splice])),
          l_await_splice_pending =
            (\<lambda>c (w, log). case l_await_splice_pending R c w of (r, w') \<Rightarrow> (r, w', log)),
          needs_trusted = (\<lambda>(w, log). case needs_trusted R w of (r, w') \<Rightarrow> (r, w', log)),
          needs_onchain = (\<lambda>(w, log). case needs_onchain R w of (r, w') \<Rightarrow> (r, w', log)),
          handle_event = (\<lambda>e (w, log). case handle_event R e w of (r, w') \<Rightarrow>
             (r, w', log @ [Called_handler e]))\<rparr>)"

text \<open>The traces a trusted rebalance for given parameters can leave.\<close>

inductive trusted_trace :: "TriggerParams \<Rightarrow> rebalance_call list \<Rightarrow> bool" for params where
  not_started: "trusted_trace params []"
| refused: "amt \<le> tp_amount params \<Longrightarrow> trusted_trace params [Called_pay (LightningBolt11 i) amt]"
| initiated: "amt \<le> tp_amount params \<Longrightarrow> trusted_trace params
    [Called_pay (LightningBolt11 i) amt, Called_handler (Rb_RebalanceInitiated (tp_id params) rid amt)]"
| succeeded: "amt \<le> tp_amount params \<Longrightarrow> trusted_trace params
    [Called_pay (LightningBolt11 i) amt, Called_handler (Rb_RebalanceInitiated (tp_id params) rid amt),
     Called_handler (Rb_RebalanceSuccessful (tp_id params) rid lid amt fee)]"

lemma execute_trusted_trace:
  assumes "amt \<le> tp_amount params"
    and "execute_trusted_rebalance (observe R) params i amt (w, []) = (r, w', log)"
  shows "trusted_trace params log"
  using assms
  by (auto simp: execute_trusted_rebalance_def observe_def Let_def
      split: prod.splits result.splits option.splits
      intro: trusted_trace.intros elim!: and_then.elims)

context amount_laws
begin

lemma plan_amount:
  assumes "plan_trusted_rebalance A R params w = (Ok (Some (i, amt)), w')"
  shows "amt \<le> tp_amount params"
  using assms saturating_sub_le
  by (auto simp: plan_trusted_rebalance_def Let_def split: prod.splits result.splits if_splits)

lemma plan_observed:
  "plan_trusted_rebalance A (observe R) params (w, log) =
    (case plan_trusted_rebalance A R params w of (r, w') \<Rightarrow> (r, w', log))"
  by (auto simp: plan_trusted_rebalance_def observe_def Let_def split: prod.splits result.splits)

lemma do_trusted_trace:
  assumes "do_trusted_rebalance_locked A (observe R) params (w, []) = (r, w', log)"
  shows "trusted_trace params log"
proof -
  obtain p w1 where plan: "plan_trusted_rebalance A R params w = (p, w1)" by fastforce
  show ?thesis
  proof (cases p)
    case (Ok x)
    show ?thesis
    proof (cases x)
      case None
      with Ok plan assms show ?thesis
        by (simp add: do_trusted_rebalance_locked_def plan_observed not_started)
    next
      case (Some y)
      then obtain i amt where y: "x = Some (i, amt)" by (cases y) auto
      with Ok plan have "amt \<le> tp_amount params" using plan_amount by simp
      moreover have "execute_trusted_rebalance (observe R) params i amt (w1, []) = (r, w', log)"
        using assms Ok plan y by (simp add: do_trusted_rebalance_locked_def plan_observed)
      ultimately show ?thesis by (rule execute_trusted_trace)
    qed
  qed (use plan assms in \<open>auto simp: do_trusted_rebalance_locked_def plan_observed intro: not_started\<close>)
qed

text \<open>With a fee estimate, the amount sent and the fee are together the amount of the trigger.\<close>

lemma plan_fee_exact:
  assumes "plan_trusted_rebalance A R params w = (Ok (Some (i, amt)), w')"
    and "l_get_bolt11_invoice R (Some (tp_amount params)) w = (Ok i0, w0)"
    and "t_estimate_fee R (LightningBolt11 i0) (tp_amount params) w0 = (Ok fee, w1)"
    and "tp_amount params < amount_max"
  shows "amt + fee = tp_amount params \<and> 0 < amt
    \<and> (\<exists>u u'. l_get_bolt11_invoice R (Some amt) u = (Ok i, u'))"
  using assms
  by (auto simp: plan_trusted_rebalance_def Let_def saturating_add_eq saturating_sub_eq min_def
      split: prod.splits result.splits if_splits)

end

end
