(* ===== verification/Trusted_Interface.thy ===== *)
theory Trusted_Interface
  imports Graduated_Rebalancer
begin

text \<open>
  The interface of the trusted wallets (\<open>trusted_wallet/mod.rs\<close>): the payments they list, their
  errors, the operations as a record over a world, and \<open>WalletTrusted\<close>, which presents such a
  wallet to the rebalancer.
\<close>

record TrustedPayment =
  p_id :: bytes32
  p_amount :: Amount
  p_fee :: Amount
  p_status :: TxStatus
  p_outbound :: bool
  p_time_since_epoch :: duration

datatype TrustedError =
    InsufficientFunds
  | WalletOperationFailed string
  | InvalidNetwork
  | UnsupportedOperation string
  | TAmountError
  | IOError io_error
  | Other_TrustedError string

definition TrustedError_from_io :: "io_error \<Rightarrow> TrustedError" where
  "TrustedError_from_io e = IOError e"

record 'w trusted_wallet_ops =
  tw_get_balance :: "'w \<Rightarrow> (TrustedError, Amount) result \<times> 'w"
  tw_get_reusable_receive_uri :: "'w \<Rightarrow> (TrustedError, string) result \<times> 'w"
  tw_get_bolt11_invoice :: "Amount option \<Rightarrow> 'w \<Rightarrow> (TrustedError, Bolt11Invoice) result \<times> 'w"
  tw_list_payments :: "'w \<Rightarrow> (TrustedError, TrustedPayment list) result \<times> 'w"
  tw_estimate_fee :: "PaymentMethod \<Rightarrow> Amount \<Rightarrow> 'w \<Rightarrow> (TrustedError, Amount) result \<times> 'w"
  tw_pay :: "PaymentMethod \<Rightarrow> Amount \<Rightarrow> 'w \<Rightarrow> (TrustedError, bytes32) result \<times> 'w"
  tw_supports_partial_payments :: bool
  tw_pay_partial :: "Bolt11Invoice \<Rightarrow> Amount \<Rightarrow> 'w \<Rightarrow> (TrustedError, bytes32) result \<times> 'w"
  tw_await_payment_success :: "bytes32 \<Rightarrow> 'w \<Rightarrow> ReceivedLightningPayment option \<times> 'w"
  tw_get_lightning_address :: "'w \<Rightarrow> (TrustedError, string option) result \<times> 'w"
  tw_register_lightning_address :: "string \<Rightarrow> 'w \<Rightarrow> (TrustedError, unit) result \<times> 'w"
  tw_stop :: "'w \<Rightarrow> 'w"

text \<open>\<open>WalletTrusted\<close> forwards every operation of the rebalancer's trait.\<close>

definition WalletTrusted :: "'w trusted_wallet_ops \<Rightarrow> ('w, TrustedError, 'le) rebalancer_ops \<Rightarrow>
    ('w, TrustedError, 'le) rebalancer_ops" where
  "WalletTrusted W R = R\<lparr>t_get_balance := tw_get_balance W,
     t_get_bolt11_invoice := tw_get_bolt11_invoice W, t_pay := tw_pay W,
     t_estimate_fee := tw_estimate_fee W, t_await_payment_success := tw_await_payment_success W\<rparr>"

end
