(* ===== verification/Tx_Store_Facts.thy ===== *)
theory Tx_Store_Facts
  imports Tx_Store
begin

text \<open>
  What the metadata store relies on and what it keeps. The locale \<open>tx_env\<close> is the contract of
  the environment: the persistence contract, hexadecimal text of 32-byte arrays and encodings
  that read back. \<open>persisted\<close> says that the store's records are exactly a given map; the
  lemmas show that every operation that returns keeps the in-memory map persisted, and that
  one that panics leaves the old or the new map on disk.
\<close>

locale tx_env =
  fixes E :: "('s, 'e) store_env_scheme" and view :: "'s \<Rightarrow> kv_view"
  assumes kv: "kv_store (kvs E) view"
    and hex_roundtrip: "length bs = 32 \<Longrightarrow> from_hex_array E (as_hex E bs) = Some bs"
    and hex_array_length: "from_hex_array E h = Some bs \<Longrightarrow> length bs = 32"
    and as_hex_length: "length (as_hex E bs) = 2 * length bs"
    and as_hex_digits: "c \<in> set (as_hex E bs) \<Longrightarrow> c \<in> set hex_digits"
    and md_roundtrip: "md_decode E (md_encode E m) = Some m"
    and bool_roundtrip: "bool_decode E (bool_encode E b) = Some b"

definition persisted :: "('s, 'e) store_env_scheme \<Rightarrow> kv_view \<Rightarrow>
    (PaymentId \<rightharpoonup> TxMetadata) \<Rightarrow> bool" where
  "persisted E V M \<longleftrightarrow>
     (\<forall>i m. M i = Some m \<longrightarrow> wf_id i \<and>
        V (STORE_PRIMARY_KEY, STORE_SECONDARY_KEY, PaymentId_to_string E i)
          = Some (md_encode E m))
   \<and> (\<forall>k. V (STORE_PRIMARY_KEY, STORE_SECONDARY_KEY, k) \<noteq> None \<longrightarrow>
        k \<in> PaymentId_to_string E ` dom M)"

definition coherent :: "('s, 'e) store_env_scheme \<Rightarrow> ('s \<Rightarrow> kv_view) \<Rightarrow>
    ('s, 'x) tx_store_scheme \<Rightarrow> bool" where
  "coherent E view s \<longleftrightarrow> persisted E (view (disk s)) (tx_metadata s)"

subsection \<open>Operations as values\<close>

datatype tx_op =
    Op_upsert PaymentId TxMetadata
  | Op_insert PaymentId TxMetadata
  | Op_set_tx_caused_rebalance PaymentId
  | Op_set_tx_caused_rebalance_with_splice bool PaymentId PaymentId TxMetadata
  | Op_set_preimage PaymentId bytes32
  | Op_record_mpp_leg PaymentId "(u64 \<times> bytes32) option"

fun run_tx_op :: "('s, 'e) store_env_scheme \<Rightarrow> tx_op \<Rightarrow> ('s, 'x) tx_store_scheme \<Rightarrow>
    (unit, unit) result \<times> ('s, 'x) tx_store_scheme" where
  "run_tx_op E (Op_upsert i m) s = upsert E i m s"
| "run_tx_op E (Op_insert i m) s = insert_md E i m s"
| "run_tx_op E (Op_set_tx_caused_rebalance i) s = set_tx_caused_rebalance E i s"
| "run_tx_op E (Op_set_tx_caused_rebalance_with_splice b i j m) s =
     set_tx_caused_rebalance_with_splice E b i j m s"
| "run_tx_op E (Op_set_preimage i p) s = set_preimage E i p s"
| "run_tx_op E (Op_record_mpp_leg i r) s =
     and_then (record_mpp_leg E i r s) (\<lambda>_ s. (Ok (), s))"

text \<open>
  The callers' side of the contract: identifiers are 32-byte arrays, and a splice is not its
  own trigger.
\<close>

fun wf_op :: "tx_op \<Rightarrow> bool" where
  "wf_op (Op_upsert i m) = wf_id i"
| "wf_op (Op_insert i m) = wf_id i"
| "wf_op (Op_set_tx_caused_rebalance_with_splice b i j m) = (wf_id j \<and> i \<noteq> j)"
| "wf_op _ = True"

text \<open>Errors are returned to the caller and the next operation runs; a panic ends the process.\<close>

fun run_tx_ops :: "('s, 'e) store_env_scheme \<Rightarrow> tx_op list \<Rightarrow> ('s, 'x) tx_store_scheme \<Rightarrow>
    bool \<times> ('s, 'x) tx_store_scheme" where
  "run_tx_ops E [] s = (True, s)"
| "run_tx_ops E (op # ops) s = (case run_tx_op E op s of
     (Panic m, s') \<Rightarrow> (False, s') | (_, s') \<Rightarrow> run_tx_ops E ops s')"

text \<open>
  A wallet's life as far as its multi-path payments go: legs are recorded, other operations
  run, and the process restarts, on request or because an operation panicked. The result is
  the sequence of combined outcomes handed to the caller.
\<close>

datatype mpp_step = Leg PaymentId "(u64 \<times> bytes32) option" | Other tx_op | Restart

fun mpp_run :: "('s, 'e) store_env_scheme \<Rightarrow> (nat \<Rightarrow> nat) \<Rightarrow> mpp_step list \<Rightarrow> 's tx_store \<Rightarrow>
    (PaymentId \<times> MppOutcome) list" where
  "mpp_run E sched [] s = []"
| "mpp_run E sched (Leg i success # steps) s =
     (case record_mpp_leg E i success s of
        (Ok None, s') \<Rightarrow> mpp_run E sched steps s'
      | (Ok (Some out), s') \<Rightarrow> out # mpp_run E sched steps s'
      | (_, s') \<Rightarrow> (case TxMetadataStore_new E sched (disk s') of
            (Ok s'', _) \<Rightarrow> mpp_run E sched steps s'' | _ \<Rightarrow> []))"
| "mpp_run E sched (Other op # steps) s =
     (case run_tx_op E op s of
        (Panic m, s') \<Rightarrow> (case TxMetadataStore_new E sched (disk s') of
            (Ok s'', _) \<Rightarrow> mpp_run E sched steps s'' | _ \<Rightarrow> [])
      | (_, s') \<Rightarrow> mpp_run E sched steps s')"
| "mpp_run E sched (Restart # steps) s =
     (case TxMetadataStore_new E sched (disk s) of
        (Ok s'', _) \<Rightarrow> mpp_run E sched steps s'' | _ \<Rightarrow> [])"

text \<open>Steps that do not overwrite the entry of a given payment.\<close>

fun spares :: "PaymentId \<Rightarrow> mpp_step \<Rightarrow> bool" where
  "spares S (Other (Op_upsert i m)) = (wf_id i \<and> i \<noteq> S)"
| "spares S (Other (Op_insert i m)) = (wf_id i \<and> i \<noteq> S)"
| "spares S (Other (Op_set_tx_caused_rebalance i)) = True"
| "spares S (Other (Op_set_preimage i p)) = True"
| "spares S (Other _) = False"
| "spares S _ = True"

definition mpp_finalized :: "PaymentId \<Rightarrow> (PaymentId \<rightharpoonup> TxMetadata) \<Rightarrow> bool" where
  "mpp_finalized S M \<longleftrightarrow> (case M S of
     Some m \<Rightarrow> (case md_ty m of MppPayment p \<Rightarrow> finalized p | _ \<Rightarrow> False) | None \<Rightarrow> False)"

text \<open>
  Every operation but the one with two entries either leaves the store alone and does not
  panic, or puts one entry into the map and persists it.
\<close>

definition entry_op :: "('s, 'e) store_env_scheme \<Rightarrow> ('s, 'x) tx_store_scheme \<Rightarrow>
    ('f, 'a) result \<times> ('s, 'x) tx_store_scheme \<Rightarrow> bool" where
  "entry_op E s out \<longleftrightarrow>
     (snd out = s \<and> \<not> is_panic (fst out))
   \<or> (\<exists>i m r. wf_id i
        \<and> persist_entry E i m (s\<lparr>tx_metadata := (tx_metadata s)(i \<mapsto> m)\<rparr>) = (r, snd out)
        \<and> is_panic (fst out) = is_panic r)"

lemma mpp_record_ok: "\<exists>m' out. mpp_record b success m = Ok (m', out)"
  by (auto simp: mpp_record_def Let_def split: option.split prod.split)

lemma mpp_record_not_panic [simp]: "mpp_record b success m \<noteq> Panic msg"
  using mpp_record_ok [of b success m] by auto

subsection \<open>Identifiers as keys\<close>

sublocale tx_env \<subseteq> disk: kv_store "kvs E" view
  by (rule kv)

context tx_env
begin

lemma hex_ascii: "c \<in> set (as_hex E bs) \<Longrightarrow> \<not> is_continuation_byte c"
  using as_hex_digits hex_digits_ascii by blast

lemma from_str_to_string [simp]:
  assumes "wf_id i"
  shows "PaymentId_from_str E (PaymentId_to_string E i) = Ok i"
proof -
  have hex: "is_char_boundary (p @ as_hex E (id_bytes i)) 3" if "length p = 3" for p
  proof -
    have len: "length (as_hex E (id_bytes i)) = 64" using assms by (simp add: wf_id_def as_hex_length)
    then have "(p @ as_hex E (id_bytes i)) ! 3 \<in> set (as_hex E (id_bytes i))"
      using that by (simp add: nth_append)
    then show ?thesis using hex_ascii len that by (auto simp: is_char_boundary_def)
  qed
  show ?thesis
    using assms hex [of "''SC-''"] hex [of "''TR-''"]
    by (cases i) (auto simp: PaymentId_from_str_def slice_to_def slice_from_def wf_id_def
        as_hex_length hex_roundtrip)
qed

lemma to_string_eq_iff [simp]:
  "wf_id i \<Longrightarrow> wf_id j \<Longrightarrow> PaymentId_to_string E i = PaymentId_to_string E j \<longleftrightarrow> i = j"
  by (metis from_str_to_string result.inject(1))

lemma from_str_wf: "PaymentId_from_str E k = Ok i \<Longrightarrow> wf_id i"
  by (auto simp: PaymentId_from_str_def wf_id_def slice_to_def slice_from_def hex_array_length
      split: if_splits result.splits option.splits)

subsection \<open>One entry written\<close>

lemma persisted_put:
  assumes "persisted E V M" and "wf_id i"
  shows "persisted E (V((STORE_PRIMARY_KEY, STORE_SECONDARY_KEY, PaymentId_to_string E i)
      \<mapsto> md_encode E m)) (M(i \<mapsto> m))"
proof -
  let ?V = "V((STORE_PRIMARY_KEY, STORE_SECONDARY_KEY, PaymentId_to_string E i) \<mapsto> md_encode E m)"
  have "k \<in> PaymentId_to_string E ` dom (M(i \<mapsto> m))"
    if "?V (STORE_PRIMARY_KEY, STORE_SECONDARY_KEY, k) \<noteq> None" for k
    using assms that by (cases "k = PaymentId_to_string E i") (auto simp: persisted_def)
  with assms show ?thesis by (auto simp: persisted_def)
qed

lemma persisted_wf: "persisted E V M \<Longrightarrow> M i = Some m \<Longrightarrow> wf_id i"
  by (simp add: persisted_def)

lemma persist_entry_cases:
  obtains (written) d where "persist_entry E i m s = (Ok (), s\<lparr>disk := d\<rparr>)"
      and "view d = (view (disk s))((STORE_PRIMARY_KEY, STORE_SECONDARY_KEY,
             PaymentId_to_string E i) \<mapsto> md_encode E m)"
  | (crashed) msg d where "persist_entry E i m s = (Panic msg, s\<lparr>disk := d\<rparr>)"
      and "view d \<in> {view (disk s), (view (disk s))((STORE_PRIMARY_KEY, STORE_SECONDARY_KEY,
             PaymentId_to_string E i) \<mapsto> md_encode E m)}"
proof -
  let ?w = "kv_write (kvs E) (disk s) STORE_PRIMARY_KEY STORE_SECONDARY_KEY
      (PaymentId_to_string E i) (md_encode E m)"
  obtain r d where w: "?w = (r, d)" by fastforce
  show ?thesis
  proof (cases r)
    case (Ok u)
    with w disk.write_Ok [of "disk s" STORE_PRIMARY_KEY STORE_SECONDARY_KEY
        "PaymentId_to_string E i" "md_encode E m" u] show ?thesis
      by (intro written [of d]) (auto simp: persist_entry_def disk_write_def)
  qed (use w disk.write_any [of "disk s" STORE_PRIMARY_KEY STORE_SECONDARY_KEY
        "PaymentId_to_string E i" "md_encode E m"] in
      \<open>auto intro!: crashed simp: persist_entry_def disk_write_def\<close>)
qed

lemma put_entry:
  assumes "coherent E view s" and "wf_id i"
    and "persist_entry E i m (s\<lparr>tx_metadata := (tx_metadata s)(i \<mapsto> m)\<rparr>) = (r, s')"
  shows "tx_metadata s' = (tx_metadata s)(i \<mapsto> m)"
    and "\<not> is_panic r \<Longrightarrow> r = Ok () \<and> coherent E view s'"
    and "persisted E (view (disk s')) (tx_metadata s)
       \<or> persisted E (view (disk s')) (tx_metadata s')"
proof -
  let ?s = "s\<lparr>tx_metadata := (tx_metadata s)(i \<mapsto> m)\<rparr>"
  from assms(1) have old: "persisted E (view (disk s)) (tx_metadata s)" by (simp add: coherent_def)
  note put = persisted_put [OF old assms(2)]
  have "tx_metadata s' = (tx_metadata s)(i \<mapsto> m)
    \<and> (\<not> is_panic r \<longrightarrow> r = Ok () \<and> coherent E view s')
    \<and> (persisted E (view (disk s')) (tx_metadata s) \<or> persisted E (view (disk s')) (tx_metadata s'))"
  proof (cases rule: persist_entry_cases [of i m ?s])
    case (written d)
    with assms(3) have "r = Ok ()" and "s' = ?s\<lparr>disk := d\<rparr>" by simp_all
    with put [of m] written(2) show ?thesis by (simp add: coherent_def)
  next
    case (crashed msg d)
    with assms(3) have "r = Panic msg" and "s' = ?s\<lparr>disk := d\<rparr>" by simp_all
    with put [of m] old crashed(2) show ?thesis by auto
  qed
  then show "tx_metadata s' = (tx_metadata s)(i \<mapsto> m)"
    and "\<not> is_panic r \<Longrightarrow> r = Ok () \<and> coherent E view s'"
    and "persisted E (view (disk s')) (tx_metadata s) \<or> persisted E (view (disk s')) (tx_metadata s')"
    by blast+
qed

subsection \<open>Every operation\<close>

lemma entry_op_safe:
  assumes "coherent E view s" and "entry_op E s (r, s')"
  shows "\<not> is_panic r \<Longrightarrow> coherent E view s'"
    and "persisted E (view (disk s')) (tx_metadata s) \<or> persisted E (view (disk s')) (tx_metadata s')"
proof -
  from assms(2) have "(\<not> is_panic r \<longrightarrow> coherent E view s')
    \<and> (persisted E (view (disk s')) (tx_metadata s) \<or> persisted E (view (disk s')) (tx_metadata s'))"
    unfolding entry_op_def fst_conv snd_conv
  proof (elim disjE exE conjE)
    fix i m r'
    assume "wf_id i" and "is_panic r = is_panic r'"
      and "persist_entry E i m (s\<lparr>tx_metadata := (tx_metadata s)(i \<mapsto> m)\<rparr>) = (r', s')"
    with put_entry [OF assms(1), of i m r' s'] show ?thesis by simp
  qed (use assms(1) in \<open>simp add: coherent_def\<close>)
  then show "\<not> is_panic r \<Longrightarrow> coherent E view s'"
    and "persisted E (view (disk s')) (tx_metadata s) \<or> persisted E (view (disk s')) (tx_metadata s')"
    by blast+
qed

lemma entry_opI:
  assumes "wf_id i"
    and "out = and_then (persist_entry E i m (s\<lparr>tx_metadata := (tx_metadata s)(i \<mapsto> m)\<rparr>))
      (\<lambda>_ s. (Ok a, s))"
  shows "entry_op E s out"
proof -
  obtain r s' where p: "persist_entry E i m (s\<lparr>tx_metadata := (tx_metadata s)(i \<mapsto> m)\<rparr>) = (r, s')"
    by fastforce
  then have "snd out = s'" and "is_panic (fst out) = is_panic r"
    using assms(2) by (cases r; simp)+
  with p assms(1) show ?thesis unfolding entry_op_def by blast
qed

lemma entry_opI':
  "wf_id i \<Longrightarrow> entry_op E s (persist_entry E i m (s\<lparr>tx_metadata := (tx_metadata s)(i \<mapsto> m)\<rparr>))"
  unfolding entry_op_def by (metis prod.collapse)

lemma entry_op_same: "\<not> is_panic r \<Longrightarrow> entry_op E s (r, s)"
  by (simp add: entry_op_def)

lemma and_then_assoc_Ok [simp]:
  "and_then (and_then x (\<lambda>_ s. (Ok a, s))) (\<lambda>_ s. (Ok b, s)) = and_then x (\<lambda>_ s. (Ok b, s))"
  by (cases "fst x"; cases x) auto

lemma upsert_entry: "wf_id i \<Longrightarrow> entry_op E s (upsert E i m s)"
  by (rule entry_opI [of i]) (auto simp: upsert_def do_set_def)

lemma insert_md_entry: "wf_id i \<Longrightarrow> entry_op E s (insert_md E i m s)"
  by (rule entry_opI [of i]) (auto simp: insert_md_def do_set_def)

lemma set_tx_caused_rebalance_entry:
  "coherent E view s \<Longrightarrow> entry_op E s (set_tx_caused_rebalance E i s)"
  by (auto simp: set_tx_caused_rebalance_def coherent_def Let_def
      intro!: entry_op_same entry_opI' dest: persisted_wf split: option.split TxType.split)

lemma set_preimage_entry: "coherent E view s \<Longrightarrow> entry_op E s (set_preimage E i pre s)"
  by (auto simp: set_preimage_def coherent_def Let_def
      intro!: entry_op_same entry_opI' dest: persisted_wf
      split: option.split TxType.split PaymentType.split)

lemma record_mpp_leg_entry:
  "coherent E view s \<Longrightarrow> entry_op E s (record_mpp_leg E i success s)"
  by (auto simp: record_mpp_leg_def coherent_def Let_def
      intro!: entry_op_same entry_opI [OF _ refl] dest: persisted_wf
      split: option.split TxType.split result.split)

lemma disk_write_Ok:
  assumes "disk_write E p q k d s = (Ok u, s')"
  shows "\<exists>d'. s' = s\<lparr>disk := d'\<rparr> \<and> view d' = (view (disk s))((p, q, k) \<mapsto> d)"
  using assms disk.write_Ok [of "disk s" p q k d u]
  by (auto simp: disk_write_def split: prod.splits)

lemma join_writes_coherent:
  assumes "persisted E (view (disk s)) M" and "tx_metadata s = M(i \<mapsto> a, j \<mapsto> b)"
    and "wf_id i" and "wf_id j" and "i \<noteq> j"
    and "join_writes E splice_first (i, a) (j, b) s = (r, s')" and "\<not> is_panic r"
  shows "r = Ok () \<and> coherent E view s' \<and> tx_metadata s' = tx_metadata s"
proof -
  let ?k = "\<lambda>i. (STORE_PRIMARY_KEY, STORE_SECONDARY_KEY, PaymentId_to_string E i)"
  from assms(3-5) have "?k i \<noteq> ?k j" by simp
  then obtain d where d: "s' = s\<lparr>disk := d\<rparr>" "r = Ok ()"
    and "view d = (view (disk s))(?k i \<mapsto> md_encode E a, ?k j \<mapsto> md_encode E b)"
    using assms(6,7)
    by (auto simp: join_writes_def Let_def fun_upd_twist split: if_splits prod.splits
        dest!: and_then_not_panic expect_not_panic disk_write_Ok)
  then have "persisted E (view d) (tx_metadata s)"
    using persisted_put [OF persisted_put [OF assms(1,3)] assms(4)] assms(2) by metis
  with d show ?thesis by (simp add: coherent_def)
qed

lemma set_tx_caused_rebalance_with_splice_coherent:
  assumes "coherent E view s" and "wf_id j" and "i \<noteq> j"
    and "set_tx_caused_rebalance_with_splice E b i j m s = (r, s')" and "\<not> is_panic r"
  shows "coherent E view s'"
proof (cases "\<exists>metadata ty. tx_metadata s i = Some metadata \<and> md_ty metadata = Payment ty")
  case True
  then obtain metadata ty where i: "tx_metadata s i = Some metadata" "md_ty metadata = Payment ty"
    by blast
  let ?t = "metadata\<lparr>md_ty := PaymentTriggeringTransferLightning ty\<rparr>"
  let ?s = "s\<lparr>tx_metadata := (tx_metadata s)(i \<mapsto> ?t, j \<mapsto> m)\<rparr>"
  from assms(1) i have wf: "wf_id i" by (auto simp: coherent_def dest: persisted_wf)
  from assms(4) i have "join_writes E b (i, ?t) (j, m) ?s = (r, s')"
    by (simp add: set_tx_caused_rebalance_with_splice_def Let_def)
  moreover from assms(1) have "persisted E (view (disk s)) (tx_metadata s)"
    by (simp add: coherent_def)
  ultimately show ?thesis
    using join_writes_coherent [of ?s "tx_metadata s" i ?t j m b r s'] assms(2,3,5) wf by simp
next
  case False
  then have "s' = s"
    using assms(4) by (auto simp: set_tx_caused_rebalance_with_splice_def
        split: option.splits TxType.splits)
  with assms(1) show ?thesis by simp
qed

lemma run_tx_op_entry:
  assumes "coherent E view s" and "wf_op op"
    and "\<And>b i j m. op \<noteq> Op_set_tx_caused_rebalance_with_splice b i j m"
  shows "entry_op E s (run_tx_op E op s)"
proof (cases op)
  case (Op_record_mpp_leg i success)
  obtain r s' where run: "record_mpp_leg E i success s = (r, s')" by fastforce
  have "entry_op E s (r, s')" using record_mpp_leg_entry [OF assms(1), of i success] run by simp
  with run Op_record_mpp_leg show ?thesis by (cases r) (auto simp: entry_op_def)
qed (use assms upsert_entry [of _ s] insert_md_entry [of _ s]
    set_tx_caused_rebalance_entry [OF assms(1)] set_preimage_entry [OF assms(1)] in simp_all)

lemma run_tx_op_coherent:
  assumes "coherent E view s" and "wf_op op" and "run_tx_op E op s = (r, s')" and "\<not> is_panic r"
  shows "coherent E view s'"
proof (cases op)
  case (Op_set_tx_caused_rebalance_with_splice b i j m)
  with assms show ?thesis
    using set_tx_caused_rebalance_with_splice_coherent [OF assms(1), of j i b m r s'] by simp
qed (use run_tx_op_entry [OF assms(1,2)] entry_op_safe(1) [OF assms(1) _ assms(4)] assms(3)
    in \<open>simp_all del: run_tx_op.simps\<close>)

lemma run_tx_ops_coherent:
  "coherent E view s \<Longrightarrow> \<forall>op \<in> set ops. wf_op op \<Longrightarrow> run_tx_ops E ops s = (True, s') \<Longrightarrow>
   coherent E view s'"
proof (induction ops arbitrary: s)
  case (Cons op ops)
  obtain r s1 where r: "run_tx_op E op s = (r, s1)" by fastforce
  with Cons.prems(3) have "\<not> is_panic r" and rest: "run_tx_ops E ops s1 = (True, s')"
    by (cases r; simp)+
  with run_tx_op_coherent [OF Cons.prems(1) _ r] Cons.prems(2) have "coherent E view s1" by simp
  from Cons.IH [OF this _ rest] Cons.prems(2) show ?case by simp
qed simp

subsection \<open>Loading\<close>

lemma load_records_persisted:
  assumes "\<And>k. k \<in> set ks \<Longrightarrow> \<exists>i m. M i = Some m \<and> wf_id i \<and> k = PaymentId_to_string E i
      \<and> V (STORE_PRIMARY_KEY, STORE_SECONDARY_KEY, k) = Some (md_encode E m)"
  shows "load_records E (map (\<lambda>k. (k, the (V (STORE_PRIMARY_KEY, STORE_SECONDARY_KEY, k)))) ks) N =
    Ok (N ++ (M |` {i. wf_id i \<and> PaymentId_to_string E i \<in> set ks}))"
  using assms
proof (induction ks arbitrary: N)
  case (Cons k ks)
  from Cons.prems [of k] obtain i m where k: "M i = Some m" "wf_id i" "k = PaymentId_to_string E i"
    "V (STORE_PRIMARY_KEY, STORE_SECONDARY_KEY, k) = Some (md_encode E m)" by auto
  have upd: "N(i \<mapsto> m) ++ (M |` {i. wf_id i \<and> PaymentId_to_string E i \<in> set ks}) =
    N ++ (M |` {i. wf_id i \<and> PaymentId_to_string E i \<in> set (k # ks)})"
    using k by (auto simp: fun_eq_iff map_add_def restrict_map_def split: option.split)
  have step: "load_records E
      (map (\<lambda>k. (k, the (V (STORE_PRIMARY_KEY, STORE_SECONDARY_KEY, k)))) (k # ks)) N =
    load_records E (map (\<lambda>k. (k, the (V (STORE_PRIMARY_KEY, STORE_SECONDARY_KEY, k)))) ks)
      (N(i \<mapsto> m))"
    using k by (simp add: md_roundtrip)
  have "load_records E (map (\<lambda>k. (k, the (V (STORE_PRIMARY_KEY, STORE_SECONDARY_KEY, k)))) ks)
      (N(i \<mapsto> m)) = Ok (N(i \<mapsto> m) ++ (M |` {i. wf_id i \<and> PaymentId_to_string E i \<in> set ks}))"
    by (rule Cons.IH, rule Cons.prems) simp
  then show ?case by (simp only: step upd)
qed simp

lemma load_records_all:
  assumes "persisted E V M"
    and "set ks = {k. V (STORE_PRIMARY_KEY, STORE_SECONDARY_KEY, k) \<noteq> None}"
  shows "load_records E (map (\<lambda>k. (k, the (V (STORE_PRIMARY_KEY, STORE_SECONDARY_KEY, k)))) ks)
    Map.empty = Ok M"
proof -
  have mem: "PaymentId_to_string E i \<in> set ks \<and> wf_id i" if "M i = Some m" for i m
    using assms that by (auto simp: persisted_def)
  have entries: "\<exists>i m. M i = Some m \<and> wf_id i \<and> k = PaymentId_to_string E i
      \<and> V (STORE_PRIMARY_KEY, STORE_SECONDARY_KEY, k) = Some (md_encode E m)" if "k \<in> set ks" for k
  proof -
    from that assms have "k \<in> PaymentId_to_string E ` dom M" by (simp add: persisted_def)
    then obtain i m where "M i = Some m" "k = PaymentId_to_string E i" by blast
    with assms(1) show ?thesis by (auto simp: persisted_def)
  qed
  have "load_records E (map (\<lambda>k. (k, the (V (STORE_PRIMARY_KEY, STORE_SECONDARY_KEY, k)))) ks)
    Map.empty = Ok (Map.empty ++ (M |` {i. wf_id i \<and> PaymentId_to_string E i \<in> set ks}))"
    by (rule load_records_persisted, rule entries)
  moreover have "M |` {i. wf_id i \<and> PaymentId_to_string E i \<in> set ks} = M"
  proof (rule ext)
    fix i
    show "(M |` {i. wf_id i \<and> PaymentId_to_string E i \<in> set ks}) i = M i"
      using mem [of i] by (cases "M i") (auto simp: restrict_map_def)
  qed
  ultimately show ?thesis by (simp only: empty_map_add)
qed

lemma new_loads:
  assumes "persisted E (view d) M" and "TxMetadataStore_new E sched d = (r, d')"
  shows "view d' = view d \<and> (\<forall>s. r = Ok s \<longrightarrow> s = \<lparr>disk = d', tx_metadata = M\<rparr>)"
proof -
  obtain lr d1 where l: "kv_list (kvs E) d STORE_PRIMARY_KEY STORE_SECONDARY_KEY = (lr, d1)"
    by fastforce
  have v1: "view d1 = view d"
    using disk.list_keeps [of d STORE_PRIMARY_KEY STORE_SECONDARY_KEY] l by simp
  show ?thesis
  proof (cases lr)
    case (Ok ks)
    with l disk.list_Ok [of d STORE_PRIMARY_KEY STORE_SECONDARY_KEY ks]
    have ks: "set ks = {k. view d (STORE_PRIMARY_KEY, STORE_SECONDARY_KEY, k) \<noteq> None}" by simp
    obtain rr d2 where r2: "read_keys_bounded (kvs E) sched STORE_PRIMARY_KEY STORE_SECONDARY_KEY ks d1
      = (rr, d2)" by fastforce
    note spec = disk.read_keys_bounded_spec [OF r2]
    show ?thesis
      using assms(2) l Ok r2 spec(1) spec(3) v1 load_records_all [OF assms(1) ks]
      by (cases rr) (auto simp: TxMetadataStore_new_def)
  qed (use assms(2) l v1 in \<open>auto simp: TxMetadataStore_new_def\<close>)
qed

subsection \<open>Multi-path payments are finalized once\<close>

lemma persist_entry_metadata:
  "persist_entry E i m s = (r, s') \<Longrightarrow> tx_metadata s' = tx_metadata s"
  by (cases rule: persist_entry_cases [of i m s]) auto

lemma snd_persist_entry [simp]: "tx_metadata (snd (persist_entry E i m s)) = tx_metadata s"
  by (cases "persist_entry E i m s") (simp add: persist_entry_metadata)

lemma mpp_record_finalized:
  "mpp_record b success m = Ok (m', Some out) \<Longrightarrow> finalized m'"
  by (auto simp: mpp_record_def Let_def split: if_splits option.splits)

lemma record_mpp_leg_cases:
  obtains (idle) "record_mpp_leg E i success s = (Ok None, s)"
  | (recorded) q leg m p p' out where "tx_metadata s i = Some q" and "md_ty q = MppPayment leg"
      and "tx_metadata s (surface_id leg) = Some m" and "md_ty m = MppPayment p"
      and "\<not> finalized p" and "mpp_record (i = surface_id leg) success p = Ok (p', out)"
      and "record_mpp_leg E i success s =
        and_then (persist_entry E (surface_id leg) (m\<lparr>md_ty := MppPayment p'\<rparr>)
            (s\<lparr>tx_metadata := (tx_metadata s)(surface_id leg \<mapsto> m\<lparr>md_ty := MppPayment p'\<rparr>)\<rparr>))
          (\<lambda>_ s. (Ok (map_option (Pair (surface_id leg)) out), s))"
proof (cases "\<exists>q leg m p. tx_metadata s i = Some q \<and> md_ty q = MppPayment leg
    \<and> tx_metadata s (surface_id leg) = Some m \<and> md_ty m = MppPayment p \<and> \<not> finalized p")
  case True
  then obtain q leg m p where *: "tx_metadata s i = Some q" "md_ty q = MppPayment leg"
    "tx_metadata s (surface_id leg) = Some m" "md_ty m = MppPayment p" "\<not> finalized p" by blast
  obtain p' out where "mpp_record (i = surface_id leg) success p = Ok (p', out)"
    using mpp_record_ok by blast
  with * show ?thesis by (intro recorded) (auto simp: record_mpp_leg_def Let_def)
next
  case False
  have "record_mpp_leg E i success s = (Ok None, s)"
  proof (cases "\<exists>q leg m p. tx_metadata s i = Some q \<and> md_ty q = MppPayment leg
      \<and> tx_metadata s (surface_id leg) = Some m \<and> md_ty m = MppPayment p")
    case True
    with False obtain q leg m p where "tx_metadata s i = Some q" "md_ty q = MppPayment leg"
      "tx_metadata s (surface_id leg) = Some m" "md_ty m = MppPayment p" "finalized p" by blast
    then show ?thesis by (simp add: record_mpp_leg_def Let_def)
  next
    case False
    then show ?thesis
      by (simp add: record_mpp_leg_def Let_def split: option.split TxType.split) blast
  qed
  then show ?thesis by (rule idle)
qed

lemma and_then_panic_or_Ok:
  "and_then (persist_entry E i m s) (\<lambda>_ s. (Ok a, s)) = (r, s') \<Longrightarrow>
   tx_metadata s' = tx_metadata s \<and> (is_panic r \<or> r = Ok a)"
  by (cases rule: persist_entry_cases [of i m s]) auto

lemma record_mpp_leg_finalized:
  assumes "record_mpp_leg E i success s = (r, s')"
  shows "(mpp_finalized S (tx_metadata s) \<longrightarrow> mpp_finalized S (tx_metadata s'))
    \<and> (is_panic r \<or> (\<exists>out. r = Ok out
         \<and> (\<forall>o'. out = Some (S, o') \<longrightarrow>
              \<not> mpp_finalized S (tx_metadata s) \<and> mpp_finalized S (tx_metadata s'))))"
proof (cases rule: record_mpp_leg_cases [of i success s])
  case (recorded q leg m p p' out)
  from and_then_panic_or_Ok [OF recorded(7) [symmetric, unfolded assms]]
  have "tx_metadata s' = (tx_metadata s)(surface_id leg \<mapsto> m\<lparr>md_ty := MppPayment p'\<rparr>)"
    and "is_panic r \<or> r = Ok (map_option (Pair (surface_id leg)) out)" by auto
  with recorded mpp_record_finalized show ?thesis
    by (auto simp: mpp_finalized_def)
qed (use assms in simp)

lemma do_set_metadata:
  "do_set E i m s = (r, s') \<Longrightarrow> tx_metadata s' = (tx_metadata s)(i \<mapsto> m)"
  using and_then_panic_or_Ok [of i m "s\<lparr>tx_metadata := (tx_metadata s)(i \<mapsto> m)\<rparr>"
      "tx_metadata s i \<noteq> None" r s']
  by (simp add: do_set_def Let_def)

lemma and_then_Ok_state: "and_then x (\<lambda>_ s. (Ok a, s)) = (r, s') \<Longrightarrow> \<exists>r0. x = (r0, s')"
  by (cases "fst x"; cases x) auto

lemma spares_finalized:
  assumes "spares S (Other op)" and "run_tx_op E op s = (r, s')"
    and "mpp_finalized S (tx_metadata s)"
  shows "mpp_finalized S (tx_metadata s')"
proof -
  have put: "mpp_finalized S (tx_metadata s')"
    if "s' = s \<or> (\<exists>m0 ty m. tx_metadata s i = Some m0 \<and> md_ty m0 = Payment ty
        \<and> persist_entry E i m (s\<lparr>tx_metadata := (tx_metadata s)(i \<mapsto> m)\<rparr>) = (r, s'))" for i
    using that
  proof (elim disjE exE conjE)
    fix m0 ty m
    assume i: "tx_metadata s i = Some m0" "md_ty m0 = Payment ty"
      and "persist_entry E i m (s\<lparr>tx_metadata := (tx_metadata s)(i \<mapsto> m)\<rparr>) = (r, s')"
    then have "tx_metadata s' = (tx_metadata s)(i \<mapsto> m)" using persist_entry_metadata by fastforce
    moreover have "i \<noteq> S" using i assms(3) by (auto simp: mpp_finalized_def)
    ultimately show ?thesis using assms(3) by (simp add: mpp_finalized_def)
  qed (use assms(3) in simp)
  show ?thesis
  proof (cases op)
    case (Op_set_tx_caused_rebalance i)
    with assms(2) show ?thesis
      by (intro put [of i]) (auto simp: set_tx_caused_rebalance_def Let_def
          split: option.splits TxType.splits)
  next
    case (Op_set_preimage i pre)
    with assms(2) show ?thesis
      by (intro put [of i]) (auto simp: set_preimage_def Let_def
          split: option.splits TxType.splits PaymentType.splits if_splits)
  qed (use assms in \<open>auto simp: upsert_def insert_md_def mpp_finalized_def
      dest!: and_then_Ok_state do_set_metadata\<close>)
qed

lemma spares_entry:
  "coherent E view s \<Longrightarrow> spares S (Other op) \<Longrightarrow> entry_op E s (run_tx_op E op s)"
  by (cases op) (auto intro: upsert_entry insert_md_entry set_tx_caused_rebalance_entry
      set_preimage_entry)

lemma reload_after:
  assumes "coherent E view s" and "entry_op E s (r, s')"
    and "mpp_finalized S (tx_metadata s) \<longrightarrow> mpp_finalized S (tx_metadata s')"
    and "TxMetadataStore_new E sched (disk s') = (Ok s'', d)"
  shows "coherent E view s'' \<and>
    (mpp_finalized S (tx_metadata s) \<longrightarrow> mpp_finalized S (tx_metadata s''))"
proof -
  from entry_op_safe(2) [OF assms(1,2)] obtain M where M: "persisted E (view (disk s')) M"
    "M = tx_metadata s \<or> M = tx_metadata s'" by blast
  from new_loads [OF M(1) assms(4)] M assms(3) show ?thesis by (auto simp: coherent_def)
qed

text \<open>How many more combined outcomes a run can hand out for one payment.\<close>

definition budget :: "PaymentId \<Rightarrow> (PaymentId \<rightharpoonup> TxMetadata) \<Rightarrow> nat" where
  "budget S M = (if mpp_finalized S M then 0 else 1)"

abbreviation outcomes_for :: "PaymentId \<Rightarrow> (PaymentId \<times> MppOutcome) list \<Rightarrow> nat" where
  "outcomes_for S outs \<equiv> length (filter (\<lambda>(i, _). i = S) outs)"

lemma mpp_run_budget:
  assumes "coherent E view s" and "\<forall>st \<in> set steps. spares S st"
  shows "outcomes_for S (mpp_run E sched steps s) \<le> budget S (tx_metadata s)"
  using assms
proof (induction steps arbitrary: s)
  case (Cons st steps)
  have IH: "outcomes_for S (mpp_run E sched steps s') \<le> budget S (tx_metadata s')"
    if "coherent E view s'" for s' using Cons.IH [OF that] Cons.prems(2) by simp
  have mono: "outcomes_for S (mpp_run E sched steps s') \<le> budget S (tx_metadata s)"
    if "coherent E view s'" and "mpp_finalized S (tx_metadata s) \<longrightarrow> mpp_finalized S (tx_metadata s')"
    for s' using IH [OF that(1)] that(2) by (auto simp: budget_def split: if_splits)
  have reload: "outcomes_for S (case TxMetadataStore_new E sched d of
        (Ok s'', _) \<Rightarrow> mpp_run E sched steps s'' | _ \<Rightarrow> []) \<le> budget S (tx_metadata s)"
    if "\<And>s'' d'. TxMetadataStore_new E sched d = (Ok s'', d') \<Longrightarrow> coherent E view s'' \<and>
        (mpp_finalized S (tx_metadata s) \<longrightarrow> mpp_finalized S (tx_metadata s''))" for d
  proof -
    obtain r d' where new: "TxMetadataStore_new E sched d = (r, d')" by fastforce
    show ?thesis
    proof (cases r)
      case (Ok s'')
      with new that [of s'' d'] mono [of s''] show ?thesis by simp
    qed (use new in simp_all)
  qed
  show ?case
  proof (cases st)
    case (Leg i success)
    obtain r s' where run: "record_mpp_leg E i success s = (r, s')" by fastforce
    note entry = record_mpp_leg_entry [OF Cons.prems(1), of i success, unfolded run]
    note fin = record_mpp_leg_finalized [OF run, of S]
    show ?thesis
    proof (cases "is_panic r")
      case True
      from reload [OF reload_after [OF Cons.prems(1) entry]] fin run Leg True show ?thesis
        by (auto simp: is_panic_iff)
    next
      case False
      with fin obtain out where out: "r = Ok out" by blast
      from entry_op_safe(1) [OF Cons.prems(1) entry False] have co: "coherent E view s'" .
      show ?thesis
        using Leg run out fin mono [OF co] IH [OF co]
        by (cases out) (auto simp: budget_def split: if_splits)
    qed
  next
    case (Other op)
    obtain r s' where run: "run_tx_op E op s = (r, s')" by fastforce
    from Cons.prems(2) Other have sp: "spares S (Other op)" by simp
    note entry = spares_entry [OF Cons.prems(1) sp, unfolded run]
    have fin: "mpp_finalized S (tx_metadata s) \<longrightarrow> mpp_finalized S (tx_metadata s')"
      using spares_finalized [OF sp run] by simp
    show ?thesis
    proof (cases "is_panic r")
      case True
      from reload [OF reload_after [OF Cons.prems(1) entry fin]] run Other True show ?thesis
        by (auto simp: is_panic_iff)
    next
      case False
      with run Other have "mpp_run E sched (st # steps) s = mpp_run E sched steps s'"
        by (cases r) auto
      then show ?thesis using mono entry_op_safe(1) [OF Cons.prems(1) entry False] fin by simp
    qed
  next
    case Restart
    have "entry_op E s (Ok (), s)" by (rule entry_op_same) simp
    from reload [OF reload_after [OF Cons.prems(1) this]] Restart show ?thesis by simp
  qed
qed simp

end

subsection \<open>The rebalance switch\<close>

definition switch_key :: "string \<times> string \<times> string" where
  "switch_key = (STORE_PRIMARY_KEY, [], REBALANCE_ENABLED_KEY)"

text \<open>The value the switch has for the next process: what is stored, or on when nothing is.\<close>

definition switch_value :: "('s, 'e) store_env_scheme \<Rightarrow> ('s \<Rightarrow> kv_view) \<Rightarrow> 's \<Rightarrow> bool option" where
  "switch_value E view d = (case view d switch_key of
     None \<Rightarrow> Some True | Some bs \<Rightarrow> bool_decode E bs)"

definition cache_coherent :: "('s, 'e) store_env_scheme \<Rightarrow> ('s \<Rightarrow> kv_view) \<Rightarrow>
    ('s, 'x) rebalance_cache_scheme \<Rightarrow> bool" where
  "cache_coherent E view s \<longleftrightarrow>
     (\<forall>v. cached s = Some v \<longrightarrow> switch_value E view (disk s) = Some v)"

context tx_env
begin

lemma switch_write_Ok:
  assumes "RebalanceEnabledCache_write E b s = (Ok (), s')"
  shows "\<exists>d. s' = s\<lparr>disk := d\<rparr> \<and> view d = (view (disk s))(switch_key \<mapsto> bool_encode E b)
    \<and> switch_value E view d = Some b"
  using assms disk_write_Ok
  by (fastforce simp: RebalanceEnabledCache_write_def switch_key_def switch_value_def bool_roundtrip)

lemma switch_set_Ok:
  assumes "RebalanceEnabledCache_set E b s = (Ok (), s')"
  shows "cached s' = Some b \<and> switch_value E view (disk s') = Some b \<and> tx_metadata s' = tx_metadata s
    \<and> (\<forall>p q k. q \<noteq> [] \<longrightarrow> view (disk s') (p, q, k) = view (disk s) (p, q, k))"
  using assms by (auto simp: RebalanceEnabledCache_set_def switch_key_def dest!: switch_write_Ok)

lemma switch_get_Ok:
  assumes "cache_coherent E view s" and "RebalanceEnabledCache_get E s = (Ok v, s')"
  shows "switch_value E view (disk s) = Some v \<and> switch_value E view (disk s') = Some v
    \<and> cached s' = Some v \<and> tx_metadata s' = tx_metadata s
    \<and> (\<forall>p q k. q \<noteq> [] \<longrightarrow> view (disk s') (p, q, k) = view (disk s) (p, q, k))"
proof (cases "cached s")
  case None
  obtain r d where rd: "kv_read (kvs E) (disk s) STORE_PRIMARY_KEY [] REBALANCE_ENABLED_KEY = (r, d)"
    by fastforce
  have v: "view d = view (disk s)"
    using disk.read_keeps [of "disk s" STORE_PRIMARY_KEY "[]" REBALANCE_ENABLED_KEY] rd by simp
  show ?thesis
  proof (cases r)
    case (Ok bs)
    with disk.read_Ok [of "disk s" STORE_PRIMARY_KEY "[]" REBALANCE_ENABLED_KEY bs] rd
    have "view (disk s) switch_key = Some bs" by (simp add: switch_key_def)
    with None Ok rd v assms(2) show ?thesis
      by (auto simp: RebalanceEnabledCache_get_def disk_read_def switch_value_def
          split: option.splits)
  next
    case (Err e)
    with None rd assms(2) have e: "e = NotFound" and w: "v = True" and
      "\<exists>s1. RebalanceEnabledCache_write E True (s\<lparr>disk := d\<rparr>) = (Ok (), s1)
         \<and> s' = s1\<lparr>cached := Some True\<rparr>"
      by (cases e; auto simp: RebalanceEnabledCache_get_def disk_read_def)+
    then obtain s1 where s1: "RebalanceEnabledCache_write E True (s\<lparr>disk := d\<rparr>) = (Ok (), s1)"
      "s' = s1\<lparr>cached := Some True\<rparr>" by blast
    have "view (disk s) switch_key = None"
      using disk.read_NotFound [of "disk s" STORE_PRIMARY_KEY "[]" REBALANCE_ENABLED_KEY] rd Err e
      by (simp add: switch_key_def)
    with switch_write_Ok [OF s1(1)] s1(2) v w show ?thesis
      by (auto simp: switch_value_def switch_key_def)
  next
    case (Panic m)
    with None rd assms(2) show ?thesis by (simp add: RebalanceEnabledCache_get_def disk_read_def)
  qed
qed (use assms in \<open>auto simp: RebalanceEnabledCache_get_def cache_coherent_def\<close>)

end

subsection \<open>A backend that does not fail\<close>

text \<open>
  The entries of a multi-path payment whose legs are \<open>T\<close> (trusted, also the surface id) and
  \<open>L\<close> (lightning).
\<close>

definition registered :: "(PaymentId \<rightharpoonup> TxMetadata) \<Rightarrow> PaymentId \<Rightarrow> PaymentId \<Rightarrow> mpp_payment \<Rightarrow> bool" where
  "registered M T L p \<longleftrightarrow> T \<noteq> L \<and> surface_id p = T
   \<and> (\<exists>t. M T = Some \<lparr>md_time = t, md_ty = MppPayment p\<rparr>)
   \<and> (\<exists>m q. M L = Some m \<and> md_ty m = MppPayment q \<and> surface_id q = T)"

definition fresh_mpp :: "mpp_payment \<Rightarrow> bool" where
  "fresh_mpp p \<longleftrightarrow> trusted_fee_msat p = None \<and> lightning_fee_msat p = None
     \<and> \<not> failed p \<and> \<not> finalized p"

locale reliable_tx_env = tx_env +
  assumes reliable: "reliable_kv_store (kvs E) view"

sublocale reliable_tx_env \<subseteq> disk: reliable_kv_store "kvs E" view
  by (rule reliable)

context reliable_tx_env
begin

lemma persist_entry_Ok:
  obtains d where "persist_entry E i m s = (Ok (), s\<lparr>disk := d\<rparr>)"
  using disk.write_total [of "disk s" STORE_PRIMARY_KEY STORE_SECONDARY_KEY
      "PaymentId_to_string E i" "md_encode E m"]
  by (cases rule: persist_entry_cases [of i m s])
    (auto simp: persist_entry_def disk_write_def split: prod.splits)

lemma new_Ok:
  assumes "persisted E (view d) M"
  obtains d' where "TxMetadataStore_new E sched d = (Ok \<lparr>disk = d', tx_metadata = M\<rparr>, d')"
    and "view d' = view d"
proof -
  obtain ks where "fst (kv_list (kvs E) d STORE_PRIMARY_KEY STORE_SECONDARY_KEY) = Ok ks"
    using disk.list_total by blast
  then obtain d1 where l: "kv_list (kvs E) d STORE_PRIMARY_KEY STORE_SECONDARY_KEY = (Ok ks, d1)"
    by (metis prod.collapse)
  have ks: "set ks = {k. view d (STORE_PRIMARY_KEY, STORE_SECONDARY_KEY, k) \<noteq> None}"
    and v: "view d1 = view d"
    using disk.list_Ok [of d STORE_PRIMARY_KEY STORE_SECONDARY_KEY ks]
      disk.list_keeps [of d STORE_PRIMARY_KEY STORE_SECONDARY_KEY] l by auto
  have "fst (read_keys_bounded (kvs E) sched STORE_PRIMARY_KEY STORE_SECONDARY_KEY ks d1) =
      Ok (map (\<lambda>k. (k, the (view d (STORE_PRIMARY_KEY, STORE_SECONDARY_KEY, k)))) ks)"
    using disk.read_keys_bounded_total [of ks d1 STORE_PRIMARY_KEY STORE_SECONDARY_KEY sched] ks v
    by simp
  then obtain d2 where r: "read_keys_bounded (kvs E) sched STORE_PRIMARY_KEY STORE_SECONDARY_KEY ks d1 =
      (Ok (map (\<lambda>k. (k, the (view d (STORE_PRIMARY_KEY, STORE_SECONDARY_KEY, k)))) ks), d2)"
    by (metis prod.collapse)
  have "TxMetadataStore_new E sched d = (Ok \<lparr>disk = d2, tx_metadata = M\<rparr>, d2)"
    using l r load_records_all [OF assms ks] by (simp add: TxMetadataStore_new_def)
  with that new_loads [OF assms] show ?thesis by blast
qed

lemma record_registered:
  assumes "coherent E view s" and "registered (tx_metadata s) T L p" and "\<not> finalized p"
    and "a \<in> {T, L}" and "mpp_record (a = T) success p = Ok (p', out)" and "surface_id p' = T"
  obtains s' where "record_mpp_leg E a success s = (Ok (map_option (Pair T) out), s')"
    and "coherent E view s'" and "registered (tx_metadata s') T L p'"
proof -
  obtain t where T: "tx_metadata s T = Some \<lparr>md_time = t, md_ty = MppPayment p\<rparr>"
    using assms(2) by (auto simp: registered_def)
  let ?m = "\<lparr>md_time = t, md_ty = MppPayment p'\<rparr>"
  let ?s = "s\<lparr>tx_metadata := (tx_metadata s)(T \<mapsto> ?m)\<rparr>"
  obtain d where d: "persist_entry E T ?m ?s = (Ok (), ?s\<lparr>disk := d\<rparr>)"
    by (rule persist_entry_Ok)
  have rec: "record_mpp_leg E a success s = (Ok (map_option (Pair T) out), ?s\<lparr>disk := d\<rparr>)"
    using assms(2-5) T d by (auto simp: record_mpp_leg_def registered_def Let_def)
  moreover have "coherent E view (?s\<lparr>disk := d\<rparr>)"
    using entry_op_safe(1) [OF assms(1) record_mpp_leg_entry [OF assms(1), of a success,
        unfolded rec]] by simp
  moreover have "registered (tx_metadata (?s\<lparr>disk := d\<rparr>)) T L p'"
    using assms(2,6) by (auto simp: registered_def)
  ultimately show ?thesis by (rule that)
qed

lemma restarts:
  assumes "coherent E view s"
  shows "\<exists>s'. coherent E view s' \<and> tx_metadata s' = tx_metadata s
    \<and> (\<forall>steps. mpp_run E sched (replicate n Restart @ steps) s = mpp_run E sched steps s')"
  using assms
proof (induction n arbitrary: s)
  case (Suc n)
  obtain d where new: "TxMetadataStore_new E sched (disk s) = (Ok \<lparr>disk = d, tx_metadata = tx_metadata s\<rparr>, d)"
    and "view d = view (disk s)"
    using new_Ok Suc.prems unfolding coherent_def by blast
  with Suc.prems have "coherent E view \<lparr>disk = d, tx_metadata = tx_metadata s\<rparr>"
    by (simp add: coherent_def)
  from Suc.IH [OF this] new show ?case by simp
qed auto

lemma mpp_both_legs:
  assumes "coherent E view s" and "registered (tx_metadata s) T L p" and "fresh_mpp p"
    and "(a, b) = (T, L) \<or> (a, b) = (L, T)"
  shows "mpp_run E sched (Leg a (Some (fa, pa)) # replicate n Restart @ [Leg b (Some (fb, pb))]) s
    = [(T, Mpp_Succeeded (lightning_leg p) pb (u64_saturating_add fa fb))]"
proof -
  let ?p1 = "(if a = T then p\<lparr>trusted_fee_msat := Some fa\<rparr> else p\<lparr>lightning_fee_msat := Some fa\<rparr>)
    \<lparr>preimage := Some pa\<rparr>"
  let ?out = "Mpp_Succeeded (lightning_leg p) pb (u64_saturating_add fa fb)"
  from assms(2,4) have ab: "a \<in> {T, L}" "b \<in> {T, L}" "a = T \<longleftrightarrow> b \<noteq> T"
    and surf: "surface_id ?p1 = T" by (auto simp: registered_def)
  have "mpp_record (a = T) (Some (fa, pa)) p = Ok (?p1, None)"
    using assms(3) by (simp add: mpp_record_def fresh_mpp_def)
  from record_registered [OF assms(1,2) _ ab(1) this surf] assms(3) obtain s1
    where s1: "record_mpp_leg E a (Some (fa, pa)) s = (Ok None, s1)"
      "coherent E view s1" "registered (tx_metadata s1) T L ?p1"
    by (auto simp: fresh_mpp_def)
  from restarts [OF s1(2)] obtain s2 where s2: "coherent E view s2" "tx_metadata s2 = tx_metadata s1"
    "\<And>steps. mpp_run E sched (replicate n Restart @ steps) s1 = mpp_run E sched steps s2" by blast
  obtain p2 where p2: "mpp_record (b = T) (Some (fb, pb)) ?p1 = Ok (p2, Some ?out)" "surface_id p2 = T"
    using assms(3) ab(3) surf u64_saturating_add_commute
    by (auto simp: mpp_record_def fresh_mpp_def)
  have "\<not> finalized ?p1" using assms(3) by (simp add: fresh_mpp_def)
  from record_registered [OF s2(1) s1(3) [folded s2(2)] this ab(2) p2] obtain s3
    where "record_mpp_leg E b (Some (fb, pb)) s2 = (Ok (Some (T, ?out)), s3)" by auto
  with s1(1) s2(3) show ?thesis by simp
qed

lemma mpp_failed_leg:
  assumes "coherent E view s" and "registered (tx_metadata s) T L p" and "\<not> finalized p"
    and "a \<in> {T, L}"
  shows "hd (mpp_run E sched (Leg a None # steps) s) = (T, Mpp_Failed (lightning_leg p))
    \<and> mpp_run E sched (Leg a None # steps) s \<noteq> []"
proof -
  let ?p = "p\<lparr>failed := True, finalized := True\<rparr>"
  have "mpp_record (a = T) None p = Ok (?p, Some (Mpp_Failed (lightning_leg p)))"
    by (simp add: mpp_record_def)
  moreover have "surface_id ?p = T" using assms(2) by (simp add: registered_def)
  ultimately obtain s' where
    "record_mpp_leg E a None s = (Ok (Some (T, Mpp_Failed (lightning_leg p))), s')"
    using record_registered [OF assms, of None ?p "Some (Mpp_Failed (lightning_leg p))"]
    by (metis option.map(2))
  then show ?thesis by simp
qed

end

end
