(* ===== verification/Event_Queue.thy ===== *)
theory Event_Queue
  imports Ldk_Types Tx_Store_Facts
begin

text \<open>
  The event queue (\<open>event.rs\<close>): the events handed to the user, the queue with its persistence,
  the buffering of terminal events while a multi-path payment is being registered, and the
  future that waits for the next event. The queue extends the record of the metadata store it
  shares. Tasks that can be woken are numbered; \<open>woken\<close> is the trace of wake-ups.
\<close>

definition EVENT_QUEUE_PERSISTENCE_PRIMARY_NAMESPACE :: string where
  "EVENT_QUEUE_PERSISTENCE_PRIMARY_NAMESPACE = ''''"
definition EVENT_QUEUE_PERSISTENCE_SECONDARY_NAMESPACE :: string where
  "EVENT_QUEUE_PERSISTENCE_SECONDARY_NAMESPACE = ''''"
definition EVENT_QUEUE_PERSISTENCE_KEY :: string where
  "EVENT_QUEUE_PERSISTENCE_KEY = ''orange_events''"

datatype Event =
    PaymentSuccessful PaymentId PaymentHash PaymentPreimage "u64 option"
  | PaymentFailed PaymentId "PaymentHash option" "PaymentFailureReason option"
  | PaymentReceived PaymentId PaymentHash u64 "CustomTlvRecord list" "u64 option"
  | OnchainPaymentReceived PaymentId Txid u64 ConfirmationStatus
  | ChannelOpened ChannelId UserChannelId PublicKey OutPoint
  | ChannelClosed ChannelId UserChannelId PublicKey "ClosureReason option"
  | RebalanceInitiated PaymentId bytes32 u64
  | RebalanceSuccessful PaymentId bytes32 bytes32 u64 u64
  | SplicePending ChannelId UserChannelId PublicKey OutPoint

record 's event_env = "'s store_env" +
  u16_encode :: "u16 \<Rightarrow> bytes"
  event_encode :: "Event \<Rightarrow> bytes"

record 's event_queue = "'s rebalance_cache" +
  queue :: "Event list"
  pending_mpp_events :: "PaymentHash \<rightharpoonup> Event list"
  waker :: "nat option"
  woken :: "nat list"

definition EventQueue_new :: "'s \<Rightarrow> (PaymentId \<rightharpoonup> TxMetadata) \<Rightarrow> 's event_queue" where
  "EventQueue_new store md =
     \<lparr>disk = store, tx_metadata = md, cached = None, queue = [], pending_mpp_events = Map.empty,
      waker = None, woken = []\<rparr>"

definition get_rebalance_enabled :: "('s, 'e) event_env_scheme \<Rightarrow> ('s, 'x) event_queue_scheme \<Rightarrow>
    (unit, bool) result \<times> ('s, 'x) event_queue_scheme" where
  "get_rebalance_enabled E s = RebalanceEnabledCache_get E s"

definition set_rebalance_enabled :: "('s, 'e) event_env_scheme \<Rightarrow> bool \<Rightarrow>
    ('s, 'x) event_queue_scheme \<Rightarrow> (unit, unit) result \<times> ('s, 'x) event_queue_scheme" where
  "set_rebalance_enabled E enabled s = RebalanceEnabledCache_set E enabled s"

text \<open>\<open>entry(payment_hash).or_default()\<close> keeps a buffer that is already open.\<close>

definition begin_mpp_setup :: "PaymentHash \<Rightarrow> ('s, 'x) event_queue_scheme \<Rightarrow>
    ('s, 'x) event_queue_scheme" where
  "begin_mpp_setup payment_hash s =
     (case pending_mpp_events s payment_hash of
        None \<Rightarrow> s\<lparr>pending_mpp_events := (pending_mpp_events s)(payment_hash \<mapsto> [])\<rparr>
      | Some _ \<Rightarrow> s)"

definition EventQueueSerWrapper_encode :: "('s, 'e) event_env_scheme \<Rightarrow> Event list \<Rightarrow> bytes" where
  "EventQueueSerWrapper_encode E q =
     u16_encode E (as_u16 (length q)) @ concat (map (event_encode E) q)"

definition persist_queue :: "('s, 'e) event_env_scheme \<Rightarrow> ('s, 'x) event_queue_scheme \<Rightarrow>
    (io_error, unit) result \<times> ('s, 'x) event_queue_scheme" where
  "persist_queue E s =
     disk_write E EVENT_QUEUE_PERSISTENCE_PRIMARY_NAMESPACE
       EVENT_QUEUE_PERSISTENCE_SECONDARY_NAMESPACE EVENT_QUEUE_PERSISTENCE_KEY
       (EventQueueSerWrapper_encode E (queue s)) s"

definition wake_waker :: "('s, 'x) event_queue_scheme \<Rightarrow> ('s, 'x) event_queue_scheme" where
  "wake_waker s = (case waker s of
     Some w \<Rightarrow> s\<lparr>waker := None, woken := woken s @ [w]\<rparr> | None \<Rightarrow> s)"

definition push_event :: "('s, 'e) event_env_scheme \<Rightarrow> Event \<Rightarrow> ('s, 'x) event_queue_scheme \<Rightarrow>
    (io_error, unit) result \<times> ('s, 'x) event_queue_scheme" where
  "push_event E event s =
     and_then (persist_queue E (s\<lparr>queue := queue s @ [event]\<rparr>)) (\<lambda>_ s. (Ok (), wake_waker s))"

definition next_event :: "('s, 'x) event_queue_scheme \<Rightarrow> Event option" where
  "next_event s = (case queue s of [] \<Rightarrow> None | e # _ \<Rightarrow> Some e)"

definition event_handled :: "('s, 'e) event_env_scheme \<Rightarrow> ('s, 'x) event_queue_scheme \<Rightarrow>
    (io_error, unit) result \<times> ('s, 'x) event_queue_scheme" where
  "event_handled E s =
     and_then (persist_queue E (s\<lparr>queue := tl (queue s)\<rparr>)) (\<lambda>_ s. (Ok (), wake_waker s))"

definition is_mpp_leg :: "PaymentId \<Rightarrow> ('s, 'x) tx_store_scheme \<Rightarrow> bool" where
  "is_mpp_leg i s = (case map_option md_ty (tx_metadata s i) of
     Some (MppPayment _) \<Rightarrow> True | _ \<Rightarrow> False)"

definition push_combined_mpp :: "('s, 'e) event_env_scheme \<Rightarrow> (PaymentId \<times> MppOutcome) option \<Rightarrow>
    ('s, 'x) event_queue_scheme \<Rightarrow> (io_error, unit) result \<times> ('s, 'x) event_queue_scheme" where
  "push_combined_mpp E combined s =
     (case combined of
        Some (surface, Mpp_Succeeded payment_hash pre fee_msat) \<Rightarrow>
          push_event E (PaymentSuccessful surface payment_hash pre (Some fee_msat)) s
      | Some (surface, Mpp_Failed payment_hash) \<Rightarrow>
          push_event E (PaymentFailed surface (Some payment_hash) None) s
      | None \<Rightarrow> (Ok (), s))"

fun terminal_payment_hash :: "Event \<Rightarrow> PaymentHash option" where
  "terminal_payment_hash (PaymentSuccessful _ payment_hash _ _) = Some payment_hash"
| "terminal_payment_hash (PaymentFailed _ payment_hash _) = payment_hash"
| "terminal_payment_hash _ = None"

text \<open>
  \<open>add_event\<close> after its match on the legs of multi-path payments, which is where it takes the lock of
  the buffered events. \<open>add_event\<close> below is a call that nothing interrupts; what may run between
  its two halves is the subject of \<open>add_event_leg_race\<close> in \<open>Event_Props\<close>.
\<close>

definition buffer_or_push :: "('s, 'e) event_env_scheme \<Rightarrow> Event \<Rightarrow> ('s, 'x) event_queue_scheme \<Rightarrow>
    (io_error, unit) result \<times> ('s, 'x) event_queue_scheme" where
  "buffer_or_push E event s =
     (case terminal_payment_hash event of
        Some payment_hash \<Rightarrow>
          (case pending_mpp_events s payment_hash of
             Some events \<Rightarrow> (Ok (), s\<lparr>pending_mpp_events :=
                 (pending_mpp_events s)(payment_hash \<mapsto> events @ [event])\<rparr>)
           | None \<Rightarrow> push_event E event s)
      | None \<Rightarrow> push_event E event s)"

definition add_event :: "('s, 'e) event_env_scheme \<Rightarrow> Event \<Rightarrow> ('s, 'x) event_queue_scheme \<Rightarrow>
    (io_error, unit) result \<times> ('s, 'x) event_queue_scheme" where
  "add_event E event s =
     (case event of
        PaymentSuccessful payment_id _ payment_preimage fee_paid_msat \<Rightarrow>
          (if is_mpp_leg payment_id s then
             and_then (infallible (record_mpp_leg E payment_id
                 (Some (case fee_paid_msat of Some f \<Rightarrow> f | None \<Rightarrow> 0, payment_preimage)) s))
               (\<lambda>combined s. push_combined_mpp E combined s)
           else buffer_or_push E event s)
      | PaymentFailed payment_id _ _ \<Rightarrow>
          (if is_mpp_leg payment_id s then
             and_then (infallible (record_mpp_leg E payment_id None s))
               (\<lambda>combined s. push_combined_mpp E combined s)
           else buffer_or_push E event s)
      | _ \<Rightarrow> buffer_or_push E event s)"

fun add_events :: "('s, 'e) event_env_scheme \<Rightarrow> Event list \<Rightarrow> ('s, 'x) event_queue_scheme \<Rightarrow>
    (io_error, unit) result \<times> ('s, 'x) event_queue_scheme" where
  "add_events E [] s = (Ok (), s)"
| "add_events E (event # events) s =
     and_then (add_event E event s) (\<lambda>_ s. add_events E events s)"

definition finish_mpp_setup :: "('s, 'e) event_env_scheme \<Rightarrow> PaymentHash \<Rightarrow>
    ('s, 'x) event_queue_scheme \<Rightarrow> (io_error, unit) result \<times> ('s, 'x) event_queue_scheme" where
  "finish_mpp_setup E payment_hash s =
     (let pending_events = pending_mpp_events s payment_hash;
          s = s\<lparr>pending_mpp_events := (pending_mpp_events s)(payment_hash := None)\<rparr>
      in case pending_events of
           Some events \<Rightarrow> add_events E events s
         | None \<Rightarrow> (Ok (), s))"

text \<open>
  One poll of \<open>EventFuture\<close> by task \<open>t\<close>, when nothing runs between its two halves; each
  \<open>try_lock\<close> succeeds or fails according to the flags.
\<close>

definition EventFuture_poll :: "bool \<Rightarrow> bool \<Rightarrow> nat \<Rightarrow> ('s, 'x) event_queue_scheme \<Rightarrow>
    Event option \<times> ('s, 'x) event_queue_scheme" where
  "EventFuture_poll queue_free waker_free t s =
     (case (if queue_free then next_event s else None) of
        Some event \<Rightarrow> (Some event, s)
      | None \<Rightarrow> (None, if waker_free then s\<lparr>waker := Some t\<rparr> else s))"

subsection \<open>Waiting for the next event\<close>

text \<open>
  A task \<open>t\<close> that awaits \<open>EventFuture\<close> beside tasks that push events, on a runtime with several
  threads: the poll first looks at the queue and then registers its waker, and a push may run
  in between. A \<open>try_lock\<close> that finds the lock taken sees no event, or registers nothing.
\<close>

datatype consumer = Polling | Registering | Parked | Ready Event

inductive wait_step :: "('s, 'e) event_env_scheme \<Rightarrow> nat \<Rightarrow>
    ('s, 'x) event_queue_scheme \<times> consumer \<Rightarrow> ('s, 'x) event_queue_scheme \<times> consumer \<Rightarrow> bool"
  for E t where
  poll_ready: "next_event s = Some e \<Longrightarrow> wait_step E t (s, Polling) (s, Ready e)"
| poll_empty: "next_event s = None \<Longrightarrow> wait_step E t (s, Polling) (s, Registering)"
| poll_queue_locked: "wait_step E t (s, Polling) (s, Registering)"
| poll_register: "wait_step E t (s, Registering) (s\<lparr>waker := Some t\<rparr>, Parked)"
| poll_waker_locked: "wait_step E t (s, Registering) (s, Parked)"
| produced: "push_event E e s = (r, s') \<Longrightarrow> wait_step E t (s, c) (s', c)"
| resumed: "t \<in> set (woken s) \<Longrightarrow>
    wait_step E t (s, Parked) (s\<lparr>woken := removeAll t (woken s)\<rparr>, Polling)"

text \<open>A poll that nothing interrupts is two such steps.\<close>

lemma EventFuture_poll_steps:
  "EventFuture_poll queue_free waker_free t s = (out, s') \<Longrightarrow>
   (wait_step E t)\<^sup>*\<^sup>* (s, Polling) (s', case out of Some e \<Rightarrow> Ready e | None \<Rightarrow> Parked)"
  by (auto simp: EventFuture_poll_def split: option.splits if_splits
      intro: converse_rtranclp_into_rtranclp wait_step.intros)

end
