(* ===== verification/Rebalance_Trigger.thy ===== *)
theory Rebalance_Trigger
  imports Trusted_Interface Event_Queue "HOL-Library.Product_Lexorder" "HOL-Library.List_Lexorder"
begin

text \<open>
  When the wallet rebalances and what it records (\<open>rebalancer.rs\<close>): \<open>OrangeTrigger\<close> decides from
  the balances and the payments seen so far, \<open>OrangeRebalanceEventHandler\<close> turns the rebalancer's
  events into metadata and user events. What the two wallets answer during a call is a record
  of inputs; the clock is an argument.
\<close>

record Tunables =
  trusted_balance_limit :: Amount
  rebalance_min :: Amount
  onchain_receive_threshold :: Amount
  enable_amountless_receive_on_chain :: bool

text \<open>\<open>OrangeTrigger\<close> adds the time of the last sync; tasks spawned by the handler wait in a list.\<close>

record 's trigger_state = "'s event_queue" +
  onchain_sync_time :: u64
  spawned :: "Event list"

record trigger_inputs =
  in_trusted_payments :: "(TrustedError, TrustedPayment list) result"
  in_trusted_balance :: "(TrustedError, Amount) result"
  in_receivable_balance :: Amount
  in_onchain_sync_timestamp :: "u64 option"
  in_ldk_payments :: "PaymentDetails list"
  in_ldk_payments_later :: "PaymentDetails list"
  in_spendable_onchain_balance_sats :: u64

definition OrangeTrigger_new :: "u64 option \<Rightarrow> 's event_queue \<Rightarrow> 's trigger_state" where
  "OrangeTrigger_new sync_timestamp q = event_queue.extend q
     (trigger_state.fields (case sync_timestamp of Some t \<Rightarrow> t | None \<Rightarrow> 0) [])"

subsection \<open>Trusted to lightning\<close>

text \<open>The locals of the loop over the trusted payments.\<close>

type_synonym scan = "(Amount \<times> bytes32) list \<times> (duration \<times> bytes32) option"

definition scan_payment :: "('s, 'e) event_env_scheme \<Rightarrow> TrustedPayment \<Rightarrow> scan \<Rightarrow>
    ('s, 'x) event_queue_scheme \<Rightarrow> (unit, scan) result \<times> ('s, 'x) event_queue_scheme" where
  "scan_payment E payment acc s =
     (case acc of (new_txn, latest_tx) \<Rightarrow>
      if p_outbound payment then (Ok (new_txn, latest_tx), s)
      else if p_status payment \<noteq> Completed then (Ok (new_txn, latest_tx), s)
      else (case tx_metadata s (Trusted (p_id payment)) of
          Some metadata \<Rightarrow>
            (Ok (new_txn,
               (case md_ty metadata of
                  Payment _ \<Rightarrow>
                    (case latest_tx of
                       None \<Rightarrow> Some (md_time metadata, p_id payment)
                     | Some (t, _) \<Rightarrow>
                         if t < md_time metadata then Some (md_time metadata, p_id payment)
                         else latest_tx)
                | _ \<Rightarrow> latest_tx)), s)
        | None \<Rightarrow>
            and_then (insert_md E (Trusted (p_id payment))
                \<lparr>md_time = p_time_since_epoch payment, md_ty = Payment IncomingLightning\<rparr> s)
              (\<lambda>_ s. (Ok (new_txn @ [(p_amount payment, p_id payment)], latest_tx), s))))"

fun scan_payments :: "('s, 'e) event_env_scheme \<Rightarrow> TrustedPayment list \<Rightarrow> scan \<Rightarrow>
    ('s, 'x) event_queue_scheme \<Rightarrow> (unit, scan) result \<times> ('s, 'x) event_queue_scheme" where
  "scan_payments E [] acc s = (Ok acc, s)"
| "scan_payments E (payment # payments) acc s =
     and_then (scan_payment E payment acc s) (\<lambda>acc s. scan_payments E payments acc s)"

definition transfer_amount :: "amount_ops \<Rightarrow> Tunables \<Rightarrow> Amount \<Rightarrow> Amount \<Rightarrow> Amount" where
  "transfer_amount A tunables receivable trusted_bal =
     (let lightning_receivable = saturating_sub A receivable (rebalance_min tunables);
          transfer_amt = min lightning_receivable trusted_bal
      in if trusted_balance_limit tunables < saturating_sub A trusted_bal transfer_amt
         then trusted_bal else transfer_amt)"

definition victim :: "scan \<Rightarrow> bytes32 option" where
  "victim acc = (case acc of (new_txn, latest_tx) \<Rightarrow>
     (case sort new_txn of (_, i) # _ \<Rightarrow> Some i | [] \<Rightarrow> map_option snd latest_tx))"

definition needs_trusted_rebalance :: "('s, 'e) event_env_scheme \<Rightarrow> amount_ops \<Rightarrow> Tunables \<Rightarrow>
    trigger_inputs \<Rightarrow> ('s, 'x) event_queue_scheme \<Rightarrow>
    (unit, TriggerParams option) result \<times> ('s, 'x) event_queue_scheme" where
  "needs_trusted_rebalance E A tunables inputs s =
     and_then (get_rebalance_enabled E s) (\<lambda>rebalance_enabled s.
       if \<not> rebalance_enabled then (Ok None, s)
       else (case in_trusted_payments inputs of
           Ok trusted_payments \<Rightarrow>
             and_then (scan_payments E trusted_payments ([], None) s) (\<lambda>acc s.
               case in_trusted_balance inputs of
                 Ok trusted_bal \<Rightarrow>
                   (let transfer_amt =
                          transfer_amount A tunables (in_receivable_balance inputs) trusted_bal
                    in if rebalance_min tunables < transfer_amt
                       then (Ok (map_option
                              (\<lambda>i. \<lparr>tp_id = i, tp_amount = transfer_amt\<rparr>) (victim acc)), s)
                       else (Ok None, s))
               | Err _ \<Rightarrow> (Ok None, s)
               | Panic m \<Rightarrow> (Panic m, s))
         | Err _ \<Rightarrow> (Ok None, s)
         | Panic m \<Rightarrow> (Panic m, s)))"

subsection \<open>On-chain to lightning\<close>

definition is_new_recv :: "u64 \<Rightarrow> PaymentDetails \<Rightarrow> bool" where
  "is_new_recv sync_time p \<longleftrightarrow>
     pd_direction p = Inbound \<and> pd_status p = PS_Succeeded
     \<and> sync_time < pd_latest_update_timestamp p
     \<and> (case pd_kind p of Onchain _ (Confirmed _ _ _) \<Rightarrow> True | _ \<Rightarrow> False)"

text \<open>A failure to add an event is logged and the loop goes on.\<close>

fun report_recvs :: "('s, 'e) event_env_scheme \<Rightarrow> PaymentDetails list \<Rightarrow>
    ('s, 'x) event_queue_scheme \<Rightarrow> (unit, unit) result \<times> ('s, 'x) event_queue_scheme" where
  "report_recvs E [] s = (Ok (), s)"
| "report_recvs E (payment # payments) s =
     (case pd_kind payment of
        Onchain txid status \<Rightarrow>
          (case pd_amount_msat payment of
             None \<Rightarrow> (Panic ''must have amount'', s)
           | Some amount_msat \<Rightarrow>
               (case add_event E (OnchainPaymentReceived (SelfCustodial (pd_id payment)) txid
                       (amount_msat div 1000) status) s of
                  (Panic m, s) \<Rightarrow> (Panic m, s)
                | (_, s) \<Rightarrow> report_recvs E payments s))
      | _ \<Rightarrow> report_recvs E payments s)"

definition can_mark_as_trigger :: "(PaymentId \<rightharpoonup> TxMetadata) \<Rightarrow> PaymentId \<Rightarrow> bool" where
  "can_mark_as_trigger md i = (case md i of
     None \<Rightarrow> True
   | Some metadata \<Rightarrow> (case md_ty metadata of Payment _ \<Rightarrow> True | _ \<Rightarrow> False))"

definition trigger_candidate :: "u64 \<Rightarrow> (PaymentId \<rightharpoonup> TxMetadata) \<Rightarrow> PaymentDetails \<Rightarrow>
    (PaymentDetails \<times> Txid) option" where
  "trigger_candidate sync_time md t =
     (if pd_status t \<noteq> PS_Succeeded \<or> pd_direction t \<noteq> Inbound
         \<or> pd_latest_update_timestamp t \<le> sync_time then None
      else case pd_kind t of
          Onchain txid _ \<Rightarrow> if can_mark_as_trigger md (SelfCustodial txid) then Some (t, txid) else None
        | _ \<Rightarrow> None)"

fun option_u64_le :: "u64 option \<Rightarrow> u64 option \<Rightarrow> bool" where
  "option_u64_le None _ = True"
| "option_u64_le (Some _) None = False"
| "option_u64_le (Some a) (Some b) = (a \<le> b)"

text \<open>\<open>Iterator::max_by_key\<close> returns the last of the greatest elements.\<close>

fun max_by_amount :: "(PaymentDetails \<times> Txid) list \<Rightarrow> (PaymentDetails \<times> Txid) option" where
  "max_by_amount [] = None"
| "max_by_amount (x # xs) = (case max_by_amount xs of
     None \<Rightarrow> Some x
   | Some y \<Rightarrow> if option_u64_le (pd_amount_msat (fst x)) (pd_amount_msat (fst y)) then Some y else Some x)"

definition needs_onchain_rebalance :: "('s, 'e) event_env_scheme \<Rightarrow> amount_ops \<Rightarrow> Tunables \<Rightarrow>
    trigger_inputs \<Rightarrow> ('s, 'x) trigger_state_scheme \<Rightarrow>
    (unit, TriggerParams option) result \<times> ('s, 'x) trigger_state_scheme" where
  "needs_onchain_rebalance E A tunables inputs s =
     and_then (get_rebalance_enabled E s) (\<lambda>rebalance_enabled s.
       if \<not> rebalance_enabled then (Ok None, s)
       else (let sync_time = onchain_sync_time s
         in case in_onchain_sync_timestamp inputs of
              None \<Rightarrow> (Ok None, s)
            | Some new_sync_time \<Rightarrow>
                if sync_time = new_sync_time then (Ok None, s)
                else
                  (let new_recvs = filter (is_new_recv sync_time) (in_ldk_payments inputs);
                       s = s\<lparr>onchain_sync_time := new_sync_time\<rparr>
                   in and_then (report_recvs E new_recvs s) (\<lambda>_ s.
                     let spendable = in_spendable_onchain_balance_sats inputs
                     in if sats_rounding_up A (rebalance_min tunables) < spendable then
                          (case max_by_amount (List.map_filter
                               (trigger_candidate sync_time (tx_metadata s)) (in_ldk_payments_later inputs)) of
                             Some (payment, txid) \<Rightarrow>
                               and_then
                                 (if tx_metadata s (SelfCustodial txid) = None
                                  then insert_md E (SelfCustodial txid)
                                    \<lparr>md_time = from_secs (pd_latest_update_timestamp payment),
                                     md_ty = Payment (IncomingOnChain (Some txid))\<rparr> s
                                  else (Ok (), s))
                                 (\<lambda>_ s. case from_sats A spendable of
                                    Ok amount \<Rightarrow> (Ok (Some \<lparr>tp_id = txid, tp_amount = amount\<rparr>), s)
                                  | _ \<Rightarrow> (Panic ''valid amount'', s))
                           | None \<Rightarrow> (Ok None, s))
                        else (Ok None, s)))))"

subsection \<open>Recording what the rebalancer did\<close>

definition log_error :: "(io_error, unit) result \<times> 's \<Rightarrow> (unit, unit) result \<times> 's" where
  "log_error r = (case r of
     (Panic m, s) \<Rightarrow> (Panic m, s) | (_, s) \<Rightarrow> (Ok (), s))"

definition handle_rebalancer_event :: "('s, 'e) event_env_scheme \<Rightarrow> duration \<Rightarrow> bool \<Rightarrow>
    RebalancerEvent \<Rightarrow> ('s, 'x) trigger_state_scheme \<Rightarrow>
    (unit, unit) result \<times> ('s, 'x) trigger_state_scheme" where
  "handle_rebalancer_event E now splice_first event s =
     (case event of
        Rb_RebalanceInitiated trigger_id rebalance_id amount_msat \<Rightarrow>
          and_then (insert_md E (Trusted rebalance_id) \<lparr>md_time = now, md_ty = PendingRebalance\<rparr> s)
            (\<lambda>_ s. log_error (add_event E
               (RebalanceInitiated (Trusted trigger_id) rebalance_id amount_msat) s))
      | Rb_RebalanceSuccessful trigger_id rebalance_id lightning_id amount_msat fee_msat \<Rightarrow>
          (let triggering_transaction_id = Trusted trigger_id
           in and_then (expect ''Failed to write metadata for rebalance transaction''
                (set_tx_caused_rebalance E triggering_transaction_id s))
              (\<lambda>_ s. let metadata = \<lparr>md_time = now,
                   md_ty = TrustedToLightning rebalance_id lightning_id triggering_transaction_id\<rparr>
                 in and_then (upsert E (Trusted rebalance_id) metadata s) (\<lambda>_ s.
                    and_then (insert_md E (SelfCustodial lightning_id) metadata s) (\<lambda>_ s.
                      (Ok (), s\<lparr>spawned := spawned s @ [RebalanceSuccessful triggering_transaction_id
                          rebalance_id lightning_id amount_msat fee_msat]\<rparr>)))))
      | Rb_OnChainRebalanceInitiated trigger_id user_channel_id channel_outpoint \<Rightarrow>
          (let chan_txid = op_txid channel_outpoint;
               metadata = \<lparr>md_time = now, md_ty = OnchainToLightning chan_txid trigger_id\<rparr>
           in expect ''Failed to write metadata for onchain rebalance transaction''
                (set_tx_caused_rebalance_with_splice E splice_first (SelfCustodial trigger_id)
                  (SelfCustodial chan_txid) metadata s)))"

text \<open>The task spawned for a successful rebalance.\<close>

definition run_spawned :: "('s, 'e) event_env_scheme \<Rightarrow> ('s, 'x) trigger_state_scheme \<Rightarrow>
    (unit, unit) result \<times> ('s, 'x) trigger_state_scheme" where
  "run_spawned E s = (case spawned s of
     [] \<Rightarrow> (Ok (), s)
   | event # events \<Rightarrow> log_error (add_event E event (s\<lparr>spawned := events\<rparr>)))"

end
