(* ===== verification/Event_Queue_Facts.thy ===== *)
theory Event_Queue_Facts
  imports Event_Queue
begin

text \<open>
  What the event queue keeps: it is a first-in first-out queue (an interpretation of the
  interface \<open>event_fifo\<close>), its record on disk is the encoding of the queue after every
  operation that returns, it leaves the metadata records alone, and an event of a registered
  leg becomes exactly one combined event.
\<close>

subsection \<open>The queue interface\<close>

text \<open>The user's loop: look at the front event, handle it, acknowledge it.\<close>

fun drain :: "('q \<Rightarrow> 'e option) \<Rightarrow> ('q \<Rightarrow> 'q) \<Rightarrow> nat \<Rightarrow> 'q \<Rightarrow> 'e list \<times> 'q" where
  "drain front pop 0 q = ([], q)"
| "drain front pop (Suc n) q = (case front q of
     None \<Rightarrow> ([], q)
   | Some e \<Rightarrow> (case drain front pop n (pop q) of (es, q') \<Rightarrow> (e # es, q')))"

text \<open>What such a loop relies on, and what it sees; a queue is a source to which events can be added.\<close>

locale event_source =
  fixes front :: "'q \<Rightarrow> 'e option" and pop :: "'q \<Rightarrow> 'q" and contents :: "'q \<Rightarrow> 'e list"
  assumes contents_pop: "contents (pop q) = tl (contents q)"
    and front_contents: "front q = (if contents q = [] then None else Some (hd (contents q)))"
begin

lemma drain_takes:
  "fst (drain front pop n q) = take n (contents q)
   \<and> contents (snd (drain front pop n q)) = drop n (contents q)"
proof (induction n arbitrary: q)
  case (Suc n)
  show ?case
  proof (cases "contents q")
    case (Cons e es)
    with Suc.IH [of "pop q"] show ?thesis
      by (auto simp: front_contents [of q] contents_pop split: prod.splits)
  qed (simp add: front_contents [of q])
qed simp

end

locale event_fifo = event_source front pop contents
  for front :: "'q \<Rightarrow> 'e option" and pop :: "'q \<Rightarrow> 'q" and contents :: "'q \<Rightarrow> 'e list" +
  fixes push :: "'e \<Rightarrow> 'q \<Rightarrow> 'q"
  assumes contents_push: "contents (push e q) = contents q @ [e]"
begin

lemma fold_push: "contents (fold push es q) = contents q @ es"
  by (induction es arbitrary: q) (simp_all add: contents_push)

lemma drain_after_pushes:
  "contents q = [] \<Longrightarrow> fst (drain front pop (length es) (fold push es q)) = es"
  using drain_takes [of "length es" "fold push es q"] by (simp add: fold_push)

lemma front_stable: "front q = Some e \<Longrightarrow> front (push e' q) = Some e"
  by (auto simp: front_contents contents_push split: if_splits)

end

subsection \<open>Frame lemmas\<close>

lemma wake_waker_simps [simp]:
  "queue (wake_waker s) = queue s" "disk (wake_waker s) = disk s"
  "tx_metadata (wake_waker s) = tx_metadata s" "cached (wake_waker s) = cached s"
  "pending_mpp_events (wake_waker s) = pending_mpp_events s" "waker (wake_waker s) = None"
  by (simp_all add: wake_waker_def split: option.split)

lemma disk_write_frame: "\<exists>d'. disk_write E p q k d s = (r, s\<lparr>disk := d'\<rparr>)"
  if "fst (disk_write E p q k d s) = r"
  using that by (auto simp: disk_write_def split: prod.splits)

lemma persist_queue_frame: "\<exists>r d. persist_queue E s = (r, s\<lparr>disk := d\<rparr>)"
  unfolding persist_queue_def using disk_write_frame by blast

lemma push_event_queue [simp]: "queue (snd (push_event E e s)) = queue s @ [e]"
proof -
  obtain r d where "persist_queue E (s\<lparr>queue := queue s @ [e]\<rparr>) = (r, s\<lparr>queue := queue s @ [e], disk := d\<rparr>)"
    using persist_queue_frame [of E "s\<lparr>queue := queue s @ [e]\<rparr>"] by auto
  then show ?thesis by (cases r) (simp_all add: push_event_def)
qed

lemma event_handled_queue [simp]: "queue (snd (event_handled E s)) = tl (queue s)"
proof -
  obtain r d where "persist_queue E (s\<lparr>queue := tl (queue s)\<rparr>) = (r, s\<lparr>queue := tl (queue s), disk := d\<rparr>)"
    using persist_queue_frame [of E "s\<lparr>queue := tl (queue s)\<rparr>"] by auto
  then show ?thesis by (cases r) (simp_all add: event_handled_def)
qed

interpretation event_queue_fifo: event_fifo
  next_event "\<lambda>s. snd (event_handled E s)" queue "\<lambda>e s. snd (push_event E e s)"
  for E :: "('s, 'e) event_env_scheme"
  by unfold_locales (auto simp: next_event_def split: list.split)

subsection \<open>The queue on disk\<close>

definition queue_key :: "string \<times> string \<times> string" where
  "queue_key = (EVENT_QUEUE_PERSISTENCE_PRIMARY_NAMESPACE,
     EVENT_QUEUE_PERSISTENCE_SECONDARY_NAMESPACE, EVENT_QUEUE_PERSISTENCE_KEY)"

lemma queue_key_other [simp]: "queue_key \<noteq> (STORE_PRIMARY_KEY, q, k)"
  "(STORE_PRIMARY_KEY, q, k) \<noteq> queue_key" "queue_key \<noteq> switch_key" "switch_key \<noteq> queue_key"
  by (simp_all add: queue_key_def STORE_PRIMARY_KEY_def switch_key_def
      EVENT_QUEUE_PERSISTENCE_PRIMARY_NAMESPACE_def)

lemma persisted_other_key:
  "persisted E (V(queue_key := x)) M = persisted E V M"
  by (simp add: persisted_def)

locale event_ctx = tx_env E view
  for E :: "('s, 'e) event_env_scheme" and view :: "'s \<Rightarrow> kv_view"
begin

lemma persist_queue_cases:
  obtains r d where "persist_queue E s = (r, s\<lparr>disk := d\<rparr>)"
    and "r = Ok () \<Longrightarrow> view d = (view (disk s))(queue_key \<mapsto> EventQueueSerWrapper_encode E (queue s))"
    and "view d \<in> {view (disk s), (view (disk s))(queue_key \<mapsto> EventQueueSerWrapper_encode E (queue s))}"
proof -
  let ?w = "kv_write (kvs E) (disk s) EVENT_QUEUE_PERSISTENCE_PRIMARY_NAMESPACE
     EVENT_QUEUE_PERSISTENCE_SECONDARY_NAMESPACE EVENT_QUEUE_PERSISTENCE_KEY
     (EventQueueSerWrapper_encode E (queue s))"
  obtain r d where w: "?w = (r, d)" by fastforce
  show ?thesis
  proof (rule that [of r d])
    show "persist_queue E s = (r, s\<lparr>disk := d\<rparr>)" using w by (simp add: persist_queue_def disk_write_def)
    show "view d = (view (disk s))(queue_key \<mapsto> EventQueueSerWrapper_encode E (queue s))" if "r = Ok ()"
      using that w disk.write_Ok [of "disk s" EVENT_QUEUE_PERSISTENCE_PRIMARY_NAMESPACE
          EVENT_QUEUE_PERSISTENCE_SECONDARY_NAMESPACE EVENT_QUEUE_PERSISTENCE_KEY
          "EventQueueSerWrapper_encode E (queue s)" "()"] by (simp add: queue_key_def)
    show "view d \<in> {view (disk s), (view (disk s))(queue_key \<mapsto> EventQueueSerWrapper_encode E (queue s))}"
      using w disk.write_any [of "disk s"] unfolding queue_key_def by (metis snd_conv)
  qed
qed

lemma persist_queue_coherent:
  assumes "coherent E view s" and "persist_queue E s = (r, s')"
  shows "coherent E view s'"
proof -
  obtain d where "s' = s\<lparr>disk := d\<rparr>" and
    "view d \<in> {view (disk s), (view (disk s))(queue_key \<mapsto> EventQueueSerWrapper_encode E (queue s))}"
    using assms(2) by (metis Pair_inject persist_queue_cases)
  with assms(1) show ?thesis by (auto simp: coherent_def persisted_other_key)
qed

lemma push_event_coherent:
  assumes "coherent E view s"
  shows "coherent E view (snd (push_event E e s))"
proof -
  have "coherent E view (s\<lparr>queue := queue s @ [e]\<rparr>)" using assms by (simp add: coherent_def)
  then have "coherent E view (snd (persist_queue E (s\<lparr>queue := queue s @ [e]\<rparr>)))"
    using persist_queue_coherent by (metis prod.collapse)
  then show ?thesis
    unfolding push_event_def by (rule and_then_state) (simp add: coherent_def)
qed

lemma event_handled_coherent:
  assumes "coherent E view s"
  shows "coherent E view (snd (event_handled E s))"
proof -
  have "coherent E view (s\<lparr>queue := tl (queue s)\<rparr>)" using assms by (simp add: coherent_def)
  then have "coherent E view (snd (persist_queue E (s\<lparr>queue := tl (queue s)\<rparr>)))"
    using persist_queue_coherent by (metis prod.collapse)
  then show ?thesis
    unfolding event_handled_def by (rule and_then_state) (simp add: coherent_def)
qed

lemma queue_written:
  assumes "and_then (persist_queue E s) (\<lambda>_ s. (Ok (), wake_waker s)) = (Ok (), s')"
  shows "view (disk s') queue_key = Some (EventQueueSerWrapper_encode E (queue s'))
    \<and> queue s' = queue s \<and> waker s' = None"
proof -
  obtain r d where p: "persist_queue E s = (r, s\<lparr>disk := d\<rparr>)"
    "r = Ok () \<Longrightarrow> view d = (view (disk s))(queue_key \<mapsto> EventQueueSerWrapper_encode E (queue s))"
    using persist_queue_cases by metis
  with assms have "s' = wake_waker (s\<lparr>disk := d\<rparr>)" "r = Ok ()" by auto
  with p(2) show ?thesis by simp
qed

lemma record_mpp_leg_frame:
  assumes "record_mpp_leg E i success s = (r, s')"
  shows "queue s' = queue s \<and> pending_mpp_events s' = pending_mpp_events s \<and> waker s' = waker s
    \<and> cached s' = cached s"
proof (cases rule: record_mpp_leg_cases [of i success s])
  case (recorded q leg m p p' out)
  let ?s = "s\<lparr>tx_metadata := (tx_metadata s)(surface_id leg \<mapsto> m\<lparr>md_ty := MppPayment p'\<rparr>)\<rparr>"
  have "\<exists>r d. persist_entry E (surface_id leg) (m\<lparr>md_ty := MppPayment p'\<rparr>) ?s = (r, ?s\<lparr>disk := d\<rparr>)"
    by (cases rule: persist_entry_cases [of "surface_id leg" "m\<lparr>md_ty := MppPayment p'\<rparr>" ?s]) auto
  then obtain r0 d where "persist_entry E (surface_id leg) (m\<lparr>md_ty := MppPayment p'\<rparr>) ?s
    = (r0, ?s\<lparr>disk := d\<rparr>)" by blast
  with recorded(7) assms show ?thesis by (cases r0) auto
qed (use assms in simp)

end

end
