(* ===== verification/Rebalance_Facts.thy ===== *)
theory Rebalance_Facts
  imports Rebalance_Trigger Event_Queue_Facts
begin

text \<open>Lemmas on the trigger and the handler, in the environment contract \<open>event_ctx\<close>.\<close>

definition is_payment :: "PaymentId \<Rightarrow> (PaymentId \<rightharpoonup> TxMetadata) \<Rightarrow> bool" where
  "is_payment i M \<longleftrightarrow> (\<exists>t ty. M i = Some \<lparr>md_time = t, md_ty = Payment ty\<rparr>)"

lemma is_paymentI: "M i = Some m \<Longrightarrow> md_ty m = Payment ty \<Longrightarrow> is_payment i M"
  by (cases m) (auto simp: is_payment_def)

lemma is_payment_mono: "is_payment i M \<Longrightarrow> M \<subseteq>\<^sub>m N \<Longrightarrow> is_payment i N"
  by (auto simp: is_payment_def map_le_def dom_def)

definition scan_ok :: "scan \<Rightarrow> (PaymentId \<rightharpoonup> TxMetadata) \<Rightarrow> bool" where
  "scan_ok acc M \<longleftrightarrow> (case acc of (new_txn, latest_tx) \<Rightarrow>
     (\<forall>i \<in> snd ` set new_txn \<union> snd ` set_option latest_tx. is_payment (Trusted i) M))"

lemma scan_ok_mono: "scan_ok acc M \<Longrightarrow> M \<subseteq>\<^sub>m N \<Longrightarrow> scan_ok acc N"
  by (auto simp: scan_ok_def dest: is_payment_mono)

lemma sort_Cons_min:
  assumes "sort xs = x # ys"
  shows "x \<in> set xs" and "\<forall>y \<in> set xs. x \<le> y"
proof -
  have set: "set xs = insert x (set ys)"
  proof -
    have "set xs = set (sort xs)" by simp
    also have "\<dots> = insert x (set ys)" unfolding assms by simp
    finally show ?thesis .
  qed
  then show "x \<in> set xs" by simp
  have "sorted (sort xs)" by simp
  then show "\<forall>y \<in> set xs. x \<le> y" unfolding assms set by auto
qed

lemma victim_payment:
  assumes "scan_ok acc M" and "victim acc = Some i"
  shows "is_payment (Trusted i) M"
proof -
  obtain new_txn latest where acc: "acc = (new_txn, latest)" by fastforce
  show ?thesis
  proof (cases "sort new_txn")
    case Nil
    with assms acc show ?thesis by (auto simp: victim_def scan_ok_def)
  next
    case (Cons x xs)
    then have "snd x = i" using assms(2) acc by (simp add: victim_def split: prod.splits)
    with sort_Cons_min(1) [OF Cons] assms(1) acc show ?thesis by (auto simp: scan_ok_def)
  qed
qed

text \<open>The first in the sorted order is the smallest new payment.\<close>

lemma victim_smallest:
  assumes "victim (new_txn, latest) = Some i" and "new_txn \<noteq> []"
  shows "\<exists>a. (a, i) \<in> set new_txn \<and> (\<forall>(b, j) \<in> set new_txn. a \<le> b)"
proof (cases "sort new_txn")
  case Nil
  with assms(2) show ?thesis by (metis length_0_conv length_sort)
next
  case (Cons x xs)
  obtain a j where x: "x = (a, j)" by fastforce
  with Cons assms(1) have "j = i" by (simp add: victim_def)
  with sort_Cons_min(1) [OF Cons] x have "(a, i) \<in> set new_txn" by simp
  moreover have "a \<le> b" if "(b, j') \<in> set new_txn" for b j'
  proof -
    from sort_Cons_min(2) [OF Cons] that x have "(a, j) \<le> (b, j')" by blast
    then show ?thesis by (auto simp: less_eq_prod_def)
  qed
  ultimately show ?thesis by (intro exI [of _ a] conjI ballI) auto
qed

lemma max_by_amount_Some:
  "max_by_amount xs = Some x \<Longrightarrow> x \<in> set xs
   \<and> (\<forall>y \<in> set xs. option_u64_le (pd_amount_msat (fst y)) (pd_amount_msat (fst x)))"
proof (induction xs arbitrary: x)
  case (Cons y ys)
  have total: "option_u64_le a b \<or> option_u64_le b a" for a b by (cases a; cases b) auto
  have trans: "option_u64_le a b \<Longrightarrow> option_u64_le b c \<Longrightarrow> option_u64_le a c" for a b c
    by (cases a; cases b; cases c) auto
  have refl: "option_u64_le a a" for a by (cases a) auto
  show ?case
  proof (cases "max_by_amount ys")
    case None
    then have "ys = []" by (cases ys) (auto split: option.splits if_splits)
    with Cons.prems refl show ?thesis by simp
  next
    case (Some z)
    note IH = Cons.IH [OF Some]
    show ?thesis
    proof (cases "option_u64_le (pd_amount_msat (fst y)) (pd_amount_msat (fst z))")
      case True
      with Some Cons.prems IH show ?thesis by simp
    next
      case False
      with total have "option_u64_le (pd_amount_msat (fst z)) (pd_amount_msat (fst y))" by blast
      with False Some Cons.prems IH refl trans show ?thesis by auto
    qed
  qed
qed simp

lemma push_event_trigger_frame [simp]:
  "tx_metadata (snd (push_event E e s)) = tx_metadata s"
  "onchain_sync_time (snd (push_event E e t)) = onchain_sync_time t"
proof -
  obtain r d where "persist_queue E (s\<lparr>queue := queue s @ [e]\<rparr>) = (r, s\<lparr>queue := queue s @ [e], disk := d\<rparr>)"
    using persist_queue_frame [of E "s\<lparr>queue := queue s @ [e]\<rparr>"] by auto
  then show "tx_metadata (snd (push_event E e s)) = tx_metadata s"
    by (cases r) (simp_all add: push_event_def)
  obtain r d where "persist_queue E (t\<lparr>queue := queue t @ [e]\<rparr>) = (r, t\<lparr>queue := queue t @ [e], disk := d\<rparr>)"
    using persist_queue_frame [of E "t\<lparr>queue := queue t @ [e]\<rparr>"] by auto
  then show "onchain_sync_time (snd (push_event E e t)) = onchain_sync_time t"
    by (cases r) (simp_all add: push_event_def wake_waker_def split: option.split)
qed

lemma add_onchain_event:
  "add_event E (OnchainPaymentReceived i txid a st) s = push_event E (OnchainPaymentReceived i txid a st) s"
  by (simp add: add_event_def buffer_or_push_def)

lemma report_recvs_frame:
  "tx_metadata (snd (report_recvs E ps s)) = tx_metadata s
   \<and> onchain_sync_time (snd (report_recvs E ps s)) = onchain_sync_time s"
proof (induction ps arbitrary: s)
  case (Cons p ps)
  show ?case
  proof (cases "pd_kind p")
    case (Onchain txid st)
    show ?thesis
    proof (cases "pd_amount_msat p")
      case (Some a)
      let ?e = "OnchainPaymentReceived (SelfCustodial (pd_id p)) txid (a div 1000) st"
      obtain r s1 where push: "push_event E ?e s = (r, s1)" by fastforce
      have "tx_metadata s1 = tx_metadata s" "onchain_sync_time s1 = onchain_sync_time s"
        using push push_event_trigger_frame [of E ?e s] by (metis snd_conv)+
      with push Some Onchain Cons.IH [of s1] show ?thesis
        by (cases r) (simp_all add: add_onchain_event)
    qed (simp add: Onchain)
  qed (use Cons.IH [of s] in simp_all)
qed simp

text \<open>An on-chain payment of \<open>ldk-node\<close> names a transaction by 32 bytes.\<close>

definition wf_payment :: "PaymentDetails \<Rightarrow> bool" where
  "wf_payment p = (case pd_kind p of Onchain txid _ \<Rightarrow> length txid = 32 | _ \<Rightarrow> True)"

context event_ctx
begin

lemma insert_md_Ok:
  assumes "insert_md E i m s = (Ok (), s')"
  shows "tx_metadata s' = (tx_metadata s)(i \<mapsto> m) \<and> queue s' = queue s
    \<and> pending_mpp_events s' = pending_mpp_events s \<and> (coherent E view s \<longrightarrow> wf_id i \<longrightarrow> coherent E view s')"
proof -
  let ?s = "s\<lparr>tx_metadata := (tx_metadata s)(i \<mapsto> m)\<rparr>"
  from assms obtain u where p: "persist_entry E i m ?s = (Ok u, s')"
    by (auto simp: insert_md_def do_set_def)
  then obtain d where "s' = ?s\<lparr>disk := d\<rparr>" by (cases rule: persist_entry_cases [of i m ?s]) auto
  moreover have "coherent E view s \<longrightarrow> wf_id i \<longrightarrow> coherent E view s'"
    using put_entry(2) [of s i m] p by fastforce
  ultimately show ?thesis by simp
qed

lemma scan_payment_ok:
  assumes "scan_payment E p acc s = (Ok acc', s')" and "scan_ok acc (tx_metadata s)"
    and "length (p_id p) = 32" and "coherent E view s"
  shows "scan_ok acc' (tx_metadata s') \<and> tx_metadata s \<subseteq>\<^sub>m tx_metadata s' \<and> coherent E view s'
    \<and> queue s' = queue s"
proof -
  obtain new_txn latest where acc: "acc = (new_txn, latest)" by fastforce
  show ?thesis
  proof (cases "p_outbound p \<or> p_status p \<noteq> Completed")
    case True
    then have "scan_payment E p acc s = (Ok acc, s)" by (auto simp: scan_payment_def acc)
    with assms show ?thesis by simp
  next
    case False
    show ?thesis
    proof (cases "tx_metadata s (Trusted (p_id p))")
      case None
      with False assms(1) acc obtain u where
        ins: "insert_md E (Trusted (p_id p)) \<lparr>md_time = p_time_since_epoch p,
            md_ty = Payment IncomingLightning\<rparr> s = (Ok u, s')"
        and acc': "acc' = (new_txn @ [(p_amount p, p_id p)], latest)"
        by (auto simp: scan_payment_def)
      have "wf_id (Trusted (p_id p))" using assms(3) by (simp add: wf_id_def)
      with insert_md_Ok [of "Trusted (p_id p)" _ s s'] ins assms(4)
      have md: "tx_metadata s' = (tx_metadata s)(Trusted (p_id p) \<mapsto>
          \<lparr>md_time = p_time_since_epoch p, md_ty = Payment IncomingLightning\<rparr>)"
        and "coherent E view s'" "queue s' = queue s" by auto
      moreover have le: "tx_metadata s \<subseteq>\<^sub>m tx_metadata s'"
        using None md by (auto simp: map_le_def)
      moreover have "is_payment (Trusted (p_id p)) (tx_metadata s')" using md by (simp add: is_payment_def)
      ultimately show ?thesis
        using scan_ok_mono [OF assms(2) le] acc acc' by (auto simp: scan_ok_def)
    next
      case (Some m)
      then show ?thesis
        using False assms acc is_paymentI [of "tx_metadata s" "Trusted (p_id p)" m]
        by (auto simp: scan_payment_def scan_ok_def split: TxType.splits option.splits if_splits)
    qed
  qed
qed

lemma scan_payments_ok:
  assumes "scan_payments E ps acc s = (Ok acc', s')" and "scan_ok acc (tx_metadata s)"
    and "\<forall>p \<in> set ps. length (p_id p) = 32" and "coherent E view s"
  shows "scan_ok acc' (tx_metadata s') \<and> tx_metadata s \<subseteq>\<^sub>m tx_metadata s' \<and> coherent E view s'
    \<and> queue s' = queue s"
  using assms
proof (induction ps arbitrary: acc s)
  case (Cons p ps)
  then obtain acc1 s1 where "scan_payment E p acc s = (Ok acc1, s1)"
    and rest: "scan_payments E ps acc1 s1 = (Ok acc', s')" by auto
  with scan_payment_ok [of p acc s acc1 s1] Cons.prems
  have s1: "scan_ok acc1 (tx_metadata s1)" "tx_metadata s \<subseteq>\<^sub>m tx_metadata s1" "coherent E view s1"
    "queue s1 = queue s" by auto
  from Cons.IH [OF rest s1(1) _ s1(3)] Cons.prems(3) s1 show ?case by (auto intro: map_le_trans)
qed (simp add: map_le_refl)

lemma get_rebalance_enabled_frame:
  assumes "get_rebalance_enabled E s = (r, s')"
  shows "tx_metadata s' = tx_metadata s \<and> queue s' = queue s"
proof -
  obtain x d where r: "kv_read (kvs E) (disk s) STORE_PRIMARY_KEY [] REBALANCE_ENABLED_KEY = (x, d)"
    by fastforce
  obtain y d' where w: "kv_write (kvs E) d STORE_PRIMARY_KEY [] REBALANCE_ENABLED_KEY
      (bool_encode E True) = (y, d')" by fastforce
  show ?thesis
    using assms r w
    by (cases y) (auto simp: get_rebalance_enabled_def RebalanceEnabledCache_get_def disk_read_def disk_write_def
        RebalanceEnabledCache_write_def split: option.splits result.splits io_error.splits)
qed

lemma get_rebalance_enabled_sync_time:
  assumes "get_rebalance_enabled E s = (r, s')"
  shows "onchain_sync_time s' = onchain_sync_time s"
proof -
  obtain x d where r: "kv_read (kvs E) (disk s) STORE_PRIMARY_KEY [] REBALANCE_ENABLED_KEY = (x, d)"
    by fastforce
  obtain y d' where w: "kv_write (kvs E) d STORE_PRIMARY_KEY [] REBALANCE_ENABLED_KEY
      (bool_encode E True) = (y, d')" by fastforce
  show ?thesis
    using assms r w
    by (cases y) (auto simp: get_rebalance_enabled_def RebalanceEnabledCache_get_def disk_read_def
        disk_write_def RebalanceEnabledCache_write_def
        split: option.splits result.splits io_error.splits)
qed

lemma insert_md_sync_time:
  "insert_md E i m s = (Ok (), s') \<Longrightarrow> onchain_sync_time s' = onchain_sync_time s"
proof -
  let ?s = "s\<lparr>tx_metadata := (tx_metadata s)(i \<mapsto> m)\<rparr>"
  assume "insert_md E i m s = (Ok (), s')"
  then obtain u where p: "persist_entry E i m ?s = (Ok u, s')" by (auto simp: insert_md_def do_set_def)
  then obtain d where "s' = ?s\<lparr>disk := d\<rparr>" by (cases rule: persist_entry_cases [of i m ?s]) auto
  then show ?thesis by simp
qed

lemma get_rebalance_enabled_coherent:
  assumes "get_rebalance_enabled E s = (Ok v, s')" and "cache_coherent E view s" and "coherent E view s"
  shows "coherent E view s' \<and> switch_value E view (disk s) = Some v"
  using switch_get_Ok [OF assms(2) assms(1) [unfolded get_rebalance_enabled_def]] assms(3)
  by (auto simp: coherent_def persisted_def STORE_SECONDARY_KEY_def)

lemma needs_trusted_Some:
  assumes "needs_trusted_rebalance E A tunables inputs s = (Ok (Some params), s')"
    and "coherent E view s" and "cache_coherent E view s"
    and "\<forall>ps. in_trusted_payments inputs = Ok ps \<longrightarrow> (\<forall>p \<in> set ps. length (p_id p) = 32)"
  shows "switch_value E view (disk s) = Some True \<and> coherent E view s'
    \<and> is_payment (Trusted (tp_id params)) (tx_metadata s') \<and> queue s' = queue s
    \<and> rebalance_min tunables < tp_amount params
    \<and> (\<exists>bal. in_trusted_balance inputs = Ok bal
         \<and> tp_amount params = transfer_amount A tunables (in_receivable_balance inputs) bal)"
proof -
  obtain en s1 where en: "get_rebalance_enabled E s = (Ok en, s1)" and "en"
    using assms(1) by (auto simp: needs_trusted_rebalance_def split: if_splits)
  from \<open>en\<close> have "en = True" by simp
  note s1 = get_rebalance_enabled_coherent [OF en assms(3,2)] get_rebalance_enabled_frame [OF en]
  obtain ps where ps: "in_trusted_payments inputs = Ok ps"
    using assms(1) en \<open>en\<close> by (cases "in_trusted_payments inputs") (auto simp: needs_trusted_rebalance_def)
  obtain acc s2 where scan: "scan_payments E ps ([], None) s1 = (Ok acc, s2)"
    using assms(1) en \<open>en\<close> ps by (auto simp: needs_trusted_rebalance_def)
  obtain bal where bal: "in_trusted_balance inputs = Ok bal"
    using assms(1) en \<open>en\<close> ps scan
    by (cases "in_trusted_balance inputs") (auto simp: needs_trusted_rebalance_def)
  have fin: "s' = s2" "victim acc = Some (tp_id params)"
    "tp_amount params = transfer_amount A tunables (in_receivable_balance inputs) bal"
    "rebalance_min tunables < tp_amount params"
    using assms(1) en \<open>en\<close> ps scan bal
    by (auto simp: needs_trusted_rebalance_def Let_def split: if_splits)
  have "scan_ok ([], None) (tx_metadata s1)" by (simp add: scan_ok_def)
  from scan_payments_ok [OF scan this] assms(4) ps s1
  have "scan_ok acc (tx_metadata s2)" "coherent E view s2" "queue s2 = queue s" by auto
  with fin victim_payment bal s1 \<open>en = True\<close> show ?thesis by auto
qed

lemma trigger_candidate_Some:
  "trigger_candidate t md y = Some (p, txid) \<Longrightarrow> can_mark_as_trigger md (SelfCustodial txid)"
  by (cases "pd_kind y") (auto simp: trigger_candidate_def split: if_splits)

lemma trigger_candidate_wf:
  "trigger_candidate t md y = Some (p, txid) \<Longrightarrow> wf_payment y \<Longrightarrow> wf_id (SelfCustodial txid)"
  by (cases "pd_kind y") (auto simp: trigger_candidate_def wf_payment_def wf_id_def split: if_splits)

lemma map_filter_memD: "x \<in> set (List.map_filter f xs) \<Longrightarrow> \<exists>y \<in> set xs. f y = Some x"
  by (auto simp: List.map_filter_def)

lemma report_recvs_coherent:
  "coherent E view s \<Longrightarrow> coherent E view (snd (report_recvs E ps s))"
proof (induction ps arbitrary: s)
  case (Cons p ps)
  show ?case
  proof (cases "pd_kind p")
    case (Onchain txid st)
    show ?thesis
    proof (cases "pd_amount_msat p")
      case (Some a)
      let ?e = "OnchainPaymentReceived (SelfCustodial (pd_id p)) txid (a div 1000) st"
      obtain r s1 where push: "push_event E ?e s = (r, s1)" by fastforce
      then have "coherent E view s1" using push_event_coherent [OF Cons.prems, of ?e] by simp
      with push Some Onchain Cons.IH [of s1] show ?thesis
        by (cases r) (simp_all add: add_onchain_event)
    qed (use Onchain Cons.prems in simp)
  qed (use Cons in simp_all)
qed simp

lemma needs_onchain_Some:
  assumes "needs_onchain_rebalance E A tn inp s = (Ok (Some p), s')" and "cache_coherent E view s"
    and "coherent E view s" and "\<forall>p \<in> set (in_ldk_payments_later inp). wf_payment p"
  shows "coherent E view s' \<and> switch_value E view (disk s) = Some True
    \<and> in_onchain_sync_timestamp inp = Some (onchain_sync_time s')
    \<and> onchain_sync_time s' \<noteq> onchain_sync_time s
    \<and> is_payment (SelfCustodial (tp_id p)) (tx_metadata s')
    \<and> from_sats A (in_spendable_onchain_balance_sats inp) = Ok (tp_amount p)
    \<and> sats_rounding_up A (rebalance_min tn) < in_spendable_onchain_balance_sats inp"
proof -
  obtain en s1 where en: "get_rebalance_enabled E s = (Ok en, s1)" and "en"
    using assms(1) by (auto simp: needs_onchain_rebalance_def split: if_splits)
  have sw: "switch_value E view (disk s) = Some True"
    using switch_get_Ok [OF assms(2) en [unfolded get_rebalance_enabled_def]] \<open>en\<close> by simp
  have t1: "onchain_sync_time s1 = onchain_sync_time s" by (rule get_rebalance_enabled_sync_time [OF en])
  obtain ts where ts: "in_onchain_sync_timestamp inp = Some ts" "onchain_sync_time s1 \<noteq> ts"
    using assms(1) en \<open>en\<close> by (cases "in_onchain_sync_timestamp inp")
      (auto simp: needs_onchain_rebalance_def Let_def split: if_splits)
  let ?ps = "filter (is_new_recv (onchain_sync_time s1)) (in_ldk_payments inp)"
  let ?s1 = "s1\<lparr>onchain_sync_time := ts\<rparr>"
  obtain s2 where rep: "report_recvs E ?ps ?s1 = (Ok (), s2)"
    using assms(1) en \<open>en\<close> ts by (auto simp: needs_onchain_rebalance_def Let_def)
  have co1: "coherent E view ?s1"
    using get_rebalance_enabled_coherent [OF en assms(2,3)] by (simp add: coherent_def)
  then have co2: "coherent E view s2" using report_recvs_coherent [of ?s1 ?ps] rep by simp
  have t2: "onchain_sync_time s2 = ts" using report_recvs_frame [of E ?ps ?s1] rep by simp
  have sp: "sats_rounding_up A (rebalance_min tn) < in_spendable_onchain_balance_sats inp"
    using assms(1) en \<open>en\<close> ts rep
    by (auto simp: needs_onchain_rebalance_def Let_def split: if_splits)
  let ?cands = "List.map_filter (trigger_candidate (onchain_sync_time s1) (tx_metadata s2))
    (in_ldk_payments_later inp)"
  obtain pay txid where best: "max_by_amount ?cands = Some (pay, txid)"
    using assms(1) en \<open>en\<close> ts rep sp
    by (cases "max_by_amount ?cands") (auto simp: needs_onchain_rebalance_def Let_def)
  let ?md = "\<lparr>md_time = from_secs (pd_latest_update_timestamp pay),
    md_ty = Payment (IncomingOnChain (Some txid))\<rparr>"
  obtain y where y: "y \<in> set (in_ldk_payments_later inp)"
    "trigger_candidate (onchain_sync_time s1) (tx_metadata s2) y = Some (pay, txid)"
    using map_filter_memD [OF conjunct1 [OF max_by_amount_Some [OF best]]] by blast
  then have mark: "can_mark_as_trigger (tx_metadata s2) (SelfCustodial txid)"
    and wf: "wf_id (SelfCustodial txid)"
    using trigger_candidate_Some [OF y(2)] trigger_candidate_wf [OF y(2)] assms(4) by auto
  obtain amt where amt: "from_sats A (in_spendable_onchain_balance_sats inp) = Ok amt"
    using assms(1) en \<open>en\<close> ts rep sp best
    by (cases "from_sats A (in_spendable_onchain_balance_sats inp)")
      (auto simp: needs_onchain_rebalance_def Let_def)
  have fin: "(if tx_metadata s2 (SelfCustodial txid) = None then insert_md E (SelfCustodial txid) ?md s2
      else (Ok (), s2)) = (Ok (), s')"
    and p: "tp_id p = txid" "from_sats A (in_spendable_onchain_balance_sats inp) = Ok (tp_amount p)"
    using assms(1) en \<open>en\<close> ts rep sp best amt
    by (auto simp: needs_onchain_rebalance_def Let_def)
  have "onchain_sync_time s' = ts \<and> is_payment (SelfCustodial txid) (tx_metadata s') \<and> coherent E view s'"
  proof (cases "tx_metadata s2 (SelfCustodial txid)")
    case None
    with fin have ins: "insert_md E (SelfCustodial txid) ?md s2 = (Ok (), s')" by simp
    from insert_md_Ok [OF ins] insert_md_sync_time [OF ins] t2 co2 wf show ?thesis
      by (simp add: is_payment_def)
  next
    case (Some m)
    with fin mark t2 co2 show ?thesis
      by (auto simp: can_mark_as_trigger_def intro: is_paymentI split: TxType.splits)
  qed
  with sw t1 ts sp p show ?thesis by auto
qed

end

text \<open>What is transferred: what lightning can take with a margin, or everything over the limit.\<close>

lemma transfer_amount_bounds:
  assumes "amount_laws A"
  shows "transfer_amount A tn receivable bal \<le> bal
    \<and> (transfer_amount A tn receivable bal = bal
       \<or> transfer_amount A tn receivable bal = receivable - rebalance_min tn
         \<and> bal - transfer_amount A tn receivable bal \<le> trusted_balance_limit tn)
    \<and> bal - transfer_amount A tn receivable bal \<le> trusted_balance_limit tn"
  by (auto simp: transfer_amount_def Let_def amount_laws.saturating_sub_eq [OF assms] min_def)

end
