(* ===== verification/Mpp_Events.thy ===== *)
theory Mpp_Events
  imports Event_Queue_Facts
begin

text \<open>
  Multi-path payments from the user's side: while \<open>try_mpp_bolt11\<close> registers the metadata of
  the two legs, their terminal events are buffered; once the metadata is there they are
  replayed, and the user gets one combined event.
\<close>

fun leg_event :: "PaymentId \<Rightarrow> PaymentHash \<Rightarrow> (u64 option \<times> bytes32) option \<Rightarrow> Event" where
  "leg_event i h (Some (fee, pre)) = PaymentSuccessful i h pre fee"
| "leg_event i h None = PaymentFailed i (Some h) None"

fun combined_event :: "PaymentId \<Rightarrow> MppOutcome \<Rightarrow> Event" where
  "combined_event i (Mpp_Succeeded h pre fee) = PaymentSuccessful i h pre (Some fee)"
| "combined_event i (Mpp_Failed h) = PaymentFailed i (Some h) None"

definition leg_result :: "(u64 option \<times> bytes32) option \<Rightarrow> (u64 \<times> bytes32) option" where
  "leg_result r = map_option (map_prod (case_option 0 (\<lambda>f. f)) (\<lambda>p. p)) r"

text \<open>The outcome of two leg results, in the order they arrive.\<close>

definition mpp_outcome :: "bytes32 \<Rightarrow> (u64 option \<times> bytes32) option \<Rightarrow>
    (u64 option \<times> bytes32) option \<Rightarrow> MppOutcome" where
  "mpp_outcome hash ra rb = (case (leg_result ra, leg_result rb) of
     (Some (fa, _), Some (fb, pb)) \<Rightarrow> Mpp_Succeeded hash pb (u64_saturating_add fa fb)
   | _ \<Rightarrow> Mpp_Failed hash)"

text \<open>
  The calls of \<open>try_mpp_bolt11\<close> on the queue and the store, with the events \<open>early\<close> arriving
  before the metadata is registered and \<open>late\<close> after the setup has ended.
\<close>

definition mpp_setup_run :: "('s, 'e) event_env_scheme \<Rightarrow> PaymentHash \<Rightarrow> PaymentId \<Rightarrow> PaymentId \<Rightarrow>
    TxMetadata \<Rightarrow> Event list \<Rightarrow> Event list \<Rightarrow> ('s, 'x) event_queue_scheme \<Rightarrow>
    (io_error, unit) result \<times> ('s, 'x) event_queue_scheme" where
  "mpp_setup_run E h T L md early late s =
     and_then (add_events E early (begin_mpp_setup h s)) (\<lambda>_ s.
     and_then (infallible (insert_md E T md s)) (\<lambda>_ s.
     and_then (infallible (upsert E L md s)) (\<lambda>_ s.
     and_then (finish_mpp_setup E h s) (\<lambda>_ s. add_events E late s))))"

lemma terminal_leg_event [simp]: "terminal_payment_hash (leg_event i h r) = Some h"
  by (cases "(i, h, r)" rule: leg_event.cases) auto

lemma push_combined_Some: "push_combined_mpp E (Some (i, out)) s = push_event E (combined_event i out) s"
  by (cases out) (simp_all add: push_combined_mpp_def)

lemma add_leg_event:
  "is_mpp_leg i s \<Longrightarrow> add_event E (leg_event i h r) s =
     and_then (infallible (record_mpp_leg E i (leg_result r) s)) (\<lambda>c s. push_combined_mpp E c s)"
  by (cases "(i, h, r)" rule: leg_event.cases)
    (auto simp: add_event_def leg_result_def split: option.split)

lemma add_buffered_event:
  assumes "\<not> is_mpp_leg i s" and "pending_mpp_events s h = Some evs"
  shows "add_event E (leg_event i h r) s =
    (Ok (), s\<lparr>pending_mpp_events := (pending_mpp_events s)(h \<mapsto> evs @ [leg_event i h r])\<rparr>)"
proof -
  have "add_event E (leg_event i h r) s = buffer_or_push E (leg_event i h r) s"
    using assms(1) by (cases "(i, h, r)" rule: leg_event.cases) (simp_all add: add_event_def)
  with assms(2) show ?thesis by (simp add: buffer_or_push_def)
qed

lemma add_events_append:
  "add_events E (xs @ ys) s = and_then (add_events E xs s) (\<lambda>_ s. add_events E ys s)"
proof (induction xs arbitrary: s)
  case (Cons x xs)
  then show ?case by (cases "add_event E x s"; cases "fst (add_event E x s)") auto
qed simp

lemma add_buffered_events:
  assumes "\<forall>e \<in> set evs. \<exists>i r. e = leg_event i h r \<and> \<not> is_mpp_leg i s"
    and "pending_mpp_events s h = Some buf"
  shows "add_events E evs s =
    (Ok (), s\<lparr>pending_mpp_events := (pending_mpp_events s)(h \<mapsto> buf @ evs)\<rparr>)"
  using assms
proof (induction evs arbitrary: s buf)
  case Nil
  then show ?case by (simp add: map_upd_triv)
next
  case (Cons e evs)
  then obtain i r where e: "e = leg_event i h r" "\<not> is_mpp_leg i s" by auto
  let ?s = "s\<lparr>pending_mpp_events := (pending_mpp_events s)(h \<mapsto> buf @ [e])\<rparr>"
  have "\<forall>e \<in> set evs. \<exists>i r. e = leg_event i h r \<and> \<not> is_mpp_leg i ?s"
    using Cons.prems(1) by (simp add: is_mpp_leg_def)
  from Cons.IH [OF this, of "buf @ [e]"] add_buffered_event [OF e(2) Cons.prems(2), of E r] e(1)
  show ?case by (simp add: fun_upd_same del: fun_upd_apply)
qed

locale reliable_event_ctx = reliable_tx_env E view
  for E :: "('s, 'e) event_env_scheme" and view :: "'s \<Rightarrow> kv_view"

sublocale reliable_event_ctx \<subseteq> event_ctx E view
  by unfold_locales

context reliable_event_ctx
begin

lemma push_event_Ok:
  obtains s' where "push_event E e s = (Ok (), s')" and "queue s' = queue s @ [e]"
    and "tx_metadata s' = tx_metadata s" and "pending_mpp_events s' = pending_mpp_events s"
    and "coherent E view s \<Longrightarrow> coherent E view s'"
proof -
  let ?s = "s\<lparr>queue := queue s @ [e]\<rparr>"
  obtain r d where rd: "kv_write (kvs E) (disk s) EVENT_QUEUE_PERSISTENCE_PRIMARY_NAMESPACE
      EVENT_QUEUE_PERSISTENCE_SECONDARY_NAMESPACE EVENT_QUEUE_PERSISTENCE_KEY
      (EventQueueSerWrapper_encode E (queue s @ [e])) = (r, d)" by fastforce
  moreover from disk.write_total have "fst (r, d) = Ok ()" unfolding rd [symmetric] by blast
  ultimately have "persist_queue E ?s = (Ok (), ?s\<lparr>disk := d\<rparr>)"
    by (simp add: persist_queue_def disk_write_def)
  then have "push_event E e s = (Ok (), wake_waker (?s\<lparr>disk := d\<rparr>))" by (simp add: push_event_def)
  moreover from this have "coherent E view s \<Longrightarrow> coherent E view (wake_waker (?s\<lparr>disk := d\<rparr>))"
    using push_event_coherent [of s e] by simp
  ultimately show ?thesis using that by simp
qed

lemma add_registered_event:
  assumes "coherent E view s" and "registered (tx_metadata s) T L p" and "\<not> finalized p"
    and "a \<in> {T, L}" and "mpp_record (a = T) (leg_result r) p = Ok (p', out)" and "surface_id p' = T"
  obtains s' where "add_event E (leg_event a h r) s = (Ok (), s')" and "coherent E view s'"
    and "registered (tx_metadata s') T L p'" and "pending_mpp_events s' = pending_mpp_events s"
    and "queue s' = queue s @ (case out of None \<Rightarrow> [] | Some out \<Rightarrow> [combined_event T out])"
proof -
  from assms(2,4) have leg: "is_mpp_leg a s" by (auto simp: registered_def is_mpp_leg_def)
  obtain s1 where s1: "record_mpp_leg E a (leg_result r) s = (Ok (map_option (Pair T) out), s1)"
    "coherent E view s1" "registered (tx_metadata s1) T L p'"
    using record_registered [OF assms] .
  note frame = record_mpp_leg_frame [OF s1(1)]
  have add: "add_event E (leg_event a h r) s = push_combined_mpp E (map_option (Pair T) out) s1"
    using s1(1) by (simp add: add_leg_event [OF leg] infallible_def)
  show ?thesis
  proof (cases out)
    case None
    with add s1 frame show ?thesis by (intro that [of s1]) (simp_all add: push_combined_mpp_def)
  next
    case (Some o')
    obtain s' where "push_event E (combined_event T o') s1 = (Ok (), s')"
      "queue s' = queue s1 @ [combined_event T o']" "tx_metadata s' = tx_metadata s1"
      "pending_mpp_events s' = pending_mpp_events s1" "coherent E view s'"
      using push_event_Ok [of "combined_event T o'" s1] s1(2) by blast
    with add s1 frame Some show ?thesis by (intro that [of s']) (simp_all add: push_combined_Some)
  qed
qed

lemma add_finalized_event:
  assumes "registered (tx_metadata s) T L p" and "finalized p" and "a \<in> {T, L}"
  shows "add_event E (leg_event a h r) s = (Ok (), s)"
proof -
  from assms have "is_mpp_leg a s" by (auto simp: registered_def is_mpp_leg_def)
  moreover have "record_mpp_leg E a (leg_result r) s = (Ok None, s)"
    using assms by (auto simp: record_mpp_leg_def registered_def Let_def)
  ultimately show ?thesis
    by (simp add: add_leg_event infallible_def push_combined_mpp_def)
qed

lemma add_two_legs:
  assumes "coherent E view s" and "registered (tx_metadata s) T L p" and "fresh_mpp p"
    and "(a, b) = (T, L) \<or> (a, b) = (L, T)"
  shows "\<exists>s'. add_events E [leg_event a h ra, leg_event b h rb] s = (Ok (), s')
    \<and> queue s' = queue s @ [combined_event T (mpp_outcome (lightning_leg p) ra rb)]
    \<and> pending_mpp_events s' = pending_mpp_events s"
proof -
  from assms(2,4) have ab: "a \<in> {T, L}" "b \<in> {T, L}" "a = T \<longleftrightarrow> b \<noteq> T"
    and surf: "surface_id p = T" by (auto simp: registered_def)
  have nf: "\<not> finalized p" using assms(3) by (simp add: fresh_mpp_def)
  show ?thesis
  proof (cases "leg_result ra")
    case None
    have "mpp_record (a = T) (leg_result ra) p = Ok (p\<lparr>failed := True, finalized := True\<rparr>,
        Some (Mpp_Failed (lightning_leg p)))"
      using None by (simp add: mpp_record_def)
    from add_registered_event [OF assms(1,2) nf ab(1) this, of h] surf obtain s1
      where s1: "add_event E (leg_event a h ra) s = (Ok (), s1)"
        "registered (tx_metadata s1) T L (p\<lparr>failed := True, finalized := True\<rparr>)"
        "pending_mpp_events s1 = pending_mpp_events s"
        "queue s1 = queue s @ [combined_event T (Mpp_Failed (lightning_leg p))]" by auto
    from add_finalized_event [OF s1(2) _ ab(2), of h rb] s1 None show ?thesis
      by (simp add: mpp_outcome_def)
  next
    case (Some x)
    obtain fa pa where x: "x = (fa, pa)" by fastforce
    let ?p1 = "(if a = T then p\<lparr>trusted_fee_msat := Some fa\<rparr> else p\<lparr>lightning_fee_msat := Some fa\<rparr>)
      \<lparr>preimage := Some pa\<rparr>"
    have p1: "mpp_record (a = T) (leg_result ra) p = Ok (?p1, None)"
      using assms(3) Some x by (simp add: mpp_record_def fresh_mpp_def)
    have "surface_id ?p1 = T" using surf by simp
    from add_registered_event [OF assms(1,2) nf ab(1) p1 this, of h] obtain s1
      where s1: "add_event E (leg_event a h ra) s = (Ok (), s1)" "coherent E view s1"
        "registered (tx_metadata s1) T L ?p1" "pending_mpp_events s1 = pending_mpp_events s"
        "queue s1 = queue s" by auto
    obtain p2 where p2: "mpp_record (b = T) (leg_result rb) ?p1
        = Ok (p2, Some (mpp_outcome (lightning_leg p) ra rb))" "surface_id p2 = T"
      using assms(3) ab(3) surf Some x u64_saturating_add_commute
      by (cases "leg_result rb") (auto simp: mpp_record_def fresh_mpp_def mpp_outcome_def)
    have "\<not> finalized ?p1" using nf by simp
    from add_registered_event [OF s1(2,3) this ab(2) p2, of h] obtain s2
      where "add_event E (leg_event b h rb) s1 = (Ok (), s2)"
        "pending_mpp_events s2 = pending_mpp_events s1"
        "queue s2 = queue s1 @ [combined_event T (mpp_outcome (lightning_leg p) ra rb)]" by auto
    with s1 show ?thesis by simp
  qed
qed

lemma upsert_Ok:
  assumes "coherent E view s" and "wf_id i"
  obtains d where "upsert E i m s = (Ok (), s\<lparr>tx_metadata := (tx_metadata s)(i \<mapsto> m), disk := d\<rparr>)"
    and "insert_md E i m s = (Ok (), s\<lparr>tx_metadata := (tx_metadata s)(i \<mapsto> m), disk := d\<rparr>)"
    and "coherent E view (s\<lparr>tx_metadata := (tx_metadata s)(i \<mapsto> m), disk := d\<rparr>)"
proof -
  let ?s = "s\<lparr>tx_metadata := (tx_metadata s)(i \<mapsto> m)\<rparr>"
  obtain d where d: "persist_entry E i m ?s = (Ok (), ?s\<lparr>disk := d\<rparr>)" by (rule persist_entry_Ok)
  from put_entry(2) [OF assms d] have "coherent E view (?s\<lparr>disk := d\<rparr>)" by simp
  with d show ?thesis by (intro that [of d]) (simp_all add: upsert_def insert_md_def do_set_def)
qed

text \<open>The setup without events, and a leg's event whose check came before it and whose buffering comes after.\<close>

lemma mpp_setup_alone:
  assumes "coherent E view s" and "wf_id T" and "wf_id L" and "pending_mpp_events s h = None"
  obtains d where "mpp_setup_run E h T L md [] [] s
    = (Ok (), s\<lparr>tx_metadata := (tx_metadata s)(T \<mapsto> md, L \<mapsto> md), disk := d\<rparr>)"
proof -
  let ?s = "s\<lparr>pending_mpp_events := (pending_mpp_events s)(h \<mapsto> [])\<rparr>"
  have co: "coherent E view ?s" using assms(1) by (simp add: coherent_def)
  obtain d1 where 1: "insert_md E T md ?s = (Ok (), ?s\<lparr>tx_metadata := (tx_metadata s)(T \<mapsto> md), disk := d1\<rparr>)"
    and co1: "coherent E view (?s\<lparr>tx_metadata := (tx_metadata s)(T \<mapsto> md), disk := d1\<rparr>)"
    using upsert_Ok [OF co assms(2), of md] by auto
  obtain d2 where 2: "upsert E L md (?s\<lparr>tx_metadata := (tx_metadata s)(T \<mapsto> md), disk := d1\<rparr>) =
      (Ok (), ?s\<lparr>tx_metadata := (tx_metadata s)(T \<mapsto> md, L \<mapsto> md), disk := d2\<rparr>)"
    using upsert_Ok [OF co1 assms(3), of md] by auto
  have "(pending_mpp_events s)(h := None) = pending_mpp_events s" using assms(4) by (auto simp: fun_eq_iff)
  with 1 2 assms(4) show ?thesis
    by (intro that [of d2]) (simp add: mpp_setup_run_def begin_mpp_setup_def finish_mpp_setup_def infallible_def Let_def)
qed

lemma late_leg_pushed:
  assumes "coherent E view s" and "wf_id T" and "wf_id L" and "pending_mpp_events s h = None"
    and "md_ty md = MppPayment p" and "a \<in> {T, L}"
  shows "\<exists>s'. mpp_setup_run E h T L md [] [] s = (Ok (), s') \<and> is_mpp_leg a s'
    \<and> queue (snd (buffer_or_push E (leg_event a h r) s')) = queue s @ [leg_event a h r]
    \<and> tx_metadata (snd (buffer_or_push E (leg_event a h r) s')) = tx_metadata s'"
proof -
  obtain d where run: "mpp_setup_run E h T L md [] [] s
    = (Ok (), s\<lparr>tx_metadata := (tx_metadata s)(T \<mapsto> md, L \<mapsto> md), disk := d\<rparr>)"
    by (rule mpp_setup_alone [OF assms(1-4)])
  let ?s = "s\<lparr>tx_metadata := (tx_metadata s)(T \<mapsto> md, L \<mapsto> md), disk := d\<rparr>"
  obtain t where t: "push_event E (leg_event a h r) ?s = (Ok (), t)" "queue t = queue ?s @ [leg_event a h r]"
    "tx_metadata t = tx_metadata ?s" by (rule push_event_Ok)
  have "buffer_or_push E (leg_event a h r) ?s = (Ok (), t)"
    using t(1) assms(4) by (cases "(a, h, r)" rule: leg_event.cases) (simp_all add: buffer_or_push_def)
  with run t assms(5,6) show ?thesis by (intro exI [of _ ?s]) (auto simp: is_mpp_leg_def)
qed

lemma mpp_setup_combined:
  assumes "coherent E view s" and "wf_id T" and "wf_id L" and "T \<noteq> L"
    and "\<not> is_mpp_leg T s" and "\<not> is_mpp_leg L s" and "pending_mpp_events s h = None"
    and "md_ty md = MppPayment p" and "surface_id p = T" and "fresh_mpp p"
    and "(a, b) = (T, L) \<or> (a, b) = (L, T)"
    and "early @ late = [leg_event a h ra, leg_event b h rb]"
  shows "\<exists>s'. mpp_setup_run E h T L md early late s = (Ok (), s')
    \<and> queue s' = queue s @ [combined_event T (mpp_outcome (lightning_leg p) ra rb)]
    \<and> pending_mpp_events s' = pending_mpp_events s"
proof -
  let ?pend = "\<lambda>evs. (pending_mpp_events s)(h \<mapsto> evs)"
  let ?s1 = "s\<lparr>pending_mpp_events := ?pend []\<rparr>" and ?s2 = "s\<lparr>pending_mpp_events := ?pend early\<rparr>"
  have early: "\<forall>e \<in> set early. \<exists>i r. e = leg_event i h r \<and> \<not> is_mpp_leg i ?s1"
  proof
    fix e assume "e \<in> set early"
    then have "e \<in> set (early @ late)" by simp
    then show "\<exists>i r. e = leg_event i h r \<and> \<not> is_mpp_leg i ?s1"
      unfolding assms(12) using assms(5,6,11) by (auto simp: is_mpp_leg_def)
  qed
  have run1: "add_events E early (begin_mpp_setup h s) = (Ok (), ?s2)"
    using add_buffered_events [OF early, of "[]" E] assms(7) by (simp add: begin_mpp_setup_def)
  have co: "coherent E view ?s2" using assms(1) by (simp add: coherent_def)
  obtain d1 where s3: "insert_md E T md ?s2 = (Ok (), ?s2\<lparr>tx_metadata := (tx_metadata s)(T \<mapsto> md), disk := d1\<rparr>)"
    and co3: "coherent E view (?s2\<lparr>tx_metadata := (tx_metadata s)(T \<mapsto> md), disk := d1\<rparr>)"
    using upsert_Ok [OF co assms(2), of md] by auto
  obtain d2 where s4: "upsert E L md (?s2\<lparr>tx_metadata := (tx_metadata s)(T \<mapsto> md), disk := d1\<rparr>) =
      (Ok (), ?s2\<lparr>tx_metadata := (tx_metadata s)(T \<mapsto> md, L \<mapsto> md), disk := d2\<rparr>)"
    and co4: "coherent E view (?s2\<lparr>tx_metadata := (tx_metadata s)(T \<mapsto> md, L \<mapsto> md), disk := d2\<rparr>)"
    using upsert_Ok [OF co3 assms(3), of md] by auto
  let ?s5 = "s\<lparr>tx_metadata := (tx_metadata s)(T \<mapsto> md, L \<mapsto> md), disk := d2\<rparr>"
  have "(pending_mpp_events s)(h := None) = pending_mpp_events s" using assms(7) by (auto simp: fun_eq_iff)
  then have fin: "finish_mpp_setup E h (?s2\<lparr>tx_metadata := (tx_metadata s)(T \<mapsto> md, L \<mapsto> md), disk := d2\<rparr>)
      = add_events E early ?s5"
    by (simp add: finish_mpp_setup_def Let_def)
  have reg: "registered (tx_metadata ?s5) T L p" using assms(4,8,9) by (cases md) (simp add: registered_def)
  have co5: "coherent E view ?s5" using co4 by (simp add: coherent_def)
  from add_two_legs [OF co5 reg assms(10,11), of h ra rb] obtain s' where
    run5: "add_events E (early @ late) ?s5 = (Ok (), s')" and
    "queue s' = queue s @ [combined_event T (mpp_outcome (lightning_leg p) ra rb)]"
    "pending_mpp_events s' = pending_mpp_events s" unfolding assms(12) by auto
  moreover from run5 have "mpp_setup_run E h T L md early late s = (Ok (), s')"
    using run1 s3 s4 fin by (simp add: mpp_setup_run_def infallible_def add_events_append)
  ultimately show ?thesis by blast
qed

end

end
