(* ===== verification/Splice_Inbox.thy ===== *)
theory Splice_Inbox
  imports Event_Queue_Facts
begin

text \<open>
  \<open>SplicePendingInbox\<close> (\<open>lightning_wallet.rs\<close>): the outpoints of negotiated splices, one queue
  per channel, and the tasks that wait for them through a \<open>tokio::sync::Notify\<close>. A waiting task
  registers its interest before it looks into the queue; \<open>notify_waiters\<close> marks every task
  registered at that moment. The steps are what runs under the lock or in one call of \<open>Notify\<close>.
\<close>

type_synonym inbox = "u128 \<rightharpoonup> OutPoint list"

definition inbox_push :: "u128 \<Rightarrow> OutPoint \<Rightarrow> inbox \<Rightarrow> inbox" where
  "inbox_push channel_id funding_txo m =
     m(channel_id \<mapsto> (case m channel_id of Some q \<Rightarrow> q | None \<Rightarrow> []) @ [funding_txo])"

text \<open>The block under the lock in \<open>wait_for\<close>: pop the front, drop a queue that became empty.\<close>

definition inbox_take :: "u128 \<Rightarrow> inbox \<Rightarrow> OutPoint option \<times> inbox" where
  "inbox_take channel_id m =
     (case m channel_id of
        Some q \<Rightarrow>
          (let txo = (case q of [] \<Rightarrow> None | x # _ \<Rightarrow> Some x); q = tl q
           in (txo, if q = [] then m(channel_id := None) else m(channel_id \<mapsto> q)))
      | None \<Rightarrow> (None, m))"

definition inbox_contents :: "u128 \<Rightarrow> inbox \<Rightarrow> OutPoint list" where
  "inbox_contents channel_id m = (case m channel_id of Some q \<Rightarrow> q | None \<Rightarrow> [])"

interpretation inbox_fifo: event_fifo
  "\<lambda>m. fst (inbox_take k m)" "\<lambda>m. snd (inbox_take k m)" "inbox_contents k" "inbox_push k"
  for k
  by unfold_locales
    (auto simp: inbox_push_def inbox_take_def inbox_contents_def Let_def
      split: option.split list.split)

subsection \<open>Deliveries and waiting tasks\<close>

datatype waiter = Idle | Enabled | Waiting | Took OutPoint

record inbox_state =
  pending_txos :: inbox
  waiters :: "nat \<Rightarrow> waiter"
  interested :: "nat set"
  notified :: "nat set"
  notifying :: nat

text \<open>
  \<open>deliver\<close> holds the lock only for its push and calls \<open>notify_waiters\<close> after it; \<open>notifying\<close> counts
  the deliveries in between. Within one task the two follow each other.
\<close>

definition deliver_push :: "u128 \<Rightarrow> OutPoint \<Rightarrow> inbox_state \<Rightarrow> inbox_state" where
  "deliver_push channel_id funding_txo s =
     s\<lparr>pending_txos := inbox_push channel_id funding_txo (pending_txos s), notifying := notifying s + 1\<rparr>"

definition deliver_notify :: "inbox_state \<Rightarrow> inbox_state" where
  "deliver_notify s = s\<lparr>notified := notified s \<union> interested s, notifying := notifying s - 1\<rparr>"

definition deliver :: "u128 \<Rightarrow> OutPoint \<Rightarrow> inbox_state \<Rightarrow> inbox_state" where
  "deliver channel_id funding_txo s = deliver_notify (deliver_push channel_id funding_txo s)"

text \<open>
  One pass of the loop in \<open>wait_for\<close> by task \<open>t\<close> for channel \<open>chan t\<close>: \<open>enable\<close>, the check under
  the lock, and \<open>notified.await\<close>.
\<close>

inductive wait_for_step :: "(nat \<Rightarrow> u128) \<Rightarrow> inbox_state \<Rightarrow> inbox_state \<Rightarrow> bool" for chan where
  enable: "waiters s t = Idle \<Longrightarrow> wait_for_step chan s
     (s\<lparr>waiters := (waiters s)(t := Enabled), interested := insert t (interested s),
        notified := notified s - {t}\<rparr>)"
| take: "waiters s t = Enabled \<Longrightarrow> inbox_take (chan t) (pending_txos s) = (Some txo, m) \<Longrightarrow>
     wait_for_step chan s
       (s\<lparr>pending_txos := m, waiters := (waiters s)(t := Took txo), interested := interested s - {t}\<rparr>)"
| miss: "waiters s t = Enabled \<Longrightarrow> inbox_take (chan t) (pending_txos s) = (None, m) \<Longrightarrow>
     wait_for_step chan s (s\<lparr>pending_txos := m, waiters := (waiters s)(t := Waiting)\<rparr>)"
| woke: "waiters s t = Waiting \<Longrightarrow> t \<in> notified s \<Longrightarrow> wait_for_step chan s
     (s\<lparr>waiters := (waiters s)(t := Idle), interested := interested s - {t}\<rparr>)"
| pushed: "wait_for_step chan s (deliver_push k txo s)"
| notifies: "0 < notifying s \<Longrightarrow> wait_for_step chan s (deliver_notify s)"

definition inbox_init :: inbox_state where
  "inbox_init = \<lparr>pending_txos = Map.empty, waiters = (\<lambda>_. Idle), interested = {}, notified = {}, notifying = 0\<rparr>"

inductive inbox_reachable :: "(nat \<Rightarrow> u128) \<Rightarrow> inbox_state \<Rightarrow> bool" for chan where
  inbox_start: "inbox_reachable chan inbox_init"
| inbox_step: "inbox_reachable chan s \<Longrightarrow> wait_for_step chan s s' \<Longrightarrow> inbox_reachable chan s'"

definition no_empty :: "inbox \<Rightarrow> bool" where
  "no_empty m \<longleftrightarrow> (\<forall>k. m k \<noteq> Some [])"

definition inbox_inv :: "(nat \<Rightarrow> u128) \<Rightarrow> inbox_state \<Rightarrow> bool" where
  "inbox_inv chan s \<longleftrightarrow>
     (\<forall>t. waiters s t \<in> {Enabled, Waiting} \<longrightarrow> t \<in> interested s)
   \<and> (\<forall>t. waiters s t = Waiting \<and> inbox_contents (chan t) (pending_txos s) \<noteq> [] \<longrightarrow>
        t \<in> notified s \<or> 0 < notifying s)
   \<and> no_empty (pending_txos s)"

lemma inbox_take_None:
  "inbox_take k m = (None, m') \<Longrightarrow> no_empty m \<Longrightarrow> m' = m \<and> inbox_contents k m = []"
  by (auto simp: inbox_take_def inbox_contents_def no_empty_def Let_def
      split: option.splits list.splits if_splits)

lemma inbox_take_Some:
  assumes "inbox_take k m = (Some txo, m')"
  shows "inbox_contents k m = txo # inbox_contents k m'"
    and "inbox_contents j m \<noteq> [] \<or> inbox_contents j m' = []"
    and "no_empty m \<Longrightarrow> no_empty m'"
  using assms by (auto simp: inbox_take_def inbox_contents_def no_empty_def Let_def
      split: option.splits list.splits if_splits)

lemma inbox_push_facts:
  "no_empty m \<Longrightarrow> no_empty (inbox_push k txo m)"
  by (auto simp: inbox_push_def no_empty_def)

lemma inbox_step_inv: "wait_for_step chan s s' \<Longrightarrow> inbox_inv chan s \<Longrightarrow> inbox_inv chan s'"
proof (induction rule: wait_for_step.induct)
  case (take s t txo m)
  have "u \<in> notified s \<or> 0 < notifying s" if "waiters s u = Waiting" "inbox_contents (chan u) m \<noteq> []" for u
    using take.prems that inbox_take_Some(2) [OF take.hyps(2), of "chan u"]
    by (auto simp: inbox_inv_def)
  with take.prems inbox_take_Some(3) [OF take.hyps(2)] show ?case
    by (simp add: inbox_inv_def)
next
  case (miss s t m)
  then have "m = pending_txos s \<and> inbox_contents (chan t) (pending_txos s) = []"
    using inbox_take_None by (auto simp: inbox_inv_def)
  with miss show ?case by (simp add: inbox_inv_def)
next
  case (pushed s k txo)
  then show ?case by (simp add: inbox_inv_def deliver_push_def inbox_push_facts)
next
  case (notifies s)
  then show ?case by (simp add: inbox_inv_def deliver_notify_def)
qed (simp_all add: inbox_inv_def)

lemma inbox_reachable_inv: "inbox_reachable chan s \<Longrightarrow> inbox_inv chan s"
proof (induction rule: inbox_reachable.induct)
  case inbox_start
  show ?case by (simp add: inbox_inv_def inbox_init_def no_empty_def)
qed (rule inbox_step_inv)

end
