(* ===== verification/Sample_Env.thy ===== *)
theory Sample_Env
  imports Tx_Store_Facts
begin

text \<open>
  A concrete environment on which the hypotheses of the properties are evaluated: the store
  in memory, hexadecimal text, and a self-delimiting encoding of the metadata. It stands for
  the TLV encoding of the crate \<open>lightning\<close> only in that reading back what was written gives
  the same value; the properties themselves are about every environment with that law.
\<close>

subsection \<open>Self-delimiting encodings\<close>

type_synonym 'a reader = "bytes \<Rightarrow> ('a \<times> bytes) option"

definition delimited :: "('a \<Rightarrow> bytes) \<Rightarrow> 'a reader \<Rightarrow> bool" where
  "delimited w r \<longleftrightarrow> (\<forall>x rest. r (w x @ rest) = Some (x, rest))"

fun w_nat :: "nat \<Rightarrow> bytes" where
  "w_nat 0 = [0]"
| "w_nat (Suc n) = 1 # w_nat n"

fun r_nat :: "nat reader" where
  "r_nat [] = None"
| "r_nat (b # bs) = (if b = 0 then Some (0, bs)
     else case r_nat bs of Some (n, rest) \<Rightarrow> Some (Suc n, rest) | None \<Rightarrow> None)"

definition w_bytes :: "bytes \<Rightarrow> bytes" where
  "w_bytes bs = w_nat (length bs) @ bs"

definition r_bytes :: "bytes reader" where
  "r_bytes bs = (case r_nat bs of
     Some (n, rest) \<Rightarrow> Some (take n rest, drop n rest) | None \<Rightarrow> None)"

fun w_option :: "('a \<Rightarrow> bytes) \<Rightarrow> 'a option \<Rightarrow> bytes" where
  "w_option w None = [0]"
| "w_option w (Some x) = 1 # w x"

fun r_option :: "'a reader \<Rightarrow> 'a option reader" where
  "r_option r [] = None"
| "r_option r (b # bs) = (if b = 0 then Some (None, bs)
     else map_option (map_prod Some id) (r bs))"

fun w_bool :: "bool \<Rightarrow> bytes" where
  "w_bool b = [if b then 1 else 0]"

fun r_bool :: "bool reader" where
  "r_bool [] = None"
| "r_bool (b # bs) = Some (b \<noteq> 0, bs)"

definition r_bind :: "'a reader \<Rightarrow> ('a \<Rightarrow> 'b reader) \<Rightarrow> 'b reader" where
  "r_bind r f bs = (case r bs of Some (x, rest) \<Rightarrow> f x rest | None \<Rightarrow> None)"

definition r_return :: "'a \<Rightarrow> 'a reader" where
  "r_return x bs = Some (x, bs)"

fun w_PaymentId :: "PaymentId \<Rightarrow> bytes" where
  "w_PaymentId (SelfCustodial b) = w_nat 0 @ w_bytes b"
| "w_PaymentId (Trusted b) = w_nat 1 @ w_bytes b"

definition r_PaymentId :: "PaymentId reader" where
  "r_PaymentId = r_bind r_nat (\<lambda>t. r_bind r_bytes (\<lambda>b.
     r_return (if t = 0 then SelfCustodial b else Trusted b)))"

fun w_PaymentType :: "PaymentType \<Rightarrow> bytes" where
  "w_PaymentType (OutgoingLightningBolt12 p) = w_nat 0 @ w_option w_bytes p"
| "w_PaymentType (OutgoingLightningBolt11 p) = w_nat 1 @ w_option w_bytes p"
| "w_PaymentType (OutgoingOnChain t) = w_nat 2 @ w_option w_bytes t"
| "w_PaymentType (IncomingOnChain t) = w_nat 3 @ w_option w_bytes t"
| "w_PaymentType IncomingLightning = w_nat 4 @ w_option w_bytes None"
| "w_PaymentType TrustedInternal = w_nat 5 @ w_option w_bytes None"

definition r_PaymentType :: "PaymentType reader" where
  "r_PaymentType = r_bind r_nat (\<lambda>t. r_bind (r_option r_bytes) (\<lambda>p.
     r_return (if t = 0 then OutgoingLightningBolt12 p else if t = 1 then OutgoingLightningBolt11 p
       else if t = 2 then OutgoingOnChain p else if t = 3 then IncomingOnChain p
       else if t = 4 then IncomingLightning else TrustedInternal)))"

definition w_mpp :: "mpp_payment \<Rightarrow> bytes" where
  "w_mpp m = w_PaymentId (surface_id m) @ w_bytes (lightning_leg m) @ w_nat (total_amount_msat m)
     @ w_PaymentType (mpp_ty m) @ w_option w_nat (trusted_fee_msat m)
     @ w_option w_nat (lightning_fee_msat m) @ w_option w_bytes (preimage m)
     @ w_bool (failed m) @ w_bool (finalized m)"

definition r_mpp :: "mpp_payment reader" where
  "r_mpp = r_bind r_PaymentId (\<lambda>s. r_bind r_bytes (\<lambda>l. r_bind r_nat (\<lambda>t.
     r_bind r_PaymentType (\<lambda>ty. r_bind (r_option r_nat) (\<lambda>tf. r_bind (r_option r_nat) (\<lambda>lf.
     r_bind (r_option r_bytes) (\<lambda>p. r_bind r_bool (\<lambda>fa. r_bind r_bool (\<lambda>fi.
     r_return \<lparr>surface_id = s, lightning_leg = l, total_amount_msat = t, mpp_ty = ty,
       trusted_fee_msat = tf, lightning_fee_msat = lf, preimage = p, failed = fa,
       finalized = fi\<rparr>)))))))))"

fun w_TxType :: "TxType \<Rightarrow> bytes" where
  "w_TxType (TrustedToLightning a b i) = w_nat 0 @ w_bytes a @ w_bytes b @ w_PaymentId i"
| "w_TxType (OnchainToLightning a b) = w_nat 1 @ w_bytes a @ w_bytes b"
| "w_TxType (PaymentTriggeringTransferLightning ty) = w_nat 2 @ w_PaymentType ty"
| "w_TxType (Payment ty) = w_nat 3 @ w_PaymentType ty"
| "w_TxType PendingRebalance = w_nat 4"
| "w_TxType (MppPayment m) = w_nat 5 @ w_mpp m"

definition r_TxType :: "TxType reader" where
  "r_TxType = r_bind r_nat (\<lambda>t.
     if t = 0 then r_bind r_bytes (\<lambda>a. r_bind r_bytes (\<lambda>b. r_bind r_PaymentId (\<lambda>i.
       r_return (TrustedToLightning a b i))))
     else if t = 1 then r_bind r_bytes (\<lambda>a. r_bind r_bytes (\<lambda>b. r_return (OnchainToLightning a b)))
     else if t = 2 then r_bind r_PaymentType (\<lambda>ty. r_return (PaymentTriggeringTransferLightning ty))
     else if t = 3 then r_bind r_PaymentType (\<lambda>ty. r_return (Payment ty))
     else if t = 4 then r_return PendingRebalance
     else r_bind r_mpp (\<lambda>m. r_return (MppPayment m)))"

definition w_TxMetadata :: "TxMetadata \<Rightarrow> bytes" where
  "w_TxMetadata m = w_TxType (md_ty m) @ w_nat (md_time m)"

definition r_TxMetadata :: "TxMetadata reader" where
  "r_TxMetadata = r_bind r_TxType (\<lambda>ty. r_bind r_nat (\<lambda>t.
     r_return \<lparr>md_time = t, md_ty = ty\<rparr>))"

definition decode_all :: "'a reader \<Rightarrow> bytes \<Rightarrow> 'a option" where
  "decode_all r bs = map_option fst (r bs)"

definition sample_env :: "mem_kv store_env" where
  "sample_env =
     \<lparr>kvs = dyn_DynStore mem_kv_ops,
      as_hex = to_lower_hex_string,
      from_hex_array = from_hex32,
      md_encode = w_TxMetadata, md_decode = decode_all r_TxMetadata,
      bool_encode = w_bool, bool_decode = decode_all r_bool\<rparr>"

subsection \<open>Reading back\<close>

lemma r_bind_apply [simp]: "r (w @ rest) = Some (x, rest) \<Longrightarrow> r_bind r f (w @ rest) = f x rest"
  by (simp add: r_bind_def)

lemma r_return_apply [simp]: "r_return x bs = Some (x, bs)"
  by (simp add: r_return_def)

lemma r_nat_w [simp]: "r_nat (w_nat n @ rest) = Some (n, rest)"
  by (induction n) auto

lemma r_bytes_w [simp]: "r_bytes (w_bytes bs @ rest) = Some (bs, rest)"
  by (simp add: r_bytes_def w_bytes_def)

lemma r_bool_w [simp]: "r_bool (w_bool b @ rest) = Some (b, rest)"
  by simp

lemma r_option_w [simp]:
  "(\<And>x rest. r (w x @ rest) = Some (x, rest)) \<Longrightarrow>
   r_option r (w_option w v @ rest) = Some (v, rest)"
  by (cases v) auto

declare w_bool.simps [simp del] w_nat.simps [simp del]

lemma r_PaymentId_w [simp]: "r_PaymentId (w_PaymentId i @ rest) = Some (i, rest)"
  by (cases i) (simp_all add: r_PaymentId_def)

lemma r_PaymentType_w [simp]: "r_PaymentType (w_PaymentType ty @ rest) = Some (ty, rest)"
  by (cases ty) (simp_all add: r_PaymentType_def del: w_option.simps)

lemma r_mpp_w [simp]: "r_mpp (w_mpp m @ rest) = Some (m, rest)"
  by (simp add: r_mpp_def w_mpp_def)

lemma r_TxType_w [simp]: "r_TxType (w_TxType ty @ rest) = Some (ty, rest)"
  by (cases ty) (simp_all add: r_TxType_def)

lemma r_TxMetadata_w [simp]: "r_TxMetadata (w_TxMetadata m @ rest) = Some (m, rest)"
  by (simp add: r_TxMetadata_def w_TxMetadata_def)

lemma decode_all_delimited: "delimited w r \<Longrightarrow> decode_all r (w x) = Some x"
  unfolding delimited_def decode_all_def by (metis append_Nil2 fst_conv option.simps(9))

lemma sample_codecs [simp]:
  "md_decode sample_env (md_encode sample_env m) = Some m"
  "bool_decode sample_env (bool_encode sample_env b) = Some b"
  by (simp_all add: sample_env_def decode_all_delimited delimited_def)

interpretation sample: reliable_tx_env sample_env mem_view
proof (intro reliable_tx_env.intro tx_env.intro reliable_tx_env_axioms.intro)
  show "kv_store (kvs sample_env) mem_view"
    by (simp add: sample_env_def mem.kv_store_axioms)
  show "reliable_kv_store (kvs sample_env) mem_view"
    by (simp add: sample_env_def mem.reliable_kv_store_axioms)
  show "c \<in> set hex_digits" if "c \<in> set (as_hex sample_env bs)" for c bs
    using that set_to_lower_hex_string [of bs] by (auto simp: sample_env_def)
  show "md_decode sample_env (md_encode sample_env m) = Some m" for m by simp
  show "bool_decode sample_env (bool_encode sample_env b) = Some b" for b by simp
qed (simp_all add: sample_env_def length_from_hex32)

end
