(* ===== verification/Tx_Store_Props.thy ===== *)
theory Tx_Store_Props
  imports Sample_Env
begin

text \<open>
  The properties of the metadata store, over every environment that satisfies the contract
  \<open>tx_env\<close>, each with an application on the sample environment.
\<close>

subsection \<open>Sample states\<close>

definition id_t :: PaymentId where "id_t = Trusted (replicate 32 7)"
definition id_l :: PaymentId where "id_l = SelfCustodial (replicate 32 3)"
definition id_o :: PaymentId where "id_o = SelfCustodial (replicate 32 9)"

definition empty_store :: "mem_kv tx_store" where
  "empty_store = \<lparr>disk = [], tx_metadata = Map.empty\<rparr>"

definition sample_mpp :: mpp_payment where
  "sample_mpp = \<lparr>surface_id = id_t, lightning_leg = replicate 32 3, total_amount_msat = 200,
     mpp_ty = OutgoingLightningBolt11 None, trusted_fee_msat = None, lightning_fee_msat = None,
     preimage = None, failed = False, finalized = False\<rparr>"

definition sample_md :: TxMetadata where
  "sample_md = \<lparr>md_time = 1, md_ty = MppPayment sample_mpp\<rparr>"

definition payment_md :: "PaymentType \<Rightarrow> TxMetadata" where
  "payment_md ty = \<lparr>md_time = 1, md_ty = Payment ty\<rparr>"

definition mpp_store :: "mem_kv tx_store" where
  "mpp_store = snd (run_tx_ops sample_env [Op_insert id_t sample_md, Op_upsert id_l sample_md]
     empty_store)"

definition pay_store :: "mem_kv tx_store" where
  "pay_store = snd (upsert sample_env id_o (payment_md (OutgoingLightningBolt11 None)) empty_store)"

lemmas sample_ids = id_t_def id_l_def id_o_def

lemma sample_ids_wf [simp]: "wf_id id_t" "wf_id id_l" "wf_id id_o"
  by (simp_all add: wf_id_def sample_ids)

lemma sample_ids_distinct [simp]: "id_t \<noteq> id_l" "id_l \<noteq> id_t" "id_t \<noteq> id_o" "id_o \<noteq> id_t"
  "id_l \<noteq> id_o" "id_o \<noteq> id_l"
  by (simp_all add: sample_ids)

lemma coherent_empty [simp]: "coherent sample_env mem_view empty_store"
  by (simp add: coherent_def persisted_def empty_store_def mem_view_def)

lemma sample_write [simp]:
  "disk_write sample_env p q k d s = (Ok (), s\<lparr>disk := AList.update (p, q, k) d (disk s)\<rparr>)"
  by (simp add: disk_write_def sample_env_def mem_kv_ops_def)

definition sample_put :: "PaymentId \<Rightarrow> TxMetadata \<Rightarrow> mem_kv \<Rightarrow> mem_kv" where
  "sample_put i m d = AList.update (STORE_PRIMARY_KEY, STORE_SECONDARY_KEY,
     PaymentId_to_string sample_env i) (md_encode sample_env m) d"

lemma sample_persist [simp]:
  "persist_entry sample_env i m s = (Ok (), s\<lparr>disk := sample_put i m (disk s)\<rparr>)"
  by (simp add: persist_entry_def sample_put_def)

lemma sample_upsert [simp]: "upsert sample_env i m s =
    (Ok (), s\<lparr>tx_metadata := (tx_metadata s)(i \<mapsto> m), disk := sample_put i m (disk s)\<rparr>)"
  by (simp add: upsert_def do_set_def)

lemma sample_insert [simp]: "insert_md sample_env i m s = upsert sample_env i m s"
  by (simp add: insert_md_def do_set_def)

lemma mpp_store_run: "run_tx_ops sample_env [Op_insert id_t sample_md, Op_upsert id_l sample_md]
    empty_store = (True, mpp_store)"
  by (simp add: mpp_store_def)

lemma mpp_store_coherent [simp]: "coherent sample_env mem_view mpp_store"
  by (rule sample.run_tx_ops_coherent [OF _ _ mpp_store_run]) simp_all

lemma mpp_store_registered [simp]: "registered (tx_metadata mpp_store) id_t id_l sample_mpp"
  by (simp add: mpp_store_def registered_def sample_md_def) (simp add: sample_mpp_def)

lemma pay_store_md [simp]:
  "tx_metadata pay_store id_o = Some (payment_md (OutgoingLightningBolt11 None))"
  by (simp add: pay_store_def)

lemma pay_store_coherent [simp]: "coherent sample_env mem_view pay_store"
  using sample.run_tx_op_coherent [of empty_store
      "Op_upsert id_o (payment_md (OutgoingLightningBolt11 None))" "Ok ()" pay_store]
  by (simp add: pay_store_def)

subsection \<open>Identifiers\<close>

text \<open>
  C40. Reading back the text of a payment identifier gives the identifier, so the keys under
  which two different payments are stored never collide; and every identifier that is read
  has 32 bytes.
\<close>

theorem PaymentId_roundtrip:
  assumes "tx_env E view" and "wf_id i"
  shows "PaymentId_from_str E (PaymentId_to_string E i) = Ok i
    \<and> (\<forall>j. wf_id j \<and> PaymentId_to_string E j = PaymentId_to_string E i \<longrightarrow> j = i)
    \<and> (\<forall>k j. PaymentId_from_str E k = Ok j \<longrightarrow> wf_id j)"
  using assms tx_env.from_str_to_string tx_env.from_str_wf tx_env.to_string_eq_iff by blast

theorem PaymentId_roundtrip_witness:
  "PaymentId_from_str sample_env (PaymentId_to_string sample_env id_t) = Ok id_t"
  using PaymentId_roundtrip [OF sample.tx_env_axioms sample_ids_wf(1)] by blast

text \<open>
  \<open>PaymentId::from_str\<close> is not total: it panics exactly on texts of four bytes or more
  whose fourth byte continues a character, because \<open>&s[..3]\<close> then cuts inside it.
\<close>

theorem PaymentId_from_str_panics:
  "is_panic (PaymentId_from_str E s) \<longleftrightarrow> 4 \<le> length s \<and> is_continuation_byte (s ! 3)"
  by (auto simp: PaymentId_from_str_def slice_to_def slice_from_def is_char_boundary_def
      split: option.splits)

text \<open>
  A status that is written reads back, whatever follows it, and the reader accepts no other
  first byte.
\<close>

lemma TxStatus_roundtrip:
  "TxStatus_read (TxStatus_write t @ rest) = (Ok t, rest)
   \<and> (is_ok (fst (TxStatus_read bs)) = (\<exists>t rest. bs = TxStatus_write t @ rest))"
proof -
  have "is_ok (fst (TxStatus_read bs)) \<longleftrightarrow> (\<exists>t. bs \<noteq> [] \<and> TxStatus_write t = [hd bs])"
    (is "_ \<longleftrightarrow> (\<exists>t. ?P t)")
  proof
    assume "is_ok (fst (TxStatus_read bs))"
    then have "?P Pending \<or> ?P Completed \<or> ?P Failed" by (cases bs) (auto split: if_splits)
    then show "\<exists>t. ?P t" by blast
  next
    assume "\<exists>t. ?P t"
    then obtain t where "?P t" by blast
    then show "is_ok (fst (TxStatus_read bs))" by (cases t; cases bs) auto
  qed
  also have "\<dots> \<longleftrightarrow> (\<exists>t rest. bs = TxStatus_write t @ rest)"
  proof
    assume "\<exists>t. ?P t"
    then obtain t where "?P t" by blast
    then have "bs = TxStatus_write t @ tl bs" by simp
    then show "\<exists>t rest. bs = TxStatus_write t @ rest" by blast
  next
    assume "\<exists>t rest. bs = TxStatus_write t @ rest"
    then obtain t rest where "bs = TxStatus_write t @ rest" by blast
    then have "?P t" by (cases t) auto
    then show "\<exists>t. ?P t" by blast
  qed
  finally show ?thesis by (cases t) auto
qed

subsection \<open>Memory and disk\<close>

text \<open>
  C9. The map in memory and the records on disk agree after every sequence of store
  operations that returns, errors included; so loading the store again restores the map.
\<close>

theorem TxMetadataStore_survives_restart:
  assumes "tx_env E view" and "coherent E view s" and "\<forall>op \<in> set ops. wf_op op"
    and "run_tx_ops E ops s = (True, s')" and "TxMetadataStore_new E sched (disk s') = (Ok s'', d)"
  shows "coherent E view s' \<and> tx_metadata s'' = tx_metadata s' \<and> coherent E view s''"
proof -
  note co = tx_env.run_tx_ops_coherent [OF assms(1-4)]
  then have "persisted E (view (disk s')) (tx_metadata s')" by (simp add: coherent_def)
  from tx_env.new_loads [OF assms(1) this assms(5)] co show ?thesis by (simp add: coherent_def)
qed

lemma sample_new: "coherent sample_env mem_view s \<Longrightarrow>
    \<exists>d. TxMetadataStore_new sample_env sched (disk s) = (Ok \<lparr>disk = d, tx_metadata = tx_metadata s\<rparr>, d)"
  unfolding coherent_def by (erule sample.new_Ok [where sched = sched]) blast

theorem TxMetadataStore_survives_restart_witness:
  "\<exists>s'' d. TxMetadataStore_new sample_env (\<lambda>n. 0) (disk mpp_store) = (Ok s'', d)
     \<and> tx_metadata s'' = tx_metadata mpp_store"
proof -
  obtain s'' d where new: "TxMetadataStore_new sample_env (\<lambda>n. 0) (disk mpp_store) = (Ok s'', d)"
    using sample_new [OF mpp_store_coherent] by blast
  show ?thesis
    using TxMetadataStore_survives_restart [OF sample.tx_env_axioms coherent_empty _ mpp_store_run new]
      new by simp
qed

text \<open>
  C32. Crash consistency: an operation that persists one entry and panics because the backend
  refused the write leaves a disk from which the next start loads the map of before or the
  map of after the operation, never anything else.
\<close>

theorem TxMetadataStore_crash_consistent:
  assumes "tx_env E view" and "coherent E view s" and "wf_op op"
    and "\<And>b i j m. op \<noteq> Op_set_tx_caused_rebalance_with_splice b i j m"
    and "run_tx_op E op s = (Panic msg, s')" and "TxMetadataStore_new E sched (disk s') = (Ok s'', d)"
  shows "tx_metadata s'' = tx_metadata s \<or> tx_metadata s'' = tx_metadata s'"
proof -
  have "entry_op E s (Panic msg :: (unit, unit) result, s')"
    using tx_env.run_tx_op_entry [OF assms(1-4)] assms(5) by simp
  from tx_env.entry_op_safe(2) [OF assms(1,2) this] show ?thesis
    using tx_env.new_loads [OF assms(1) _ assms(6)] by fastforce
qed

text \<open>A backend whose writes fail and whose first failing write is not applied.\<close>

definition failing_env :: "mem_kv store_env" where
  "failing_env = sample_env\<lparr>kvs := mem_kv_ops\<lparr>kv_write := (\<lambda>m p q k d. (Err (IoOther ''full''), m))\<rparr>\<rparr>"

interpretation failing: tx_env failing_env mem_view
proof (intro tx_env.intro)
  show "kv_store (kvs failing_env) mem_view"
    using mem.kv_store_axioms unfolding kv_store_def by (simp add: failing_env_def)
  show "c \<in> set hex_digits" if "c \<in> set (as_hex failing_env bs)" for c bs
    using that sample.as_hex_digits [of c bs] by (simp add: failing_env_def)
qed (simp_all add: failing_env_def sample.hex_roundtrip sample.hex_array_length
    sample.as_hex_length)

lemma failing_id [simp]: "PaymentId_to_string failing_env i = PaymentId_to_string sample_env i"
  by (cases i) (simp_all add: failing_env_def)

theorem TxMetadataStore_crash_consistent_witness:
  "run_tx_op failing_env (Op_upsert id_o (payment_md IncomingLightning)) empty_store
     = (Panic ''We do not allow writes to fail'',
        empty_store\<lparr>tx_metadata := [id_o \<mapsto> payment_md IncomingLightning]\<rparr>)
   \<and> (\<exists>s'' d. TxMetadataStore_new failing_env (\<lambda>n. 0) [] = (Ok s'', d)
        \<and> (tx_metadata s'' = Map.empty \<or> tx_metadata s'' = [id_o \<mapsto> payment_md IncomingLightning]))"
proof -
  have run: "run_tx_op failing_env (Op_upsert id_o (payment_md IncomingLightning)) empty_store
     = (Panic ''We do not allow writes to fail'',
        empty_store\<lparr>tx_metadata := [id_o \<mapsto> payment_md IncomingLightning]\<rparr>)"
    by (simp add: upsert_def do_set_def persist_entry_def disk_write_def failing_env_def
        mem_kv_ops_def empty_store_def)
  have "coherent failing_env mem_view empty_store"
    by (simp add: coherent_def persisted_def empty_store_def mem_view_def)
  moreover have new: "TxMetadataStore_new failing_env (\<lambda>n. 0)
      (disk (empty_store\<lparr>tx_metadata := [id_o \<mapsto> payment_md IncomingLightning]\<rparr>)) = (Ok empty_store, [])"
    by (simp add: TxMetadataStore_new_def failing_env_def mem_kv_ops_def mem_keys_def
        read_keys_bounded_def empty_store_def)
  ultimately have "tx_metadata empty_store = Map.empty
      \<or> tx_metadata empty_store = [id_o \<mapsto> payment_md IncomingLightning]"
    using TxMetadataStore_crash_consistent [OF failing.tx_env_axioms _ _ _ run new]
    by (simp add: empty_store_def)
  with run new show ?thesis by (auto simp: empty_store_def)
qed

text \<open>
  Loading never loses a wallet: on a backend that answers, \<open>TxMetadataStore::new\<close> returns,
  with exactly the map that was persisted, whatever order its bounded reads finish in.
\<close>

theorem TxMetadataStore_new_returns:
  assumes "reliable_tx_env E view" and "coherent E view s"
  shows "\<exists>d. TxMetadataStore_new E sched (disk s) = (Ok \<lparr>disk = d, tx_metadata = tx_metadata s\<rparr>, d)
    \<and> view d = view (disk s)"
  using assms(2) unfolding coherent_def
  by (rule reliable_tx_env.new_Ok [OF assms(1), where sched = sched]) blast

theorem TxMetadataStore_new_returns_witness:
  "\<exists>d. TxMetadataStore_new sample_env (\<lambda>n. 5 * n) (disk mpp_store)
     = (Ok \<lparr>disk = d, tx_metadata = tx_metadata mpp_store\<rparr>, d)"
  using TxMetadataStore_new_returns [OF sample.reliable_tx_env_axioms mpp_store_coherent] by blast

text \<open>
  \<open>set_tx_caused_rebalance_with_splice\<close> is all or nothing: it returns an error and changes
  nothing when the trigger is not a stored payment; otherwise, when it returns, the trigger is
  promoted with its payment type and time kept, the splice entry is in place, no other entry
  changed, and both are on disk.
\<close>

theorem splice_trigger_both_or_neither:
  assumes "tx_env E view" and "coherent E view s" and "wf_id splice_id" and "trigger_id \<noteq> splice_id"
    and "set_tx_caused_rebalance_with_splice E order trigger_id splice_id md s = (r, s')"
    and "\<not> is_panic r"
  shows "(r = Err () \<and> s' = s \<and> \<not> (\<exists>t ty. tx_metadata s trigger_id = Some \<lparr>md_time = t, md_ty = Payment ty\<rparr>))
    \<or> (r = Ok () \<and> coherent E view s' \<and>
       (\<exists>t ty. tx_metadata s trigger_id = Some \<lparr>md_time = t, md_ty = Payment ty\<rparr>
          \<and> tx_metadata s' = (tx_metadata s)
             (trigger_id \<mapsto> \<lparr>md_time = t, md_ty = PaymentTriggeringTransferLightning ty\<rparr>,
              splice_id \<mapsto> md)))"
proof (cases "\<exists>t ty. tx_metadata s trigger_id = Some \<lparr>md_time = t, md_ty = Payment ty\<rparr>")
  case True
  then obtain t ty where t: "tx_metadata s trigger_id = Some \<lparr>md_time = t, md_ty = Payment ty\<rparr>" by blast
  let ?t = "\<lparr>md_time = t, md_ty = PaymentTriggeringTransferLightning ty\<rparr>"
  let ?s = "s\<lparr>tx_metadata := (tx_metadata s)(trigger_id \<mapsto> ?t, splice_id \<mapsto> md)\<rparr>"
  have old: "persisted E (view (disk s)) (tx_metadata s)" using assms(2) by (simp add: coherent_def)
  then have wf: "wf_id trigger_id" using t by (simp add: persisted_def)
  have "join_writes E order (trigger_id, ?t) (splice_id, md) ?s = (r, s')"
    using assms(5) t by (simp add: set_tx_caused_rebalance_with_splice_def Let_def)
  from tx_env.join_writes_coherent [OF assms(1) _ _ wf assms(3,4) this assms(6)] old t
  show ?thesis by simp
next
  case False
  have "r = Err () \<and> s' = s"
  proof (cases "tx_metadata s trigger_id")
    case (Some m)
    with False have "\<forall>ty. md_ty m \<noteq> Payment ty" by (cases m) auto
    with Some assms(5) show ?thesis
      by (cases "md_ty m") (auto simp: set_tx_caused_rebalance_with_splice_def)
  qed (use assms(5) in \<open>auto simp: set_tx_caused_rebalance_with_splice_def\<close>)
  with False show ?thesis by blast
qed

theorem splice_trigger_both_or_neither_witness:
  "\<exists>s'. set_tx_caused_rebalance_with_splice sample_env True id_o id_l
      \<lparr>md_time = 2, md_ty = PendingRebalance\<rparr> pay_store = (Ok (), s') \<and> coherent sample_env mem_view s'"
proof -
  obtain s' where run: "set_tx_caused_rebalance_with_splice sample_env True id_o id_l
      \<lparr>md_time = 2, md_ty = PendingRebalance\<rparr> pay_store = (Ok (), s')"
    by (simp add: set_tx_caused_rebalance_with_splice_def payment_md_def Let_def join_writes_def)
  from splice_trigger_both_or_neither [OF sample.tx_env_axioms pay_store_coherent _ _ this] run
  show ?thesis by auto
qed

text \<open>
  A proof of payment is written once: after \<open>set_preimage\<close> returns \<open>Ok\<close>, a second call
  with any preimage returns \<open>Ok\<close> and changes nothing; and the first call changes no other
  entry, neither the entry's time nor, if it was not an outgoing lightning payment still
  lacking its preimage, the entry at all.
\<close>

theorem set_preimage_once:
  assumes "tx_env E view" and "set_preimage E i pre s = (Ok (), s')"
  shows "set_preimage E i pre' s' = (Ok (), s')
    \<and> (\<forall>j. j \<noteq> i \<longrightarrow> tx_metadata s' j = tx_metadata s j)
    \<and> map_option md_time (tx_metadata s' i) = map_option md_time (tx_metadata s i)
    \<and> (tx_metadata s' i \<noteq> tx_metadata s i \<longrightarrow>
        (\<exists>c \<in> {OutgoingLightningBolt11, OutgoingLightningBolt12}.
           map_option md_ty (tx_metadata s i) = Some (Payment (c None))
         \<and> map_option md_ty (tx_metadata s' i) = Some (Payment (c (Some pre)))))"
proof -
  obtain m where m: "tx_metadata s i = Some m"
    using assms(2) by (cases "tx_metadata s i") (auto simp: set_preimage_def)
  consider (same) "s' = s" "set_preimage E i pre' s = (Ok (), s)"
    | (stored) c where "c \<in> {OutgoingLightningBolt11, OutgoingLightningBolt12}"
        "md_ty m = Payment (c None)" "persist_entry E i (m\<lparr>md_ty := Payment (c (Some pre))\<rparr>)
           (s\<lparr>tx_metadata := (tx_metadata s)(i \<mapsto> m\<lparr>md_ty := Payment (c (Some pre))\<rparr>)\<rparr>) = (Ok (), s')"
  proof (cases "\<exists>c \<in> {OutgoingLightningBolt11, OutgoingLightningBolt12}. md_ty m = Payment (c None)")
    case True
    then obtain c where c: "c \<in> {OutgoingLightningBolt11, OutgoingLightningBolt12}"
      "md_ty m = Payment (c None)" by blast
    with assms(2) m show ?thesis
      by (intro stored [OF c]) (auto simp: set_preimage_def Let_def)
  next
    case False
    have "s' = s \<and> set_preimage E i pre' s = (Ok (), s)"
    proof (cases "md_ty m")
      case (Payment ty)
      with False m assms(2) show ?thesis by (cases ty) (auto simp: set_preimage_def)
    qed (use m assms(2) in \<open>simp_all add: set_preimage_def\<close>)
    then show ?thesis using same by blast
  qed
  then show ?thesis
  proof cases
    case same
    then show ?thesis by simp
  next
    case (stored c)
    from tx_env.persist_entry_metadata [OF assms(1) stored(3)]
    have "tx_metadata s' = (tx_metadata s)(i \<mapsto> m\<lparr>md_ty := Payment (c (Some pre))\<rparr>)" by simp
    with stored m show ?thesis by (auto simp: set_preimage_def)
  qed
qed

theorem set_preimage_once_witness:
  "\<exists>s'. set_preimage sample_env id_o [1] pay_store = (Ok (), s')
     \<and> set_preimage sample_env id_o [2] s' = (Ok (), s')"
proof -
  obtain s' where run: "set_preimage sample_env id_o [1] pay_store = (Ok (), s')"
    by (simp add: set_preimage_def payment_md_def Let_def)
  with set_preimage_once [OF sample.tx_env_axioms run, of "[2]"] show ?thesis by blast
qed

subsection \<open>Multi-path payments\<close>

text \<open>
  C1. A multi-path payment surfaces at most one combined outcome, over any sequence of leg
  results, repeated or contradictory, other store operations that do not overwrite its entry,
  failing writes and restarts.
\<close>

theorem mpp_outcome_at_most_once:
  assumes "tx_env E view" and "coherent E view s" and "\<forall>st \<in> set steps. spares S st"
  shows "length (filter (\<lambda>(i, _). i = S) (mpp_run E sched steps s)) \<le> 1"
proof -
  have "length (filter (\<lambda>(i, _). i = S) (mpp_run E sched steps s)) \<le> tx_env.budget S (tx_metadata s)"
    using tx_env.mpp_run_budget [OF assms] .
  also have "\<dots> \<le> 1" by (simp add: tx_env.budget_def [OF assms(1)])
  finally show ?thesis .
qed

theorem mpp_outcome_at_most_once_witness:
  "length (filter (\<lambda>(i, _). i = id_t) (mpp_run sample_env (\<lambda>n. 0)
     [Leg id_t (Some (1, [])), Restart, Leg id_l None, Leg id_l (Some (2, [])), Restart,
      Leg id_t None] mpp_store)) \<le> 1"
  by (rule mpp_outcome_at_most_once [OF sample.tx_env_axioms mpp_store_coherent]) simp

text \<open>
  When both legs of a registered multi-path payment succeed, in either order and with any
  number of restarts in between, exactly one outcome is surfaced, by the second leg: success
  under the trusted leg's id with the invoice's hash, the preimage and the saturated sum of
  both fees.
\<close>

theorem mpp_both_legs_succeed:
  assumes "reliable_tx_env E view" and "coherent E view s"
    and "registered (tx_metadata s) T L p" and "fresh_mpp p"
    and "(a, b) = (T, L) \<or> (a, b) = (L, T)"
  shows "mpp_run E sched (Leg a (Some (fa, pa)) # replicate n Restart @ [Leg b (Some (fb, pb))]) s
    = [(T, Mpp_Succeeded (lightning_leg p) pb (u64_saturating_add fa fb))]"
  using assms by (rule reliable_tx_env.mpp_both_legs)

theorem mpp_both_legs_succeed_witness:
  "mpp_run sample_env (\<lambda>n. n) (Leg id_l (Some (1000, [1])) # replicate 2 Restart @
     [Leg id_t (Some (2000, [1]))]) mpp_store
   = [(id_t, Mpp_Succeeded (replicate 32 3) [1] 3000)]"
  using mpp_both_legs_succeed [OF sample.reliable_tx_env_axioms mpp_store_coherent
      mpp_store_registered, of id_l id_t "\<lambda>n. n" 1000 "[1]" 2 2000 "[1]"]
  by (simp add: fresh_mpp_def sample_mpp_def u64_saturating_add_def u64_max_def)

text \<open>
  The first failing leg of an unfinished multi-path payment surfaces the combined failure
  at once, whichever leg it is and whatever the other leg has done or does later.
\<close>

theorem mpp_leg_fails:
  assumes "reliable_tx_env E view" and "coherent E view s"
    and "registered (tx_metadata s) T L p" and "\<not> finalized p" and "a \<in> {T, L}"
    and "\<forall>st \<in> set steps. spares T st"
  shows "filter (\<lambda>(i, _). i = T) (mpp_run E sched (Leg a None # steps) s)
    = [(T, Mpp_Failed (lightning_leg p))]"
proof -
  let ?outs = "mpp_run E sched (Leg a None # steps) s"
  have "hd ?outs = (T, Mpp_Failed (lightning_leg p))" "?outs \<noteq> []"
    using reliable_tx_env.mpp_failed_leg [OF assms(1-5)] by auto
  then obtain rest where outs: "?outs = (T, Mpp_Failed (lightning_leg p)) # rest"
    by (cases ?outs) auto
  have "tx_env E view" using assms(1) by (simp add: reliable_tx_env_def)
  then have "length (filter (\<lambda>(i, _). i = T) ?outs) \<le> tx_env.budget T (tx_metadata s)"
    using assms(2,6) by (intro tx_env.mpp_run_budget) auto
  then have "length (filter (\<lambda>(i, _). i = T) ?outs) \<le> 1"
    by (simp add: tx_env.budget_def [OF \<open>tx_env E view\<close>] split: if_splits)
  then show ?thesis unfolding outs by simp
qed

theorem mpp_leg_fails_witness:
  "filter (\<lambda>(i, _). i = id_t) (mpp_run sample_env (\<lambda>n. n)
     [Leg id_l None, Restart, Leg id_t (Some (5, []))] mpp_store)
   = [(id_t, Mpp_Failed (replicate 32 3))]"
  using mpp_leg_fails [OF sample.reliable_tx_env_axioms mpp_store_coherent mpp_store_registered,
      of id_l "[Restart, Leg id_t (Some (5, []))]" "\<lambda>n. n"]
  by (simp add: sample_mpp_def)

text \<open>
  The combined transaction of a multi-path payment does not depend on the order in which
  its legs are listed, when both carry the same total and at most one of two different payment
  types carries a preimage: the fee is the saturated sum, the time the earlier one, and the
  payment counts as failed if a leg failed and as completed only if both did.
\<close>

theorem MppMerge_order_independent:
  assumes "amount_laws A" and "total_msat \<le> amount_max" and "u64_saturating_add f1 f2 \<le> amount_max"
    and "ty1 = ty2 \<or> ty_has_preimage ty1 \<noteq> ty_has_preimage ty2"
  shows "let tl = MppMerge_accumulate (MppMerge_accumulate MppMerge_default
                    Leg_Trusted total_msat f1 st1 ty1 t1) Leg_Lightning total_msat f2 st2 ty2 t2;
             lt = MppMerge_accumulate (MppMerge_accumulate MppMerge_default
                    Leg_Lightning total_msat f2 st2 ty2 t2) Leg_Trusted total_msat f1 st1 ty1 t1
         in tl = lt \<and> MppMerge_into_transaction A tl i = Ok
              \<lparr>tx_id = i,
               tx_status = (if Failed \<in> {st1, st2} then Failed
                 else if st1 = Completed \<and> st2 = Completed then Completed else Pending),
               tx_outbound = True, tx_amount = Some total_msat,
               tx_fee = Some (u64_saturating_add f1 f2),
               tx_payment_type = (if ty_has_preimage ty2 then ty2 else ty1),
               tx_time_since_epoch = min t1 t2\<rparr>"
  using assms(2-4)
  by (auto simp: MppMerge_accumulate_def MppMerge_default_def Let_def MppMerge_into_transaction_def
      MppMerge_status_def amount_laws.from_milli_sats_ok [OF assms(1)] min.commute)

theorem MppMerge_order_independent_witness:
  "MppMerge_into_transaction msat_ops (MppMerge_accumulate (MppMerge_accumulate MppMerge_default
      Leg_Lightning 200 20 Completed (OutgoingLightningBolt11 (Some [1])) 9)
      Leg_Trusted 200 10 Completed (OutgoingLightningBolt11 None) 5) id_t
   = Ok \<lparr>tx_id = id_t, tx_status = Completed, tx_outbound = True, tx_amount = Some 200,
         tx_fee = Some 30, tx_payment_type = OutgoingLightningBolt11 (Some [1]),
         tx_time_since_epoch = 5\<rparr>"
  using MppMerge_order_independent [OF msat.amount_laws_axioms, of 200 10 20
      "OutgoingLightningBolt11 None" "OutgoingLightningBolt11 (Some [1])" Completed 5 Completed 9 id_t]
  by (auto simp: Let_def amount_max_def u64_saturating_add_def u64_max_def)

subsection \<open>The rebalance switch\<close>

text \<open>
  The rebalance switch survives restarts: once \<open>set\<close> has returned, every \<open>get\<close> that
  returns yields the value that was set, in this process from the cache and in a later one,
  whose cache is empty, from the store; metadata records are not touched.
\<close>

theorem rebalance_switch_persists:
  assumes "tx_env E view" and "RebalanceEnabledCache_set E b s = (Ok (), s')"
    and "view (disk t) = view (disk s')" and "cached t \<in> {None, cached s'}"
    and "RebalanceEnabledCache_get E t = (Ok v, t')"
  shows "v = b \<and> cached t' = Some b \<and> tx_metadata s' = tx_metadata s
    \<and> (\<forall>p q k. q \<noteq> [] \<longrightarrow> view (disk s') (p, q, k) = view (disk s) (p, q, k))"
proof -
  note set = tx_env.switch_set_Ok [OF assms(1,2)]
  have eq: "switch_value E view (disk t) = Some b"
    using set assms(3) by (simp add: switch_value_def)
  then have "cache_coherent E view t"
    using assms(4) set by (auto simp: cache_coherent_def)
  from tx_env.switch_get_Ok [OF assms(1) this assms(5)] eq set show ?thesis by simp
qed

definition switch_store :: "mem_kv rebalance_cache" where
  "switch_store = \<lparr>disk = [], tx_metadata = Map.empty, cached = None\<rparr>"

theorem rebalance_switch_persists_witness:
  "\<exists>s' t'. RebalanceEnabledCache_set sample_env False switch_store = (Ok (), s')
     \<and> RebalanceEnabledCache_get sample_env (s'\<lparr>cached := None\<rparr>) = (Ok False, t')"
proof -
  obtain s' where set: "RebalanceEnabledCache_set sample_env False switch_store = (Ok (), s')"
    by (simp add: RebalanceEnabledCache_set_def RebalanceEnabledCache_write_def)
  then have "s' = switch_store\<lparr>disk := [(switch_key, w_bool False)], cached := Some False\<rparr>"
    by (simp add: RebalanceEnabledCache_set_def RebalanceEnabledCache_write_def switch_store_def
        switch_key_def sample_env_def disk_write_def mem_kv_ops_def)
  then obtain v t' where get: "RebalanceEnabledCache_get sample_env (s'\<lparr>cached := None\<rparr>) = (Ok v, t')"
    using sample.bool_roundtrip [of False]
    by (auto simp: RebalanceEnabledCache_get_def disk_read_def switch_key_def sample_env_def
        mem_kv_ops_def switch_store_def)
  from rebalance_switch_persists [OF sample.tx_env_axioms set _ _ get] set get show ?thesis by auto
qed

end
