(* ===== verification/Event_Props.thy ===== *)
theory Event_Props
  imports Mpp_Events Splice_Inbox Tx_Store_Props
begin

text \<open>The properties of the event queue and of the splice inbox.\<close>

subsection \<open>A sample environment\<close>

definition sample_event_env :: "mem_kv event_env" where
  "sample_event_env = store_env.extend sample_env (event_env.fields
     (\<lambda>n. [word_of_nat (n div 256), word_of_nat n]) (\<lambda>_. []))"

lemma sample_event_env_simps [simp]:
  "kvs sample_event_env = kvs sample_env" "as_hex sample_event_env = as_hex sample_env"
  "from_hex_array sample_event_env = from_hex_array sample_env"
  "md_encode sample_event_env = md_encode sample_env" "md_decode sample_event_env = md_decode sample_env"
  "bool_encode sample_event_env = bool_encode sample_env"
  "bool_decode sample_event_env = bool_decode sample_env"
  by (simp_all add: sample_event_env_def store_env.defs)

lemma tx_env_cong:
  assumes "reliable_tx_env E view" and "kvs E' = kvs E" "as_hex E' = as_hex E"
    "from_hex_array E' = from_hex_array E" "md_encode E' = md_encode E" "md_decode E' = md_decode E"
    "bool_encode E' = bool_encode E" "bool_decode E' = bool_decode E"
  shows "reliable_tx_env E' view"
  using assms unfolding reliable_tx_env_def tx_env_def reliable_tx_env_axioms_def by simp

interpretation sample_ev: reliable_event_ctx sample_event_env mem_view
  unfolding reliable_event_ctx_def
  by (rule tx_env_cong [OF sample.reliable_tx_env_axioms]) simp_all

definition empty_queue :: "mem_kv event_queue" where
  "empty_queue = EventQueue_new [] Map.empty"

lemma empty_queue_coherent [simp]: "coherent sample_event_env mem_view empty_queue"
  by (simp add: coherent_def persisted_def empty_queue_def EventQueue_new_def mem_view_def)

subsection \<open>The queue\<close>

text \<open>
  C33. The event queue is first-in first-out and loses nothing: after events have been pushed,
  the loop that looks at the next event, handles it and acknowledges it sees exactly the events
  that were waiting followed by the pushed ones, each once and in order, even where persisting
  the queue failed; and until an event is acknowledged, new events do not change which event
  is next.
\<close>

theorem event_queue_fifo_order:
  "fst (drain next_event (\<lambda>s. snd (event_handled E s)) (length (queue s) + length es)
      (fold (\<lambda>e s. snd (push_event E e s)) es s)) = queue s @ es
   \<and> next_event (snd (push_event E e s)) = (case next_event s of Some f \<Rightarrow> Some f | None \<Rightarrow> Some e)"
proof -
  have "next_event (snd (push_event E e s)) = (case next_event s of Some f \<Rightarrow> Some f | None \<Rightarrow> Some e)"
    by (simp add: next_event_def split: list.split)
  then show ?thesis
    using event_queue_fifo.drain_takes [of E "length (queue s) + length es"
        "fold (\<lambda>e s. snd (push_event E e s)) es s"]
    by (simp add: event_queue_fifo.fold_push)
qed

text \<open>
  C34. After a push or an acknowledgement that returns \<open>Ok\<close>, the record on disk is the encoding
  of the queue in memory, a parked consumer has been taken off the waker slot, and the metadata
  records still agree with the metadata in memory.
\<close>

theorem event_queue_persisted:
  assumes "tx_env E view" and "coherent E view s"
    and "push_event E e s = (Ok (), s') \<or> event_handled E s = (Ok (), s')"
  shows "view (disk s') queue_key = Some (EventQueueSerWrapper_encode E (queue s'))
    \<and> waker s' = None \<and> coherent E view s'"
proof -
  have ctx: "event_ctx E view" using assms(1) by (simp add: event_ctx_def)
  from assms(3) show ?thesis
  proof
    assume run: "push_event E e s = (Ok (), s')"
    then show ?thesis
      using event_ctx.queue_written [OF ctx run [unfolded push_event_def]]
        event_ctx.push_event_coherent [OF ctx assms(2), of e] by simp
  next
    assume run: "event_handled E s = (Ok (), s')"
    then show ?thesis
      using event_ctx.queue_written [OF ctx run [unfolded event_handled_def]]
        event_ctx.event_handled_coherent [OF ctx assms(2)] by simp
  qed
qed

theorem event_queue_persisted_witness:
  "\<exists>s'. push_event sample_event_env (PaymentFailed id_t None None) empty_queue = (Ok (), s')
     \<and> coherent sample_event_env mem_view s'"
proof -
  obtain s' where run: "push_event sample_event_env (PaymentFailed id_t None None) empty_queue = (Ok (), s')"
    by (rule sample_ev.push_event_Ok)
  with event_queue_persisted [OF sample_ev.tx_env_axioms empty_queue_coherent, of _ s']
  show ?thesis by blast
qed

text \<open>
  The length that precedes the events on disk is a 16-bit number: it is the number of events
  for queues of fewer than 65536 events, and wraps beyond, so a queue of exactly 65536 events
  is written with the length of the empty queue.
\<close>

lemma event_queue_length_wraps:
  "EventQueueSerWrapper_encode E q =
     u16_encode E (length q mod 65536) @ concat (map (event_encode E) q)
   \<and> (length q < 65536 \<longleftrightarrow> length q mod 65536 = length q)
   \<and> take (length (u16_encode E 0)) (EventQueueSerWrapper_encode E (replicate 65536 e))
       = EventQueueSerWrapper_encode E []"
proof -
  have "length q < 65536 \<longleftrightarrow> length q mod 65536 = length q"
    by (metis mod_less mod_less_divisor zero_less_numeral)
  then show ?thesis
    by (simp add: EventQueueSerWrapper_encode_def as_u16_def)
qed

text \<open>
  C2. A multi-path payment yields one event, whenever its legs finish: for either order of the
  two legs, each succeeding or failing, and whether their terminal events come before the leg
  metadata is registered or after the setup has ended, the queue grows by exactly the combined
  event, under the surface id, and nothing stays buffered. Each call of \<open>add_event\<close> is one step here;
  what can come into the gap inside it is shown by \<open>add_event_leg_race\<close> below.
\<close>

theorem mpp_one_combined_event:
  assumes "reliable_tx_env E view" and "coherent E view s" and "wf_id T" and "wf_id L" and "T \<noteq> L"
    and "\<not> is_mpp_leg T s" and "\<not> is_mpp_leg L s" and "pending_mpp_events s h = None"
    and "md_ty md = MppPayment p" and "surface_id p = T" and "fresh_mpp p"
    and "(a, b) = (T, L) \<or> (a, b) = (L, T)"
    and "early @ late = [leg_event a h ra, leg_event b h rb]"
  shows "\<exists>s'. mpp_setup_run E h T L md early late s = (Ok (), s')
    \<and> queue s' = queue s @ [combined_event T (mpp_outcome (lightning_leg p) ra rb)]
    \<and> pending_mpp_events s' = pending_mpp_events s"
  using assms by (intro reliable_event_ctx.mpp_setup_combined) (auto simp: reliable_event_ctx_def)

theorem mpp_one_combined_event_witness:
  "\<exists>s'. mpp_setup_run sample_event_env (replicate 32 3) id_t id_l sample_md
      [leg_event id_l (replicate 32 3) (Some (Some 2, [1]))]
      [leg_event id_t (replicate 32 3) (Some (Some 1, [1]))] empty_queue = (Ok (), s')
    \<and> queue s' = [PaymentSuccessful id_t (replicate 32 3) [1] (Some 3)]"
  using mpp_one_combined_event [OF sample_ev.reliable_tx_env_axioms empty_queue_coherent
      sample_ids_wf(1,2) sample_ids_distinct(1), of "replicate 32 3" sample_md sample_mpp id_l id_t
      "[leg_event id_l (replicate 32 3) (Some (Some 2, [1]))]"
      "[leg_event id_t (replicate 32 3) (Some (Some 1, [1]))]"
      "Some (Some 2, [1])" "Some (Some 1, [1])"]
  by (auto simp: empty_queue_def EventQueue_new_def is_mpp_leg_def sample_md_def fresh_mpp_def
      mpp_outcome_def leg_result_def u64_saturating_add_def u64_max_def) (auto simp: sample_mpp_def)

text \<open>
  \<open>add_event\<close> looks whether its event belongs to a registered leg and only later takes the lock of the
  buffered events. If the whole setup of the payment runs in between, the leg is found neither
  registered nor buffered: its event is handed to the user under the leg's own identifier, and the
  leg's result is not recorded, so that the combined event does not come.
\<close>

theorem add_event_leg_race:
  assumes "reliable_tx_env E view" and "coherent E view s" and "wf_id T" and "wf_id L"
    and "\<not> is_mpp_leg a s" and "pending_mpp_events s h = None" and "md_ty md = MppPayment p" and "a \<in> {T, L}"
  shows "\<exists>s'. mpp_setup_run E h T L md [] [] s = (Ok (), s') \<and> is_mpp_leg a s'
    \<and> queue (snd (buffer_or_push E (leg_event a h r) s')) = queue s @ [leg_event a h r]
    \<and> tx_metadata (snd (buffer_or_push E (leg_event a h r) s')) = tx_metadata s'"
  using assms by (intro reliable_event_ctx.late_leg_pushed) (auto simp: reliable_event_ctx_def)

subsection \<open>Wake-ups\<close>

text \<open>
  C37. \<open>EventFuture\<close> can lose a wake-up: there is a schedule, a push between the two halves of a
  poll, after which the consumer is parked and not woken although an event is in the queue. It
  stays so until another event is pushed.
\<close>

theorem event_future_lost_wakeup:
  "\<exists>s. (wait_step E t)\<^sup>*\<^sup>* (EventQueue_new d md, Polling) (s, Parked)
     \<and> queue s = [e] \<and> waker s = Some t \<and> woken s = []"
proof -
  let ?s0 = "EventQueue_new d md"
  obtain r s1 where push: "push_event E e ?s0 = (r, s1)" by fastforce
  have q: "queue s1 = [e]" using push push_event_queue [of E e ?s0] by (simp add: EventQueue_new_def)
  have w: "woken s1 = []"
  proof -
    obtain r0 d' where "persist_queue E (?s0\<lparr>queue := [e]\<rparr>) = (r0, ?s0\<lparr>queue := [e], disk := d'\<rparr>)"
      using persist_queue_frame [of E "?s0\<lparr>queue := [e]\<rparr>"] by auto
    with push show ?thesis
      by (cases r0) (auto simp: push_event_def EventQueue_new_def wake_waker_def)
  qed
  have "next_event ?s0 = None" by (simp add: next_event_def EventQueue_new_def)
  then have "wait_step E t (?s0, Polling) (?s0, Registering)" by (rule poll_empty)
  moreover have "wait_step E t (?s0, Registering) (s1, Registering)" using push by (rule produced)
  moreover have "wait_step E t (s1, Registering) (s1\<lparr>waker := Some t\<rparr>, Parked)" by (rule poll_register)
  ultimately have "(wait_step E t)\<^sup>*\<^sup>* (?s0, Polling) (s1\<lparr>waker := Some t\<rparr>, Parked)"
    by (meson converse_rtranclp_into_rtranclp rtranclp.rtrancl_refl)
  with q w show ?thesis by (intro exI [of _ "s1\<lparr>waker := Some t\<rparr>"]) simp
qed

text \<open>
  C38. \<open>SplicePendingInbox\<close> loses no wake-up: in every reachable state, for any number of tasks and
  deliveries and every interleaving of their steps, a task that waits for a channel with a queued
  outpoint has been notified, or a delivery stands between its push and its \<open>notify_waiters\<close>, which
  will notify the task. So once no delivery is under way, no such task is left asleep.
\<close>

theorem splice_inbox_no_lost_wakeup:
  assumes "inbox_reachable chan s" and "waiters s t = Waiting"
    and "inbox_contents (chan t) (pending_txos s) \<noteq> []"
  shows "t \<in> notified s
    \<or> 0 < notifying s \<and> wait_for_step chan s (deliver_notify s) \<and> t \<in> notified (deliver_notify s)"
proof -
  have "t \<in> interested s" "t \<in> notified s \<or> 0 < notifying s"
    using inbox_reachable_inv [OF assms(1)] assms(2,3) by (auto simp: inbox_inv_def)
  then show ?thesis using notifies [of s chan] by (auto simp: deliver_notify_def)
qed

theorem splice_inbox_no_lost_wakeup_witness:
  "\<exists>s txo. inbox_reachable (\<lambda>_. 7) s \<and> waiters s 0 = Waiting \<and> notifying s = 0
     \<and> inbox_contents 7 (pending_txos s) = [txo] \<and> 0 \<in> notified s"
proof -
  let ?txo = "\<lparr>op_txid = [], op_vout = 0\<rparr>"
  let ?s1 = "inbox_init\<lparr>waiters := (\<lambda>_. Idle)(0 := Enabled), interested := {0}, notified := {}\<rparr>"
  let ?s2 = "?s1\<lparr>waiters := (\<lambda>_. Idle)(0 := Waiting)\<rparr>"
  let ?s3 = "deliver_push 7 ?txo ?s2"
  have "inbox_reachable (\<lambda>_. 7) ?s1"
    using inbox_step [OF inbox_start enable [of inbox_init 0 "\<lambda>_. 7"]] by (simp add: inbox_init_def)
  moreover have "wait_for_step (\<lambda>_. 7) ?s1 ?s2"
    using miss [of ?s1 0 "\<lambda>_. 7" Map.empty] by (simp add: inbox_init_def inbox_take_def)
  moreover have "wait_for_step (\<lambda>_. 7) ?s3 (deliver_notify ?s3)"
    by (rule notifies) (simp add: deliver_push_def)
  ultimately have r: "inbox_reachable (\<lambda>_. 7) (deliver_notify ?s3)" by (blast intro: inbox_step pushed)
  have s: "waiters (deliver_notify ?s3) 0 = Waiting" "notifying (deliver_notify ?s3) = 0"
      "inbox_contents 7 (pending_txos (deliver_notify ?s3)) = [?txo]"
    by (simp_all add: deliver_notify_def deliver_push_def inbox_push_def inbox_contents_def inbox_init_def)
  with splice_inbox_no_lost_wakeup [OF r s(1)] have "0 \<in> notified (deliver_notify ?s3)" by simp
  with r s show ?thesis by blast
qed

text \<open>
  The splices of a channel are handed out in the order they were delivered, each to one
  waiter: taking as often as there are outpoints yields the queued ones followed by the newly
  delivered ones, and leaves every other channel's queue alone.
\<close>

theorem splice_inbox_fifo:
  "fst (drain (\<lambda>m. fst (inbox_take k m)) (\<lambda>m. snd (inbox_take k m))
      (length (inbox_contents k m) + length txos) (fold (inbox_push k) txos m))
     = inbox_contents k m @ txos
   \<and> (j = k \<or> inbox_contents j (snd (inbox_take k m)) = inbox_contents j m)"
proof -
  have "j = k \<or> inbox_contents j (snd (inbox_take k m)) = inbox_contents j m"
    by (simp add: inbox_take_def inbox_contents_def Let_def split: option.split)
  then show ?thesis
    using inbox_fifo.drain_takes [of k "length (inbox_contents k m) + length txos"
        "fold (inbox_push k) txos m"]
    by (simp add: inbox_fifo.fold_push)
qed

end
