(* ===== verification/Rebalance_Props.thy ===== *)
theory Rebalance_Props
  imports Rebalance_Facts Event_Props
begin

text \<open>
  The properties of the rebalancer, the trigger and the handler, and of the three together:
  a rebalance the trigger asks for is recorded without a panic.
\<close>

context reliable_event_ctx
begin

lemma handle_initiated:
  assumes "coherent E view s" and "length rid = 32"
  obtains s' where "handle_rebalancer_event E now b (Rb_RebalanceInitiated tid rid amt) s = (Ok (), s')"
    and "tx_metadata s' = (tx_metadata s)(Trusted rid \<mapsto> \<lparr>md_time = now, md_ty = PendingRebalance\<rparr>)"
    and "queue s' = queue s @ [RebalanceInitiated (Trusted tid) rid amt]" and "coherent E view s'"
    and "spawned s' = spawned s"
proof -
  let ?m = "\<lparr>md_time = now, md_ty = PendingRebalance\<rparr>"
  have "wf_id (Trusted rid)" using assms(2) by (simp add: wf_id_def)
  from upsert_Ok [OF assms(1) this, of ?m] obtain d where
    ins: "insert_md E (Trusted rid) ?m s = (Ok (), s\<lparr>tx_metadata := (tx_metadata s)(Trusted rid \<mapsto> ?m), disk := d\<rparr>)"
    and co: "coherent E view (s\<lparr>tx_metadata := (tx_metadata s)(Trusted rid \<mapsto> ?m), disk := d\<rparr>)" by blast
  let ?s = "s\<lparr>tx_metadata := (tx_metadata s)(Trusted rid \<mapsto> ?m), disk := d\<rparr>"
  let ?e = "RebalanceInitiated (Trusted tid) rid amt"
  obtain s' where push: "push_event E ?e ?s = (Ok (), s')" "queue s' = queue ?s @ [?e]"
    "tx_metadata s' = tx_metadata ?s" "coherent E view s'"
    using push_event_Ok [of ?e ?s] co by blast
  have "spawned s' = spawned ?s"
    using push(1) by (auto simp: push_event_def persist_queue_def disk_write_def wake_waker_def
        split: prod.splits option.splits)
  with ins push show ?thesis
    by (intro that [of s']) (simp_all add: handle_rebalancer_event_def add_event_def
        buffer_or_push_def log_error_def)
qed

lemma handle_successful:
  assumes "coherent E view s" and "length rid = 32" and "length lid = 32" and "rid \<noteq> tid"
    and "tx_metadata s (Trusted tid) = Some \<lparr>md_time = t, md_ty = Payment ty\<rparr>"
  obtains s' where
    "handle_rebalancer_event E now b (Rb_RebalanceSuccessful tid rid lid amt fee) s = (Ok (), s')"
    and "tx_metadata s' = (tx_metadata s)
      (Trusted tid \<mapsto> \<lparr>md_time = t, md_ty = PaymentTriggeringTransferLightning ty\<rparr>,
       Trusted rid \<mapsto> \<lparr>md_time = now, md_ty = TrustedToLightning rid lid (Trusted tid)\<rparr>,
       SelfCustodial lid \<mapsto> \<lparr>md_time = now, md_ty = TrustedToLightning rid lid (Trusted tid)\<rparr>)"
    and "queue s' = queue s" and "coherent E view s'"
    and "spawned s' = spawned s @ [RebalanceSuccessful (Trusted tid) rid lid amt fee]"
proof -
  let ?t = "\<lparr>md_time = t, md_ty = PaymentTriggeringTransferLightning ty\<rparr>"
  let ?m = "\<lparr>md_time = now, md_ty = TrustedToLightning rid lid (Trusted tid)\<rparr>"
  have wf: "wf_id (Trusted rid)" "wf_id (SelfCustodial lid)" using assms(2,3) by (simp_all add: wf_id_def)
  have wft: "wf_id (Trusted tid)" using assms(1,5) by (auto simp: coherent_def dest: persisted_wf)
  let ?s0 = "s\<lparr>tx_metadata := (tx_metadata s)(Trusted tid \<mapsto> ?t)\<rparr>"
  obtain d0 where d0: "persist_entry E (Trusted tid) ?t ?s0 = (Ok (), ?s0\<lparr>disk := d0\<rparr>)"
    by (rule persist_entry_Ok)
  let ?s1 = "?s0\<lparr>disk := d0\<rparr>"
  have set: "set_tx_caused_rebalance E (Trusted tid) s = (Ok (), ?s1)"
    using d0 assms(5) by (simp add: set_tx_caused_rebalance_def Let_def)
  have co1: "coherent E view ?s1" using put_entry(2) [OF assms(1) wft d0] by simp
  from upsert_Ok [OF co1 wf(1), of ?m] obtain d1 where
    up: "upsert E (Trusted rid) ?m ?s1 = (Ok (), ?s1\<lparr>tx_metadata := (tx_metadata ?s1)(Trusted rid \<mapsto> ?m), disk := d1\<rparr>)"
    and co2: "coherent E view (?s1\<lparr>tx_metadata := (tx_metadata ?s1)(Trusted rid \<mapsto> ?m), disk := d1\<rparr>)" by blast
  let ?s2 = "?s1\<lparr>tx_metadata := (tx_metadata ?s1)(Trusted rid \<mapsto> ?m), disk := d1\<rparr>"
  from upsert_Ok [OF co2 wf(2), of ?m] obtain d2 where
    ins: "insert_md E (SelfCustodial lid) ?m ?s2 = (Ok (), ?s2\<lparr>tx_metadata := (tx_metadata ?s2)(SelfCustodial lid \<mapsto> ?m), disk := d2\<rparr>)"
    and co3: "coherent E view (?s2\<lparr>tx_metadata := (tx_metadata ?s2)(SelfCustodial lid \<mapsto> ?m), disk := d2\<rparr>)" by blast
  let ?s3 = "?s2\<lparr>tx_metadata := (tx_metadata ?s2)(SelfCustodial lid \<mapsto> ?m), disk := d2\<rparr>"
  let ?s4 = "?s3\<lparr>spawned := spawned s @ [RebalanceSuccessful (Trusted tid) rid lid amt fee]\<rparr>"
  have "handle_rebalancer_event E now b (Rb_RebalanceSuccessful tid rid lid amt fee) s = (Ok (), ?s4)"
    using set up ins by (simp add: handle_rebalancer_event_def Let_def)
  moreover have "coherent E view ?s4" using co3 by (simp add: coherent_def)
  ultimately show ?thesis by (intro that [of ?s4]) simp_all
qed

lemma run_spawned_single:
  assumes "spawned s = [RebalanceSuccessful i rid lid amt fee]"
  shows "fst (run_spawned E s) = Ok ()
    \<and> queue (snd (run_spawned E s)) = queue s @ [RebalanceSuccessful i rid lid amt fee]"
proof -
  let ?e = "RebalanceSuccessful i rid lid amt fee"
  obtain s' where "push_event E ?e (s\<lparr>spawned := []\<rparr>) = (Ok (), s')" "queue s' = queue s @ [?e]"
    using push_event_Ok [of ?e "s\<lparr>spawned := []\<rparr>"] by auto
  with assms show ?thesis
    by (simp add: run_spawned_def add_event_def buffer_or_push_def log_error_def)
qed

lemma join_writes_total: "\<not> is_panic (fst (join_writes E b (i, x) (j, y) s))"
proof -
  have w: "disk_write E p q k v u = (Ok (), u\<lparr>disk := snd (kv_write (kvs E) (disk u) p q k v)\<rparr>)"
    for p q k v and u :: "('s, 'd) tx_store_scheme"
    using disk.write_total [of "disk u" p q k v]
    by (cases "kv_write (kvs E) (disk u) p q k v") (simp add: disk_write_def)
  show ?thesis by (simp add: join_writes_def w Let_def)
qed

lemma splice_recorded:
  assumes "coherent E view s" and "wf_id j" and "i \<noteq> j"
    and "tx_metadata s i = Some \<lparr>md_time = t, md_ty = Payment ty\<rparr>"
  obtains s' where "set_tx_caused_rebalance_with_splice E b i j md s = (Ok (), s')"
    and "coherent E view s'"
    and "tx_metadata s' = (tx_metadata s)
      (i \<mapsto> \<lparr>md_time = t, md_ty = PaymentTriggeringTransferLightning ty\<rparr>, j \<mapsto> md)"
proof -
  let ?t = "\<lparr>md_time = t, md_ty = PaymentTriggeringTransferLightning ty\<rparr>"
  let ?s = "s\<lparr>tx_metadata := (tx_metadata s)(i \<mapsto> ?t, j \<mapsto> md)\<rparr>"
  have wf: "wf_id i" using assms(1,4) by (auto simp: coherent_def dest: persisted_wf)
  have old: "persisted E (view (disk ?s)) (tx_metadata s)" using assms(1) by (simp add: coherent_def)
  obtain r s' where run: "join_writes E b (i, ?t) (j, md) ?s = (r, s')" by fastforce
  have "\<not> is_panic r" using join_writes_total [of b i ?t j md ?s] run by simp
  from join_writes_coherent [OF old _ wf assms(2,3) run this] run assms(4) show ?thesis
    by (intro that [of s']) (simp_all add: set_tx_caused_rebalance_with_splice_def Let_def)
qed

end

subsection \<open>The rebalancer\<close>

text \<open>
  C12. The amount sent: when a trusted rebalance has an estimate of the fee, the amount it pays
  and that fee are together exactly the amount the trigger allowed, the amount is positive, and
  the invoice it pays was created for that amount; a fee that would eat the whole amount stops
  the rebalance.
\<close>

theorem trusted_rebalance_within_budget:
  assumes "amount_laws A" and "tp_amount params < amount_max"
    and "l_get_bolt11_invoice R (Some (tp_amount params)) w = (Ok i0, w0)"
    and "t_estimate_fee R (LightningBolt11 i0) (tp_amount params) w0 = (Ok fee, w1)"
    and "plan_trusted_rebalance A R params w = (Ok plan, w')"
  shows "(case plan of
      Some (i, amt) \<Rightarrow> amt + fee = tp_amount params \<and> 0 < amt
        \<and> (\<exists>u u'. l_get_bolt11_invoice R (Some amt) u = (Ok i, u'))
    | None \<Rightarrow> tp_amount params \<le> fee
        \<or> (\<exists>u e u'. l_get_bolt11_invoice R (Some (tp_amount params - fee)) u = (Err e, u')))"
proof (cases plan)
  case None
  with assms show ?thesis
    by (auto simp: plan_trusted_rebalance_def Let_def amount_laws.saturating_sub_eq
        split: prod.splits result.splits if_splits)
next
  case (Some x)
  then show ?thesis
    using amount_laws.plan_fee_exact [OF assms(1) _ assms(3,4,2)] assms(5) by (cases x) auto
qed

text \<open>A world on which to evaluate: invoices and payments that succeed, a fee of 3 sats.\<close>

definition sample_ops :: "(unit, unit, unit) rebalancer_ops" where
  "sample_ops = \<lparr>t_get_balance = (\<lambda>w. (Ok 0, w)), 
     t_get_bolt11_invoice = (\<lambda>a w. (Err (), w)), t_pay = (\<lambda>m a w. (Ok (replicate 32 5), w)),
     t_estimate_fee = (\<lambda>m a w. (Ok 3000, w)),
     t_await_payment_success = (\<lambda>h w. (Some \<lparr>rp_id = h, rp_fee_paid_msat = Some 2000\<rparr>, w)),
     l_get_balance = (\<lambda>w. \<lparr>lb_lightning = 0, lb_onchain = 0\<rparr>),
     l_get_bolt11_invoice = (\<lambda>a w. (Ok \<lparr>inv_payment_hash = replicate 32 6, inv_amount_milli_satoshis = a\<rparr>, w)),
     l_pay = (\<lambda>m a w. (Err (), w)),
     l_await_payment_receipt = (\<lambda>h w. (Some \<lparr>rp_id = h, rp_fee_paid_msat = None\<rparr>, w)),
     l_has_channel_with_lsp = (\<lambda>w. True), l_open_channel_with_lsp = (\<lambda>w. (Ok 1, w)),
     l_await_channel_pending = (\<lambda>c w. (\<lparr>op_txid = replicate 32 8, op_vout = 0\<rparr>, w)),
     l_splice_to_lsp_channel = (\<lambda>w. (Ok 1, w)),
     l_await_splice_pending = (\<lambda>c w. (\<lparr>op_txid = replicate 32 8, op_vout = 0\<rparr>, w)),
     needs_trusted = (\<lambda>w. (Ok (Some \<lparr>tp_id = replicate 32 7, tp_amount = 50000\<rparr>), w)),
     needs_onchain = (\<lambda>w. (Ok None, w)), handle_event = IgnoringEventHandler\<rparr>"

theorem trusted_rebalance_within_budget_witness:
  "\<exists>i. plan_trusted_rebalance msat_ops sample_ops \<lparr>tp_id = replicate 32 7, tp_amount = 50000\<rparr> ()
     = (Ok (Some (i, 47000)), ()) \<and> 47000 + 3000 = (50000 :: nat)"
proof -
  let ?params = "\<lparr>tp_id = replicate 32 7, tp_amount = 50000\<rparr>"
  let ?i = "\<lparr>inv_payment_hash = replicate 32 6, inv_amount_milli_satoshis = Some 47000\<rparr>"
  have plan: "plan_trusted_rebalance msat_ops sample_ops ?params () = (Ok (Some (?i, 47000)), ())"
    by (simp add: plan_trusted_rebalance_def sample_ops_def msat_ops_def amount_max_def)
  from trusted_rebalance_within_budget [OF msat.amount_laws_axioms, of ?params sample_ops "()"
      "\<lparr>inv_payment_hash = replicate 32 6, inv_amount_milli_satoshis = Some 50000\<rparr>" "()" 3000 "()"
      "Some (?i, 47000)" "()"] plan
  show ?thesis by (simp add: sample_ops_def amount_max_def)
qed

text \<open>
  Whatever the wallets answer, a trusted rebalance asks for at most one payment, of at most
  the trigger's amount, reports \<open>RebalanceInitiated\<close> only after that payment was accepted and
  \<open>RebalanceSuccessful\<close> only after that, with the same trigger, the same payment and the same
  amount; it touches no channel.
\<close>

theorem trusted_rebalance_trace:
  assumes "amount_laws A"
    and "do_trusted_rebalance_locked A (observe R) params (w, []) = (r, w', log)"
  shows "trusted_trace params log"
  using assms by (rule amount_laws.do_trusted_trace)

theorem trusted_rebalance_trace_witness:
  "trusted_trace \<lparr>tp_id = [], tp_amount = 50000\<rparr>
     (snd (snd (do_trusted_rebalance_locked msat_ops (observe sample_ops)
        \<lparr>tp_id = [], tp_amount = 50000\<rparr> ((), []))))"
  using trusted_rebalance_trace [OF msat.amount_laws_axioms,
      of sample_ops "\<lparr>tp_id = [], tp_amount = 50000\<rparr>" "()"]
  by (cases "do_trusted_rebalance_locked msat_ops (observe sample_ops)
      \<lparr>tp_id = [], tp_amount = 50000\<rparr> ((), [])") auto

subsection \<open>The trigger\<close>

text \<open>
  C13. What a trusted rebalance is asked for: only when the stored switch is on, with more than
  the configured minimum and never more than the trusted balance, leaving at most the configured
  limit with the trusted wallet; the payment named as the trigger is in the metadata as a plain
  payment, and no event is queued.
\<close>

theorem trusted_trigger_sound:
  assumes "event_ctx E view" and "amount_laws A" and "coherent E view s" and "cache_coherent E view s"
    and "in_trusted_payments inp = Ok ps" and "\<forall>p \<in> set ps. length (p_id p) = 32"
    and "needs_trusted_rebalance E A tn inp s = (Ok (Some params), s')"
  shows "switch_value E view (disk s) = Some True
    \<and> (\<exists>bal. in_trusted_balance inp = Ok bal \<and> rebalance_min tn < tp_amount params
         \<and> tp_amount params \<le> bal \<and> bal - tp_amount params \<le> trusted_balance_limit tn)
    \<and> is_payment (Trusted (tp_id params)) (tx_metadata s') \<and> queue s' = queue s
    \<and> coherent E view s'"
  using event_ctx.needs_trusted_Some [OF assms(1,7,3,4)] assms(5,6)
    transfer_amount_bounds [OF assms(2)] by fastforce

text \<open>A state and inputs on which the trigger fires: one payment of 60 sats with the trusted wallet.\<close>

definition sample_tunables :: Tunables where
  "sample_tunables = \<lparr>trusted_balance_limit = 50000, rebalance_min = 5000,
     onchain_receive_threshold = 10000, enable_amountless_receive_on_chain = True\<rparr>"

definition sample_onchain :: PaymentDetails where
  "sample_onchain = \<lparr>pd_id = replicate 32 9, pd_kind = Onchain (replicate 32 9) (Confirmed [] 1 1),
     pd_amount_msat = Some 90000, pd_fee_paid_msat = None, pd_direction = Inbound,
     pd_status = PS_Succeeded, pd_latest_update_timestamp = 5\<rparr>"

definition sample_inputs :: trigger_inputs where
  "sample_inputs = \<lparr>in_trusted_payments = Ok [\<lparr>p_id = replicate 32 7, p_amount = 60000, p_fee = 0,
       p_status = Completed, p_outbound = False, p_time_since_epoch = 4\<rparr>],
     in_trusted_balance = Ok 60000, in_receivable_balance = 20000,
     in_onchain_sync_timestamp = Some 7, in_ldk_payments = [sample_onchain],
     in_ldk_payments_later = [sample_onchain], in_spendable_onchain_balance_sats = 90\<rparr>"

definition sample_trigger :: "mem_kv trigger_state" where
  "sample_trigger = (OrangeTrigger_new None empty_queue)\<lparr>cached := Some True,
     disk := AList.update switch_key (bool_encode sample_event_env True) []\<rparr>"

lemma sample_trigger_coherent [simp]:
  "coherent sample_event_env mem_view sample_trigger"
  "cache_coherent sample_event_env mem_view sample_trigger"
  by (simp_all add: coherent_def cache_coherent_def persisted_def sample_trigger_def mem_view_def
      OrangeTrigger_new_def event_queue.defs empty_queue_def EventQueue_new_def switch_key_def
      switch_value_def STORE_SECONDARY_KEY_def sample.bool_roundtrip)

lemma sample_trigger_enabled [simp]:
  "get_rebalance_enabled sample_event_env sample_trigger = (Ok True, sample_trigger)"
  by (simp add: get_rebalance_enabled_def RebalanceEnabledCache_get_def sample_trigger_def)

lemma sample_trigger_fields [simp]:
  "tx_metadata sample_trigger = Map.empty" "onchain_sync_time sample_trigger = 0"
  "spawned sample_trigger = []" "queue sample_trigger = []"
  by (simp_all add: sample_trigger_def OrangeTrigger_new_def event_queue.defs trigger_state.defs
      empty_queue_def EventQueue_new_def)

lemma sample_trigger_fires:
  obtains s' where "needs_trusted_rebalance sample_event_env msat_ops sample_tunables sample_inputs
    sample_trigger = (Ok (Some \<lparr>tp_id = replicate 32 7, tp_amount = 15000\<rparr>), s')"
proof -
  have wf: "wf_id (Trusted (replicate 32 7))" by (simp add: wf_id_def)
  let ?md = "\<lparr>md_time = 4, md_ty = Payment IncomingLightning\<rparr>"
  from sample_ev.upsert_Ok [OF sample_trigger_coherent(1) wf, of ?md] obtain d where
    ins: "insert_md sample_event_env (Trusted (replicate 32 7)) ?md sample_trigger
     = (Ok (), sample_trigger\<lparr>tx_metadata := (tx_metadata sample_trigger)
          (Trusted (replicate 32 7) \<mapsto> ?md), disk := d\<rparr>)" by blast
  let ?p = "\<lparr>p_id = replicate 32 7, p_amount = 60000, p_fee = 0, p_status = Completed,
    p_outbound = False, p_time_since_epoch = 4\<rparr>"
  have scan: "scan_payment sample_event_env ?p ([], None) sample_trigger
    = (Ok ([(60000, replicate 32 7)], None), sample_trigger\<lparr>tx_metadata := (tx_metadata sample_trigger)
          (Trusted (replicate 32 7) \<mapsto> ?md), disk := d\<rparr>)"
    using ins by (simp add: scan_payment_def)
  show ?thesis
    by (rule that) (use scan in \<open>simp add: needs_trusted_rebalance_def sample_inputs_def
        transfer_amount_def sample_tunables_def msat_ops_def victim_def\<close>)
qed

theorem trusted_trigger_sound_witness:
  "\<exists>s'. needs_trusted_rebalance sample_event_env msat_ops sample_tunables sample_inputs sample_trigger
       = (Ok (Some \<lparr>tp_id = replicate 32 7, tp_amount = 15000\<rparr>), s')
     \<and> is_payment (Trusted (replicate 32 7)) (tx_metadata s')"
proof -
  obtain s' where run: "needs_trusted_rebalance sample_event_env msat_ops sample_tunables sample_inputs
    sample_trigger = (Ok (Some \<lparr>tp_id = replicate 32 7, tp_amount = 15000\<rparr>), s')"
    by (rule sample_trigger_fires)
  from trusted_trigger_sound [OF sample_ev.event_ctx_axioms msat.amount_laws_axioms
      sample_trigger_coherent _ _ run] run
  show ?thesis by (simp add: sample_inputs_def)
qed

text \<open>
  C14. What an on-chain rebalance is asked for: only when the stored switch is on, the chain
  synced since the last call and the spendable balance is over the configured minimum, for the
  whole of that balance; the transaction named as the trigger is in the metadata as a plain
  payment; and asking again before the next sync asks for nothing.
\<close>

theorem onchain_trigger_sound:
  assumes "event_ctx E view" and "coherent E view s" and "cache_coherent E view s"
    and "\<forall>p \<in> set (in_ldk_payments_later inp). wf_payment p"
    and "needs_onchain_rebalance E A tn inp s = (Ok (Some params), s')"
  shows "switch_value E view (disk s) = Some True
    \<and> in_onchain_sync_timestamp inp = Some (onchain_sync_time s')
    \<and> onchain_sync_time s' \<noteq> onchain_sync_time s
    \<and> sats_rounding_up A (rebalance_min tn) < in_spendable_onchain_balance_sats inp
    \<and> from_sats A (in_spendable_onchain_balance_sats inp) = Ok (tp_amount params)
    \<and> is_payment (SelfCustodial (tp_id params)) (tx_metadata s') \<and> coherent E view s'
    \<and> (\<forall>q t'. needs_onchain_rebalance E A tn inp s' \<noteq> (Ok (Some q), t'))"
proof -
  note 1 = event_ctx.needs_onchain_Some [OF assms(1,5,3,2,4)]
  have "needs_onchain_rebalance E A tn inp s' \<noteq> (Ok (Some q), t')" for q t'
  proof
    assume run: "needs_onchain_rebalance E A tn inp s' = (Ok (Some q), t')"
    then obtain en u where en: "get_rebalance_enabled E s' = (Ok en, u)"
      by (auto simp: needs_onchain_rebalance_def)
    from event_ctx.get_rebalance_enabled_sync_time [OF assms(1) en] 1 run en show False
      by (auto simp: needs_onchain_rebalance_def Let_def split: if_splits)
  qed
  with 1 show ?thesis by blast
qed

lemma sample_onchain_fires:
  obtains s' where "needs_onchain_rebalance sample_event_env msat_ops sample_tunables sample_inputs
    sample_trigger = (Ok (Some \<lparr>tp_id = replicate 32 9, tp_amount = 90000\<rparr>), s')"
proof -
  let ?e = "OnchainPaymentReceived (SelfCustodial (replicate 32 9)) (replicate 32 9) 90 (Confirmed [] 1 1)"
  let ?s = "sample_trigger\<lparr>onchain_sync_time := 7\<rparr>"
  have "coherent sample_event_env mem_view ?s"
    using sample_trigger_coherent(1) by (simp add: coherent_def)
  then obtain s1 where push: "push_event sample_event_env ?e ?s = (Ok (), s1)"
    "tx_metadata s1 = Map.empty" "coherent sample_event_env mem_view s1"
    using sample_ev.push_event_Ok [of ?e ?s] by (auto simp del: fun_upd_apply)
  have wf: "wf_id (SelfCustodial (replicate 32 9))" by (simp add: wf_id_def)
  from sample_ev.upsert_Ok [OF push(3) wf] obtain s2 where
    "insert_md sample_event_env (SelfCustodial (replicate 32 9)) \<lparr>md_time = from_secs 5,
       md_ty = Payment (IncomingOnChain (Some (replicate 32 9)))\<rparr> s1 = (Ok (), s2)" by blast
  with push(1,2) show ?thesis
    by (intro that) (simp add: needs_onchain_rebalance_def sample_inputs_def sample_onchain_def
        is_new_recv_def sample_tunables_def msat_ops_def add_onchain_event trigger_candidate_def
        can_mark_as_trigger_def List.map_filter_def amount_max_def)
qed

theorem onchain_trigger_sound_witness:
  "\<exists>s'. needs_onchain_rebalance sample_event_env msat_ops sample_tunables sample_inputs sample_trigger
       = (Ok (Some \<lparr>tp_id = replicate 32 9, tp_amount = 90000\<rparr>), s') \<and> onchain_sync_time s' = 7"
proof -
  obtain s' where run: "needs_onchain_rebalance sample_event_env msat_ops sample_tunables sample_inputs
    sample_trigger = (Ok (Some \<lparr>tp_id = replicate 32 9, tp_amount = 90000\<rparr>), s')"
    by (rule sample_onchain_fires)
  have "\<forall>p \<in> set (in_ldk_payments_later sample_inputs). wf_payment p"
    by (simp add: sample_inputs_def wf_payment_def sample_onchain_def)
  from onchain_trigger_sound [OF sample_ev.event_ctx_axioms sample_trigger_coherent this run] run
  show ?thesis by (auto simp: sample_inputs_def)
qed

subsection \<open>The trigger, the rebalancer's events and the handler together\<close>

text \<open>
  What is recorded between two states when a rebalance succeeds: the trigger, that had time
  \<open>t\<close> and type \<open>ty\<close>, is promoted, both sides of the transfer point to it, all of it is on
  disk, and the event for the user is with a spawned task.
\<close>

definition rebalance_settled :: "('s, 'e) event_env_scheme \<Rightarrow> ('s \<Rightarrow> kv_view) \<Rightarrow> duration \<Rightarrow>
    duration \<times> PaymentType \<Rightarrow> bytes32 \<Rightarrow> bytes32 \<Rightarrow> bytes32 \<Rightarrow> Event \<Rightarrow>
    ('s, 'x) trigger_state_scheme \<Rightarrow> ('s, 'x) trigger_state_scheme \<Rightarrow> bool" where
  "rebalance_settled E view now trigger tid rid lid e s s' \<longleftrightarrow>
     (let transfer = \<lparr>md_time = now, md_ty = TrustedToLightning rid lid (Trusted tid)\<rparr>
      in tx_metadata s' = (tx_metadata s)
          (Trusted tid \<mapsto> \<lparr>md_time = fst trigger, md_ty = PaymentTriggeringTransferLightning (snd trigger)\<rparr>,
           Trusted rid \<mapsto> transfer, SelfCustodial lid \<mapsto> transfer)
       \<and> coherent E view s' \<and> queue s' = queue s \<and> spawned s' = spawned s @ [e])"

text \<open>
  C10. A rebalance the trigger asked for is recorded without a panic on a store whose writes
  succeed: the initiated event is queued for the user; and in whatever state other tasks have
  left the wallet by the time of success, as long as they kept the trigger's entry, the trigger
  is promoted with its time and type kept, both sides of the transfer get an entry that points
  to it, everything is on disk, and the task spawned for it queues the final event.
\<close>

theorem trusted_rebalance_recorded:
  assumes "reliable_event_ctx E view" and "coherent E view s" and "cache_coherent E view s"
    and "in_trusted_payments inp = Ok ps" and "\<forall>p \<in> set ps. length (p_id p) = 32"
    and "needs_trusted_rebalance E A tn inp s = (Ok (Some params), s1)"
    and "tp_id params = tid" and "length rid = 32" and "length lid = 32" and "rid \<noteq> tid"
    and "e = RebalanceSuccessful (Trusted tid) rid lid amt fee"
  shows "\<exists>s2 t ty. handle_rebalancer_event E now b (Rb_RebalanceInitiated tid rid amt) s1 = (Ok (), s2)
    \<and> queue s2 = queue s @ [RebalanceInitiated (Trusted tid) rid amt]
    \<and> tx_metadata s2 (Trusted rid) = Some \<lparr>md_time = now, md_ty = PendingRebalance\<rparr>
    \<and> tx_metadata s2 (Trusted tid) = Some \<lparr>md_time = t, md_ty = Payment ty\<rparr>
    \<and> (\<forall>s3. coherent E view s3 \<and> tx_metadata s3 (Trusted tid) = tx_metadata s2 (Trusted tid) \<longrightarrow>
        (\<exists>s4. handle_rebalancer_event E later b (Rb_RebalanceSuccessful tid rid lid amt fee) s3 = (Ok (), s4)
          \<and> rebalance_settled E view later (t, ty) tid rid lid e s3 s4
          \<and> (spawned s3 = [] \<longrightarrow> fst (run_spawned E s4) = Ok ()
              \<and> queue (snd (run_spawned E s4)) = queue s3 @ [e])))"
proof -
  note R = assms(1)
  have C: "event_ctx E view" using R by (simp add: reliable_event_ctx_def event_ctx_def reliable_tx_env_def)
  have "\<forall>ps. in_trusted_payments inp = Ok ps \<longrightarrow> (\<forall>p \<in> set ps. length (p_id p) = 32)"
    using assms(4,5) by simp
  note 1 = event_ctx.needs_trusted_Some [OF C assms(6,2,3) this]
  then obtain t ty where pay: "tx_metadata s1 (Trusted tid) = Some \<lparr>md_time = t, md_ty = Payment ty\<rparr>"
    using assms(7) by (auto simp: is_payment_def)
  from 1 have co1: "coherent E view s1" and q1: "queue s1 = queue s" by simp_all
  obtain s2 where s2: "handle_rebalancer_event E now b (Rb_RebalanceInitiated tid rid amt) s1 = (Ok (), s2)"
    "tx_metadata s2 = (tx_metadata s1)(Trusted rid \<mapsto> \<lparr>md_time = now, md_ty = PendingRebalance\<rparr>)"
    "queue s2 = queue s1 @ [RebalanceInitiated (Trusted tid) rid amt]"
    by (rule reliable_event_ctx.handle_initiated [OF R co1 assms(8), of now b tid amt])
  have tid2: "tx_metadata s2 (Trusted tid) = Some \<lparr>md_time = t, md_ty = Payment ty\<rparr>"
    using pay s2(2) assms(10) by simp
  have step: "\<exists>s4. handle_rebalancer_event E later b (Rb_RebalanceSuccessful tid rid lid amt fee) s3 = (Ok (), s4)
      \<and> rebalance_settled E view later (t, ty) tid rid lid e s3 s4
      \<and> (spawned s3 = [] \<longrightarrow> fst (run_spawned E s4) = Ok () \<and> queue (snd (run_spawned E s4)) = queue s3 @ [e])"
    if s3: "coherent E view s3" "tx_metadata s3 (Trusted tid) = tx_metadata s2 (Trusted tid)" for s3
  proof -
    from s3(2) tid2 have "tx_metadata s3 (Trusted tid) = Some \<lparr>md_time = t, md_ty = Payment ty\<rparr>" by simp
    from reliable_event_ctx.handle_successful [OF R s3(1) assms(8,9,10) this, of later b amt fee]
    obtain s4 where s4: "handle_rebalancer_event E later b (Rb_RebalanceSuccessful tid rid lid amt fee) s3 = (Ok (), s4)"
      "rebalance_settled E view later (t, ty) tid rid lid e s3 s4"
      unfolding rebalance_settled_def assms(11) Let_def fst_conv snd_conv by blast
    moreover from s4(2) have "spawned s4 = spawned s3 @ [e]" "queue s4 = queue s3"
      unfolding rebalance_settled_def Let_def by blast+
    ultimately show ?thesis using reliable_event_ctx.run_spawned_single [OF R, of s4] assms(11) by auto
  qed
  have "tx_metadata s2 (Trusted rid) = Some \<lparr>md_time = now, md_ty = PendingRebalance\<rparr>"
    using s2(2) by simp
  with s2(1) s2(3) [unfolded q1] tid2 step show ?thesis by blast
qed

theorem trusted_rebalance_recorded_witness:
  "\<exists>s1 s2. needs_trusted_rebalance sample_event_env msat_ops sample_tunables sample_inputs sample_trigger
       = (Ok (Some \<lparr>tp_id = replicate 32 7, tp_amount = 15000\<rparr>), s1)
     \<and> handle_rebalancer_event sample_event_env 8 True
         (Rb_RebalanceInitiated (replicate 32 7) (replicate 32 5) 15000) s1 = (Ok (), s2)
     \<and> queue s2 = [RebalanceInitiated (Trusted (replicate 32 7)) (replicate 32 5) 15000]"
proof -
  obtain s1 where run: "needs_trusted_rebalance sample_event_env msat_ops sample_tunables sample_inputs
    sample_trigger = (Ok (Some \<lparr>tp_id = replicate 32 7, tp_amount = 15000\<rparr>), s1)"
    by (rule sample_trigger_fires)
  from trusted_rebalance_recorded [OF sample_ev.reliable_event_ctx_axioms sample_trigger_coherent _ _ run
      refl, of _ "replicate 32 5" "replicate 32 6" _ 15000 0 8 True] run
  show ?thesis by (fastforce simp: sample_inputs_def)
qed

text \<open>
  C11. An on-chain rebalance the trigger asked for is recorded without a panic on a store whose
  writes succeed, in whatever state other tasks have left the wallet as long as they kept the
  trigger's entry: the trigger is promoted, the funding or splice transaction gets an entry that
  points to it, no other entry changes, and both are on disk.
\<close>

theorem onchain_rebalance_recorded:
  assumes "reliable_event_ctx E view" and "coherent E view s" and "cache_coherent E view s"
    and "\<forall>p \<in> set (in_ldk_payments_later inp). wf_payment p"
    and "needs_onchain_rebalance E A tn inp s = (Ok (Some params), s1)"
    and "coherent E view s2"
    and "tx_metadata s2 (SelfCustodial (tp_id params)) = tx_metadata s1 (SelfCustodial (tp_id params))"
    and "length (op_txid chan) = 32" and "op_txid chan \<noteq> tp_id params"
  shows "\<exists>s3 t ty. handle_rebalancer_event E now b (Rb_OnChainRebalanceInitiated (tp_id params) c chan) s2
      = (Ok (), s3) \<and> coherent E view s3
    \<and> tx_metadata s1 (SelfCustodial (tp_id params)) = Some \<lparr>md_time = t, md_ty = Payment ty\<rparr>
    \<and> tx_metadata s3 = (tx_metadata s2)
        (SelfCustodial (tp_id params) \<mapsto> \<lparr>md_time = t, md_ty = PaymentTriggeringTransferLightning ty\<rparr>,
         SelfCustodial (op_txid chan) \<mapsto>
           \<lparr>md_time = now, md_ty = OnchainToLightning (op_txid chan) (tp_id params)\<rparr>)"
proof -
  note R = assms(1)
  have C: "event_ctx E view" using R by (simp add: reliable_event_ctx_def event_ctx_def reliable_tx_env_def)
  obtain t ty where pay: "tx_metadata s1 (SelfCustodial (tp_id params)) = Some \<lparr>md_time = t, md_ty = Payment ty\<rparr>"
    using event_ctx.needs_onchain_Some [OF C assms(5,3,2,4)] by (auto simp: is_payment_def)
  have wf: "wf_id (SelfCustodial (op_txid chan))" using assms(8) by (simp add: wf_id_def)
  have ne: "SelfCustodial (tp_id params) \<noteq> SelfCustodial (op_txid chan)" using assms(9) by simp
  obtain s3 where "set_tx_caused_rebalance_with_splice E b (SelfCustodial (tp_id params))
      (SelfCustodial (op_txid chan)) \<lparr>md_time = now, md_ty = OnchainToLightning (op_txid chan) (tp_id params)\<rparr> s2
      = (Ok (), s3)" "coherent E view s3"
    "tx_metadata s3 = (tx_metadata s2)
        (SelfCustodial (tp_id params) \<mapsto> \<lparr>md_time = t, md_ty = PaymentTriggeringTransferLightning ty\<rparr>,
         SelfCustodial (op_txid chan) \<mapsto>
           \<lparr>md_time = now, md_ty = OnchainToLightning (op_txid chan) (tp_id params)\<rparr>)"
    by (rule reliable_event_ctx.splice_recorded [OF R assms(6) wf ne assms(7) [unfolded pay]])
  with pay show ?thesis by (simp add: handle_rebalancer_event_def Let_def)
qed

theorem onchain_rebalance_recorded_witness:
  "\<exists>s1 s3. needs_onchain_rebalance sample_event_env msat_ops sample_tunables sample_inputs sample_trigger
       = (Ok (Some \<lparr>tp_id = replicate 32 9, tp_amount = 90000\<rparr>), s1)
     \<and> handle_rebalancer_event sample_event_env 8 True
         (Rb_OnChainRebalanceInitiated (replicate 32 9) 1 \<lparr>op_txid = replicate 32 8, op_vout = 0\<rparr>) s1
       = (Ok (), s3)"
proof -
  obtain s1 where run: "needs_onchain_rebalance sample_event_env msat_ops sample_tunables sample_inputs
    sample_trigger = (Ok (Some \<lparr>tp_id = replicate 32 9, tp_amount = 90000\<rparr>), s1)"
    by (rule sample_onchain_fires)
  have wf: "\<forall>p \<in> set (in_ldk_payments_later sample_inputs). wf_payment p"
    by (simp add: sample_inputs_def wf_payment_def sample_onchain_def)
  from event_ctx.needs_onchain_Some [OF sample_ev.event_ctx_axioms run sample_trigger_coherent(2,1) wf]
  have co: "coherent sample_event_env mem_view s1" by simp
  from onchain_rebalance_recorded [OF sample_ev.reliable_event_ctx_axioms sample_trigger_coherent wf run
      co refl, of "\<lparr>op_txid = replicate 32 8, op_vout = 0\<rparr>" 8 True 1] run
  show ?thesis by auto
qed

end
