(* ===== verification/Cashu_Types.thy ===== *)
theory Cashu_Types
  imports Trusted_Interface
begin

text \<open>
  The data of the Cashu wallet database (\<open>trusted_wallet/cashu/cashu_store.rs\<close>): the records of
  the crate \<open>cdk\<close> with the fields this database reads (the rest of each is one opaque field), its
  errors and their conversions, and the environment. What \<open>cdk\<close>, \<open>serde_json\<close> and the hasher
  of the standard library compute is a field of the environment.
\<close>

type_synonym MintUrl = string
type_synonym Uuid = bytes
type_synonym KeysetId = bytes
type_synonym SpendingConditions = bytes
type_synonym TransactionId = bytes
type_synonym MintInfo = bytes
type_synonym MintKeys = bytes

text \<open>\<open>Cu_Other\<close>: a unit that later versions of cdk add, with its name.\<close>

datatype CurrencyUnit = Cu_Sat | Cu_Msat | Cu_Usd | Cu_Eur | Cu_Auth | Cu_Custom string | Cu_Other string

datatype State = St_Spent | St_Unspent | St_Pending | St_Reserved | St_PendingSpent

datatype TransactionDirection = Incoming | Outgoing

datatype TransactionStatus = Ts_Pending | Ts_Completed | Ts_Failed

record Proof =
  pr_amount :: u64
  pr_rest :: bytes

record ProofInfo =
  pi_proof :: Proof
  pi_y :: PublicKey
  pi_mint_url :: MintUrl
  pi_state :: State
  pi_spending_condition :: "SpendingConditions option"
  pi_unit :: CurrencyUnit
  pi_used_by_operation :: "Uuid option"
  pi_derivation_index :: "u32 option"

record KeySetInfo =
  ki_id :: KeysetId
  ki_active :: bool
  ki_input_fee_ppk :: u64
  ki_rest :: bytes

record KeySet =
  ks_id :: KeysetId
  ks_keys :: MintKeys
  ks_rest :: bytes

record MintQuote =
  mq_id :: string
  mq_amount_issued :: u64
  mq_is_bolt12 :: bool
  mq_version :: u32
  mq_used_by_operation :: "string option"
  mq_amount :: "u64 option"
  mq_request :: string
  mq_rest :: bytes

record MeltQuote =
  lq_id :: string
  lq_payment_proof :: "string option"
  lq_version :: u32
  lq_used_by_operation :: "string option"
  lq_request :: string
  lq_amount :: u64
  lq_fee_reserve :: u64
  lq_rest :: bytes

record CashuTransaction =
  ct_mint_url :: MintUrl
  ct_direction :: TransactionDirection
  ct_unit :: CurrencyUnit
  ct_ys :: "PublicKey list"
  ct_amount :: u64
  ct_fee :: u64
  ct_timestamp :: u64
  ct_quote_id :: "string option"
  ct_saga_id :: "Uuid option"
  ct_status :: TransactionStatus
  ct_metadata :: "(string \<times> string) list"
  ct_rest :: bytes

record WalletSaga =
  ws_id :: Uuid
  ws_version :: u32
  ws_rest :: bytes

record ProofsBlob =
  schema_version :: u8
  blob_proofs :: "ProofInfo list"

subsection \<open>Errors\<close>

datatype DatabaseError =
    Serialization string
  | DbIo io_error
  | DbNotFound
  | InvalidFormat
  | DbDuplicate

datatype cdk_error =
    Cdk_Database string
  | Cdk_Duplicate
  | ConcurrentUpdate
  | ProofNotUnspent
  | QuoteAlreadyInUse
  | UnknownQuote

subsection \<open>The environment\<close>

text \<open>\<open>serde_json::to_vec\<close> and \<open>from_slice\<close> at one type; the left side is the message of an error.\<close>

record 'a json =
  to_vec :: "'a \<Rightarrow> string + bytes"
  from_slice :: "bytes \<Rightarrow> string + 'a"

definition lawful :: "'a json \<Rightarrow> bool" where
  "lawful j \<longleftrightarrow> (\<forall>x d. to_vec j x = Inr d \<longrightarrow> d \<noteq> [] \<and> from_slice j d = Inr x)"

record 's cashu_env =
  cashu_kvs :: "'s kv_ops"
  io_error_to_string :: "io_error \<Rightarrow> string"
  default_hasher :: "string \<Rightarrow> u64"
  mint_url_to_string :: "MintUrl \<Rightarrow> string"
  keyset_id_to_string :: "KeysetId \<Rightarrow> string"
  keyset_id_from_str :: "string \<Rightarrow> string + KeysetId"
  keyset_id_to_u32 :: "KeysetId \<Rightarrow> u32"
  utf8_error_to_string :: "bytes \<Rightarrow> string"
  uuid_to_string :: "Uuid \<Rightarrow> string"
  cdk_hex_encode :: "bytes \<Rightarrow> string"
  transaction_id :: "CashuTransaction \<Rightarrow> TransactionId"
  transaction_id_of_ys :: "PublicKey list \<Rightarrow> TransactionId"
  transaction_id_to_string :: "TransactionId \<Rightarrow> string"
  verify_id :: "KeySet \<Rightarrow> string + unit"
  json_mint_url :: "MintUrl json"
  json_mint_info :: "MintInfo json"
  json_proofs :: "ProofsBlob json"
  json_keyset_info :: "KeySetInfo json"
  json_keyset_infos :: "KeySetInfo list json"
  json_mint_quote :: "MintQuote json"
  json_melt_quote :: "MeltQuote json"
  json_keyset :: "KeySet json"
  json_u32 :: "u32 json"
  json_transaction :: "CashuTransaction json"
  json_saga :: "WalletSaga json"
  json_strings :: "string list json"

fun DatabaseError_to_string :: "('s, 'e) cashu_env_scheme \<Rightarrow> DatabaseError \<Rightarrow> string" where
  "DatabaseError_to_string C (Serialization msg) = ''Serialization error: '' @ msg"
| "DatabaseError_to_string C (DbIo err) = ''IO error: '' @ io_error_to_string C err"
| "DatabaseError_to_string C DbNotFound = ''Data not found''"
| "DatabaseError_to_string C InvalidFormat = ''Invalid data format''"
| "DatabaseError_to_string C DbDuplicate = ''Duplicate entry''"

definition DatabaseError_from_io :: "io_error \<Rightarrow> DatabaseError" where
  "DatabaseError_from_io err = DbIo err"

fun io_error_from :: "('s, 'e) cashu_env_scheme \<Rightarrow> DatabaseError \<Rightarrow> io_error" where
  "io_error_from C (DbIo io_err) = io_err"
| "io_error_from C other = IoOther (DatabaseError_to_string C other)"

fun cdk_error_from :: "('s, 'e) cashu_env_scheme \<Rightarrow> DatabaseError \<Rightarrow> cdk_error" where
  "cdk_error_from C (Serialization msg) = Cdk_Database msg"
| "cdk_error_from C (DbIo io_err) = Cdk_Database (io_error_to_string C io_err)"
| "cdk_error_from C DbNotFound = Cdk_Database ''Data not found''"
| "cdk_error_from C InvalidFormat = Cdk_Database ''Invalid data format''"
| "cdk_error_from C DbDuplicate = Cdk_Duplicate"

subsection \<open>The state\<close>

text \<open>
  The store and the two caches. Each of the three mutexes is held for the whole of the
  operations that take it, so an operation is one step on this state.
\<close>

record 's cashu_db =
  db_store :: 's
  mints_cache :: "MintUrl \<rightharpoonup> MintInfo option"
  proofs_cache :: "ProofInfo list"
  proofs_cache_needs_reload :: bool

definition u32_wrapping_add :: "u32 \<Rightarrow> u32 \<Rightarrow> u32" where
  "u32_wrapping_add a b = (a + b) mod (u32_max + 1)"

definition as_bytes :: "string \<Rightarrow> bytes" where
  "as_bytes s = map (\<lambda>c. word_of_nat (of_char c)) s"

text \<open>\<open>String::from_utf8\<close>: the byte sequences of the UTF-8 table, as text.\<close>

definition cont :: "nat \<Rightarrow> bool" where
  "cont b \<longleftrightarrow> 128 \<le> b \<and> b < 192"

fun valid_utf8 :: "nat list \<Rightarrow> bool" where
  "valid_utf8 [] = True"
| "valid_utf8 (a # bs) =
     (if a < 128 then valid_utf8 bs
      else if 194 \<le> a \<and> a \<le> 223 then
        (case bs of b # bs \<Rightarrow> cont b \<and> valid_utf8 bs | [] \<Rightarrow> False)
      else if 224 \<le> a \<and> a \<le> 239 then
        (case bs of b # c # bs \<Rightarrow> cont b \<and> (a = 224 \<longrightarrow> 160 \<le> b) \<and> (a = 237 \<longrightarrow> b < 160) \<and> cont c
           \<and> valid_utf8 bs | _ \<Rightarrow> False)
      else if 240 \<le> a \<and> a \<le> 244 then
        (case bs of b # c # d # bs \<Rightarrow> cont b \<and> (a = 240 \<longrightarrow> 144 \<le> b) \<and> (a = 244 \<longrightarrow> b < 144)
           \<and> cont c \<and> cont d \<and> valid_utf8 bs | _ \<Rightarrow> False)
      else False)"

definition from_utf8 :: "('s, 'e) cashu_env_scheme \<Rightarrow> bytes \<Rightarrow> string + string" where
  "from_utf8 C data = (if valid_utf8 (map unat data) then Inr (map (\<lambda>b. char_of (unat b)) data)
     else Inl (utf8_error_to_string C data))"

text \<open>\<open>format!("{:x}", n)\<close>.\<close>

fun lower_hex :: "nat \<Rightarrow> string" where
  "lower_hex n = (if n < 16 then [hex_digit n] else lower_hex (n div 16) @ [hex_digit (n mod 16)])"

declare lower_hex.simps [simp del]

definition CASHU_PRIMARY_KEY :: string where "CASHU_PRIMARY_KEY = ''cashu_wallet''"
definition MINTS_KEY :: string where "MINTS_KEY = ''mints''"
definition MINT_KEYSETS_KEY :: string where "MINT_KEYSETS_KEY = ''mint_keysets''"
definition MINT_QUOTES_KEY :: string where "MINT_QUOTES_KEY = ''mint_quotes''"
definition MELT_QUOTES_KEY :: string where "MELT_QUOTES_KEY = ''melt_quotes''"
definition KEYS_KEY :: string where "KEYS_KEY = ''keys''"
definition PROOFS_KEY :: string where "PROOFS_KEY = ''proofs''"
definition PROOFS_BLOB_KEY :: string where "PROOFS_BLOB_KEY = ''proof_set''"
definition PROOFS_SCHEMA_VERSION :: u8 where "PROOFS_SCHEMA_VERSION = 1"
definition DERIVATION_COUNTERS_KEY :: string where "DERIVATION_COUNTERS_KEY = ''derivation_counters''"
definition KEYSET_COUNTERS_KEY :: string where "KEYSET_COUNTERS_KEY = ''keyset_counters''"
definition TRANSACTIONS_KEY :: string where "TRANSACTIONS_KEY = ''transactions''"
definition KEYSETS_TABLE_KEY :: string where "KEYSETS_TABLE_KEY = ''keysets_table''"
definition KEYSET_U32_MAPPING_KEY :: string where "KEYSET_U32_MAPPING_KEY = ''keyset_u32_mapping''"
definition SAGAS_KEY :: string where "SAGAS_KEY = ''sagas''"
definition PROOF_RESERVATIONS_KEY :: string where "PROOF_RESERVATIONS_KEY = ''proof_reservations''"
definition HAS_RECOVERED_KEY :: string where "HAS_RECOVERED_KEY = ''has_recovered''"
definition MIGRATION_KEY :: string where "MIGRATION_KEY = ''cdk_018_transaction_ids''"

lemmas cashu_namespaces = MINTS_KEY_def MINT_KEYSETS_KEY_def MINT_QUOTES_KEY_def
  MELT_QUOTES_KEY_def KEYS_KEY_def PROOFS_KEY_def DERIVATION_COUNTERS_KEY_def
  KEYSET_COUNTERS_KEY_def TRANSACTIONS_KEY_def KEYSETS_TABLE_KEY_def KEYSET_U32_MAPPING_KEY_def
  SAGAS_KEY_def PROOF_RESERVATIONS_KEY_def

end
