(* ===== verification/Cashu_Store.thy ===== *)
theory Cashu_Store
  imports Cashu_Types
begin

text \<open>
  The Cashu wallet database (\<open>CashuKvDatabase\<close> of \<open>cashu_store.rs\<close>): mints and keysets, quotes
  and sagas under optimistic versions, the proof set with its cache and reservations, counters
  and transactions, all in a key-value store whose operations may fail.
\<close>

subsection \<open>Access to the store\<close>

definition db_read :: "('s, 'e) cashu_env_scheme \<Rightarrow> string \<Rightarrow> string \<Rightarrow> ('s, 'x) cashu_db_scheme \<Rightarrow>
    (io_error, bytes) result \<times> ('s, 'x) cashu_db_scheme" where
  "db_read C ns key s = (case kv_read (cashu_kvs C) (db_store s) CASHU_PRIMARY_KEY ns key of
     (r, d) \<Rightarrow> (r, s\<lparr>db_store := d\<rparr>))"

definition db_write :: "('s, 'e) cashu_env_scheme \<Rightarrow> string \<Rightarrow> string \<Rightarrow> bytes \<Rightarrow>
    ('s, 'x) cashu_db_scheme \<Rightarrow> (io_error, unit) result \<times> ('s, 'x) cashu_db_scheme" where
  "db_write C ns key data s = (case kv_write (cashu_kvs C) (db_store s) CASHU_PRIMARY_KEY ns key data of
     (r, d) \<Rightarrow> (r, s\<lparr>db_store := d\<rparr>))"

definition db_remove :: "('s, 'e) cashu_env_scheme \<Rightarrow> string \<Rightarrow> string \<Rightarrow> ('s, 'x) cashu_db_scheme \<Rightarrow>
    (io_error, unit) result \<times> ('s, 'x) cashu_db_scheme" where
  "db_remove C ns key s = (case kv_remove (cashu_kvs C) (db_store s) CASHU_PRIMARY_KEY ns key False of
     (r, d) \<Rightarrow> (r, s\<lparr>db_store := d\<rparr>))"

definition db_list :: "('s, 'e) cashu_env_scheme \<Rightarrow> string \<Rightarrow> ('s, 'x) cashu_db_scheme \<Rightarrow>
    (io_error, string list) result \<times> ('s, 'x) cashu_db_scheme" where
  "db_list C ns s = (case kv_list (cashu_kvs C) (db_store s) CASHU_PRIMARY_KEY ns of
     (r, d) \<Rightarrow> (r, s\<lparr>db_store := d\<rparr>))"

definition from_json :: "'a json \<Rightarrow> bytes \<Rightarrow> 's \<Rightarrow> (DatabaseError, 'a) result \<times> 's" where
  "from_json j data s = (case from_slice j data of
     Inl e \<Rightarrow> (Err (Serialization e), s) | Inr x \<Rightarrow> (Ok x, s))"

definition to_json :: "'a json \<Rightarrow> 'a \<Rightarrow> 's \<Rightarrow> (DatabaseError, bytes) result \<times> 's" where
  "to_json j x s = (case to_vec j x of
     Inl e \<Rightarrow> (Err (Serialization e), s) | Inr data \<Rightarrow> (Ok data, s))"

text \<open>
  The shape every lookup of the database has: a missing key and an empty value are no record,
  every other failure is an error.
\<close>

definition get_record :: "('s, 'e) cashu_env_scheme \<Rightarrow> 'a json \<Rightarrow> string \<Rightarrow> string \<Rightarrow>
    ('s, 'x) cashu_db_scheme \<Rightarrow> (DatabaseError, 'a option) result \<times> ('s, 'x) cashu_db_scheme" where
  "get_record C j ns key s = (case db_read C ns key s of
     (Ok data, s) \<Rightarrow>
       if data = [] then (Ok None, s)
       else and_then (from_json j data s) (\<lambda>x s. (Ok (Some x), s))
   | (Err NotFound, s) \<Rightarrow> (Ok None, s)
   | (Err e, s) \<Rightarrow> (Err (DbIo e), s)
   | (Panic m, s) \<Rightarrow> (Panic m, s))"

text \<open>The loops that read every record of a namespace.\<close>

fun read_records :: "('s, 'e) cashu_env_scheme \<Rightarrow> 'a json \<Rightarrow> string \<Rightarrow> string list \<Rightarrow>
    ('s, 'x) cashu_db_scheme \<Rightarrow> (DatabaseError, 'a list) result \<times> ('s, 'x) cashu_db_scheme" where
  "read_records C j ns [] s = (Ok [], s)"
| "read_records C j ns (key # keys) s =
     and_then (map_err DbIo (db_read C ns key s)) (\<lambda>data s.
       if data = [] then read_records C j ns keys s
       else and_then (from_json j data s) (\<lambda>x s.
         and_then (read_records C j ns keys s) (\<lambda>xs s. (Ok (x # xs), s))))"

definition write_record :: "('s, 'e) cashu_env_scheme \<Rightarrow> 'a json \<Rightarrow> string \<Rightarrow> string \<Rightarrow> 'a \<Rightarrow>
    ('s, 'x) cashu_db_scheme \<Rightarrow> (cdk_error, unit) result \<times> ('s, 'x) cashu_db_scheme" where
  "write_record C j ns key x s = map_err (cdk_error_from C)
     (and_then (to_json j x s) (\<lambda>data s. map_err DbIo (db_write C ns key data s)))"

subsection \<open>Keys of the store\<close>

definition generate_mint_key :: "('s, 'e) cashu_env_scheme \<Rightarrow> MintUrl \<Rightarrow> string" where
  "generate_mint_key C mint_url = ''mint_'' @ lower_hex (default_hasher C (mint_url_to_string C mint_url))"

definition generate_mint_info_key :: "('s, 'e) cashu_env_scheme \<Rightarrow> MintUrl \<Rightarrow> string" where
  "generate_mint_info_key C mint_url =
     ''info_'' @ lower_hex (default_hasher C (mint_url_to_string C mint_url))"

definition generate_mint_keysets_key :: "('s, 'e) cashu_env_scheme \<Rightarrow> MintUrl \<Rightarrow> string" where
  "generate_mint_keysets_key C mint_url =
     ''keysets_'' @ lower_hex (default_hasher C (mint_url_to_string C mint_url))"

subsection \<open>Mints\<close>

definition load_mint_info :: "('s, 'e) cashu_env_scheme \<Rightarrow> MintUrl \<Rightarrow> ('s, 'x) cashu_db_scheme \<Rightarrow>
    (DatabaseError, MintInfo option) result \<times> ('s, 'x) cashu_db_scheme" where
  "load_mint_info C mint_url s =
     get_record C (json_mint_info C) MINTS_KEY (generate_mint_info_key C mint_url) s"

definition save_mint_info :: "('s, 'e) cashu_env_scheme \<Rightarrow> MintUrl \<Rightarrow> MintInfo \<Rightarrow>
    ('s, 'x) cashu_db_scheme \<Rightarrow> (DatabaseError, unit) result \<times> ('s, 'x) cashu_db_scheme" where
  "save_mint_info C mint_url mint_info s =
     and_then (to_json (json_mint_info C) mint_info s) (\<lambda>data s.
       map_err DbIo (db_write C MINTS_KEY (generate_mint_info_key C mint_url) data s))"

definition add_mint :: "('s, 'e) cashu_env_scheme \<Rightarrow> MintUrl \<Rightarrow> MintInfo option \<Rightarrow>
    ('s, 'x) cashu_db_scheme \<Rightarrow> (cdk_error, unit) result \<times> ('s, 'x) cashu_db_scheme" where
  "add_mint C mint_url mint_info s = map_err (cdk_error_from C)
     (and_then (to_json (json_mint_url C) mint_url s) (\<lambda>mint_data s.
      and_then (map_err DbIo (db_write C MINTS_KEY (generate_mint_key C mint_url) mint_data s)) (\<lambda>_ s.
      and_then (case mint_info of Some info \<Rightarrow> save_mint_info C mint_url info s | None \<Rightarrow> (Ok (), s)) (\<lambda>_ s.
        (Ok (), s\<lparr>mints_cache := (mints_cache s)(mint_url \<mapsto> mint_info)\<rparr>)))))"

definition remove_mint :: "('s, 'e) cashu_env_scheme \<Rightarrow> MintUrl \<Rightarrow> ('s, 'x) cashu_db_scheme \<Rightarrow>
    (cdk_error, unit) result \<times> ('s, 'x) cashu_db_scheme" where
  "remove_mint C mint_url s = map_err (\<lambda>e. cdk_error_from C (DbIo e))
     (and_then (db_remove C MINTS_KEY (generate_mint_key C mint_url) s) (\<lambda>_ s.
      and_then (db_remove C MINTS_KEY (generate_mint_info_key C mint_url) s) (\<lambda>_ s.
      and_then (db_remove C MINT_KEYSETS_KEY (generate_mint_keysets_key C mint_url) s) (\<lambda>_ s.
        (Ok (), s\<lparr>mints_cache := (mints_cache s)(mint_url := None)\<rparr>)))))"

definition get_mint :: "('s, 'e) cashu_env_scheme \<Rightarrow> MintUrl \<Rightarrow> ('s, 'x) cashu_db_scheme \<Rightarrow>
    (cdk_error, MintInfo option) result \<times> ('s, 'x) cashu_db_scheme" where
  "get_mint C mint_url s = (case mints_cache s mint_url of
     Some mint_info \<Rightarrow> (Ok mint_info, s)
   | None \<Rightarrow> map_err (cdk_error_from C) (load_mint_info C mint_url s))"

definition get_mints :: "('s, 'x) cashu_db_scheme \<Rightarrow> MintUrl \<rightharpoonup> MintInfo option" where
  "get_mints s = mints_cache s"

definition get_mint_keysets :: "('s, 'e) cashu_env_scheme \<Rightarrow> MintUrl \<Rightarrow> ('s, 'x) cashu_db_scheme \<Rightarrow>
    (cdk_error, KeySetInfo list option) result \<times> ('s, 'x) cashu_db_scheme" where
  "get_mint_keysets C mint_url s = map_err (cdk_error_from C)
     (get_record C (json_keyset_infos C) MINT_KEYSETS_KEY (generate_mint_keysets_key C mint_url) s)"

definition get_keyset_by_id :: "('s, 'e) cashu_env_scheme \<Rightarrow> KeysetId \<Rightarrow> ('s, 'x) cashu_db_scheme \<Rightarrow>
    (cdk_error, KeySetInfo option) result \<times> ('s, 'x) cashu_db_scheme" where
  "get_keyset_by_id C keyset_id s = map_err (cdk_error_from C)
     (get_record C (json_keyset_info C) KEYSETS_TABLE_KEY (''keyset_'' @ keyset_id_to_string C keyset_id) s)"

text \<open>
  In \<open>add_mint_keysets\<close> a lookup that fails for any reason counts as a missing record; only a
  record that does not decode is an error.
\<close>

definition lookup_lenient :: "('s, 'e) cashu_env_scheme \<Rightarrow> string \<Rightarrow> string \<Rightarrow> ('s, 'x) cashu_db_scheme \<Rightarrow>
    (DatabaseError, bytes option) result \<times> ('s, 'x) cashu_db_scheme" where
  "lookup_lenient C ns key s = (case db_read C ns key s of
     (Ok data, s) \<Rightarrow> (Ok (if data \<noteq> [] then Some data else None), s)
   | (Err _, s) \<Rightarrow> (Ok None, s)
   | (Panic m, s) \<Rightarrow> (Panic m, s))"

definition lift_sum :: "string + 'a \<Rightarrow> 's \<Rightarrow> (DatabaseError, 'a) result \<times> 's" where
  "lift_sum r s = (case r of Inl e \<Rightarrow> (Err (Serialization e), s) | Inr x \<Rightarrow> (Ok x, s))"

text \<open>The check of the 32-bit alias of a keyset: whether another keyset has it.\<close>

definition check_u32 :: "('s, 'e) cashu_env_scheme \<Rightarrow> KeySetInfo \<Rightarrow> ('s, 'x) cashu_db_scheme \<Rightarrow>
    (DatabaseError, bool) result \<times> ('s, 'x) cashu_db_scheme" where
  "check_u32 C keyset s =
     (let u32_key = ''u32_'' @ decimal (keyset_id_to_u32 C (ki_id keyset))
      in and_then (lookup_lenient C KEYSET_U32_MAPPING_KEY u32_key s) (\<lambda>r s. case r of
           Some data \<Rightarrow>
             and_then (lift_sum (from_utf8 C data) s) (\<lambda>existing_id_str s.
             and_then (lift_sum (keyset_id_from_str C existing_id_str) s) (\<lambda>existing_id s.
               (Ok (existing_id \<noteq> ki_id keyset), s)))
         | None \<Rightarrow>
             and_then (map_err DbIo (db_write C KEYSET_U32_MAPPING_KEY u32_key
                 (as_bytes (keyset_id_to_string C (ki_id keyset))) s))
               (\<lambda>_ s. (Ok False, s))))"

fun store_keysets :: "('s, 'e) cashu_env_scheme \<Rightarrow> KeySetInfo list \<Rightarrow> ('s, 'x) cashu_db_scheme \<Rightarrow>
    (DatabaseError, bool \<times> KeySetInfo list) result \<times> ('s, 'x) cashu_db_scheme" where
  "store_keysets C [] s = (Ok (False, []), s)"
| "store_keysets C (keyset # keysets) s =
     (let keyset_key = ''keyset_'' @ keyset_id_to_string C (ki_id keyset)
      in and_then (lookup_lenient C KEYSETS_TABLE_KEY keyset_key s) (\<lambda>r s.
         and_then (case r of
             Some data \<Rightarrow> and_then (from_json (json_keyset_info C) data s) (\<lambda>x s. (Ok (Some x), s))
           | None \<Rightarrow> (Ok None, s)) (\<lambda>existing_keyset s.
         and_then (check_u32 C keyset s) (\<lambda>existing_u32 s.
           if existing_u32 then (Ok (True, []), s)
           else
             (let final_keyset = (case existing_keyset of
                    Some existing_keyset \<Rightarrow> existing_keyset\<lparr>ki_active := ki_active keyset,
                      ki_input_fee_ppk := ki_input_fee_ppk keyset\<rparr>
                  | None \<Rightarrow> keyset)
              in and_then (to_json (json_keyset_info C) final_keyset s) (\<lambda>keyset_data s.
                 and_then (map_err DbIo (db_write C KEYSETS_TABLE_KEY keyset_key keyset_data s)) (\<lambda>_ s.
                 and_then (store_keysets C keysets s) (\<lambda>(conflict, updated) s.
                   (Ok (conflict, final_keyset # updated), s))))))))) "

text \<open>\<open>Iterator::position\<close>.\<close>

fun position :: "('a \<Rightarrow> bool) \<Rightarrow> 'a list \<Rightarrow> nat option" where
  "position P [] = None"
| "position P (x # xs) = (if P x then Some 0 else map_option Suc (position P xs))"

definition merge_keyset :: "KeySetInfo \<Rightarrow> KeySetInfo list \<Rightarrow> KeySetInfo list" where
  "merge_keyset new_keyset all =
     (case position (\<lambda>k. ki_id k = ki_id new_keyset) all of
        Some existing_pos \<Rightarrow> all[existing_pos := new_keyset]
      | None \<Rightarrow> all @ [new_keyset])"

definition add_mint_keysets :: "('s, 'e) cashu_env_scheme \<Rightarrow> MintUrl \<Rightarrow> KeySetInfo list \<Rightarrow>
    ('s, 'x) cashu_db_scheme \<Rightarrow> (cdk_error, unit) result \<times> ('s, 'x) cashu_db_scheme" where
  "add_mint_keysets C mint_url keysets s =
     and_then (map_err (cdk_error_from C) (store_keysets C keysets s)) (\<lambda>(existing_u32, updated) s.
       if existing_u32 then (Err (cdk_error_from C DbDuplicate), s)
       else and_then (get_mint_keysets C mint_url s) (\<lambda>existing s.
         let all = fold merge_keyset updated (case existing of Some ks \<Rightarrow> ks | None \<Rightarrow> [])
         in map_err (cdk_error_from C)
              (and_then (to_json (json_keyset_infos C) all s) (\<lambda>data s.
                 map_err DbIo (db_write C MINT_KEYSETS_KEY (generate_mint_keysets_key C mint_url) data s)))))"

definition update_mint_url :: "('s, 'e) cashu_env_scheme \<Rightarrow> MintUrl \<Rightarrow> MintUrl \<Rightarrow>
    ('s, 'x) cashu_db_scheme \<Rightarrow> (cdk_error, unit) result \<times> ('s, 'x) cashu_db_scheme" where
  "update_mint_url C old_mint_url new_mint_url s =
     and_then (get_mint C old_mint_url s) (\<lambda>mint_info s.
     and_then (get_mint_keysets C old_mint_url s) (\<lambda>mint_keysets s.
     and_then (add_mint C new_mint_url mint_info s) (\<lambda>_ s.
     and_then (case mint_keysets of
         Some keysets \<Rightarrow> add_mint_keysets C new_mint_url keysets s
       | None \<Rightarrow> (Ok (), s)) (\<lambda>_ s.
       remove_mint C old_mint_url s))))"

subsection \<open>Quotes\<close>

definition get_mint_quote :: "('s, 'e) cashu_env_scheme \<Rightarrow> string \<Rightarrow> ('s, 'x) cashu_db_scheme \<Rightarrow>
    (cdk_error, MintQuote option) result \<times> ('s, 'x) cashu_db_scheme" where
  "get_mint_quote C quote_id s = map_err (cdk_error_from C)
     (get_record C (json_mint_quote C) MINT_QUOTES_KEY quote_id s)"

definition add_mint_quote :: "('s, 'e) cashu_env_scheme \<Rightarrow> MintQuote \<Rightarrow> ('s, 'x) cashu_db_scheme \<Rightarrow>
    (cdk_error, unit) result \<times> ('s, 'x) cashu_db_scheme" where
  "add_mint_quote C quote s =
     and_then (get_mint_quote C (mq_id quote) s) (\<lambda>r s. case r of
        Some existing \<Rightarrow>
          if mq_version existing \<noteq> mq_version quote then (Err ConcurrentUpdate, s)
          else write_record C (json_mint_quote C) MINT_QUOTES_KEY (mq_id quote)
            (quote\<lparr>mq_version := u32_wrapping_add (mq_version quote) 1\<rparr>) s
      | None \<Rightarrow> write_record C (json_mint_quote C) MINT_QUOTES_KEY (mq_id quote) quote s)"

text \<open>The reads go through \<open>read_keys_bounded\<close>, whose tasks finish in the order of a schedule.\<close>

fun decode_records :: "'a json \<Rightarrow> (string \<times> bytes) list \<Rightarrow> 's \<Rightarrow>
    (DatabaseError, 'a list) result \<times> 's" where
  "decode_records j [] s = (Ok [], s)"
| "decode_records j ((_, data) # records) s =
     (if data = [] then decode_records j records s
      else and_then (from_json j data s) (\<lambda>x s.
        and_then (decode_records j records s) (\<lambda>xs s. (Ok (x # xs), s))))"

definition get_mint_quotes :: "('s, 'e) cashu_env_scheme \<Rightarrow> (nat \<Rightarrow> nat) \<Rightarrow> ('s, 'x) cashu_db_scheme \<Rightarrow>
    (cdk_error, MintQuote list) result \<times> ('s, 'x) cashu_db_scheme" where
  "get_mint_quotes C sched s = map_err (cdk_error_from C)
     (and_then (map_err DbIo (db_list C MINT_QUOTES_KEY s)) (\<lambda>keys s.
      case read_keys_bounded (cashu_kvs C) sched CASHU_PRIMARY_KEY MINT_QUOTES_KEY keys (db_store s) of
        (r, d) \<Rightarrow> and_then (map_err DbIo (r, s\<lparr>db_store := d\<rparr>)) (\<lambda>records s.
          decode_records (json_mint_quote C) records s)))"

definition remove_mint_quote :: "('s, 'e) cashu_env_scheme \<Rightarrow> string \<Rightarrow> ('s, 'x) cashu_db_scheme \<Rightarrow>
    (cdk_error, unit) result \<times> ('s, 'x) cashu_db_scheme" where
  "remove_mint_quote C quote_id s =
     map_err (\<lambda>e. cdk_error_from C (DbIo e)) (db_remove C MINT_QUOTES_KEY quote_id s)"

definition get_unissued_mint_quotes :: "('s, 'e) cashu_env_scheme \<Rightarrow> (nat \<Rightarrow> nat) \<Rightarrow>
    ('s, 'x) cashu_db_scheme \<Rightarrow> (cdk_error, MintQuote list) result \<times> ('s, 'x) cashu_db_scheme" where
  "get_unissued_mint_quotes C sched s = and_then (get_mint_quotes C sched s) (\<lambda>all_quotes s.
     (Ok (filter (\<lambda>q. mq_amount_issued q = 0 \<or> mq_is_bolt12 q) all_quotes), s))"

definition get_melt_quote :: "('s, 'e) cashu_env_scheme \<Rightarrow> string \<Rightarrow> ('s, 'x) cashu_db_scheme \<Rightarrow>
    (cdk_error, MeltQuote option) result \<times> ('s, 'x) cashu_db_scheme" where
  "get_melt_quote C quote_id s = map_err (cdk_error_from C)
     (get_record C (json_melt_quote C) MELT_QUOTES_KEY quote_id s)"

definition add_melt_quote :: "('s, 'e) cashu_env_scheme \<Rightarrow> MeltQuote \<Rightarrow> ('s, 'x) cashu_db_scheme \<Rightarrow>
    (cdk_error, unit) result \<times> ('s, 'x) cashu_db_scheme" where
  "add_melt_quote C quote s =
     and_then (get_melt_quote C (lq_id quote) s) (\<lambda>r s. case r of
        Some existing \<Rightarrow>
          if lq_version existing \<noteq> lq_version quote then (Err ConcurrentUpdate, s)
          else write_record C (json_melt_quote C) MELT_QUOTES_KEY (lq_id quote)
            (quote\<lparr>lq_version := u32_wrapping_add (lq_version quote) 1,
               lq_payment_proof := (case lq_payment_proof quote of
                  Some p \<Rightarrow> Some p | None \<Rightarrow> lq_payment_proof existing)\<rparr>) s
      | None \<Rightarrow> write_record C (json_melt_quote C) MELT_QUOTES_KEY (lq_id quote) quote s)"

definition get_melt_quotes :: "('s, 'e) cashu_env_scheme \<Rightarrow> ('s, 'x) cashu_db_scheme \<Rightarrow>
    (cdk_error, MeltQuote list) result \<times> ('s, 'x) cashu_db_scheme" where
  "get_melt_quotes C s = map_err (cdk_error_from C)
     (and_then (map_err DbIo (db_list C MELT_QUOTES_KEY s)) (\<lambda>keys s.
        read_records C (json_melt_quote C) MELT_QUOTES_KEY keys s))"

definition remove_melt_quote :: "('s, 'e) cashu_env_scheme \<Rightarrow> string \<Rightarrow> ('s, 'x) cashu_db_scheme \<Rightarrow>
    (cdk_error, unit) result \<times> ('s, 'x) cashu_db_scheme" where
  "remove_melt_quote C quote_id s =
     map_err (\<lambda>e. cdk_error_from C (DbIo e)) (db_remove C MELT_QUOTES_KEY quote_id s)"

definition reserve_melt_quote :: "('s, 'e) cashu_env_scheme \<Rightarrow> string \<Rightarrow> Uuid \<Rightarrow>
    ('s, 'x) cashu_db_scheme \<Rightarrow> (cdk_error, unit) result \<times> ('s, 'x) cashu_db_scheme" where
  "reserve_melt_quote C quote_id operation_id s =
     and_then (get_melt_quote C quote_id s) (\<lambda>r s. case r of
        Some quote \<Rightarrow>
          if lq_used_by_operation quote \<noteq> None then (Err QuoteAlreadyInUse, s)
          else write_record C (json_melt_quote C) MELT_QUOTES_KEY (lq_id quote)
            (quote\<lparr>lq_used_by_operation := Some (uuid_to_string C operation_id)\<rparr>) s
      | None \<Rightarrow> (Err UnknownQuote, s))"

fun release_melt_quotes :: "('s, 'e) cashu_env_scheme \<Rightarrow> string \<Rightarrow> MeltQuote list \<Rightarrow>
    ('s, 'x) cashu_db_scheme \<Rightarrow> (cdk_error, unit) result \<times> ('s, 'x) cashu_db_scheme" where
  "release_melt_quotes C op_str [] s = (Ok (), s)"
| "release_melt_quotes C op_str (quote # quotes) s =
     and_then (if lq_used_by_operation quote = Some op_str
        then write_record C (json_melt_quote C) MELT_QUOTES_KEY (lq_id quote)
          (quote\<lparr>lq_used_by_operation := None\<rparr>) s
        else (Ok (), s)) (\<lambda>_ s. release_melt_quotes C op_str quotes s)"

definition release_melt_quote :: "('s, 'e) cashu_env_scheme \<Rightarrow> Uuid \<Rightarrow> ('s, 'x) cashu_db_scheme \<Rightarrow>
    (cdk_error, unit) result \<times> ('s, 'x) cashu_db_scheme" where
  "release_melt_quote C operation_id s = and_then (get_melt_quotes C s) (\<lambda>quotes s.
     release_melt_quotes C (uuid_to_string C operation_id) quotes s)"

definition reserve_mint_quote :: "('s, 'e) cashu_env_scheme \<Rightarrow> string \<Rightarrow> Uuid \<Rightarrow>
    ('s, 'x) cashu_db_scheme \<Rightarrow> (cdk_error, unit) result \<times> ('s, 'x) cashu_db_scheme" where
  "reserve_mint_quote C quote_id operation_id s =
     and_then (get_mint_quote C quote_id s) (\<lambda>r s. case r of
        Some quote \<Rightarrow>
          if mq_used_by_operation quote \<noteq> None then (Err QuoteAlreadyInUse, s)
          else write_record C (json_mint_quote C) MINT_QUOTES_KEY (mq_id quote)
            (quote\<lparr>mq_used_by_operation := Some (uuid_to_string C operation_id)\<rparr>) s
      | None \<Rightarrow> (Err UnknownQuote, s))"

fun release_mint_quotes :: "('s, 'e) cashu_env_scheme \<Rightarrow> string \<Rightarrow> MintQuote list \<Rightarrow>
    ('s, 'x) cashu_db_scheme \<Rightarrow> (cdk_error, unit) result \<times> ('s, 'x) cashu_db_scheme" where
  "release_mint_quotes C op_str [] s = (Ok (), s)"
| "release_mint_quotes C op_str (quote # quotes) s =
     and_then (if mq_used_by_operation quote = Some op_str
        then write_record C (json_mint_quote C) MINT_QUOTES_KEY (mq_id quote)
          (quote\<lparr>mq_used_by_operation := None\<rparr>) s
        else (Ok (), s)) (\<lambda>_ s. release_mint_quotes C op_str quotes s)"

definition release_mint_quote :: "('s, 'e) cashu_env_scheme \<Rightarrow> (nat \<Rightarrow> nat) \<Rightarrow> Uuid \<Rightarrow>
    ('s, 'x) cashu_db_scheme \<Rightarrow> (cdk_error, unit) result \<times> ('s, 'x) cashu_db_scheme" where
  "release_mint_quote C sched operation_id s = and_then (get_mint_quotes C sched s) (\<lambda>quotes s.
     release_mint_quotes C (uuid_to_string C operation_id) quotes s)"

subsection \<open>Keys\<close>

definition get_keys :: "('s, 'e) cashu_env_scheme \<Rightarrow> KeysetId \<Rightarrow> ('s, 'x) cashu_db_scheme \<Rightarrow>
    (cdk_error, MintKeys option) result \<times> ('s, 'x) cashu_db_scheme" where
  "get_keys C i s = map_err (cdk_error_from C)
     (and_then (get_record C (json_keyset C) KEYS_KEY (keyset_id_to_string C i) s)
        (\<lambda>r s. (Ok (map_option ks_keys r), s)))"

definition add_keys :: "('s, 'e) cashu_env_scheme \<Rightarrow> KeySet \<Rightarrow> ('s, 'x) cashu_db_scheme \<Rightarrow>
    (cdk_error, unit) result \<times> ('s, 'x) cashu_db_scheme" where
  "add_keys C keyset s = (case verify_id C keyset of
     Inl e \<Rightarrow> (Err (Cdk_Database e), s)
   | Inr _ \<Rightarrow>
       and_then (get_keys C (ks_id keyset) s) (\<lambda>r s.
         if r \<noteq> None then (Ok (), s)
         else map_err (cdk_error_from C)
           (and_then (to_json (json_keyset C) keyset s) (\<lambda>data s.
              map_err DbIo (db_write C KEYS_KEY (keyset_id_to_string C (ks_id keyset)) data s)))))"

definition remove_keys :: "('s, 'e) cashu_env_scheme \<Rightarrow> KeysetId \<Rightarrow> ('s, 'x) cashu_db_scheme \<Rightarrow>
    (cdk_error, unit) result \<times> ('s, 'x) cashu_db_scheme" where
  "remove_keys C i s =
     map_err (\<lambda>e. cdk_error_from C (DbIo e)) (db_remove C KEYS_KEY (keyset_id_to_string C i) s)"

subsection \<open>Proofs\<close>

definition ensure_unique_proof_ys :: "ProofInfo list \<Rightarrow> (DatabaseError, unit) result" where
  "ensure_unique_proof_ys proofs = (if distinct (map pi_y proofs) then Ok () else Err DbDuplicate)"

definition load_proofs_from_store :: "('s, 'e) cashu_env_scheme \<Rightarrow> ('s, 'x) cashu_db_scheme \<Rightarrow>
    (DatabaseError, ProofInfo list) result \<times> ('s, 'x) cashu_db_scheme" where
  "load_proofs_from_store C s =
     and_then (get_record C (json_proofs C) PROOFS_KEY PROOFS_BLOB_KEY s) (\<lambda>r s. case r of
        None \<Rightarrow> (Ok [], s)
      | Some blob \<Rightarrow>
          if schema_version blob \<noteq> PROOFS_SCHEMA_VERSION then (Err InvalidFormat, s)
          else and_then (ensure_unique_proof_ys (blob_proofs blob), s) (\<lambda>_ s. (Ok (blob_proofs blob), s)))"

definition reload_uncertain_proofs :: "('s, 'e) cashu_env_scheme \<Rightarrow> ('s, 'x) cashu_db_scheme \<Rightarrow>
    (DatabaseError, unit) result \<times> ('s, 'x) cashu_db_scheme" where
  "reload_uncertain_proofs C s =
     (if proofs_cache_needs_reload s then
        and_then (load_proofs_from_store C s) (\<lambda>proofs s.
          (Ok (), s\<lparr>proofs_cache := proofs, proofs_cache_needs_reload := False\<rparr>))
      else (Ok (), s))"

definition read_proofs :: "('s, 'e) cashu_env_scheme \<Rightarrow> (ProofInfo list \<Rightarrow> 'a) \<Rightarrow>
    ('s, 'x) cashu_db_scheme \<Rightarrow> (DatabaseError, 'a) result \<times> ('s, 'x) cashu_db_scheme" where
  "read_proofs C read s =
     (if \<not> proofs_cache_needs_reload s then (Ok (read (proofs_cache s)), s)
      else and_then (reload_uncertain_proofs C s) (\<lambda>_ s. (Ok (read (proofs_cache s)), s)))"

definition reserved_proofs :: "('s, 'e) cashu_env_scheme \<Rightarrow> Uuid \<Rightarrow> ('s, 'x) cashu_db_scheme \<Rightarrow>
    (cdk_error, ProofInfo list) result \<times> ('s, 'x) cashu_db_scheme" where
  "reserved_proofs C operation_id s = map_err (cdk_error_from C)
     (and_then (case db_read C PROOF_RESERVATIONS_KEY (uuid_to_string C operation_id) s of
         (Ok data, s) \<Rightarrow> from_json (json_strings C) data s
       | (Err NotFound, s) \<Rightarrow> (Ok [], s)
       | (Err e, s) \<Rightarrow> (Err (DbIo e), s)
       | (Panic m, s) \<Rightarrow> (Panic m, s)) (\<lambda>legacy s.
       (Ok (filter (\<lambda>proof. case pi_used_by_operation proof of
            Some owner \<Rightarrow> owner = operation_id
          | None \<Rightarrow> cdk_hex_encode C (pi_y proof) \<in> set legacy) (proofs_cache s)), s)))"

definition persist_proofs :: "('s, 'e) cashu_env_scheme \<Rightarrow> ProofInfo list \<Rightarrow> ('s, 'x) cashu_db_scheme \<Rightarrow>
    (DatabaseError, unit) result \<times> ('s, 'x) cashu_db_scheme" where
  "persist_proofs C proofs s =
     and_then (ensure_unique_proof_ys proofs, s) (\<lambda>_ s.
     and_then (to_json (json_proofs C)
         \<lparr>schema_version = PROOFS_SCHEMA_VERSION, blob_proofs = proofs\<rparr> s) (\<lambda>data s.
       map_err DbIo (db_write C PROOFS_KEY PROOFS_BLOB_KEY data
         (s\<lparr>proofs_cache_needs_reload := True\<rparr>))))"

text \<open>The end of every change of the proof set: persist, replace the cache, trust it again.\<close>

definition commit_proofs :: "('s, 'e) cashu_env_scheme \<Rightarrow> ProofInfo list \<Rightarrow> ('s, 'x) cashu_db_scheme \<Rightarrow>
    (cdk_error, unit) result \<times> ('s, 'x) cashu_db_scheme" where
  "commit_proofs C proofs s = map_err (cdk_error_from C)
     (and_then (persist_proofs C proofs s) (\<lambda>_ s.
        (Ok (), s\<lparr>proofs_cache := proofs, proofs_cache_needs_reload := False\<rparr>)))"

text \<open>Of the added proofs, one without a derivation index takes the last one known for its Y.\<close>

fun keep_indexes :: "(PublicKey \<rightharpoonup> u32) \<Rightarrow> ProofInfo list \<Rightarrow> ProofInfo list" where
  "keep_indexes indexes [] = []"
| "keep_indexes indexes (proof # proofs) =
     (case pi_derivation_index proof of
        Some index \<Rightarrow> proof # keep_indexes (indexes(pi_y proof \<mapsto> index)) proofs
      | None \<Rightarrow> proof\<lparr>pi_derivation_index := indexes (pi_y proof)\<rparr> # keep_indexes indexes proofs)"

fun dedup_ys :: "PublicKey set \<Rightarrow> ProofInfo list \<Rightarrow> ProofInfo list" where
  "dedup_ys seen [] = []"
| "dedup_ys seen (proof # proofs) =
     (if pi_y proof \<in> seen then dedup_ys seen proofs
      else proof # dedup_ys (insert (pi_y proof) seen) proofs)"

definition known_indexes :: "ProofInfo list \<Rightarrow> PublicKey \<rightharpoonup> u32" where
  "known_indexes cache = map_of (rev (List.map_filter
     (\<lambda>p. map_option (\<lambda>index. (pi_y p, index)) (pi_derivation_index p)) cache))"

definition update_proofs_cache :: "ProofInfo list \<Rightarrow> ProofInfo list \<Rightarrow> PublicKey list \<Rightarrow> ProofInfo list" where
  "update_proofs_cache cache added removed_ys =
     (let added = keep_indexes (known_indexes cache) added;
          added_deduped = rev (dedup_ys {} (rev added));
          added_ys = pi_y ` set added
      in filter (\<lambda>proof. pi_y proof \<notin> set removed_ys)
           (filter (\<lambda>proof. pi_y proof \<notin> added_ys) cache @ added_deduped))"

definition update_proofs :: "('s, 'e) cashu_env_scheme \<Rightarrow> ProofInfo list \<Rightarrow> PublicKey list \<Rightarrow>
    ('s, 'x) cashu_db_scheme \<Rightarrow> (cdk_error, unit) result \<times> ('s, 'x) cashu_db_scheme" where
  "update_proofs C added removed_ys s =
     and_then (map_err (cdk_error_from C) (reload_uncertain_proofs C s)) (\<lambda>_ s.
       let updated_proofs = update_proofs_cache (proofs_cache s) added removed_ys
       in if updated_proofs \<noteq> proofs_cache s then commit_proofs C updated_proofs s else (Ok (), s))"

definition get_proofs :: "('s, 'e) cashu_env_scheme \<Rightarrow> MintUrl option \<Rightarrow> CurrencyUnit option \<Rightarrow>
    State list option \<Rightarrow> SpendingConditions list option \<Rightarrow> ('s, 'x) cashu_db_scheme \<Rightarrow>
    (cdk_error, ProofInfo list) result \<times> ('s, 'x) cashu_db_scheme" where
  "get_proofs C mint_url unit state spending_conditions s =
     and_then (map_err (cdk_error_from C) (read_proofs C (\<lambda>cache. cache) s)) (\<lambda>proofs s.
       let proofs = (case mint_url of Some u \<Rightarrow> filter (\<lambda>p. pi_mint_url p = u) proofs | None \<Rightarrow> proofs);
           proofs = (case unit of Some u \<Rightarrow> filter (\<lambda>p. pi_unit p = u) proofs | None \<Rightarrow> proofs);
           proofs = (case state of Some states \<Rightarrow> filter (\<lambda>p. pi_state p \<in> set states) proofs | None \<Rightarrow> proofs);
           proofs = (case spending_conditions of
               Some conditions \<Rightarrow> filter (\<lambda>p. case pi_spending_condition p of
                   Some sc \<Rightarrow> sc \<in> set conditions | None \<Rightarrow> conditions = []) proofs
             | None \<Rightarrow> proofs)
       in (Ok proofs, s))"

text \<open>\<open>Iterator::sum\<close> over \<open>u64\<close> wraps in a release build.\<close>

definition db_get_balance :: "('s, 'e) cashu_env_scheme \<Rightarrow> MintUrl option \<Rightarrow> CurrencyUnit option \<Rightarrow>
    State list option \<Rightarrow> ('s, 'x) cashu_db_scheme \<Rightarrow>
    (cdk_error, u64) result \<times> ('s, 'x) cashu_db_scheme" where
  "db_get_balance C mint_url unit state s =
     and_then (get_proofs C mint_url unit state None s) (\<lambda>proofs s.
       (Ok (foldl (\<lambda>sum p. u64_wrapping_add sum (pr_amount (pi_proof p))) 0 proofs), s))"

definition get_proofs_by_ys :: "('s, 'e) cashu_env_scheme \<Rightarrow> PublicKey list \<Rightarrow> ('s, 'x) cashu_db_scheme \<Rightarrow>
    (cdk_error, ProofInfo list) result \<times> ('s, 'x) cashu_db_scheme" where
  "get_proofs_by_ys C ys s = map_err (cdk_error_from C)
     (read_proofs C (filter (\<lambda>p. pi_y p \<in> set ys)) s)"

definition update_proofs_state :: "('s, 'e) cashu_env_scheme \<Rightarrow> PublicKey list \<Rightarrow> State \<Rightarrow>
    ('s, 'x) cashu_db_scheme \<Rightarrow> (cdk_error, unit) result \<times> ('s, 'x) cashu_db_scheme" where
  "update_proofs_state C ys state s =
     and_then (map_err (cdk_error_from C) (reload_uncertain_proofs C s)) (\<lambda>_ s.
       let hit = (\<lambda>proof. pi_y proof \<in> set ys \<and> pi_state proof \<noteq> state);
           changed = list_ex hit (proofs_cache s);
           updated_proofs = map (\<lambda>proof. if hit proof then proof\<lparr>pi_state := state\<rparr> else proof) (proofs_cache s)
       in if changed then commit_proofs C updated_proofs s else (Ok (), s))"

text \<open>The loop of \<open>reserve_proofs\<close>; the cache read inside it is the committed one.\<close>

fun mark_reserved :: "('s, 'e) cashu_env_scheme \<Rightarrow> PublicKey list \<Rightarrow> Uuid \<Rightarrow> ProofInfo list \<Rightarrow>
    ('s, 'x) cashu_db_scheme \<Rightarrow> (cdk_error, ProofInfo list) result \<times> ('s, 'x) cashu_db_scheme" where
  "mark_reserved C requested operation_id [] s = (Ok [], s)"
| "mark_reserved C requested operation_id (proof # proofs) s =
     (if pi_y proof \<notin> set requested then
        and_then (mark_reserved C requested operation_id proofs s) (\<lambda>rest s. (Ok (proof # rest), s))
      else if (case pi_used_by_operation proof of Some owner \<Rightarrow> owner \<noteq> operation_id | None \<Rightarrow> False)
          \<or> pi_state proof \<notin> {St_Unspent, St_Reserved} then (Err ProofNotUnspent, s)
      else
        and_then (if pi_state proof = St_Reserved \<and> pi_used_by_operation proof = None then
              and_then (reserved_proofs C operation_id s) (\<lambda>owned s.
                if list_ex (\<lambda>p. pi_y p = pi_y proof) owned then (Ok (), s) else (Err ProofNotUnspent, s))
            else (Ok (), s)) (\<lambda>_ s.
        and_then (mark_reserved C requested operation_id proofs s) (\<lambda>rest s.
          (Ok (proof\<lparr>pi_state := St_Reserved, pi_used_by_operation := Some operation_id\<rparr> # rest), s))))"

definition reserve_proofs :: "('s, 'e) cashu_env_scheme \<Rightarrow> PublicKey list \<Rightarrow> Uuid \<Rightarrow>
    ('s, 'x) cashu_db_scheme \<Rightarrow> (cdk_error, unit) result \<times> ('s, 'x) cashu_db_scheme" where
  "reserve_proofs C ys operation_id s =
     (if ys = [] then (Ok (), s)
      else and_then (map_err (cdk_error_from C) (reload_uncertain_proofs C s)) (\<lambda>_ s.
        if card (set ys) \<noteq> length ys
          \<or> length (filter (\<lambda>p. pi_y p \<in> set ys) (proofs_cache s)) \<noteq> length ys
        then (Err ProofNotUnspent, s)
        else and_then (mark_reserved C ys operation_id (proofs_cache s) s) (\<lambda>proofs s.
          commit_proofs C proofs s)))"

definition release_proofs :: "('s, 'e) cashu_env_scheme \<Rightarrow> Uuid \<Rightarrow> ('s, 'x) cashu_db_scheme \<Rightarrow>
    (cdk_error, unit) result \<times> ('s, 'x) cashu_db_scheme" where
  "release_proofs C operation_id s =
     and_then (map_err (cdk_error_from C) (reload_uncertain_proofs C s)) (\<lambda>_ s.
     and_then (reserved_proofs C operation_id s) (\<lambda>reserved s.
       let proofs = map (\<lambda>proof.
             if list_ex (\<lambda>p. pi_y p = pi_y proof) reserved \<and> pi_state proof \<in> {St_Reserved, St_Pending}
             then proof\<lparr>pi_state := St_Unspent, pi_used_by_operation := None\<rparr> else proof) (proofs_cache s)
       in and_then (commit_proofs C proofs s) (\<lambda>_ s.
          map_err (\<lambda>e. cdk_error_from C (DbIo e))
            (db_remove C PROOF_RESERVATIONS_KEY (uuid_to_string C operation_id) s))))"

definition get_reserved_proofs :: "('s, 'e) cashu_env_scheme \<Rightarrow> Uuid \<Rightarrow> ('s, 'x) cashu_db_scheme \<Rightarrow>
    (cdk_error, ProofInfo list) result \<times> ('s, 'x) cashu_db_scheme" where
  "get_reserved_proofs C operation_id s =
     and_then (map_err (cdk_error_from C) (reload_uncertain_proofs C s)) (\<lambda>_ s.
       reserved_proofs C operation_id s)"

subsection \<open>Counters\<close>

text \<open>The common body of the two counters, under \<open>keyset_counter_lock\<close>.\<close>

definition increment_counter :: "('s, 'e) cashu_env_scheme \<Rightarrow> string \<Rightarrow> string \<Rightarrow> u32 \<Rightarrow>
    ('s, 'x) cashu_db_scheme \<Rightarrow> (DatabaseError, u32) result \<times> ('s, 'x) cashu_db_scheme" where
  "increment_counter C ns key count s =
     and_then (case db_read C ns key s of
         (Ok data, s) \<Rightarrow> from_json (json_u32 C) data s
       | (Err NotFound, s) \<Rightarrow> (Ok 0, s)
       | (Err e, s) \<Rightarrow> (Err (DbIo e), s)
       | (Panic m, s) \<Rightarrow> (Panic m, s)) (\<lambda>current_count s.
     case u32_checked_add current_count count of
       None \<Rightarrow> (Err InvalidFormat, s)
     | Some new_count \<Rightarrow>
         and_then (to_json (json_u32 C) new_count s) (\<lambda>data s.
         and_then (map_err DbIo (db_write C ns key data s)) (\<lambda>_ s. (Ok new_count, s))))"

definition increment_keyset_counter :: "('s, 'e) cashu_env_scheme \<Rightarrow> KeysetId \<Rightarrow> u32 \<Rightarrow>
    ('s, 'x) cashu_db_scheme \<Rightarrow> (cdk_error, u32) result \<times> ('s, 'x) cashu_db_scheme" where
  "increment_keyset_counter C keyset_id count s = map_err (cdk_error_from C)
     (increment_counter C KEYSET_COUNTERS_KEY (keyset_id_to_string C keyset_id) count s)"

definition increment_derivation_counter :: "('s, 'e) cashu_env_scheme \<Rightarrow> string \<Rightarrow> u32 \<Rightarrow>
    ('s, 'x) cashu_db_scheme \<Rightarrow> (cdk_error, u32) result \<times> ('s, 'x) cashu_db_scheme" where
  "increment_derivation_counter C namespace count s = map_err (cdk_error_from C)
     (increment_counter C DERIVATION_COUNTERS_KEY (cdk_hex_encode C (as_bytes namespace)) count s)"

subsection \<open>Transactions\<close>

definition add_transaction :: "('s, 'e) cashu_env_scheme \<Rightarrow> CashuTransaction \<Rightarrow>
    ('s, 'x) cashu_db_scheme \<Rightarrow> (cdk_error, unit) result \<times> ('s, 'x) cashu_db_scheme" where
  "add_transaction C transaction s = write_record C (json_transaction C) TRANSACTIONS_KEY
     (transaction_id_to_string C (transaction_id C transaction)) transaction s"

definition get_transaction :: "('s, 'e) cashu_env_scheme \<Rightarrow> TransactionId \<Rightarrow> ('s, 'x) cashu_db_scheme \<Rightarrow>
    (cdk_error, CashuTransaction option) result \<times> ('s, 'x) cashu_db_scheme" where
  "get_transaction C i s = map_err (cdk_error_from C)
     (get_record C (json_transaction C) TRANSACTIONS_KEY (transaction_id_to_string C i) s)"

definition include_transaction :: "MintUrl option \<Rightarrow> TransactionDirection option \<Rightarrow>
    CurrencyUnit option \<Rightarrow> CashuTransaction \<Rightarrow> bool" where
  "include_transaction mint_url direction unit t \<longleftrightarrow>
     (case mint_url of Some u \<Rightarrow> ct_mint_url t = u | None \<Rightarrow> True)
     \<and> (case direction of Some d \<Rightarrow> ct_direction t = d | None \<Rightarrow> True)
     \<and> (case unit of Some u \<Rightarrow> ct_unit t = u | None \<Rightarrow> True)"

definition db_list_transactions :: "('s, 'e) cashu_env_scheme \<Rightarrow> MintUrl option \<Rightarrow>
    TransactionDirection option \<Rightarrow> CurrencyUnit option \<Rightarrow> ('s, 'x) cashu_db_scheme \<Rightarrow>
    (cdk_error, CashuTransaction list) result \<times> ('s, 'x) cashu_db_scheme" where
  "db_list_transactions C mint_url direction unit s = map_err (cdk_error_from C)
     (and_then (map_err DbIo (db_list C TRANSACTIONS_KEY s)) (\<lambda>keys s.
      and_then (read_records C (json_transaction C) TRANSACTIONS_KEY keys s) (\<lambda>transactions s.
        (Ok (filter (include_transaction mint_url direction unit) transactions), s))))"

definition remove_transaction :: "('s, 'e) cashu_env_scheme \<Rightarrow> TransactionId \<Rightarrow>
    ('s, 'x) cashu_db_scheme \<Rightarrow> (cdk_error, unit) result \<times> ('s, 'x) cashu_db_scheme" where
  "remove_transaction C i s = map_err (\<lambda>e. cdk_error_from C (DbIo e))
     (db_remove C TRANSACTIONS_KEY (transaction_id_to_string C i) s)"

subsection \<open>Sagas\<close>

definition add_saga :: "('s, 'e) cashu_env_scheme \<Rightarrow> WalletSaga \<Rightarrow> ('s, 'x) cashu_db_scheme \<Rightarrow>
    (cdk_error, unit) result \<times> ('s, 'x) cashu_db_scheme" where
  "add_saga C saga s = write_record C (json_saga C) SAGAS_KEY (uuid_to_string C (ws_id saga)) saga s"

definition get_saga :: "('s, 'e) cashu_env_scheme \<Rightarrow> Uuid \<Rightarrow> ('s, 'x) cashu_db_scheme \<Rightarrow>
    (cdk_error, WalletSaga option) result \<times> ('s, 'x) cashu_db_scheme" where
  "get_saga C i s = map_err (cdk_error_from C)
     (get_record C (json_saga C) SAGAS_KEY (uuid_to_string C i) s)"

definition update_saga :: "('s, 'e) cashu_env_scheme \<Rightarrow> WalletSaga \<Rightarrow> ('s, 'x) cashu_db_scheme \<Rightarrow>
    (cdk_error, bool) result \<times> ('s, 'x) cashu_db_scheme" where
  "update_saga C saga s =
     and_then (get_saga C (ws_id saga) s) (\<lambda>r s. case r of
        None \<Rightarrow> (Ok False, s)
      | Some existing \<Rightarrow>
          if u32_checked_add (ws_version existing) 1 \<noteq> Some (ws_version saga) then (Ok False, s)
          else and_then (write_record C (json_saga C) SAGAS_KEY (uuid_to_string C (ws_id saga)) saga s)
            (\<lambda>_ s. (Ok True, s)))"

definition delete_saga :: "('s, 'e) cashu_env_scheme \<Rightarrow> Uuid \<Rightarrow> ('s, 'x) cashu_db_scheme \<Rightarrow>
    (cdk_error, unit) result \<times> ('s, 'x) cashu_db_scheme" where
  "delete_saga C i s =
     map_err (\<lambda>e. cdk_error_from C (DbIo e)) (db_remove C SAGAS_KEY (uuid_to_string C i) s)"

definition get_incomplete_sagas :: "('s, 'e) cashu_env_scheme \<Rightarrow> ('s, 'x) cashu_db_scheme \<Rightarrow>
    (cdk_error, WalletSaga list) result \<times> ('s, 'x) cashu_db_scheme" where
  "get_incomplete_sagas C s = map_err (cdk_error_from C)
     (and_then (map_err DbIo (db_list C SAGAS_KEY s)) (\<lambda>keys s.
        read_records C (json_saga C) SAGAS_KEY keys s))"

subsection \<open>Raw access\<close>

definition raw_read :: "('s, 'e) cashu_env_scheme \<Rightarrow> string \<Rightarrow> string \<Rightarrow> string \<Rightarrow>
    ('s, 'x) cashu_db_scheme \<Rightarrow> (cdk_error, bytes option) result \<times> ('s, 'x) cashu_db_scheme" where
  "raw_read C p q k s = (case kv_read (cashu_kvs C) (db_store s) p q k of
     (Ok data, d) \<Rightarrow> (Ok (if data \<noteq> [] then Some data else None), s\<lparr>db_store := d\<rparr>)
   | (Err NotFound, d) \<Rightarrow> (Ok None, s\<lparr>db_store := d\<rparr>)
   | (Err e, d) \<Rightarrow> (Err (cdk_error_from C (DbIo e)), s\<lparr>db_store := d\<rparr>)
   | (Panic m, d) \<Rightarrow> (Panic m, s\<lparr>db_store := d\<rparr>))"

definition raw_list :: "('s, 'e) cashu_env_scheme \<Rightarrow> string \<Rightarrow> string \<Rightarrow> ('s, 'x) cashu_db_scheme \<Rightarrow>
    (cdk_error, string list) result \<times> ('s, 'x) cashu_db_scheme" where
  "raw_list C p q s = (case kv_list (cashu_kvs C) (db_store s) p q of
     (r, d) \<Rightarrow> map_err (\<lambda>e. cdk_error_from C (DbIo e)) (r, s\<lparr>db_store := d\<rparr>))"

definition raw_write :: "('s, 'e) cashu_env_scheme \<Rightarrow> string \<Rightarrow> string \<Rightarrow> string \<Rightarrow> bytes \<Rightarrow>
    ('s, 'x) cashu_db_scheme \<Rightarrow> (cdk_error, unit) result \<times> ('s, 'x) cashu_db_scheme" where
  "raw_write C p q k v s = (case kv_write (cashu_kvs C) (db_store s) p q k v of
     (r, d) \<Rightarrow> map_err (\<lambda>e. cdk_error_from C (DbIo e)) (r, s\<lparr>db_store := d\<rparr>))"

definition raw_remove :: "('s, 'e) cashu_env_scheme \<Rightarrow> string \<Rightarrow> string \<Rightarrow> string \<Rightarrow>
    ('s, 'x) cashu_db_scheme \<Rightarrow> (cdk_error, unit) result \<times> ('s, 'x) cashu_db_scheme" where
  "raw_remove C p q k s = (case kv_remove (cashu_kvs C) (db_store s) p q k False of
     (r, d) \<Rightarrow> map_err (\<lambda>e. cdk_error_from C (DbIo e)) (r, s\<lparr>db_store := d\<rparr>))"

subsection \<open>Start-up\<close>

definition migrate_transaction :: "('s, 'e) cashu_env_scheme \<Rightarrow> string \<Rightarrow> ('s, 'x) cashu_db_scheme \<Rightarrow>
    (DatabaseError, unit) result \<times> ('s, 'x) cashu_db_scheme" where
  "migrate_transaction C old_key s =
     and_then (map_err DbIo (db_read C TRANSACTIONS_KEY old_key s)) (\<lambda>data s.
     if data = [] then (Ok (), s)
     else and_then (from_json (json_transaction C) data s) (\<lambda>transaction s.
       let new_key = transaction_id_to_string C (transaction_id C transaction)
       in if old_key = new_key then (Ok (), s)
          else if old_key \<noteq> transaction_id_to_string C (transaction_id_of_ys C (ct_ys transaction))
          then (Err InvalidFormat, s)
          else
            and_then (case db_read C TRANSACTIONS_KEY new_key s of
                (Ok existing, s) \<Rightarrow>
                  and_then (from_json (json_transaction C) existing s) (\<lambda>existing s.
                    if existing \<noteq> transaction then (Err DbDuplicate, s) else (Ok (), s))
              | (Err NotFound, s) \<Rightarrow> map_err DbIo (db_write C TRANSACTIONS_KEY new_key data s)
              | (Err e, s) \<Rightarrow> (Err (DbIo e), s)
              | (Panic m, s) \<Rightarrow> (Panic m, s)) (\<lambda>_ s.
            map_err DbIo (db_remove C TRANSACTIONS_KEY old_key s))))"

fun migrate_all :: "('s, 'e) cashu_env_scheme \<Rightarrow> string list \<Rightarrow> ('s, 'x) cashu_db_scheme \<Rightarrow>
    (DatabaseError, unit) result \<times> ('s, 'x) cashu_db_scheme" where
  "migrate_all C [] s = (Ok (), s)"
| "migrate_all C (key # keys) s = and_then (migrate_transaction C key s) (\<lambda>_ s. migrate_all C keys s)"

definition migrate_transaction_ids :: "('s, 'e) cashu_env_scheme \<Rightarrow> ('s, 'x) cashu_db_scheme \<Rightarrow>
    (DatabaseError, unit) result \<times> ('s, 'x) cashu_db_scheme" where
  "migrate_transaction_ids C s = (case db_read C [] MIGRATION_KEY s of
     (Ok data, s) \<Rightarrow> (if data = [1] then Ok () else Err InvalidFormat, s)
   | (Err NotFound, s) \<Rightarrow>
       and_then (map_err DbIo (db_list C TRANSACTIONS_KEY s)) (\<lambda>keys s.
         if keys = [] then (Ok (), s)
         else and_then (migrate_all C keys s) (\<lambda>_ s.
           map_err DbIo (db_write C [] MIGRATION_KEY [1] s)))
   | (Err e, s) \<Rightarrow> (Err (DbIo e), s)
   | (Panic m, s) \<Rightarrow> (Panic m, s))"

fun load_mints :: "('s, 'e) cashu_env_scheme \<Rightarrow> string list \<Rightarrow> (MintUrl \<rightharpoonup> MintInfo option) \<Rightarrow>
    ('s, 'x) cashu_db_scheme \<Rightarrow>
    (DatabaseError, MintUrl \<rightharpoonup> MintInfo option) result \<times> ('s, 'x) cashu_db_scheme" where
  "load_mints C [] mints s = (Ok mints, s)"
| "load_mints C (key # keys) mints s =
     (if take 5 key \<noteq> ''mint_'' then load_mints C keys mints s
      else and_then (map_err DbIo (db_read C MINTS_KEY key s)) (\<lambda>data s.
        if data = [] then load_mints C keys mints s
        else and_then (from_json (json_mint_url C) data s) (\<lambda>mint_url s.
             and_then (load_mint_info C mint_url s) (\<lambda>mint_info s.
               load_mints C keys (mints(mint_url \<mapsto> mint_info)) s))))"

definition load_mints_from_store :: "('s, 'e) cashu_env_scheme \<Rightarrow> ('s, 'x) cashu_db_scheme \<Rightarrow>
    (DatabaseError, MintUrl \<rightharpoonup> MintInfo option) result \<times> ('s, 'x) cashu_db_scheme" where
  "load_mints_from_store C s =
     and_then (map_err DbIo (db_list C MINTS_KEY s)) (\<lambda>keys s. load_mints C keys Map.empty s)"

text \<open>
  The two loads are joined: both run to completion, neither writes, and the mints' error is
  looked at first.
\<close>

definition load_caches :: "('s, 'e) cashu_env_scheme \<Rightarrow> ('s, 'x) cashu_db_scheme \<Rightarrow>
    (DatabaseError, unit) result \<times> ('s, 'x) cashu_db_scheme" where
  "load_caches C s =
     (case load_mints_from_store C s of (mints, s) \<Rightarrow>
      case load_proofs_from_store C s of (proofs, s) \<Rightarrow>
        and_then (mints, s) (\<lambda>mints s.
        and_then (proofs, s\<lparr>mints_cache := mints\<rparr>) (\<lambda>proofs s.
          (Ok (), s\<lparr>proofs_cache := proofs\<rparr>))))"

definition CashuKvDatabase_new :: "('s, 'e) cashu_env_scheme \<Rightarrow> 's \<Rightarrow>
    (DatabaseError, unit) result \<times> 's cashu_db" where
  "CashuKvDatabase_new C store =
     and_then (migrate_transaction_ids C \<lparr>db_store = store, mints_cache = Map.empty,
         proofs_cache = [], proofs_cache_needs_reload = False\<rparr>) (\<lambda>_ database.
       load_caches C database)"

subsection \<open>The recovery flag\<close>

definition read_has_recovered :: "'s kv_ops \<Rightarrow> 's \<Rightarrow> (TrustedError, bool) result \<times> 's" where
  "read_has_recovered K d = (case kv_read K d CASHU_PRIMARY_KEY [] HAS_RECOVERED_KEY of
     (Ok data, d) \<Rightarrow> (Ok (case data of [] \<Rightarrow> False | b # _ \<Rightarrow> b \<noteq> 0), d)
   | (Err NotFound, d) \<Rightarrow> (Ok False, d)
   | (Err e, d) \<Rightarrow> (Err (IOError e), d)
   | (Panic m, d) \<Rightarrow> (Panic m, d))"

definition write_has_recovered :: "'s kv_ops \<Rightarrow> bool \<Rightarrow> 's \<Rightarrow> (TrustedError, unit) result \<times> 's" where
  "write_has_recovered K has_recovered d =
     map_err IOError (kv_write K d CASHU_PRIMARY_KEY [] HAS_RECOVERED_KEY
       [if has_recovered then 1 else 0])"

end
