(* ===== verification/Cashu_Facts.thy ===== *)
theory Cashu_Facts
  imports Cashu_Store
begin

text \<open>
  Lemmas on the Cashu database over any store that keeps the contract \<open>kv_store\<close>: what each
  operation leaves alone, what a trusted cache says about the disk, the proof set as a map.
\<close>

locale cashu_ctx =
  fixes C :: "('s, 'e) cashu_env_scheme" and view :: "'s \<Rightarrow> kv_view"
  assumes store: "kv_store (cashu_kvs C) view"
    and proofs_json: "lawful (json_proofs C)"
    and u32_json: "lawful (json_u32 C)"
    and melt_quote_json: "lawful (json_melt_quote C)"
    and mint_quote_json: "lawful (json_mint_quote C)"
    and saga_json: "lawful (json_saga C)"

sublocale cashu_ctx \<subseteq> kv: kv_store "cashu_kvs C" view
  by (rule store)

abbreviation "cell view s ns k \<equiv> view (db_store s) (CASHU_PRIMARY_KEY, ns, k)"

context cashu_ctx
begin

lemma db_read_cases:
  obtains r d where "db_read C ns k s = (r, s\<lparr>db_store := d\<rparr>)" and "view d = view (db_store s)"
    and "\<And>data. r = Ok data \<Longrightarrow> cell view s ns k = Some data"
    and "r = Err NotFound \<Longrightarrow> cell view s ns k = None"
proof -
  obtain r d where rd: "kv_read (cashu_kvs C) (db_store s) CASHU_PRIMARY_KEY ns k = (r, d)" by fastforce
  show ?thesis
    using that [of r d] rd kv.read_keeps [of "db_store s" CASHU_PRIMARY_KEY ns k]
      kv.read_Ok [of "db_store s" CASHU_PRIMARY_KEY ns k]
      kv.read_NotFound [of "db_store s" CASHU_PRIMARY_KEY ns k]
    by (simp add: db_read_def)
qed

lemma db_write_cases:
  obtains r d where "db_write C ns k v s = (r, s\<lparr>db_store := d\<rparr>)"
    and "view d \<in> {view (db_store s), (view (db_store s))((CASHU_PRIMARY_KEY, ns, k) \<mapsto> v)}"
    and "r = Ok () \<Longrightarrow> view d = (view (db_store s))((CASHU_PRIMARY_KEY, ns, k) \<mapsto> v)"
proof -
  obtain r d where rd: "kv_write (cashu_kvs C) (db_store s) CASHU_PRIMARY_KEY ns k v = (r, d)" by fastforce
  show ?thesis
    using that [of r d] rd kv.write_any [of "db_store s" CASHU_PRIMARY_KEY ns k v]
      kv.write_Ok [of "db_store s" CASHU_PRIMARY_KEY ns k v]
    by (simp add: db_write_def)
qed

lemma db_remove_cases:
  obtains r d where "db_remove C ns k s = (r, s\<lparr>db_store := d\<rparr>)"
    and "view d \<in> {view (db_store s), (view (db_store s))((CASHU_PRIMARY_KEY, ns, k) := None)}"
    and "r = Ok () \<Longrightarrow> view d = (view (db_store s))((CASHU_PRIMARY_KEY, ns, k) := None)"
proof -
  obtain r d where rd: "kv_remove (cashu_kvs C) (db_store s) CASHU_PRIMARY_KEY ns k False = (r, d)" by fastforce
  show ?thesis
    using that [of r d] rd kv.remove_any [of "db_store s" CASHU_PRIMARY_KEY ns k False]
      kv.remove_Ok [of "db_store s" CASHU_PRIMARY_KEY ns k]
    by (simp add: db_remove_def)
qed

lemma db_list_cases:
  obtains r d where "db_list C ns s = (r, s\<lparr>db_store := d\<rparr>)" and "view d = view (db_store s)"
    and "\<And>ks. r = Ok ks \<Longrightarrow> set ks = {k. cell view s ns k \<noteq> None}"
proof -
  obtain r d where rd: "kv_list (cashu_kvs C) (db_store s) CASHU_PRIMARY_KEY ns = (r, d)" by fastforce
  show ?thesis
    using that [of r d] rd kv.list_keeps [of "db_store s" CASHU_PRIMARY_KEY ns]
      kv.list_Ok [of "db_store s" CASHU_PRIMARY_KEY ns]
    by (simp add: db_list_def)
qed

end

subsection \<open>What is left alone\<close>

text \<open>
  \<open>frames\<close>: of the disk everything but some namespaces, and the cache of the proofs unless theirs
  is one of them. It is closed under the primitives, so that each operation's frame follows from
  its text.
\<close>

definition frames :: "('s \<Rightarrow> kv_view) \<Rightarrow> string set \<Rightarrow> ('s, 'x) cashu_db_scheme \<Rightarrow>
    ('s, 'x) cashu_db_scheme \<Rightarrow> bool" where
  "frames view N s s' \<longleftrightarrow> (PROOFS_KEY \<notin> N \<longrightarrow> proofs_cache s' = proofs_cache s
       \<and> proofs_cache_needs_reload s' = proofs_cache_needs_reload s)
     \<and> (\<forall>p q k. p \<noteq> CASHU_PRIMARY_KEY \<or> q \<notin> N \<longrightarrow> view (db_store s') (p, q, k) = view (db_store s) (p, q, k))"

lemma frames_refl [simp, intro]: "frames view N s s"
  by (simp add: frames_def)

lemma frames_trans: "frames view N s t \<Longrightarrow> frames view N t u \<Longrightarrow> frames view N s u"
  by (auto simp: frames_def)

lemma frames_mints [simp]: "frames view N s (t\<lparr>mints_cache := m\<rparr>) = frames view N s t"
  by (simp add: frames_def)

named_theorems frame_intros

lemma frames_mintsI [frame_intros]: "frames view N s t \<Longrightarrow> frames view N s (t\<lparr>mints_cache := m\<rparr>)"
  by simp

lemma frames_proofs_cacheI [frame_intros]:
  "PROOFS_KEY \<in> N \<Longrightarrow> frames view N s t \<Longrightarrow> frames view N s (t\<lparr>proofs_cache := ps\<rparr>)"
  "PROOFS_KEY \<in> N \<Longrightarrow> frames view N s t \<Longrightarrow> frames view N s (t\<lparr>proofs_cache_needs_reload := b\<rparr>)"
  by (simp_all add: frames_def)

lemma frames_and_then [frame_intros]:
  "frames view N s (snd r) \<Longrightarrow> (\<And>a t. frames view N s t \<Longrightarrow> frames view N s (snd (f a t))) \<Longrightarrow>
   frames view N s (snd (and_then r f))"
  by (cases "(r, f)" rule: and_then.cases) auto

lemma frames_map_err [frame_intros]: "frames view N s (snd r) \<Longrightarrow> frames view N s (snd (map_err f r))"
  by simp

lemma frames_pair [frame_intros]: "frames view N s t \<Longrightarrow> frames view N s (snd (r, t))"
  by simp

lemma frames_if [frame_intros]:
  "(b \<Longrightarrow> frames view N s (snd x)) \<Longrightarrow> (\<not> b \<Longrightarrow> frames view N s (snd y)) \<Longrightarrow>
   frames view N s (snd (if b then x else y))"
  by simp

lemma frames_Let [frame_intros]: "frames view N s (snd (f x)) \<Longrightarrow> frames view N s (snd (Let x f))"
  by simp

lemma frames_option [frame_intros]:
  "(x = None \<Longrightarrow> frames view N s (snd a)) \<Longrightarrow> (\<And>y. x = Some y \<Longrightarrow> frames view N s (snd (f y))) \<Longrightarrow>
   frames view N s (snd (case x of None \<Rightarrow> a | Some y \<Rightarrow> f y))"
  by (cases x) auto

lemma frames_prod [frame_intros]:
  "(\<And>a b. x = (a, b) \<Longrightarrow> frames view N s (snd (f a b))) \<Longrightarrow> frames view N s (snd (case x of (a, b) \<Rightarrow> f a b))"
  by (cases x) auto

lemma frames_prod_fun [frame_intros]:
  "(\<And>a b. x = (a, b) \<Longrightarrow> frames view N s (snd (f a b t))) \<Longrightarrow>
   frames view N s (snd ((case x of (a, b) \<Rightarrow> f a b) t))"
  by (cases x) auto

lemma frames_sum [frame_intros]:
  "(\<And>a. x = Inl a \<Longrightarrow> frames view N s (snd (f a))) \<Longrightarrow> (\<And>b. x = Inr b \<Longrightarrow> frames view N s (snd (g b))) \<Longrightarrow>
   frames view N s (snd (case x of Inl a \<Rightarrow> f a | Inr b \<Rightarrow> g b))"
  by (cases x) auto

text \<open>The match on what a call of the store returned.\<close>

lemma frames_match [frame_intros]:
  assumes "frames view N s (snd x)"
    and "\<And>a t. frames view N s t \<Longrightarrow> frames view N s (snd (f a t))"
    and "\<And>e t. frames view N s t \<Longrightarrow> frames view N s (snd (g e t))"
    and "\<And>m t. frames view N s t \<Longrightarrow> frames view N s (snd (h m t))"
  shows "frames view N s (snd (case x of (r, t) \<Rightarrow> (case r of Ok a \<Rightarrow> f a t | Err e \<Rightarrow> g e t | Panic m \<Rightarrow> h m t)))"
  using assms by (cases x; cases "fst x") auto

lemma frames_io_error [frame_intros]:
  "(e = NotFound \<Longrightarrow> frames view N s (snd a)) \<Longrightarrow> (\<And>y. e = IoOther y \<Longrightarrow> frames view N s (snd (f y))) \<Longrightarrow>
   frames view N s (snd (case e of NotFound \<Rightarrow> a | IoOther y \<Rightarrow> f y))"
  by (cases e) auto

lemma frames_json [frame_intros]:
  "frames view N s t \<Longrightarrow> frames view N s (snd (from_json j d t))"
  "frames view N s t \<Longrightarrow> frames view N s (snd (to_json k x t))"
  "frames view N s t \<Longrightarrow> frames view N s (snd (lift_sum r t))"
  by (simp_all add: from_json_def to_json_def lift_sum_def split: sum.split)

context cashu_ctx
begin

lemma frames_db_read [frame_intros]:
  "frames view N s t \<Longrightarrow> frames view N s (snd (db_read C ns k t))"
  by (rule db_read_cases [of ns k t]) (simp add: frames_def)

lemma frames_db_list [frame_intros]:
  "frames view N s t \<Longrightarrow> frames view N s (snd (db_list C ns t))"
  by (rule db_list_cases [of ns t]) (simp add: frames_def)

lemma frames_db_write [frame_intros]:
  "frames view N s t \<Longrightarrow> ns \<in> N \<Longrightarrow> frames view N s (snd (db_write C ns k v t))"
  by (rule db_write_cases [of ns k v t]) (auto simp: frames_def)

lemma frames_db_remove [frame_intros]:
  "frames view N s t \<Longrightarrow> ns \<in> N \<Longrightarrow> frames view N s (snd (db_remove C ns k t))"
  by (rule db_remove_cases [of ns k t]) (auto simp: frames_def)

lemma frames_get_record [frame_intros]:
  "frames view N s t \<Longrightarrow> frames view N s (snd (get_record C j ns k t))"
  unfolding get_record_def by (intro frames_match frame_intros)

lemma frames_read_records [frame_intros]:
  "frames view N s t \<Longrightarrow> frames view N s (snd (read_records C j ns keys t))"
proof (induction keys arbitrary: t)
  case (Cons key keys)
  from Cons.prems show ?case unfolding read_records.simps by (intro frame_intros Cons.IH)
qed (simp add: frames_refl)

lemma frames_write_record [frame_intros]:
  "frames view N s t \<Longrightarrow> ns \<in> N \<Longrightarrow> frames view N s (snd (write_record C j ns k x t))"
  unfolding write_record_def by (intro frame_intros)

end

subsection \<open>Operations on the other tables\<close>

text \<open>
  The locale \<open>cashu_frame\<close>: any set of namespaces with the tables in it. It is used for two: all
  but the one of the proofs, and all but the one of the two flags.
\<close>

definition tables :: "string set" where
  "tables = {MINTS_KEY, MINT_KEYSETS_KEY, MINT_QUOTES_KEY, MELT_QUOTES_KEY, KEYS_KEY,
     DERIVATION_COUNTERS_KEY, KEYSET_COUNTERS_KEY, TRANSACTIONS_KEY, KEYSETS_TABLE_KEY,
     KEYSET_U32_MAPPING_KEY, SAGAS_KEY, PROOF_RESERVATIONS_KEY}"

abbreviation "not_proofs \<equiv> - {PROOFS_KEY}"

abbreviation "not_flags \<equiv> - {[] :: string}"

lemma tables_subset: "tables \<subseteq> not_proofs" "tables \<subseteq> not_flags"
  by (simp_all add: tables_def cashu_namespaces)

lemma flag_keys [frame_intros]: "[] \<in> not_proofs" "PROOFS_KEY \<in> not_flags"
  by (simp_all add: cashu_namespaces)

locale cashu_frame = cashu_ctx C view
  for C :: "('s, 'e) cashu_env_scheme" and view :: "'s \<Rightarrow> kv_view" +
  fixes N :: "string set"
  assumes tables: "tables \<subseteq> N"
begin

lemma table_keys [frame_intros]:
  "MINTS_KEY \<in> N" "MINT_KEYSETS_KEY \<in> N" "MINT_QUOTES_KEY \<in> N" "MELT_QUOTES_KEY \<in> N" "KEYS_KEY \<in> N"
  "DERIVATION_COUNTERS_KEY \<in> N" "KEYSET_COUNTERS_KEY \<in> N" "TRANSACTIONS_KEY \<in> N" "KEYSETS_TABLE_KEY \<in> N"
  "KEYSET_U32_MAPPING_KEY \<in> N" "SAGAS_KEY \<in> N" "PROOF_RESERVATIONS_KEY \<in> N"
  using tables by (simp_all add: tables_def)

lemma frames_mints_ops [frame_intros]:
  "frames view N s t \<Longrightarrow> frames view N s (snd (load_mint_info C u t))"
  "frames view N s t \<Longrightarrow> frames view N s (snd (save_mint_info C u info t))"
  "frames view N s t \<Longrightarrow> frames view N s (snd (get_mint_keysets C u t))"
  "frames view N s t \<Longrightarrow> frames view N s (snd (lookup_lenient C ns k t))"
  unfolding load_mint_info_def save_mint_info_def get_mint_keysets_def lookup_lenient_def
  by (intro frames_match frame_intros; assumption)+

lemma frames_store_keysets [frame_intros]:
  "frames view N s t \<Longrightarrow> frames view N s (snd (store_keysets C keysets t))"
proof (induction keysets arbitrary: t)
  case (Cons keyset keysets)
  have "frames view N s u \<Longrightarrow> frames view N s (snd (check_u32 C keyset u))" for u
    unfolding check_u32_def by (intro frame_intros)
  from Cons.prems this show ?case
    unfolding store_keysets.simps by (intro frame_intros Cons.IH)
qed simp

lemma frames_add_mint [frame_intros]:
  "frames view N s t \<Longrightarrow> frames view N s (snd (add_mint C u info t))"
  unfolding add_mint_def by (intro frame_intros)

lemma frames_remove_mint [frame_intros]:
  "frames view N s t \<Longrightarrow> frames view N s (snd (remove_mint C u t))"
  unfolding remove_mint_def by (intro frame_intros)

lemma frames_add_mint_keysets [frame_intros]:
  "frames view N s t \<Longrightarrow> frames view N s (snd (add_mint_keysets C u ks t))"
  unfolding add_mint_keysets_def by (intro frame_intros)

lemma frames_update_mint_url [frame_intros]:
  "frames view N s t \<Longrightarrow> frames view N s (snd (update_mint_url C u v t))"
  unfolding update_mint_url_def get_mint_def by (intro frame_intros)

lemma frames_quotes [frame_intros]:
  "frames view N s t \<Longrightarrow> frames view N s (snd (add_mint_quote C mq t))"
  "frames view N s t \<Longrightarrow> frames view N s (snd (add_melt_quote C lq t))"
  "frames view N s t \<Longrightarrow> frames view N s (snd (remove_mint_quote C i t))"
  "frames view N s t \<Longrightarrow> frames view N s (snd (remove_melt_quote C i t))"
  "frames view N s t \<Longrightarrow> frames view N s (snd (reserve_mint_quote C i op t))"
  "frames view N s t \<Longrightarrow> frames view N s (snd (reserve_melt_quote C i op t))"
  unfolding add_mint_quote_def add_melt_quote_def remove_mint_quote_def remove_melt_quote_def
    reserve_mint_quote_def reserve_melt_quote_def get_mint_quote_def get_melt_quote_def
  by (intro frame_intros; assumption)+

lemma frames_release_melt_quote [frame_intros]:
  assumes "frames view N s t"
  shows "frames view N s (snd (release_melt_quote C op t))"
proof -
  have "frames view N s u \<Longrightarrow> frames view N s (snd (release_melt_quotes C o' qs u))" for o' qs u
  proof (induction qs arbitrary: u)
    case (Cons q qs)
    from Cons.prems show ?case unfolding release_melt_quotes.simps by (intro frame_intros Cons.IH)
  qed simp
  with assms show ?thesis
    unfolding release_melt_quote_def get_melt_quotes_def by (intro frame_intros)
qed

lemma frames_get_mint_quotes [frame_intros]:
  assumes "frames view N s t"
  shows "frames view N s (snd (get_mint_quotes C sched t))"
proof -
  have dec: "frames view N s u \<Longrightarrow> frames view N s (snd (decode_records j rs u))"
    for j :: "'z json" and rs u
  proof (induction rs arbitrary: u)
    case (Cons r rs)
    obtain k d where r: "r = (k, d)" by fastforce
    from Cons.prems show ?case unfolding decode_records.simps r by (intro frame_intros Cons.IH)
  qed simp
  have "frames view N s (u\<lparr>db_store := d\<rparr>)"
    if "frames view N s u" "read_keys_bounded (cashu_kvs C) sched p q keys (db_store u) = (r, d)"
    for p q keys u r d
  proof -
    have "view d = view (db_store u)"
      using kv.read_keys_bounded_spec [of sched p q keys "db_store u"] that(2) by simp
    with that(1) show ?thesis by (simp add: frames_def)
  qed
  with assms dec show ?thesis unfolding get_mint_quotes_def by (intro frame_intros)
qed

lemma frames_release_mint_quote [frame_intros]:
  assumes "frames view N s t"
  shows "frames view N s (snd (release_mint_quote C sched op t))"
proof -
  have "frames view N s u \<Longrightarrow> frames view N s (snd (release_mint_quotes C o' qs u))" for o' qs u
  proof (induction qs arbitrary: u)
    case (Cons q qs)
    from Cons.prems show ?case unfolding release_mint_quotes.simps by (intro frame_intros Cons.IH)
  qed simp
  with assms show ?thesis
    unfolding release_mint_quote_def by (intro frame_intros)
qed

lemma frames_records [frame_intros]:
  "frames view N s t \<Longrightarrow> frames view N s (snd (add_keys C ks t))"
  "frames view N s t \<Longrightarrow> frames view N s (snd (remove_keys C i t))"
  "frames view N s t \<Longrightarrow> frames view N s (snd (increment_keyset_counter C i n t))"
  "frames view N s t \<Longrightarrow> frames view N s (snd (increment_derivation_counter C a n t))"
  "frames view N s t \<Longrightarrow> frames view N s (snd (add_transaction C tx t))"
  "frames view N s t \<Longrightarrow> frames view N s (snd (remove_transaction C i t))"
  "frames view N s t \<Longrightarrow> frames view N s (snd (add_saga C saga t))"
  "frames view N s t \<Longrightarrow> frames view N s (snd (update_saga C saga t))"
  "frames view N s t \<Longrightarrow> frames view N s (snd (delete_saga C i t))"
  "frames view N s t \<Longrightarrow> frames view N s (snd (reserved_proofs C i t))"
  unfolding add_keys_def get_keys_def remove_keys_def increment_keyset_counter_def increment_counter_def
    increment_derivation_counter_def add_transaction_def remove_transaction_def add_saga_def get_saga_def
    update_saga_def delete_saga_def reserved_proofs_def
  by (intro frames_match frame_intros; assumption)+

lemma load_mints_frames: "frames view N s t \<Longrightarrow> frames view N s (snd (load_mints C keys m t))"
proof (induction keys arbitrary: m t)
  case (Cons k ks)
  from Cons.prems show ?case unfolding load_mints.simps by (intro frame_intros Cons.IH)
qed simp

end

sublocale cashu_ctx \<subseteq> other: cashu_frame C view not_proofs
  by unfold_locales (rule tables_subset)

sublocale cashu_ctx \<subseteq> unflagged: cashu_frame C view not_flags
  by unfold_locales (rule tables_subset)

subsection \<open>The proof set and its cache\<close>

text \<open>The proofs a start would load from the disk; nothing when it would refuse.\<close>

definition stored_proofs :: "('s, 'e) cashu_env_scheme \<Rightarrow> kv_view \<Rightarrow> ProofInfo list option" where
  "stored_proofs C V = (case V (CASHU_PRIMARY_KEY, PROOFS_KEY, PROOFS_BLOB_KEY) of
     None \<Rightarrow> Some []
   | Some data \<Rightarrow>
       if data = [] then Some []
       else (case from_slice (json_proofs C) data of
           Inl _ \<Rightarrow> None
         | Inr blob \<Rightarrow> if schema_version blob = PROOFS_SCHEMA_VERSION \<and> distinct (map pi_y (blob_proofs blob))
             then Some (blob_proofs blob) else None))"

definition proofs_synced :: "('s, 'e) cashu_env_scheme \<Rightarrow> ('s \<Rightarrow> kv_view) \<Rightarrow>
    ('s, 'x) cashu_db_scheme \<Rightarrow> bool" where
  "proofs_synced C view s \<longleftrightarrow>
     (\<not> proofs_cache_needs_reload s \<longrightarrow> stored_proofs C (view (db_store s)) = Some (proofs_cache s))"

lemma frames_proofs_synced:
  assumes "frames view not_proofs s s'" and "proofs_synced C view s"
  shows "proofs_synced C view s'"
  using assms by (auto simp: frames_def proofs_synced_def stored_proofs_def)

lemma frames_empty_view: "frames view {} s s' \<Longrightarrow> view (db_store s') = view (db_store s)"
  by (auto simp: frames_def)

lemma stored_proofs_distinct: "stored_proofs C V = Some ps \<Longrightarrow> distinct (map pi_y ps)"
  by (auto simp: stored_proofs_def split: option.splits if_splits sum.splits)

context cashu_ctx
begin

lemma stored_proofs_put:
  assumes "to_vec (json_proofs C) \<lparr>schema_version = PROOFS_SCHEMA_VERSION, blob_proofs = ps\<rparr> = Inr d"
    and "distinct (map pi_y ps)"
  shows "stored_proofs C (V((CASHU_PRIMARY_KEY, PROOFS_KEY, PROOFS_BLOB_KEY) \<mapsto> d)) = Some ps"
  using assms proofs_json by (auto simp: stored_proofs_def lawful_def)

lemma load_proofs:
  assumes "load_proofs_from_store C s = (r, s')"
  shows "frames view {} s s' \<and> (\<forall>ps. r = Ok ps \<longrightarrow> stored_proofs C (view (db_store s)) = Some ps)"
proof -
  have "frames view {} s (snd (load_proofs_from_store C s))"
    unfolding load_proofs_from_store_def by (intro frame_intros frames_refl)
  moreover have "stored_proofs C (view (db_store s)) = Some ps" if "r = Ok ps" for ps
  proof -
    obtain q d where rd: "db_read C PROOFS_KEY PROOFS_BLOB_KEY s = (q, s\<lparr>db_store := d\<rparr>)"
      "\<And>data. q = Ok data \<Longrightarrow> cell view s PROOFS_KEY PROOFS_BLOB_KEY = Some data"
      "q = Err NotFound \<Longrightarrow> cell view s PROOFS_KEY PROOFS_BLOB_KEY = None"
      by (rule db_read_cases [of PROOFS_KEY PROOFS_BLOB_KEY s]) blast
    show ?thesis
    proof (cases q)
      case (Ok data)
      with rd assms that show ?thesis
        by (auto simp: load_proofs_from_store_def get_record_def stored_proofs_def from_json_def
            ensure_unique_proof_ys_def split: if_splits sum.splits)
    next
      case (Err e)
      with rd assms that show ?thesis
        by (cases e) (auto simp: load_proofs_from_store_def get_record_def stored_proofs_def)
    qed (use rd assms that in \<open>auto simp: load_proofs_from_store_def get_record_def\<close>)
  qed
  ultimately show ?thesis using assms by simp
qed

lemma reload_proofs:
  assumes "reload_uncertain_proofs C s = (r, s')" and "proofs_synced C view s"
  shows "proofs_synced C view s' \<and> view (db_store s') = view (db_store s)
    \<and> (r = Ok () \<longrightarrow> \<not> proofs_cache_needs_reload s'
         \<and> stored_proofs C (view (db_store s)) = Some (proofs_cache s'))
    \<and> (\<not> proofs_cache_needs_reload s \<longrightarrow> s' = s \<and> r = Ok ())"
proof (cases "proofs_cache_needs_reload s")
  case True
  obtain q s1 where ld: "load_proofs_from_store C s = (q, s1)" by fastforce
  note l = load_proofs [OF ld]
  then have v: "view (db_store s1) = view (db_store s)" using frames_empty_view by blast
  from l have f: "proofs_cache_needs_reload s1" using True by (simp add: frames_def)
  show ?thesis
    using assms ld l v f True
    by (cases q) (auto simp: reload_uncertain_proofs_def proofs_synced_def)
qed (use assms in \<open>auto simp: reload_uncertain_proofs_def proofs_synced_def\<close>)

lemma commit_proofs_synced:
  assumes "commit_proofs C ps s = (r, s')" and "proofs_synced C view s"
  shows "proofs_synced C view s'
    \<and> (r = Ok () \<longrightarrow> proofs_cache s' = ps \<and> \<not> proofs_cache_needs_reload s' \<and> distinct (map pi_y ps))
    \<and> (r \<noteq> Ok () \<longrightarrow> proofs_cache s' = proofs_cache s)"
proof (cases "distinct (map pi_y ps)")
  case False
  with assms show ?thesis
    by (auto simp: commit_proofs_def persist_proofs_def ensure_unique_proof_ys_def)
next
  case True
  let ?b = "\<lparr>schema_version = PROOFS_SCHEMA_VERSION, blob_proofs = ps\<rparr>"
  show ?thesis
  proof (cases "to_vec (json_proofs C) ?b")
    case (Inl e)
    with True assms show ?thesis
      by (auto simp: commit_proofs_def persist_proofs_def ensure_unique_proof_ys_def to_json_def)
  next
    case (Inr data)
    obtain q d where w: "db_write C PROOFS_KEY PROOFS_BLOB_KEY data (s\<lparr>proofs_cache_needs_reload := True\<rparr>)
        = (q, s\<lparr>proofs_cache_needs_reload := True, db_store := d\<rparr>)"
      "q = Ok () \<Longrightarrow> view d = (view (db_store s))((CASHU_PRIMARY_KEY, PROOFS_KEY, PROOFS_BLOB_KEY) \<mapsto> data)"
      by (rule db_write_cases [of PROOFS_KEY PROOFS_BLOB_KEY data "s\<lparr>proofs_cache_needs_reload := True\<rparr>"]) auto
    show ?thesis
    proof (cases q)
      case (Ok u)
      with True Inr w assms(1) have "s' = s\<lparr>proofs_cache := ps, proofs_cache_needs_reload := False, db_store := d\<rparr>"
        "r = Ok ()"
        by (auto simp: commit_proofs_def persist_proofs_def ensure_unique_proof_ys_def to_json_def)
      with True Ok w(2) stored_proofs_put [OF Inr True] show ?thesis by (simp add: proofs_synced_def)
    qed (use True Inr w assms(1) in \<open>auto simp: commit_proofs_def persist_proofs_def
        ensure_unique_proof_ys_def to_json_def proofs_synced_def\<close>)
  qed
qed

text \<open>Every change of the proof set reloads, computes and commits.\<close>

lemma reload_then:
  assumes "proofs_synced C view s"
    and "\<And>t. proofs_synced C view t \<Longrightarrow> \<not> proofs_cache_needs_reload t \<Longrightarrow> proofs_synced C view (snd (f t))"
  shows "proofs_synced C view (snd (and_then (map_err g (reload_uncertain_proofs C s)) (\<lambda>_. f)))"
proof -
  obtain r s1 where rl: "reload_uncertain_proofs C s = (r, s1)" by fastforce
  from reload_proofs [OF rl assms(1)] assms(2) [of s1] rl show ?thesis by (cases r) auto
qed

lemma commit_synced: "proofs_synced C view s \<Longrightarrow> proofs_synced C view (snd (commit_proofs C ps s))"
  using commit_proofs_synced [of ps s] by (cases "commit_proofs C ps s") auto

lemma update_proofs_synced: "proofs_synced C view s \<Longrightarrow> proofs_synced C view (snd (update_proofs C added ys s))"
  unfolding update_proofs_def by (rule reload_then) (simp_all add: Let_def commit_synced)

lemma update_proofs_state_synced:
  "proofs_synced C view s \<Longrightarrow> proofs_synced C view (snd (update_proofs_state C ys st s))"
  unfolding update_proofs_state_def by (rule reload_then) (simp_all add: Let_def commit_synced)

lemma frames_mark_reserved:
  "frames view not_proofs s t \<Longrightarrow> frames view not_proofs s (snd (mark_reserved C ys op ps t))"
proof (induction ps arbitrary: t)
  case (Cons p ps)
  from Cons.prems show ?case unfolding mark_reserved.simps by (intro frame_intros Cons.IH)
qed simp

lemma reserve_proofs_synced:
  assumes "proofs_synced C view s"
  shows "proofs_synced C view (snd (reserve_proofs C ys op s))"
proof -
  have *: "proofs_synced C view (snd (and_then (mark_reserved C ys op (proofs_cache t) t) (commit_proofs C)))"
    if "proofs_synced C view t" for t
  proof -
    obtain r u where m: "mark_reserved C ys op (proofs_cache t) t = (r, u)" by fastforce
    have "proofs_synced C view u"
      using frames_proofs_synced [OF frames_mark_reserved [OF frames_refl]] that m by (metis snd_conv)
    with m commit_synced show ?thesis by (cases r) auto
  qed
  show ?thesis
  proof (cases "ys = []")
    case False
    show ?thesis
      unfolding reserve_proofs_def if_not_P [OF False] by (rule reload_then [OF assms]) (simp add: *)
  qed (use assms in \<open>simp add: reserve_proofs_def\<close>)
qed

lemma release_proofs_synced:
  "proofs_synced C view s \<Longrightarrow> proofs_synced C view (snd (release_proofs C op s))"
  unfolding release_proofs_def
proof (erule reload_then)
  fix t :: "('s, 'd) cashu_db_scheme" assume t: "proofs_synced C view t"
  obtain r u where rp: "reserved_proofs C op t = (r, u)" by fastforce
  have u: "proofs_synced C view u"
    using frames_proofs_synced [OF other.frames_records(10) [OF frames_refl] t] rp by (metis snd_conv)
  have "proofs_synced C view (snd (and_then (commit_proofs C ps u) (\<lambda>_ s.
      map_err e (db_remove C PROOF_RESERVATIONS_KEY k s))))" for ps e k
  proof -
    obtain q v where c: "commit_proofs C ps u = (q, v)" by fastforce
    have v: "proofs_synced C view v" using commit_synced [OF u, of ps] c by simp
    have "frames view not_proofs v (snd (db_remove C PROOF_RESERVATIONS_KEY k v))"
      by (intro frame_intros frames_refl)
    from frames_proofs_synced [OF this v] c v show ?thesis by (cases q) auto
  qed
  with rp u show "proofs_synced C view (snd (and_then (reserved_proofs C op t) (\<lambda>reserved s.
       let proofs = map (\<lambda>proof.
             if list_ex (\<lambda>p. pi_y p = pi_y proof) reserved \<and> pi_state proof \<in> {St_Reserved, St_Pending}
             then proof\<lparr>pi_state := St_Unspent, pi_used_by_operation := None\<rparr> else proof) (proofs_cache s)
       in and_then (commit_proofs C proofs s) (\<lambda>_ s.
          map_err (\<lambda>e. cdk_error_from C (DbIo e))
            (db_remove C PROOF_RESERVATIONS_KEY (uuid_to_string C op) s)))))"
    by (cases r) (simp_all add: Let_def)
qed

end

context cashu_ctx
begin

lemma migrate_frames: "frames view not_proofs s (snd (migrate_transaction_ids C s))"
proof -
  have one: "frames view not_proofs s t \<Longrightarrow> frames view not_proofs s (snd (migrate_transaction C k t))" for k t
    unfolding migrate_transaction_def by (intro frames_match frame_intros)
  have all: "frames view not_proofs s t \<Longrightarrow> frames view not_proofs s (snd (migrate_all C ks t))" for ks t
  proof (induction ks arbitrary: t)
    case (Cons k ks)
    from Cons.prems show ?case unfolding migrate_all.simps by (intro frame_intros Cons.IH one)
  qed simp
  show ?thesis unfolding migrate_transaction_ids_def by (intro frames_match frame_intros all frames_refl)
qed

lemma new_synced:
  assumes "CashuKvDatabase_new C d = (Ok (), s)"
  shows "proofs_synced C view s \<and> \<not> proofs_cache_needs_reload s"
proof -
  let ?s0 = "\<lparr>db_store = d, mints_cache = Map.empty, proofs_cache = [], proofs_cache_needs_reload = False\<rparr>"
  obtain s1 where mig: "migrate_transaction_ids C ?s0 = (Ok (), s1)" and ld: "load_caches C s1 = (Ok (), s)"
    using assms by (auto simp: CashuKvDatabase_new_def)
  have f1: "frames view not_proofs ?s0 s1" using migrate_frames [of ?s0] mig by simp
  obtain m s2 where ms: "load_mints_from_store C s1 = (m, s2)" by fastforce
  have f2: "frames view not_proofs s1 (snd (load_mints_from_store C s1))"
    unfolding load_mints_from_store_def by (intro frame_intros other.load_mints_frames frames_refl)
  obtain p s3 where ps: "load_proofs_from_store C s2 = (p, s3)" by fastforce
  note l = load_proofs [OF ps]
  from ld ms ps obtain mm pp where "m = Ok mm" "p = Ok pp"
    "s = s3\<lparr>mints_cache := mm, proofs_cache := pp\<rparr>" by (auto simp: load_caches_def)
  moreover have "\<not> proofs_cache_needs_reload s3" using f1 f2 l ms by (simp add: frames_def)
  moreover have "view (db_store s3) = view (db_store s2)" using l frames_empty_view by blast
  ultimately show ?thesis using l by (simp add: proofs_synced_def)
qed

end

subsection \<open>Changes of the proof set and the flags\<close>

context cashu_ctx
begin

lemma proofs_ops_frames [frame_intros]:
  "frames view not_flags s t \<Longrightarrow> frames view not_flags s (snd (reload_uncertain_proofs C t))"
  "frames view not_flags s t \<Longrightarrow> frames view not_flags s (snd (commit_proofs C ps t))"
  unfolding reload_uncertain_proofs_def load_proofs_from_store_def commit_proofs_def persist_proofs_def
  by (intro frame_intros; assumption)+

lemma frames_mark_reserved_flags [frame_intros]:
  "frames view not_flags s t \<Longrightarrow> frames view not_flags s (snd (mark_reserved C ys op ps t))"
proof (induction ps arbitrary: t)
  case (Cons p ps)
  from Cons.prems show ?case unfolding mark_reserved.simps by (intro frame_intros Cons.IH)
qed simp

lemma frames_proof_changes:
  "frames view not_flags s (snd (update_proofs C added ys s))"
  "frames view not_flags s (snd (update_proofs_state C ys st s))"
  "frames view not_flags s (snd (reserve_proofs C ys op s))"
  "frames view not_flags s (snd (release_proofs C op s))"
  "frames view not_flags s (snd (get_proofs C url un sts conds s))"
  unfolding update_proofs_def update_proofs_state_def reserve_proofs_def release_proofs_def
    get_proofs_def read_proofs_def
  by ((intro frame_intros frames_refl; assumption?)+)

text \<open>Opening the database writes the flag of the migration, never the one of the recovery.\<close>

lemma open_keeps_flag:
  assumes "CashuKvDatabase_new C d = (r, s)"
  shows "view (db_store s) (CASHU_PRIMARY_KEY, [], HAS_RECOVERED_KEY) = view d (CASHU_PRIMARY_KEY, [], HAS_RECOVERED_KEY)"
proof -
  let ?s0 = "\<lparr>db_store = d, mints_cache = Map.empty, proofs_cache = [], proofs_cache_needs_reload = False\<rparr>"
  define flag where "flag u \<longleftrightarrow> cell view u [] HAS_RECOVERED_KEY = view d (CASHU_PRIMARY_KEY, [], HAS_RECOVERED_KEY)"
    for u :: "'s cashu_db"
  have frame: "flag v" if "frames view not_flags u v" "flag u" for u v
    using that by (simp add: frames_def flag_def)
  have one: "frames view not_flags u t \<Longrightarrow> frames view not_flags u (snd (migrate_transaction C k t))"
    for u t :: "'s cashu_db" and k
    unfolding migrate_transaction_def by (intro frames_match frame_intros)
  have all: "frames view not_flags u t \<Longrightarrow> frames view not_flags u (snd (migrate_all C ks t))"
    for u t :: "'s cashu_db" and ks
  proof (induction ks arbitrary: t)
    case (Cons k ks)
    from Cons.prems show ?case unfolding migrate_all.simps by (intro frame_intros Cons.IH one)
  qed simp
  have mark: "flag (snd (db_write C [] MIGRATION_KEY v u))" if "flag u" for v u
    using that by (rule_tac db_write_cases [of "[]" MIGRATION_KEY v u])
      (auto simp: flag_def HAS_RECOVERED_KEY_def MIGRATION_KEY_def)
  have run: "flag (snd (and_then (map_err DbIo (db_list C TRANSACTIONS_KEY u)) (\<lambda>keys s.
      if keys = [] then (Ok (), s)
      else and_then (migrate_all C keys s) (\<lambda>_ s. map_err DbIo (db_write C [] MIGRATION_KEY [1] s)))))"
    if "flag u" for u
  proof (rule and_then_state [where P = flag])
    show "flag (snd (map_err DbIo (db_list C TRANSACTIONS_KEY u)))"
      by (rule frame [OF _ that]) (intro frame_intros frames_refl)
  next
    fix keys v assume "flag v"
    then have "flag (snd (migrate_all C keys v))" by (rule frame [OF all [OF frames_refl]])
    then show "flag (snd (if keys = [] then (Ok (), v)
        else and_then (migrate_all C keys v) (\<lambda>_ s. map_err DbIo (db_write C [] MIGRATION_KEY [1] s))))"
      using \<open>flag v\<close> by (auto simp: snd_map_err intro!: and_then_state [where P = flag] mark)
  qed
  have mig: "flag (snd (migrate_transaction_ids C ?s0))"
  proof -
    obtain q d' where rd: "db_read C [] MIGRATION_KEY ?s0 = (q, ?s0\<lparr>db_store := d'\<rparr>)" "view d' = view d"
      by (rule db_read_cases [of "[]" MIGRATION_KEY ?s0]) simp
    then have "flag (?s0\<lparr>db_store := d'\<rparr>)" by (simp add: flag_def)
    with rd run [OF this] show ?thesis
      by (auto simp: migrate_transaction_ids_def split: result.splits io_error.splits)
  qed
  have load: "frames view not_flags u (snd (load_caches C u))" for u :: "'s cashu_db"
  proof -
    obtain m v where m: "load_mints_from_store C u = (m, v)" by fastforce
    obtain p w where p: "load_proofs_from_store C v = (p, w)" by fastforce
    have "frames view not_flags u (snd (load_mints_from_store C u))"
      unfolding load_mints_from_store_def by (intro frame_intros unflagged.load_mints_frames frames_refl)
    then have "frames view not_flags u v" using m by simp
    moreover have "frames view not_flags v w" using load_proofs [OF p] by (simp add: frames_def)
    ultimately have "frames view not_flags u w" by (rule frames_trans)
    with m p show ?thesis unfolding load_caches_def by (auto intro!: frame_intros)
  qed
  have "flag (snd (CashuKvDatabase_new C d))"
    unfolding CashuKvDatabase_new_def
    by (rule and_then_state [where P = flag, OF mig]) (rule frame [OF load])
  with assms show ?thesis by (simp add: flag_def)
qed

end

end
