(* ===== verification/Cashu_Proofs.thy ===== *)
theory Cashu_Proofs
  imports Cashu_Facts
begin

text \<open>
  The proof set as a map from Y values: \<open>update_proofs_cache\<close> is an upsert of the added proofs
  in order, each keeping the derivation index known for it, followed by the removals.
\<close>

definition proof_of :: "ProofInfo list \<Rightarrow> PublicKey \<rightharpoonup> ProofInfo" where
  "proof_of ps = map_of (map (\<lambda>p. (pi_y p, p)) ps)"

definition index_of :: "(PublicKey \<rightharpoonup> ProofInfo) \<Rightarrow> PublicKey \<rightharpoonup> u32" where
  "index_of M y = Option.bind (M y) pi_derivation_index"

definition upsert_proof :: "ProofInfo \<Rightarrow> (PublicKey \<rightharpoonup> ProofInfo) \<Rightarrow> PublicKey \<rightharpoonup> ProofInfo" where
  "upsert_proof p M = M(pi_y p \<mapsto>
     p\<lparr>pi_derivation_index := (case pi_derivation_index p of Some i \<Rightarrow> Some i | None \<Rightarrow> index_of M (pi_y p))\<rparr>)"

lemma proof_of_simps [simp]:
  "proof_of [] = Map.empty"
  "proof_of (p # ps) = (proof_of ps)(pi_y p \<mapsto> p)"
  "proof_of (ps @ qs) = proof_of qs ++ proof_of ps"
  by (simp_all add: proof_of_def)

lemma dom_proof_of [simp]: "dom (proof_of ps) = pi_y ` set ps"
  by (simp add: proof_of_def dom_map_of_conv_image_fst image_image)

lemma proof_of_None [simp]: "proof_of ps y = None \<longleftrightarrow> y \<notin> pi_y ` set ps"
  using dom_proof_of [of ps] by blast

lemma proof_of_SomeD: "proof_of ps y = Some p \<Longrightarrow> p \<in> set ps \<and> pi_y p = y"
  by (induction ps) (auto split: if_splits)

lemma proof_of_mem: "distinct (map pi_y ps) \<Longrightarrow> p \<in> set ps \<Longrightarrow> proof_of ps (pi_y p) = Some p"
  by (induction ps) (force simp: image_iff)+

lemma proof_of_filter: "proof_of (filter (\<lambda>p. pi_y p \<notin> A) ps) = (proof_of ps) |` (- A)"
  by (induction ps) (auto simp: restrict_map_def fun_eq_iff)

lemma proof_of_rev: "distinct (map pi_y ps) \<Longrightarrow> proof_of (rev ps) = proof_of ps"
  by (induction ps) (auto simp: map_add_upd_left)

lemma known_indexes_eq:
  "distinct (map pi_y cache) \<Longrightarrow> known_indexes cache = index_of (proof_of cache)"
proof (induction cache)
  case Nil
  then show ?case by (simp add: known_indexes_def index_of_def List.map_filter_def fun_eq_iff)
next
  case (Cons p ps)
  have fresh: "known_indexes ps (pi_y p) = None"
  proof -
    have none: "proof_of ps (pi_y p) = None" using Cons.prems by auto
    have "known_indexes ps = index_of (proof_of ps)" using Cons by simp
    then show ?thesis by (simp only: index_of_def none) simp
  qed
  have step: "known_indexes (p # ps) = (case pi_derivation_index p of
      Some i \<Rightarrow> [pi_y p \<mapsto> i] ++ known_indexes ps | None \<Rightarrow> known_indexes ps)"
    by (simp add: known_indexes_def List.map_filter_def split: option.split)
  show ?case
  proof (rule ext)
    fix y
    show "known_indexes (p # ps) y = index_of (proof_of (p # ps)) y"
      using step fresh Cons
      by (cases "y = pi_y p"; cases "pi_derivation_index p") (simp_all add: index_of_def map_add_def split: option.split)
  qed
qed

lemma index_of_upd:
  "pi_derivation_index p = Some i \<Longrightarrow> index_of (M(pi_y p \<mapsto> p)) = (index_of M)(pi_y p \<mapsto> i)"
  "index_of (M(pi_y p \<mapsto> p\<lparr>pi_derivation_index := index_of M (pi_y p)\<rparr>)) = index_of M"
  by (auto simp: index_of_def fun_eq_iff)

lemma keep_indexes_fold:
  "fold upsert_proof added M = fold (\<lambda>p M. M(pi_y p \<mapsto> p)) (keep_indexes (index_of M) added) M"
proof (induction added arbitrary: M)
  case (Cons p ps)
  show ?case
  proof (cases "pi_derivation_index p")
    case None
    let ?p = "p\<lparr>pi_derivation_index := index_of M (pi_y p)\<rparr>"
    have "upsert_proof p M = M(pi_y p \<mapsto> ?p)" using None by (simp add: upsert_proof_def)
    with None Cons.IH [of "M(pi_y p \<mapsto> ?p)"] show ?thesis by (simp add: index_of_upd(2) del: fun_upd_apply)
  next
    case (Some i)
    then have eq: "p\<lparr>pi_derivation_index := Some i\<rparr> = p" by (cases p) simp
    have "upsert_proof p M = M(pi_y p \<mapsto> p)" unfolding upsert_proof_def Some option.case eq ..
    with Some Cons.IH [of "M(pi_y p \<mapsto> p)"] show ?thesis by (simp add: index_of_upd(1) del: fun_upd_apply)
  qed
qed simp

lemma keep_indexes_ys [simp]: "map pi_y (keep_indexes indexes added) = map pi_y added"
  by (induction added arbitrary: indexes) (auto split: option.split)

lemma fold_upd_proof: "fold (\<lambda>p M. M(pi_y p \<mapsto> p)) ps M = M ++ proof_of (rev ps)"
  by (induction ps arbitrary: M) (simp_all add: map_add_upd_left)

lemma dedup_ys_proof_of: "proof_of (dedup_ys seen ps) = (proof_of ps) |` (- seen)"
  by (induction seen ps rule: dedup_ys.induct) (auto simp: restrict_map_def fun_eq_iff)

lemma dedup_ys_distinct: "distinct (map pi_y (dedup_ys seen ps)) \<and> pi_y ` set (dedup_ys seen ps) \<inter> seen = {}"
  by (induction seen ps rule: dedup_ys.induct) auto

lemma dedup_ys_image: "pi_y ` set (dedup_ys seen ps) \<subseteq> pi_y ` set ps"
  by (induction seen ps rule: dedup_ys.induct) auto

lemma update_proofs_cache_distinct:
  assumes "distinct (map pi_y cache)"
  shows "distinct (map pi_y (update_proofs_cache cache added removed))"
proof -
  let ?a = "keep_indexes (known_indexes cache) added"
  let ?d = "rev (dedup_ys {} (rev ?a))"
  have d: "distinct (map pi_y ?d)"
    using dedup_ys_distinct [of "{}" "rev ?a"] by (simp add: rev_map [symmetric])
  have "pi_y ` set ?d \<subseteq> pi_y ` set ?a" using dedup_ys_image [of "{}" "rev ?a"] by simp
  then have "distinct (map pi_y (filter (\<lambda>p. pi_y p \<notin> pi_y ` set ?a) cache @ ?d))"
    using d assms by (auto simp: distinct_map_filter)
  then show ?thesis unfolding update_proofs_cache_def Let_def by (rule distinct_map_filter)
qed

lemma map_add_restrict_dom:
  assumes "dom n = A"
  shows "(m |` (- A)) ++ n = m ++ n"
proof (rule ext)
  fix y
  show "((m |` (- A)) ++ n) y = (m ++ n) y"
    using assms by (cases "n y") (auto simp: map_add_def restrict_map_def domIff)
qed

lemma update_proofs_cache_map:
  assumes "distinct (map pi_y cache)"
  shows "proof_of (update_proofs_cache cache added removed) =
    (fold upsert_proof added (proof_of cache)) |` (- set removed)"
proof -
  let ?a = "keep_indexes (known_indexes cache) added"
  have d: "proof_of (rev (dedup_ys {} (rev ?a))) = proof_of (rev ?a)"
    using proof_of_rev [of "dedup_ys {} (rev ?a)"] dedup_ys_distinct [of "{}" "rev ?a"]
    by (simp add: dedup_ys_proof_of restrict_map_def)
  have "((proof_of cache) |` (- (pi_y ` set ?a))) ++ proof_of (rev ?a) = proof_of cache ++ proof_of (rev ?a)"
    by (rule map_add_restrict_dom) simp
  moreover have "fold upsert_proof added (proof_of cache) = proof_of cache ++ proof_of (rev ?a)"
    unfolding known_indexes_eq [OF assms] keep_indexes_fold fold_upd_proof ..
  moreover have "proof_of (rev ?a) ++ ((proof_of cache) |` (- (pi_y ` set ?a)))
      = ((proof_of cache) |` (- (pi_y ` set ?a))) ++ proof_of (rev ?a)"
    by (rule map_add_comm) auto
  ultimately show ?thesis
    unfolding update_proofs_cache_def Let_def proof_of_filter proof_of_simps(3) d by simp
qed

subsection \<open>Reservations\<close>

definition reserved_for :: "Uuid \<Rightarrow> ProofInfo \<Rightarrow> ProofInfo" where
  "reserved_for op p = p\<lparr>pi_state := St_Reserved, pi_used_by_operation := Some op\<rparr>"

definition free_for :: "Uuid \<Rightarrow> ProofInfo \<Rightarrow> bool" where
  "free_for op p \<longleftrightarrow> pi_used_by_operation p \<in> {None, Some op} \<and> pi_state p \<in> {St_Unspent, St_Reserved}"

lemma reserved_for_y [simp]: "pi_y (reserved_for op p) = pi_y p"
  by (simp add: reserved_for_def)

context cashu_ctx
begin

lemma mark_reserved_Ok:
  "mark_reserved C ys op ps s = (Ok qs, s') \<Longrightarrow>
   qs = map (\<lambda>p. if pi_y p \<in> set ys then reserved_for op p else p) ps
   \<and> (\<forall>p \<in> set ps. pi_y p \<in> set ys \<longrightarrow> free_for op p)"
proof (induction ps arbitrary: qs s)
  case (Cons p ps)
  show ?case
  proof (cases "pi_y p \<in> set ys")
    case False
    with Cons.prems obtain rest where "mark_reserved C ys op ps s = (Ok rest, s')" "qs = p # rest" by auto
    with Cons.IH False show ?thesis by auto
  next
    case True
    with Cons.prems have free: "free_for op p"
      by (cases "pi_used_by_operation p") (auto simp: free_for_def split: if_splits)
    from True Cons.prems obtain t rest where
      "mark_reserved C ys op ps t = (Ok rest, s')" "qs = reserved_for op p # rest"
      by (auto simp: reserved_for_def split: if_splits)
    with Cons.IH True free show ?thesis by auto
  qed
qed simp

lemma reserve_proofs_Ok:
  assumes "reserve_proofs C ys op s = (Ok (), s')" and "ys \<noteq> []" and "proofs_synced C view s"
  obtains ps where "stored_proofs C (view (db_store s)) = Some ps"
    and "distinct ys" and "set ys \<subseteq> pi_y ` set ps"
    and "\<forall>p \<in> set ps. pi_y p \<in> set ys \<longrightarrow> free_for op p"
    and "proofs_cache s' = map (\<lambda>p. if pi_y p \<in> set ys then reserved_for op p else p) ps"
    and "\<not> proofs_cache_needs_reload s'" and "proofs_synced C view s'"
proof -
  obtain s1 where rl: "reload_uncertain_proofs C s = (Ok (), s1)"
    using assms(1,2) by (auto simp: reserve_proofs_def)
  note s1 = reload_proofs [OF rl assms(3)]
  let ?ps = "proofs_cache s1"
  have ok: "card (set ys) = length ys" "length (filter (\<lambda>p. pi_y p \<in> set ys) ?ps) = length ys"
    using assms(1,2) rl by (auto simp: reserve_proofs_def split: if_splits)
  obtain qs s2 where mk: "mark_reserved C ys op ?ps s1 = (Ok qs, s2)" and cm: "commit_proofs C qs s2 = (Ok (), s')"
    using assms(1,2) rl ok by (auto simp: reserve_proofs_def)
  have "proofs_synced C view s2"
    using frames_proofs_synced [OF frames_mark_reserved [OF frames_refl]] s1 mk by (metis snd_conv)
  note s' = commit_proofs_synced [OF cm this]
  have d: "distinct ys" using ok(1) by (simp add: card_distinct)
  have dp: "distinct (map pi_y ?ps)" using s1 stored_proofs_distinct by blast
  have "set ys \<subseteq> pi_y ` set ?ps"
  proof -
    let ?f = "filter (\<lambda>p. pi_y p \<in> set ys) ?ps"
    have "card (pi_y ` set ?f) = length ys"
      using ok(2) distinct_map_filter [OF dp] by (metis distinct_card length_map set_map)
    moreover have "pi_y ` set ?f \<subseteq> set ys" by auto
    ultimately have "pi_y ` set ?f = set ys" using d by (intro card_subset_eq) (simp_all add: distinct_card)
    then show ?thesis by auto
  qed
  with that [of ?ps] s1 s' d mark_reserved_Ok [OF mk] show ?thesis by blast
qed

lemma reserve_proofs_taken:
  assumes "proofs_synced C view s" and "\<not> proofs_cache_needs_reload s"
    and "p \<in> set (proofs_cache s)" and "pi_y p \<in> set ys" and "\<not> free_for op p"
  shows "fst (reserve_proofs C ys op s) \<noteq> Ok ()
    \<and> stored_proofs C (view (db_store (snd (reserve_proofs C ys op s)))) = Some (proofs_cache s)"
proof -
  have ne: "ys \<noteq> []" using assms(4) by auto
  have rl: "reload_uncertain_proofs C s = (Ok (), s)" using assms(2) by (simp add: reload_uncertain_proofs_def)
  obtain r t where mk: "mark_reserved C ys op (proofs_cache s) s = (r, t)" by fastforce
  have "is_ok r \<Longrightarrow> False" using mark_reserved_Ok mk assms(3-5) by (fastforce simp: is_ok_iff)
  moreover have "proofs_synced C view t \<and> \<not> proofs_cache_needs_reload t \<and> proofs_cache t = proofs_cache s"
    using frames_proofs_synced [OF frames_mark_reserved [OF frames_refl] assms(1), of ys op "proofs_cache s"]
      frames_mark_reserved [OF frames_refl, of s ys op "proofs_cache s"] mk assms(2) by (simp add: frames_def)
  ultimately show ?thesis
    using ne rl mk assms(1,2) by (cases r) (auto simp: reserve_proofs_def proofs_synced_def)
qed

end

end
