(* ===== verification/Cashu_Props.thy ===== *)
theory Cashu_Props
  imports Cashu_Proofs
begin

text \<open>The properties of the Cashu database, with a sample environment to evaluate them on.\<close>

subsection \<open>A sample environment\<close>

text \<open>
  A codec for the values of a table (the byte is the position), and the decimal text JSON has
  for an integer.
\<close>

definition table_json :: "'a list \<Rightarrow> 'a json" where
  "table_json xs = \<lparr>to_vec = (\<lambda>x. case position (\<lambda>y. y = x) xs of
       Some i \<Rightarrow> Inr [word_of_nat (Suc i)] | None \<Rightarrow> Inl ''not in the table''),
     from_slice = (\<lambda>d. case d of [b] \<Rightarrow> if 0 < unat b \<and> unat b \<le> length xs then Inr (xs ! (unat b - 1))
         else Inl ''invalid'' | _ \<Rightarrow> Inl ''invalid'')\<rparr>"

lemma position_Some: "position P xs = Some i \<Longrightarrow> i < length xs \<and> P (xs ! i)"
  by (induction xs arbitrary: i) (auto split: if_splits)

lemma table_json_lawful:
  assumes "length xs < 255"
  shows "lawful (table_json xs)"
proof -
  have "unat (word_of_nat (Suc i) :: u8) = Suc i" if "i < length xs" for i
    using that assms by (simp add: unat_of_nat del: of_nat_Suc)
  then show ?thesis
    by (auto simp: lawful_def table_json_def split: option.splits dest!: position_Some simp del: of_nat_Suc)
qed

definition decimal_json :: "u32 json" where
  "decimal_json = \<lparr>to_vec = (\<lambda>n. Inr (map (\<lambda>c. word_of_nat (of_char c)) (decimal n))),
     from_slice = (\<lambda>d. Inr (decimal_value (map (\<lambda>b. char_of (unat b)) d)))\<rparr>"

lemma decimal_json_lawful: "lawful decimal_json"
proof -
  have "char_of (unat (word_of_nat (of_char c) :: u8)) = c" for c
    by (simp add: unat_of_nat)
  then show ?thesis by (simp add: lawful_def decimal_json_def o_def)
qed

definition sample_proof :: ProofInfo where
  "sample_proof = \<lparr>pi_proof = \<lparr>pr_amount = 8, pr_rest = []\<rparr>, pi_y = [2], pi_mint_url = ''m'',
     pi_state = St_Unspent, pi_spending_condition = None, pi_unit = Cu_Sat,
     pi_used_by_operation = None, pi_derivation_index = Some 4\<rparr>"

definition sample_blob :: "ProofInfo list \<Rightarrow> ProofsBlob" where
  "sample_blob ps = \<lparr>schema_version = 1, blob_proofs = ps\<rparr>"

definition sample_quote :: "u32 \<Rightarrow> MeltQuote" where
  "sample_quote v = \<lparr>lq_id = ''q'', lq_payment_proof = None, lq_version = v,
     lq_used_by_operation = None, lq_request = '''', lq_amount = 5, lq_fee_reserve = 1, lq_rest = []\<rparr>"

definition sample_saga :: "u32 \<Rightarrow> WalletSaga" where
  "sample_saga v = \<lparr>ws_id = [1], ws_version = v, ws_rest = []\<rparr>"

definition sample_tx :: CashuTransaction where
  "sample_tx = \<lparr>ct_mint_url = ''m'', ct_direction = Incoming, ct_unit = Cu_Sat, ct_ys = [[2]],
     ct_amount = 5, ct_fee = 1, ct_timestamp = 9, ct_quote_id = Some ''q'', ct_saga_id = None,
     ct_status = Ts_Completed, ct_metadata = [], ct_rest = []\<rparr>"

definition sample_cashu :: "mem_kv cashu_env" where
  "sample_cashu = \<lparr>cashu_kvs = dyn_DynStore mem_kv_ops, io_error_to_string = (\<lambda>_. ''io''),
     default_hasher = length, mint_url_to_string = (\<lambda>u. u), keyset_id_to_string = to_lower_hex_string,
     keyset_id_from_str = (\<lambda>s. case from_hex s of Some i \<Rightarrow> Inr i | None \<Rightarrow> Inl ''id''),
     keyset_id_to_u32 = length, utf8_error_to_string = (\<lambda>_. ''utf8''),
     uuid_to_string = to_lower_hex_string, cdk_hex_encode = to_lower_hex_string,
     transaction_id = (\<lambda>t. [7]), transaction_id_of_ys = concat,
     transaction_id_to_string = to_lower_hex_string, verify_id = (\<lambda>_. Inr ()),
     json_mint_url = table_json [''m'', ''n''], json_mint_info = table_json [[1]],
     json_proofs = table_json [sample_blob [], sample_blob [sample_proof],
       sample_blob [reserved_for [1] sample_proof]],
     json_keyset_info = table_json [], json_keyset_infos = table_json [],
     json_mint_quote = table_json [], json_melt_quote = table_json [sample_quote 0, sample_quote 1],
     json_keyset = table_json [], json_u32 = decimal_json, json_transaction = table_json [sample_tx],
     json_saga = table_json [sample_saga 0, sample_saga 1], json_strings = table_json [[]]\<rparr>"

interpretation sample_cashu: cashu_ctx sample_cashu mem_view
  by (rule cashu_ctx.intro)
    (simp_all add: sample_cashu_def mem.kv_store_axioms table_json_lawful decimal_json_lawful)

subsection \<open>Proofs\<close>

text \<open>
  The operations that change the database, each with whatever outcome, as a step relation. The
  raw operations are for namespaces other than the database's own.
\<close>

inductive cashu_step :: "('s, 'e) cashu_env_scheme \<Rightarrow> 's cashu_db \<Rightarrow> 's cashu_db \<Rightarrow> bool" for C where
  "cashu_step C s (snd (add_mint C u info s))"
| "cashu_step C s (snd (remove_mint C u s))"
| "cashu_step C s (snd (update_mint_url C u v s))"
| "cashu_step C s (snd (add_mint_keysets C u keysets s))"
| "cashu_step C s (snd (add_mint_quote C mq s))"
| "cashu_step C s (snd (remove_mint_quote C i s))"
| "cashu_step C s (snd (reserve_mint_quote C i op s))"
| "cashu_step C s (snd (release_mint_quote C sched op s))"
| "cashu_step C s (snd (add_melt_quote C lq s))"
| "cashu_step C s (snd (remove_melt_quote C i s))"
| "cashu_step C s (snd (reserve_melt_quote C i op s))"
| "cashu_step C s (snd (release_melt_quote C op s))"
| "cashu_step C s (snd (add_keys C ks s))"
| "cashu_step C s (snd (remove_keys C k s))"
| "cashu_step C s (snd (increment_keyset_counter C k n s))"
| "cashu_step C s (snd (increment_derivation_counter C i n s))"
| "cashu_step C s (snd (add_transaction C tx s))"
| "cashu_step C s (snd (remove_transaction C ti s))"
| "cashu_step C s (snd (add_saga C saga s))"
| "cashu_step C s (snd (update_saga C saga s))"
| "cashu_step C s (snd (delete_saga C op s))"
| "cashu_step C s (snd (update_proofs C added ys s))"
| "cashu_step C s (snd (update_proofs_state C ys st s))"
| "cashu_step C s (snd (reserve_proofs C ys op s))"
| "cashu_step C s (snd (release_proofs C op s))"
| "cashu_step C s (snd (get_proofs C url un sts conds s))"
| "p \<noteq> CASHU_PRIMARY_KEY \<Longrightarrow> cashu_step C s (snd (raw_write C p q k v s))"
| "p \<noteq> CASHU_PRIMARY_KEY \<Longrightarrow> cashu_step C s (snd (raw_remove C p q k s))"

context cashu_ctx
begin

lemma raw_synced:
  assumes "p \<noteq> CASHU_PRIMARY_KEY" and "proofs_synced C view s"
  shows "proofs_synced C view (snd (raw_write C p q k v s))"
    and "proofs_synced C view (snd (raw_remove C p q k s))"
  using assms kv.write_any [of "db_store s" p q k v] kv.remove_any [of "db_store s" p q k False]
  by (auto simp: raw_write_def raw_remove_def proofs_synced_def stored_proofs_def split: prod.splits)

lemma get_proofs_all:
  assumes "get_proofs C None None None None s = (Ok ps, s')" and "proofs_synced C view s"
  shows "stored_proofs C (view (db_store s)) = Some ps \<and> view (db_store s') = view (db_store s)"
proof (cases "proofs_cache_needs_reload s")
  case True
  with assms(1) obtain s1 where "reload_uncertain_proofs C s = (Ok (), s1)" "ps = proofs_cache s1" "s' = s1"
    by (auto simp: get_proofs_def read_proofs_def)
  with reload_proofs [OF _ assms(2)] show ?thesis by blast
qed (use assms in \<open>auto simp: get_proofs_def read_proofs_def proofs_synced_def\<close>)

lemma get_proofs_synced:
  assumes "proofs_synced C view s"
  shows "proofs_synced C view (snd (get_proofs C url un sts conds s))"
proof -
  obtain r s1 where rl: "reload_uncertain_proofs C s = (r, s1)" by fastforce
  with reload_proofs [OF rl assms] assms show ?thesis
    by (cases r) (auto simp: get_proofs_def read_proofs_def Let_def)
qed

lemmas proofs_ops_synced = update_proofs_synced update_proofs_state_synced reserve_proofs_synced
  release_proofs_synced get_proofs_synced

lemmas frames_ops = other.frames_add_mint other.frames_remove_mint other.frames_update_mint_url
  other.frames_add_mint_keysets other.frames_quotes other.frames_release_melt_quote
  other.frames_release_mint_quote other.frames_records

lemma cashu_step_synced: "cashu_step C s s' \<Longrightarrow> proofs_synced C view s \<Longrightarrow> proofs_synced C view s'"
  by (induction rule: cashu_step.induct)
    (assumption | rule proofs_ops_synced raw_synced | rule frames_proofs_synced, rule frames_ops, rule frames_refl)+

text \<open>None of them touches the two flags the database keeps next to its tables.\<close>

lemma raw_frames:
  assumes "p \<noteq> CASHU_PRIMARY_KEY"
  shows "cell view (snd (raw_write C p q k v s)) [] c = cell view s [] c"
    and "cell view (snd (raw_remove C p q k s)) [] c = cell view s [] c"
  using assms kv.write_any [of "db_store s" p q k v] kv.remove_any [of "db_store s" p q k False]
  by (auto simp: raw_write_def raw_remove_def split: prod.splits)

lemma flags_framed: "frames view not_flags s s' \<Longrightarrow> cell view s' [] c = cell view s [] c"
  by (simp add: frames_def)

lemmas unflagged_ops = unflagged.frames_add_mint unflagged.frames_remove_mint unflagged.frames_update_mint_url
  unflagged.frames_add_mint_keysets unflagged.frames_quotes unflagged.frames_release_melt_quote
  unflagged.frames_release_mint_quote unflagged.frames_records

lemma cashu_step_flags: "cashu_step C s s' \<Longrightarrow> cell view s' [] c = cell view s [] c"
  by (induction rule: cashu_step.induct)
    (assumption | rule raw_frames | rule flags_framed, rule frames_proof_changes
      | rule flags_framed, rule unflagged_ops, rule frames_refl)+

lemma reachable_synced:
  assumes "CashuKvDatabase_new C d = (Ok (), s0)" and "(cashu_step C)\<^sup>*\<^sup>* s0 s"
  shows "proofs_synced C view s"
  using assms(2) by (induction rule: rtranclp_induct)
    (use new_synced [OF assms(1)] cashu_step_synced in blast)+

end

text \<open>
  C18. Reads never show proofs the store does not have: after a start and any operations of the
  database, whether their writes succeeded, failed or were lost half-way, the proofs a read
  returns are exactly those the next start would load, without duplicates.
\<close>

theorem cashu_reads_are_durable:
  assumes "cashu_ctx C view" and "CashuKvDatabase_new C d = (Ok (), s0)" and "(cashu_step C)\<^sup>*\<^sup>* s0 s"
    and "get_proofs C None None None None s = (Ok ps, s')"
  shows "stored_proofs C (view (db_store s')) = Some ps \<and> distinct (map pi_y ps)"
  using cashu_ctx.get_proofs_all [OF assms(1,4) cashu_ctx.reachable_synced [OF assms(1-3)]]
    stored_proofs_distinct by metis

definition sample_db :: "mem_kv cashu_db" where
  "sample_db = snd (CashuKvDatabase_new sample_cashu [])"

lemma sample_db_new: "CashuKvDatabase_new sample_cashu [] = (Ok (), sample_db)"
proof -
  have "fst (CashuKvDatabase_new sample_cashu []) = Ok ()" by code_simp
  then show ?thesis by (cases "CashuKvDatabase_new sample_cashu []") (simp add: sample_db_def)
qed

theorem cashu_reads_are_durable_witness:
  "\<exists>s'. get_proofs sample_cashu None None None None
      (snd (update_proofs sample_cashu [sample_proof] [] sample_db)) = (Ok [sample_proof], s')
    \<and> stored_proofs sample_cashu (mem_view (db_store s')) = Some [sample_proof]"
proof -
  let ?s = "snd (update_proofs sample_cashu [sample_proof] [] sample_db)"
  have steps: "(cashu_step sample_cashu)\<^sup>*\<^sup>* sample_db ?s"
    by (rule r_into_rtranclp) (rule cashu_step.intros)
  have "fst (get_proofs sample_cashu None None None None ?s) = Ok [sample_proof]"
    by code_simp
  then obtain s' where "get_proofs sample_cashu None None None None ?s = (Ok [sample_proof], s')"
    by (cases "get_proofs sample_cashu None None None None ?s") auto
  with cashu_reads_are_durable [OF sample_cashu.cashu_ctx_axioms sample_db_new steps this] show ?thesis by blast
qed

text \<open>
  C20. \<open>update_proofs\<close> refines an upsert on the map from Y values to proofs: when it returns, the
  stored proofs are the earlier ones with each added proof put in, in order (the last of equal Y
  wins, and a proof without a derivation index keeps the one known for its Y), less the removed
  Y values, each Y once.
\<close>

theorem update_proofs_refines_map:
  assumes "cashu_ctx C view" and "proofs_synced C view s" and "update_proofs C added removed s = (Ok (), s')"
  shows "\<exists>ps ps'. stored_proofs C (view (db_store s)) = Some ps
    \<and> stored_proofs C (view (db_store s')) = Some ps'
    \<and> proof_of ps' = (fold upsert_proof added (proof_of ps)) |` (- set removed)
    \<and> distinct (map pi_y ps')"
proof -
  obtain s1 where rl: "reload_uncertain_proofs C s = (Ok (), s1)"
    using assms(3) by (auto simp: update_proofs_def)
  note s1 = cashu_ctx.reload_proofs [OF assms(1) rl assms(2)]
  let ?ps' = "update_proofs_cache (proofs_cache s1) added removed"
  have d: "distinct (map pi_y (proofs_cache s1))" using s1 stored_proofs_distinct by blast
  have "stored_proofs C (view (db_store s')) = Some ?ps'"
  proof (cases "?ps' = proofs_cache s1")
    case True
    with assms(3) rl s1 show ?thesis by (auto simp: update_proofs_def Let_def)
  next
    case False
    with assms(3) rl have "commit_proofs C ?ps' s1 = (Ok (), s')" by (simp add: update_proofs_def Let_def)
    from cashu_ctx.commit_proofs_synced [OF assms(1) this] s1 show ?thesis by (simp add: proofs_synced_def)
  qed
  with s1 update_proofs_cache_map [OF d] update_proofs_cache_distinct [OF d] show ?thesis by blast
qed

theorem update_proofs_refines_map_witness:
  "\<exists>s' ps'. update_proofs sample_cashu [sample_proof] [] sample_db = (Ok (), s')
    \<and> stored_proofs sample_cashu (mem_view (db_store s')) = Some ps' \<and> distinct (map pi_y ps')"
proof -
  have "fst (update_proofs sample_cashu [sample_proof] [] sample_db) = Ok ()" by code_simp
  then obtain s' where up: "update_proofs sample_cashu [sample_proof] [] sample_db = (Ok (), s')"
    by (cases "update_proofs sample_cashu [sample_proof] [] sample_db") auto
  have "proofs_synced sample_cashu mem_view sample_db"
    using sample_cashu.new_synced [OF sample_db_new] by blast
  from update_proofs_refines_map [OF sample_cashu.cashu_ctx_axioms this up] up show ?thesis by blast
qed

text \<open>
  C19. Reserving proofs is exclusive and all or nothing: when it returns, every requested Y was
  stored, unspent or already reserved for this operation or without an owner, exactly those
  proofs are now reserved for it and nothing else changed; and from then on a reservation by
  another operation that asks for any of them fails and changes no stored proof.
\<close>

theorem reserve_proofs_exclusive:
  assumes "cashu_ctx C view" and "proofs_synced C view s" and "ys \<noteq> []"
    and "reserve_proofs C ys op s = (Ok (), s')"
  shows "\<exists>ps. stored_proofs C (view (db_store s)) = Some ps
    \<and> distinct ys \<and> set ys \<subseteq> pi_y ` set ps \<and> (\<forall>p \<in> set ps. pi_y p \<in> set ys \<longrightarrow> free_for op p)
    \<and> stored_proofs C (view (db_store s')) =
        Some (map (\<lambda>p. if pi_y p \<in> set ys then reserved_for op p else p) ps)
    \<and> (\<forall>zs op'. op' \<noteq> op \<and> set zs \<inter> set ys \<noteq> {} \<longrightarrow>
        fst (reserve_proofs C zs op' s') \<noteq> Ok ()
        \<and> stored_proofs C (view (db_store (snd (reserve_proofs C zs op' s'))))
            = stored_proofs C (view (db_store s')))"
proof -
  obtain ps where ps: "stored_proofs C (view (db_store s)) = Some ps" "distinct ys"
    "set ys \<subseteq> pi_y ` set ps" "\<forall>p \<in> set ps. pi_y p \<in> set ys \<longrightarrow> free_for op p"
    and s': "proofs_cache s' = map (\<lambda>p. if pi_y p \<in> set ys then reserved_for op p else p) ps"
    "\<not> proofs_cache_needs_reload s'" "proofs_synced C view s'"
    by (rule cashu_ctx.reserve_proofs_Ok [OF assms(1,4,3,2)]) blast
  have st: "stored_proofs C (view (db_store s')) = Some (proofs_cache s')"
    using s'(2,3) by (simp add: proofs_synced_def)
  have "fst (reserve_proofs C zs op' s') \<noteq> Ok ()
      \<and> stored_proofs C (view (db_store (snd (reserve_proofs C zs op' s')))) = Some (proofs_cache s')"
    if z: "op' \<noteq> op" "set zs \<inter> set ys \<noteq> {}" for zs op'
  proof -
    from z(2) ps(3) obtain p where p: "p \<in> set ps" "pi_y p \<in> set ys" "pi_y p \<in> set zs" by blast
    let ?q = "reserved_for op p"
    have "?q \<in> set (proofs_cache s')" using p(1,2) s'(1) by (auto intro!: image_eqI [of _ _ p])
    moreover have "\<not> free_for op' ?q" using z(1) by (auto simp: free_for_def reserved_for_def)
    ultimately show ?thesis
      using cashu_ctx.reserve_proofs_taken [OF assms(1) s'(3,2), of ?q zs op'] p(3) by simp
  qed
  with ps st s'(1) show ?thesis by (intro exI [of _ ps]) simp
qed

theorem reserve_proofs_exclusive_witness:
  "\<exists>s'. reserve_proofs sample_cashu [[2]] [1] (snd (update_proofs sample_cashu [sample_proof] [] sample_db))
       = (Ok (), s')
     \<and> stored_proofs sample_cashu (mem_view (db_store s')) = Some [reserved_for [1] sample_proof]"
proof -
  let ?s = "snd (update_proofs sample_cashu [sample_proof] [] sample_db)"
  have "fst (reserve_proofs sample_cashu [[2]] [1] ?s) = Ok ()" by code_simp
  then obtain s' where run: "reserve_proofs sample_cashu [[2]] [1] ?s = (Ok (), s')"
    by (cases "reserve_proofs sample_cashu [[2]] [1] ?s") auto
  have sy: "proofs_synced sample_cashu mem_view ?s"
    using sample_cashu.update_proofs_synced sample_cashu.new_synced [OF sample_db_new] by blast
  have "stored_proofs sample_cashu (mem_view (db_store ?s)) = Some [sample_proof]" by code_simp
  with reserve_proofs_exclusive [OF sample_cashu.cashu_ctx_axioms sy _ run] run show ?thesis
    by (auto simp: sample_proof_def)
qed

end
