(* ===== verification/Cashu_Records.thy ===== *)
theory Cashu_Records
  imports Cashu_Props "HOL-Library.Code_Target_Nat"
begin

text \<open>
  Quotes under optimistic versions, counters, and the migration of transaction identifiers:
  records of the Cashu database outside the proof set.
\<close>

definition record_at :: "'a json \<Rightarrow> kv_view \<Rightarrow> string \<Rightarrow> string \<Rightarrow> 'a option" where
  "record_at j V ns k = (case V (CASHU_PRIMARY_KEY, ns, k) of
     None \<Rightarrow> None
   | Some d \<Rightarrow> if d = [] then None else (case from_slice j d of Inl _ \<Rightarrow> None | Inr x \<Rightarrow> Some x))"

context cashu_ctx
begin

lemma get_record_view: "view (db_store (snd (get_record C j ns k s))) = view (db_store s)"
  using frames_get_record [OF frames_refl, of "{}" s j ns k] by (simp add: frames_empty_view)

lemma get_record_Ok:
  assumes "get_record C j ns k s = (Ok r, s')"
  shows "r = record_at j (view (db_store s)) ns k"
proof -
  obtain q d where rd: "db_read C ns k s = (q, s\<lparr>db_store := d\<rparr>)"
    "\<And>data. q = Ok data \<Longrightarrow> cell view s ns k = Some data" "q = Err NotFound \<Longrightarrow> cell view s ns k = None"
    by (rule db_read_cases [of ns k s]) blast
  show ?thesis
  proof (cases q)
    case (Err e)
    with rd assms show ?thesis by (cases e) (auto simp: get_record_def record_at_def)
  qed (use rd assms in \<open>auto simp: get_record_def record_at_def from_json_def split: if_splits sum.splits\<close>)
qed

lemma write_record_Ok:
  assumes "write_record C j ns k x s = (Ok (), s')" and "lawful j"
  shows "record_at j (view (db_store s')) ns k = Some x
    \<and> (\<forall>key. key \<noteq> (CASHU_PRIMARY_KEY, ns, k) \<longrightarrow> view (db_store s') key = view (db_store s) key)"
proof -
  obtain data where data: "to_vec j x = Inr data"
    using assms(1) by (auto simp: write_record_def to_json_def split: sum.splits)
  obtain q d where w: "db_write C ns k data s = (q, s\<lparr>db_store := d\<rparr>)"
    "q = Ok () \<Longrightarrow> view d = (view (db_store s))((CASHU_PRIMARY_KEY, ns, k) \<mapsto> data)"
    by (rule db_write_cases [of ns k data s]) blast
  with assms data have "q = Ok ()" "s' = s\<lparr>db_store := d\<rparr>"
    by (auto simp: write_record_def to_json_def)
  with w(2) assms(2) data show ?thesis by (simp add: record_at_def lawful_def)
qed

end

subsection \<open>Melt quotes\<close>

definition stored_melt :: "('s, 'e) cashu_env_scheme \<Rightarrow> kv_view \<Rightarrow> string \<Rightarrow> MeltQuote option" where
  "stored_melt C V i = record_at (json_melt_quote C) V MELT_QUOTES_KEY i"

lemma u32_next_version: "u32_wrapping_add v 1 \<noteq> v"
proof (cases "v \<le> u32_max")
  case True
  then show ?thesis by (cases "v = u32_max") (auto simp: u32_wrapping_add_def u32_max_def)
next
  case False
  have "u32_wrapping_add v 1 < u32_max + 1" unfolding u32_wrapping_add_def by (rule mod_less_divisor) simp
  with False show ?thesis by linarith
qed

definition next_melt :: "MeltQuote \<Rightarrow> MeltQuote \<Rightarrow> MeltQuote" where
  "next_melt existing q = q\<lparr>lq_version := u32_wrapping_add (lq_version q) 1,
     lq_payment_proof := (case lq_payment_proof q of Some p \<Rightarrow> Some p | None \<Rightarrow> lq_payment_proof existing)\<rparr>"

context cashu_ctx
begin

lemma add_melt_quote_Ok:
  assumes "add_melt_quote C q s = (Ok (), s')"
  shows "(case stored_melt C (view (db_store s)) (lq_id q) of
      None \<Rightarrow> stored_melt C (view (db_store s')) (lq_id q) = Some q
    | Some e \<Rightarrow> lq_version e = lq_version q
        \<and> stored_melt C (view (db_store s')) (lq_id q) = Some (next_melt e q))"
proof -
  obtain r s1 where get: "get_record C (json_melt_quote C) MELT_QUOTES_KEY (lq_id q) s = (Ok r, s1)"
    using assms by (auto simp: add_melt_quote_def get_melt_quote_def)
  have r: "r = stored_melt C (view (db_store s)) (lq_id q)"
    using get_record_Ok [OF get] by (simp add: stored_melt_def)
  show ?thesis
  proof (cases r)
    case None
    with assms get have "write_record C (json_melt_quote C) MELT_QUOTES_KEY (lq_id q) q s1 = (Ok (), s')"
      by (simp add: add_melt_quote_def get_melt_quote_def)
    from write_record_Ok [OF this melt_quote_json] None r show ?thesis by (simp add: stored_melt_def)
  next
    case (Some e)
    with assms get have "lq_version e = lq_version q"
      "write_record C (json_melt_quote C) MELT_QUOTES_KEY (lq_id q) (next_melt e q) s1 = (Ok (), s')"
      by (auto simp: add_melt_quote_def get_melt_quote_def next_melt_def split: if_splits)
    with write_record_Ok [OF this(2) melt_quote_json] Some r show ?thesis by (simp add: stored_melt_def)
  qed
qed

lemma add_melt_quote_stale:
  assumes "stored_melt C (view (db_store s)) (lq_id q) = Some e" and "lq_version e \<noteq> lq_version q"
  shows "fst (add_melt_quote C q s) \<noteq> Ok ()
    \<and> view (db_store (snd (add_melt_quote C q s))) = view (db_store s)"
proof -
  obtain r s1 where get: "get_record C (json_melt_quote C) MELT_QUOTES_KEY (lq_id q) s = (r, s1)" by fastforce
  have v: "view (db_store s1) = view (db_store s)" using get_record_view get by (metis snd_conv)
  show ?thesis
  proof (cases r)
    case (Ok x)
    with get_record_Ok get assms(1) have "x = Some e" by (fastforce simp: stored_melt_def)
    with Ok get v assms(2) show ?thesis by (simp add: add_melt_quote_def get_melt_quote_def)
  qed (use get v in \<open>simp_all add: add_melt_quote_def get_melt_quote_def\<close>)
qed

end

text \<open>
  C22. Melt quotes are updated under optimistic versions: an update that returns found the
  version it was based on, stores the next version and keeps a payment proof already known; and
  a second writer that is still at the old version fails, whatever the store answers, and
  changes nothing.
\<close>

theorem melt_quote_no_lost_update:
  assumes "cashu_ctx C view" and "add_melt_quote C q s = (Ok (), s')"
    and "stored_melt C (view (db_store s)) (lq_id q) = Some e"
    and "lq_id q' = lq_id q" and "lq_version q' = lq_version q"
  shows "lq_version e = lq_version q
    \<and> stored_melt C (view (db_store s')) (lq_id q) = Some (next_melt e q)
    \<and> (lq_payment_proof e \<noteq> None \<longrightarrow> lq_payment_proof (next_melt e q) \<noteq> None)
    \<and> fst (add_melt_quote C q' s') \<noteq> Ok ()
    \<and> view (db_store (snd (add_melt_quote C q' s'))) = view (db_store s')"
proof -
  note 1 = cashu_ctx.add_melt_quote_Ok [OF assms(1,2), unfolded assms(3) option.case]
  have "lq_version (next_melt e q) \<noteq> lq_version q'"
    using assms(5) u32_next_version by (simp add: next_melt_def)
  with cashu_ctx.add_melt_quote_stale [OF assms(1), of s' q' "next_melt e q"] 1 assms(4)
  have "fst (add_melt_quote C q' s') \<noteq> Ok ()
      \<and> view (db_store (snd (add_melt_quote C q' s'))) = view (db_store s')" by simp
  with 1 show ?thesis by (auto simp: next_melt_def split: option.split)
qed

theorem melt_quote_no_lost_update_witness:
  "\<exists>s'. add_melt_quote sample_cashu (sample_quote 0) (snd (add_melt_quote sample_cashu (sample_quote 0) sample_db))
       = (Ok (), s')
     \<and> fst (add_melt_quote sample_cashu (sample_quote 0) s') \<noteq> Ok ()"
proof -
  let ?s = "snd (add_melt_quote sample_cashu (sample_quote 0) sample_db)"
  have "fst (add_melt_quote sample_cashu (sample_quote 0) ?s) = Ok ()" by code_simp
  then obtain s' where run: "add_melt_quote sample_cashu (sample_quote 0) ?s = (Ok (), s')"
    by (cases "add_melt_quote sample_cashu (sample_quote 0) ?s") auto
  have "stored_melt sample_cashu (mem_view (db_store ?s)) (lq_id (sample_quote 0)) = Some (sample_quote 0)"
    by code_simp
  from melt_quote_no_lost_update [OF sample_cashu.cashu_ctx_axioms run this refl refl] run
  show ?thesis by blast
qed

subsection \<open>Counters\<close>

definition counter_at :: "('s, 'e) cashu_env_scheme \<Rightarrow> kv_view \<Rightarrow> string \<Rightarrow> string \<Rightarrow> u32 option" where
  "counter_at C V ns k = (case V (CASHU_PRIMARY_KEY, ns, k) of
     None \<Rightarrow> Some 0
   | Some d \<Rightarrow> (case from_slice (json_u32 C) d of Inl _ \<Rightarrow> None | Inr n \<Rightarrow> Some n))"

context cashu_ctx
begin

lemma increment_counter_cases:
  assumes "increment_counter C ns k n s = (r, s')"
  shows "(view (db_store s') = view (db_store s) \<and> \<not> is_ok r)
    \<or> (\<exists>c d. counter_at C (view (db_store s)) ns k = Some c \<and> c + n \<le> u32_max
        \<and> to_vec (json_u32 C) (c + n) = Inr d
        \<and> (view (db_store s') = (view (db_store s))((CASHU_PRIMARY_KEY, ns, k) \<mapsto> d)
           \<or> view (db_store s') = view (db_store s) \<and> \<not> is_ok r)
        \<and> (is_ok r \<longrightarrow> r = Ok (c + n)))"
proof -
  obtain q d where rd: "db_read C ns k s = (q, s\<lparr>db_store := d\<rparr>)" "view d = view (db_store s)"
    "\<And>data. q = Ok data \<Longrightarrow> cell view s ns k = Some data" "q = Err NotFound \<Longrightarrow> cell view s ns k = None"
    by (rule db_read_cases [of ns k s]) blast
  let ?s = "s\<lparr>db_store := d\<rparr>"
  have tail: ?thesis
    if c: "counter_at C (view (db_store s)) ns k = Some c"
      and run: "(case u32_checked_add c n of
         None \<Rightarrow> (Err InvalidFormat, ?s)
       | Some new_count \<Rightarrow> and_then (to_json (json_u32 C) new_count ?s) (\<lambda>data s.
           and_then (map_err DbIo (db_write C ns k data s)) (\<lambda>_ s. (Ok new_count, s)))) = (r, s')" for c
  proof (cases "c + n \<le> u32_max")
    case False
    with run rd(2) show ?thesis by (auto simp: u32_checked_add_def)
  next
    case True
    show ?thesis
    proof (cases "to_vec (json_u32 C) (c + n)")
      case (Inl e)
      with True run rd(2) show ?thesis by (auto simp: u32_checked_add_def to_json_def)
    next
      case (Inr data)
      obtain w d' where w: "db_write C ns k data ?s = (w, ?s\<lparr>db_store := d'\<rparr>)"
        "view d' \<in> {view d, (view d)((CASHU_PRIMARY_KEY, ns, k) \<mapsto> data)}"
        "w = Ok () \<Longrightarrow> view d' = (view d)((CASHU_PRIMARY_KEY, ns, k) \<mapsto> data)"
        by (rule db_write_cases [of ns k data ?s]) auto
      with True Inr run rd(2) c show ?thesis
        by (cases w) (auto simp: u32_checked_add_def to_json_def)
    qed
  qed
  show ?thesis
  proof (cases q)
    case (Ok data)
    with rd(1,2) rd(3) [OF Ok] assms tail show ?thesis
      by (cases "from_slice (json_u32 C) data")
        (auto simp: increment_counter_def from_json_def counter_at_def)
  next
    case (Err e)
    with rd(1,2,4) assms tail show ?thesis by (cases e) (auto simp: increment_counter_def counter_at_def)
  qed (use rd(1,2) assms in \<open>auto simp: increment_counter_def\<close>)
qed

end

text \<open>
  A keyset counter never goes back: an increment that returns \<open>v\<close> found the counter at \<open>v\<close>
  less the increment, within 32 bits, and stored \<open>v\<close>, so that successive increments hand out
  disjoint ranges of indexes; one that fails leaves the counter or has moved it past its range;
  an increment over 32 bits fails with the counter unchanged; no other record changes.
\<close>

theorem keyset_counter_advances:
  assumes "cashu_ctx C view" and "increment_keyset_counter C i n s = (r, s')"
    and "counter_at C (view (db_store s)) KEYSET_COUNTERS_KEY (keyset_id_to_string C i) = Some c"
  shows "(\<forall>v. r = Ok v \<longrightarrow> v = c + n \<and> v \<le> u32_max
        \<and> counter_at C (view (db_store s')) KEYSET_COUNTERS_KEY (keyset_id_to_string C i) = Some v)
    \<and> counter_at C (view (db_store s')) KEYSET_COUNTERS_KEY (keyset_id_to_string C i) \<in> {Some c, Some (c + n)}
    \<and> (u32_max < c + n \<longrightarrow> \<not> is_ok r \<and> view (db_store s') = view (db_store s))
    \<and> (\<forall>p q k. (p, q, k) \<noteq> (CASHU_PRIMARY_KEY, KEYSET_COUNTERS_KEY, keyset_id_to_string C i) \<longrightarrow>
        view (db_store s') (p, q, k) = view (db_store s) (p, q, k))"
proof -
  let ?k = "keyset_id_to_string C i"
  obtain r' where inc: "increment_counter C KEYSET_COUNTERS_KEY ?k n s = (r', s')"
    and r: "is_ok r \<longleftrightarrow> is_ok r'" "\<And>v. r = Ok v \<Longrightarrow> r' = Ok v"
    using assms(2) by (cases "increment_counter C KEYSET_COUNTERS_KEY ?k n s";
      cases "fst (increment_counter C KEYSET_COUNTERS_KEY ?k n s)") (auto simp: increment_keyset_counter_def)
  have put: "counter_at C (V((CASHU_PRIMARY_KEY, KEYSET_COUNTERS_KEY, ?k) \<mapsto> d)) KEYSET_COUNTERS_KEY ?k
      = Some m" if "to_vec (json_u32 C) m = Inr d" for V d m
    using that cashu_ctx.u32_json [OF assms(1)] by (auto simp: counter_at_def lawful_def)
  from cashu_ctx.increment_counter_cases [OF assms(1) inc] assms(3) r put show ?thesis
    by (auto simp: is_ok_iff)
qed

theorem keyset_counter_advances_witness:
  "\<exists>s'. increment_keyset_counter sample_cashu [1] 5 sample_db = (Ok 5, s')
     \<and> counter_at sample_cashu (mem_view (db_store s')) KEYSET_COUNTERS_KEY ''01'' = Some 5"
proof -
  have "fst (increment_keyset_counter sample_cashu [1] 5 sample_db) = Ok 5" by code_simp
  then obtain s' where run: "increment_keyset_counter sample_cashu [1] 5 sample_db = (Ok 5, s')"
    by (cases "increment_keyset_counter sample_cashu [1] 5 sample_db") auto
  have key: "keyset_id_to_string sample_cashu [1] = ''01''" by code_simp
  have "counter_at sample_cashu (mem_view (db_store sample_db)) KEYSET_COUNTERS_KEY
      (keyset_id_to_string sample_cashu [1]) = Some 0" by code_simp
  from keyset_counter_advances [OF sample_cashu.cashu_ctx_axioms run this] run key
  show ?thesis by (intro exI [of _ s']) simp
qed

subsection \<open>The migration of transaction identifiers\<close>

abbreviation "tx_at C V k \<equiv> record_at (json_transaction C) V TRANSACTIONS_KEY k"

definition stored_txs :: "('s, 'e) cashu_env_scheme \<Rightarrow> kv_view \<Rightarrow> CashuTransaction set" where
  "stored_txs C V = {t. \<exists>k. tx_at C V k = Some t}"

definition id_key :: "('s, 'e) cashu_env_scheme \<Rightarrow> CashuTransaction \<Rightarrow> string" where
  "id_key C t = transaction_id_to_string C (transaction_id C t)"

lemma record_at_upd:
  "record_at j (V((CASHU_PRIMARY_KEY, ns, k) := v)) ns' k' =
    (if ns' = ns \<and> k' = k then record_at j (\<lambda>_. v) ns k else record_at j V ns' k')"
  by (simp add: record_at_def)

text \<open>A copy of a stored transaction to an empty place, and the removal of one of two copies.\<close>

lemma stored_txs_copy:
  assumes "tx_at C V k = Some t" and "tx_at C V k' = None" and "tx_at C (\<lambda>_. v) k' = Some t"
  shows "stored_txs C (V((CASHU_PRIMARY_KEY, TRANSACTIONS_KEY, k') := v)) = stored_txs C V"
proof -
  have at: "tx_at C (V((CASHU_PRIMARY_KEY, TRANSACTIONS_KEY, k') := v)) l = (if l = k' then Some t else tx_at C V l)"
    for l using assms(3) by (simp only: record_at_upd) simp
  show ?thesis
  proof (intro set_eqI iffI)
    fix u assume "u \<in> stored_txs C (V((CASHU_PRIMARY_KEY, TRANSACTIONS_KEY, k') := v))"
    then show "u \<in> stored_txs C V"
      using assms(1) by (auto simp: stored_txs_def at simp del: fun_upd_apply split: if_splits)
  next
    fix u assume "u \<in> stored_txs C V"
    then obtain l where "tx_at C V l = Some u" by (auto simp: stored_txs_def)
    with assms(2) have "tx_at C (V((CASHU_PRIMARY_KEY, TRANSACTIONS_KEY, k') := v)) l = Some u"
      unfolding at by auto
    then show "u \<in> stored_txs C (V((CASHU_PRIMARY_KEY, TRANSACTIONS_KEY, k') := v))"
      unfolding stored_txs_def by blast
  qed
qed

lemma stored_txs_drop:
  assumes "tx_at C V k = Some t" and "tx_at C V k' = Some t" and "k \<noteq> k'"
  shows "stored_txs C (V((CASHU_PRIMARY_KEY, TRANSACTIONS_KEY, k) := None)) = stored_txs C V"
proof (intro set_eqI iffI)
  fix u assume "u \<in> stored_txs C V"
  then obtain l where "tx_at C V l = Some u" by (auto simp: stored_txs_def)
  then show "u \<in> stored_txs C (V((CASHU_PRIMARY_KEY, TRANSACTIONS_KEY, k) := None))"
    using assms by (cases "l = k") (auto simp: stored_txs_def record_at_upd intro: exI [of _ k'] exI [of _ l])
qed (auto simp: stored_txs_def record_at_upd record_at_def split: if_splits)

context cashu_ctx
begin

lemma migrate_drop:
  assumes "db_remove C TRANSACTIONS_KEY k s = (r, s')"
    and "tx_at C (view (db_store s)) k = Some t" and "tx_at C (view (db_store s)) (id_key C t) = Some t"
    and "k \<noteq> id_key C t"
  shows "stored_txs C (view (db_store s')) = stored_txs C (view (db_store s))
    \<and> (r = Ok () \<longrightarrow> (\<forall>l u. tx_at C (view (db_store s')) l = Some u \<longrightarrow>
         l \<noteq> k \<and> tx_at C (view (db_store s)) l = Some u))"
proof -
  obtain q d where rm: "db_remove C TRANSACTIONS_KEY k s = (q, s\<lparr>db_store := d\<rparr>)"
    "view d \<in> {view (db_store s), (view (db_store s))((CASHU_PRIMARY_KEY, TRANSACTIONS_KEY, k) := None)}"
    "q = Ok () \<Longrightarrow> view d = (view (db_store s))((CASHU_PRIMARY_KEY, TRANSACTIONS_KEY, k) := None)"
    by (rule db_remove_cases [of TRANSACTIONS_KEY k s]) blast
  have "tx_at C ((view (db_store s))((CASHU_PRIMARY_KEY, TRANSACTIONS_KEY, k) := None)) l = Some u \<Longrightarrow>
      l \<noteq> k \<and> tx_at C (view (db_store s)) l = Some u" for l u
    by (auto simp: record_at_upd record_at_def split: if_splits)
  with rm assms(1) stored_txs_drop [OF assms(2-4)] show ?thesis by auto
qed

text \<open>Copy a transaction to its new key, or find it there, then remove the old key.\<close>

lemma migrate_copy:
  assumes "cell view s TRANSACTIONS_KEY k = Some data" and "data \<noteq> []"
    and "from_slice (json_transaction C) data = Inr t" and "k \<noteq> id_key C t"
    and "and_then (case db_read C TRANSACTIONS_KEY (id_key C t) s of
              (Ok existing, s) \<Rightarrow> and_then (from_json (json_transaction C) existing s) (\<lambda>existing s.
                    if existing \<noteq> t then (Err DbDuplicate, s) else (Ok (), s))
            | (Err NotFound, s) \<Rightarrow> map_err DbIo (db_write C TRANSACTIONS_KEY (id_key C t) data s)
            | (Err e, s) \<Rightarrow> (Err (DbIo e), s)
            | (Panic m, s) \<Rightarrow> (Panic m, s)) (\<lambda>_ s.
          map_err DbIo (db_remove C TRANSACTIONS_KEY k s)) = (r, s')"
    and "\<exists>e. from_slice (json_transaction C) [] = Inl e"
  shows "stored_txs C (view (db_store s')) = stored_txs C (view (db_store s))
    \<and> (r = Ok () \<longrightarrow> (\<forall>l u. tx_at C (view (db_store s')) l = Some u \<longrightarrow>
         l = id_key C u \<or> l \<noteq> k \<and> tx_at C (view (db_store s)) l = Some u))"
proof -
  let ?V = "view (db_store s)"
  have tx: "tx_at C ?V k = Some t" using assms(1-3) by (simp add: record_at_def)
  obtain q2 d2 where rd2: "db_read C TRANSACTIONS_KEY (id_key C t) s = (q2, s\<lparr>db_store := d2\<rparr>)" "view d2 = ?V"
    "\<And>data. q2 = Ok data \<Longrightarrow> cell view s TRANSACTIONS_KEY (id_key C t) = Some data"
    "q2 = Err NotFound \<Longrightarrow> cell view s TRANSACTIONS_KEY (id_key C t) = None"
    by (rule db_read_cases [of TRANSACTIONS_KEY "id_key C t" s]) auto
  have finish: ?thesis
    if u: "tx_at C (view (db_store u)) (id_key C t) = Some t" "tx_at C (view (db_store u)) k = Some t"
      "stored_txs C (view (db_store u)) = stored_txs C ?V"
      "\<And>l x. tx_at C (view (db_store u)) l = Some x \<Longrightarrow> l = id_key C x \<or> tx_at C ?V l = Some x"
      and run: "map_err DbIo (db_remove C TRANSACTIONS_KEY k u) = (r, s')" for u
  proof -
    obtain r0 where rm: "db_remove C TRANSACTIONS_KEY k u = (r0, s')" "r = Ok () \<Longrightarrow> r0 = Ok ()"
      using run by (cases "db_remove C TRANSACTIONS_KEY k u"; cases "fst (db_remove C TRANSACTIONS_KEY k u)") auto
    from migrate_drop [OF rm(1) u(2,1) assms(4)] rm(2) u(3,4) show ?thesis by metis
  qed
  show ?thesis
  proof (cases q2)
    case (Ok ex)
    note c2 = rd2(3) [OF Ok]
    show ?thesis
    proof (cases "from_slice (json_transaction C) ex = Inr t")
      case True
      with assms(6) have "ex \<noteq> []" by auto
      with True c2 have new: "tx_at C ?V (id_key C t) = Some t" by (simp add: record_at_def)
      show ?thesis
        by (rule finish [of "s\<lparr>db_store := d2\<rparr>"])
          (use Ok True assms(5) rd2(1,2) new tx in \<open>simp_all add: from_json_def\<close>)
    next
      case False
      with Ok assms(5) rd2(1,2) show ?thesis
        by (cases "from_slice (json_transaction C) ex") (auto simp: from_json_def)
    qed
  next
    case (Err e)
    note outer = Err
    show ?thesis
    proof (cases e)
      case NotFound
      with rd2(4) Err have none: "tx_at C ?V (id_key C t) = None" by (simp add: record_at_def)
      have val: "tx_at C (\<lambda>_. Some data) (id_key C t) = Some t" using assms(2,3) by (simp add: record_at_def)
      let ?W = "?V((CASHU_PRIMARY_KEY, TRANSACTIONS_KEY, id_key C t) := Some data)"
      obtain w d3 where w: "db_write C TRANSACTIONS_KEY (id_key C t) data (s\<lparr>db_store := d2\<rparr>)
          = (w, s\<lparr>db_store := d3\<rparr>)" "view d3 \<in> {?V, ?W}" "w = Ok () \<Longrightarrow> view d3 = ?W"
        by (rule db_write_cases [of TRANSACTIONS_KEY "id_key C t" data "s\<lparr>db_store := d2\<rparr>"])
          (use rd2(2) in auto)
      have W: "stored_txs C ?W = stored_txs C ?V" by (rule stored_txs_copy [OF tx none val])
      from w(2) consider "view d3 = ?V" | "view d3 = ?W" by blast
      then have st: "stored_txs C (view d3) = stored_txs C ?V" by cases (simp_all only: W)
      show ?thesis
      proof (cases w)
        case (Ok u)
        then have d3: "view d3 = ?W" using w(3) by simp
        show ?thesis
        proof (rule finish [of "s\<lparr>db_store := d3\<rparr>"])
          show "map_err DbIo (db_remove C TRANSACTIONS_KEY k (s\<lparr>db_store := d3\<rparr>)) = (r, s')"
            using Err NotFound Ok assms(5) rd2(1) w(1) by simp
          fix l x assume "tx_at C (view (db_store (s\<lparr>db_store := d3\<rparr>))) l = Some x"
          then show "l = id_key C x \<or> tx_at C ?V l = Some x"
            using val by (auto simp: d3 record_at_upd simp del: fun_upd_apply split: if_splits)
        qed (use st val tx assms(4) in \<open>simp_all add: d3 record_at_upd del: fun_upd_apply\<close>)
      next
        case (Err x)
        then have "s' = s\<lparr>db_store := d3\<rparr>" "r \<noteq> Ok ()" using outer NotFound assms(5) rd2(1) w(1) by auto
        with st show ?thesis by simp
      next
        case (Panic x)
        then have "s' = s\<lparr>db_store := d3\<rparr>" "r \<noteq> Ok ()" using outer NotFound assms(5) rd2(1) w(1) by auto
        with st show ?thesis by simp
      qed
    qed (use Err assms(5) rd2(1,2) in auto)
  qed (use assms(5) rd2(1,2) in auto)
qed

lemma migrate_one:
  assumes "migrate_transaction C k s = (r, s')" and "\<exists>e. from_slice (json_transaction C) [] = Inl e"
  shows "stored_txs C (view (db_store s')) = stored_txs C (view (db_store s))
    \<and> (r = Ok () \<longrightarrow> (\<forall>l u. tx_at C (view (db_store s')) l = Some u \<longrightarrow>
         l = id_key C u \<or> l \<noteq> k \<and> tx_at C (view (db_store s)) l = Some u))"
proof -
  let ?V = "view (db_store s)"
  obtain q d where rd: "db_read C TRANSACTIONS_KEY k s = (q, s\<lparr>db_store := d\<rparr>)" "view d = ?V"
    "\<And>data. q = Ok data \<Longrightarrow> cell view s TRANSACTIONS_KEY k = Some data"
    by (rule db_read_cases [of TRANSACTIONS_KEY k s]) blast
  consider (settled) "view (db_store s') = ?V" "r = Ok () \<Longrightarrow> tx_at C ?V k = None \<or> (\<exists>t. tx_at C ?V k = Some t \<and> k = id_key C t)"
    | (copy) data t where "cell view s TRANSACTIONS_KEY k = Some data" "data \<noteq> []"
        "from_slice (json_transaction C) data = Inr t" "k \<noteq> id_key C t"
        "and_then (case db_read C TRANSACTIONS_KEY (id_key C t) (s\<lparr>db_store := d\<rparr>) of
              (Ok existing, s) \<Rightarrow> and_then (from_json (json_transaction C) existing s) (\<lambda>existing s.
                    if existing \<noteq> t then (Err DbDuplicate, s) else (Ok (), s))
            | (Err NotFound, s) \<Rightarrow> map_err DbIo (db_write C TRANSACTIONS_KEY (id_key C t) data s)
            | (Err e, s) \<Rightarrow> (Err (DbIo e), s)
            | (Panic m, s) \<Rightarrow> (Panic m, s)) (\<lambda>_ s.
          map_err DbIo (db_remove C TRANSACTIONS_KEY k s)) = (r, s')"
  proof (cases q)
    case (Ok data)
    note cell = rd(3) [OF Ok]
    show ?thesis
    proof (cases "data = [] \<or> (\<exists>e. from_slice (json_transaction C) data = Inl e)")
      case True
      with Ok cell rd(1,2) assms show ?thesis
        by (intro settled) (auto simp: migrate_transaction_def from_json_def record_at_def split: if_splits)
    next
      case False
      then obtain t where t: "data \<noteq> []" "from_slice (json_transaction C) data = Inr t"
        by (cases "from_slice (json_transaction C) data") auto
      then have tx: "tx_at C ?V k = Some t" using cell by (simp add: record_at_def)
      show ?thesis
      proof (cases "k = id_key C t \<or> k \<noteq> transaction_id_to_string C (transaction_id_of_ys C (ct_ys t))")
        case True
        with Ok t rd(1,2) assms(1) tx show ?thesis
          by (intro settled) (auto simp: migrate_transaction_def from_json_def Let_def id_key_def split: if_splits)
      next
        case False
        then have k: "k \<noteq> id_key C t" "transaction_id_to_string C (transaction_id_of_ys C (ct_ys t)) = k" by auto
        show ?thesis
          by (rule copy [OF cell t k(1)], unfold id_key_def) (use Ok t rd(1) assms(1) k [unfolded id_key_def] in
            \<open>simp add: migrate_transaction_def from_json_def Let_def\<close>)
      qed
    qed
  qed (use rd assms in \<open>auto simp: migrate_transaction_def intro: settled\<close>)
  then show ?thesis
  proof cases
    case settled
    then show ?thesis by fastforce
  next
    case copy
    from migrate_copy [OF _ copy(2-5) assms(2)] copy(1) rd(2) show ?thesis by simp
  qed
qed

end

context cashu_ctx
begin

lemma migrate_all_cases:
  assumes "migrate_all C ks s = (r, s')" and "\<exists>e. from_slice (json_transaction C) [] = Inl e"
  shows "stored_txs C (view (db_store s')) = stored_txs C (view (db_store s))
    \<and> (r = Ok () \<longrightarrow> (\<forall>l u. tx_at C (view (db_store s')) l = Some u \<longrightarrow>
         l = id_key C u \<or> l \<notin> set ks \<and> tx_at C (view (db_store s)) l = Some u))"
  using assms(1)
proof (induction ks arbitrary: s)
  case (Cons k ks)
  obtain q s1 where one: "migrate_transaction C k s = (q, s1)" by fastforce
  note 1 = migrate_one [OF one assms(2)]
  show ?case
  proof (cases q)
    case (Ok u)
    with Cons.prems one have "migrate_all C ks s1 = (r, s')" by simp
    note IH = Cons.IH [OF this]
    have "l = id_key C x \<or> l \<notin> set (k # ks) \<and> tx_at C (view (db_store s)) l = Some x"
      if "r = Ok ()" "tx_at C (view (db_store s')) l = Some x" for l x
    proof -
      from IH that have "l = id_key C x \<or> l \<notin> set ks \<and> tx_at C (view (db_store s1)) l = Some x" by blast
      with 1 Ok show ?thesis by fastforce
    qed
    with IH 1 show ?thesis by simp
  qed (use Cons.prems one 1 in auto)
qed simp

lemma migration_cases:
  assumes "migrate_transaction_ids C s = (r, s')" and "\<exists>e. from_slice (json_transaction C) [] = Inl e"
  shows "stored_txs C (view (db_store s')) = stored_txs C (view (db_store s))
    \<and> (r = Ok () \<and> cell view s [] MIGRATION_KEY = None \<longrightarrow>
        (\<forall>l u. tx_at C (view (db_store s')) l = Some u \<longrightarrow> l = id_key C u))"
proof -
  let ?V = "view (db_store s)"
  obtain q d where rd: "db_read C [] MIGRATION_KEY s = (q, s\<lparr>db_store := d\<rparr>)" "view d = ?V"
    "\<And>data. q = Ok data \<Longrightarrow> cell view s [] MIGRATION_KEY = Some data"
    by (rule db_read_cases [of "[]" MIGRATION_KEY s]) blast
  let ?s = "s\<lparr>db_store := d\<rparr>"
  obtain l d1 where ls: "db_list C TRANSACTIONS_KEY ?s = (l, s\<lparr>db_store := d1\<rparr>)" "view d1 = ?V"
    "\<And>ks. l = Ok ks \<Longrightarrow> set ks = {k. cell view s TRANSACTIONS_KEY k \<noteq> None}"
    by (rule db_list_cases [of TRANSACTIONS_KEY ?s]) (use rd(2) in auto)
  show ?thesis
  proof (cases "q = Err NotFound \<and> (\<exists>ks. l = Ok ks \<and> ks \<noteq> [])")
    case False
    have none: "tx_at C ?V k = None" if "l = Ok []" for k
      using ls(3) [OF that] by (auto simp: record_at_def)
    from False rd ls assms(1) none show ?thesis
      by (cases q; cases l) (auto simp: migrate_transaction_ids_def split: io_error.splits)
  next
    case True
    then obtain ks where ks: "q = Err NotFound" "l = Ok ks" "ks \<noteq> []" by blast
    obtain q1 s1 where all: "migrate_all C ks (s\<lparr>db_store := d1\<rparr>) = (q1, s1)" by fastforce
    note 1 = migrate_all_cases [OF all assms(2)]
    have keys: "tx_at C ?V k \<noteq> None \<Longrightarrow> k \<in> set ks" for k
      using ls(3) [OF ks(2)] by (auto simp: record_at_def split: option.splits)
    show ?thesis
    proof (cases q1)
      case (Ok u)
      obtain w d2 where w: "db_write C [] MIGRATION_KEY [1] s1 = (w, s1\<lparr>db_store := d2\<rparr>)"
        "view d2 \<in> {view (db_store s1), (view (db_store s1))((CASHU_PRIMARY_KEY, [], MIGRATION_KEY) \<mapsto> [1])}"
        by (rule db_write_cases [of "[]" MIGRATION_KEY "[1]" s1]) blast
      have same: "tx_at C (view d2) = tx_at C (view (db_store s1))"
        using w(2) by (auto simp: record_at_def TRANSACTIONS_KEY_def fun_eq_iff)
      have "s' = s1\<lparr>db_store := d2\<rparr>"
        using Ok ks rd(1) ls(1) all w(1) assms(1)
        by (cases w) (auto simp: migrate_transaction_ids_def)
      have new: "k = id_key C x" if "tx_at C (view (db_store s1)) k = Some x" for k x
        using 1 Ok ls(2) that keys [of k] by auto
      have "stored_txs C (view d2) = stored_txs C ?V" using 1 same ls(2) by (simp add: stored_txs_def)
      with new same \<open>s' = s1\<lparr>db_store := d2\<rparr>\<close> show ?thesis by simp
    qed (use ks rd(1) ls(1,2) all assms(1) 1 in \<open>auto simp: migrate_transaction_ids_def\<close>)
  qed
qed

end

text \<open>
  C21. The migration of transaction identifiers loses no transaction: whatever call fails and
  wherever it stops, the stored transactions are the same set before and after, so that it can
  be run again; and when it completes, every stored transaction is under its new identifier.
\<close>

theorem migration_loses_nothing:
  assumes "cashu_ctx C view" and "\<exists>e. from_slice (json_transaction C) [] = Inl e"
    and "migrate_transaction_ids C s = (r, s')"
  shows "stored_txs C (view (db_store s')) = stored_txs C (view (db_store s))
    \<and> (r = Ok () \<and> view (db_store s) (CASHU_PRIMARY_KEY, [], MIGRATION_KEY) = None \<longrightarrow>
        (\<forall>k t. tx_at C (view (db_store s')) k = Some t \<longrightarrow>
           k = transaction_id_to_string C (transaction_id C t)))"
  using cashu_ctx.migration_cases [OF assms(1,3,2)] by (simp add: id_key_def)

theorem migration_loses_nothing_witness:
  "\<exists>s'. migrate_transaction_ids sample_cashu
       (sample_db\<lparr>db_store := [((CASHU_PRIMARY_KEY, TRANSACTIONS_KEY, ''02''), [1])]\<rparr>) = (Ok (), s')
     \<and> sample_tx \<in> stored_txs sample_cashu (mem_view (db_store s'))"
proof -
  let ?s = "sample_db\<lparr>db_store := [((CASHU_PRIMARY_KEY, TRANSACTIONS_KEY, ''02''), [1])]\<rparr>"
  have "fst (migrate_transaction_ids sample_cashu ?s) = Ok ()" by code_simp
  then obtain s' where run: "migrate_transaction_ids sample_cashu ?s = (Ok (), s')"
    by (cases "migrate_transaction_ids sample_cashu ?s") auto
  have "tx_at sample_cashu (mem_view (db_store ?s)) ''02'' = Some sample_tx" by code_simp
  then have "sample_tx \<in> stored_txs sample_cashu (mem_view (db_store ?s))"
    by (auto simp: stored_txs_def)
  moreover have "\<exists>e. from_slice (json_transaction sample_cashu) [] = Inl e"
    by (simp add: sample_cashu_def table_json_def)
  ultimately show ?thesis
    using migration_loses_nothing [OF sample_cashu.cashu_ctx_axioms _ run] run by auto
qed

end
