(* ===== verification/Lightning_Wallet.thy ===== *)
theory Lightning_Wallet
  imports Rebalance_Trigger
begin

text \<open>
  The self-custodial wallet (\<open>lightning_wallet.rs\<close>) and the records of splice-outs
  (\<open>store.rs\<close>). The node of \<open>ldk-node\<close> is a parameter: a record of operations over a world \<open>'w\<close>,
  the state outside this repository. Its queries read the world, its commands and the calls
  that are awaited change it. The wallet's state is the state of the stores and queues together
  with the world.
\<close>

datatype NodeError =
    NE_ConnectionFailed
  | NE_LiquidityRequestFailed
  | NE_LiquiditySourceUnavailable
  | NE_InvalidUri
  | NE_InvalidInvoice
  | NE_InvalidAmount
  | NE_InsufficientFunds
  | NE_WalletOperationFailed
  | NE_Other string

record BalanceDetails =
  bd_total_lightning_balance_sats :: u64
  bd_total_onchain_balance_sats :: u64
  bd_spendable_onchain_balance_sats :: u64

record PeerDetails =
  peer_node_id :: PublicKey
  peer_is_connected :: bool

record 'w ldk_node_ops =
  nd_list_payments :: "'w \<Rightarrow> PaymentDetails list"
  nd_payment :: "LdkPaymentId \<Rightarrow> 'w \<Rightarrow> PaymentDetails option"
  nd_list_balances :: "'w \<Rightarrow> BalanceDetails"
  nd_list_channels :: "'w \<Rightarrow> ChannelDetails list"
  nd_list_peers :: "'w \<Rightarrow> PeerDetails list"
  nd_clock :: "'w \<Rightarrow> duration"
  nd_new_address :: "'w \<Rightarrow> (NodeError, Address) result \<times> 'w"
  nd_receive :: "u64 \<Rightarrow> u32 \<Rightarrow> 'w \<Rightarrow> (NodeError, Bolt11Invoice) result \<times> 'w"
  nd_receive_via_jit_channel :: "u64 \<Rightarrow> u32 \<Rightarrow> 'w \<Rightarrow> (NodeError, Bolt11Invoice) result \<times> 'w"
  nd_receive_variable_amount :: "u32 \<Rightarrow> 'w \<Rightarrow> (NodeError, Bolt11Invoice) result \<times> 'w"
  nd_receive_variable_amount_via_jit_channel ::
    "u32 \<Rightarrow> 'w \<Rightarrow> (NodeError, Bolt11Invoice) result \<times> 'w"
  nd_bolt11_send_using_amount ::
    "Bolt11Invoice \<Rightarrow> u64 \<Rightarrow> 'w \<Rightarrow> (NodeError, LdkPaymentId) result \<times> 'w"
  nd_bolt11_send_using_amount_underpaying ::
    "Bolt11Invoice \<Rightarrow> u64 \<Rightarrow> 'w \<Rightarrow> (NodeError, LdkPaymentId) result \<times> 'w"
  nd_bolt12_send_using_amount :: "Offer \<Rightarrow> u64 \<Rightarrow> 'w \<Rightarrow> (NodeError, LdkPaymentId) result \<times> 'w"
  nd_send_to_address :: "Address \<Rightarrow> u64 \<Rightarrow> 'w \<Rightarrow> (NodeError, Txid) result \<times> 'w"
  nd_splice_out :: "UserChannelId \<Rightarrow> PublicKey \<Rightarrow> Address \<Rightarrow> u64 \<Rightarrow> 'w \<Rightarrow>
    (NodeError, unit) result \<times> 'w"
  nd_splice_in_with_all :: "UserChannelId \<Rightarrow> PublicKey \<Rightarrow> 'w \<Rightarrow> (NodeError, unit) result \<times> 'w"
  nd_open_channel_with_all :: "PublicKey \<Rightarrow> string \<Rightarrow> 'w \<Rightarrow> (NodeError, UserChannelId) result \<times> 'w"
  nd_close_channel :: "UserChannelId \<Rightarrow> PublicKey \<Rightarrow> 'w \<Rightarrow> (NodeError, unit) result \<times> 'w"
  nd_force_close_channel :: "UserChannelId \<Rightarrow> PublicKey \<Rightarrow> 'w \<Rightarrow> (NodeError, unit) result \<times> 'w"
  nd_sync_wallets :: "'w \<Rightarrow> (NodeError, unit) result \<times> 'w"
  nd_event_handled :: "'w \<Rightarrow> (NodeError, unit) result \<times> 'w"
  nd_stop :: "'w \<Rightarrow> (NodeError, unit) result \<times> 'w"

text \<open>
  \<open>LightningWalletImpl\<close>: the node, the LSP, and the notifications the wallet awaits. What an
  await returns (an outpoint of the splice inbox, for one) is given by the world.
\<close>

record 'w lightning_wallet = "'w ldk_node_ops" +
  lsp_node_id :: PublicKey
  lsp_socket_addr :: string
  await_payment_receipt_flag :: "'w \<Rightarrow> 'w"
  await_channel_pending_flag :: "u128 \<Rightarrow> 'w \<Rightarrow> 'w"
  await_splice_pending :: "u128 \<Rightarrow> 'w \<Rightarrow> OutPoint \<times> 'w"

record 's wallet_env = "'s event_env" +
  pd_encode :: "PaymentDetails \<Rightarrow> bytes"
  pd_decode :: "bytes \<Rightarrow> PaymentDetails option"

record ('s, 'w) wallet_state = "'s trigger_state" +
  outside :: 'w
  rebalance_tasks :: nat

definition outside_call :: "('w \<Rightarrow> 'a \<times> 'w) \<Rightarrow> ('s, 'w, 'x) wallet_state_scheme \<Rightarrow>
    'a \<times> ('s, 'w, 'x) wallet_state_scheme" where
  "outside_call f s = (case f (outside s) of (r, w) \<Rightarrow> (r, s\<lparr>outside := w\<rparr>))"

subsection \<open>Splice-outs on disk\<close>

definition write_splice_out :: "('s, 'e) wallet_env_scheme \<Rightarrow> PaymentDetails \<Rightarrow>
    ('s, 'x) tx_store_scheme \<Rightarrow> (unit, unit) result \<times> ('s, 'x) tx_store_scheme" where
  "write_splice_out E details s =
     expect ''Failed to write splice out txid''
       (disk_write E STORE_PRIMARY_KEY SPLICE_OUT_SECONDARY_KEY (as_hex E (pd_id details))
          (pd_encode E details) s)"

fun load_splice_outs :: "('s, 'e) wallet_env_scheme \<Rightarrow> string list \<Rightarrow>
    ('s, 'x) tx_store_scheme \<Rightarrow> (unit, PaymentDetails list) result \<times> ('s, 'x) tx_store_scheme" where
  "load_splice_outs E [] s = (Ok [], s)"
| "load_splice_outs E (key # keys) s =
     and_then (expect ''We do not allow reads to fail''
         (disk_read E STORE_PRIMARY_KEY SPLICE_OUT_SECONDARY_KEY key s))
       (\<lambda>data_bytes s. case pd_decode E data_bytes of
            None \<Rightarrow> (Panic ''Invalid data in splice out storage'', s)
          | Some data \<Rightarrow>
              and_then (load_splice_outs E keys s) (\<lambda>splice_outs s. (Ok (data # splice_outs), s)))"

definition disk_list :: "('s, 'e) store_env_scheme \<Rightarrow> string \<Rightarrow> string \<Rightarrow>
    ('s, 'x) tx_store_scheme \<Rightarrow> (io_error, string list) result \<times> ('s, 'x) tx_store_scheme" where
  "disk_list E p q s = (case kv_list (kvs E) (disk s) p q of (r, d') \<Rightarrow> (r, s\<lparr>disk := d'\<rparr>))"

definition read_splice_outs :: "('s, 'e) wallet_env_scheme \<Rightarrow> ('s, 'x) tx_store_scheme \<Rightarrow>
    (unit, PaymentDetails list) result \<times> ('s, 'x) tx_store_scheme" where
  "read_splice_outs E s =
     and_then (expect ''We do not allow reads to fail''
         (disk_list E STORE_PRIMARY_KEY SPLICE_OUT_SECONDARY_KEY s))
       (\<lambda>keys s. load_splice_outs E keys s)"

subsection \<open>Balances\<close>

record LightningWalletBalance =
  lw_lightning :: Amount
  lw_onchain :: Amount

definition DEFAULT_INVOICE_EXPIRY_SECS :: u32 where
  "DEFAULT_INVOICE_EXPIRY_SECS = 86400"

definition ln_get_balance :: "amount_ops \<Rightarrow> ('w, 'l) lightning_wallet_scheme \<Rightarrow> 'w \<Rightarrow>
    (unit, LightningWalletBalance) result" where
  "ln_get_balance A N w =
     (let balances = nd_list_balances N w
      in case from_sats A (bd_total_lightning_balance_sats balances) of
           Ok l \<Rightarrow> (case from_sats A (bd_total_onchain_balance_sats balances) of
               Ok c \<Rightarrow> Ok \<lparr>lw_lightning = l, lw_onchain = c\<rparr>
             | _ \<Rightarrow> Panic ''invalid amount'')
         | _ \<Rightarrow> Panic ''invalid amount'')"

definition LightningBalance_from :: "LightningWalletBalance \<Rightarrow> LightningBalance" where
  "LightningBalance_from bal = \<lparr>lb_lightning = lw_lightning bal, lb_onchain = lw_onchain bal\<rparr>"

definition estimate_receivable_balance :: "amount_ops \<Rightarrow> ('w, 'l) lightning_wallet_scheme \<Rightarrow>
    'w \<Rightarrow> (unit, Amount) result" where
  "estimate_receivable_balance A N w =
     (let amt = (case map cd_inbound_capacity_msat (nd_list_channels N w) of
            [] \<Rightarrow> None | c # cs \<Rightarrow> Some (fold max cs c))
      in case from_milli_sats A (map_or 0 (\<lambda>a. a) amt) of
           Ok a \<Rightarrow> Ok a
         | _ \<Rightarrow> Panic ''invalid amount'')"

definition is_connected_to_lsp :: "('w, 'l) lightning_wallet_scheme \<Rightarrow> 'w \<Rightarrow> bool" where
  "is_connected_to_lsp N w =
     (case find (\<lambda>p. peer_node_id p = lsp_node_id N) (nd_list_peers N w) of
        Some p \<Rightarrow> peer_is_connected p | None \<Rightarrow> False)"

definition ln_list_payments :: "('w, 'l) lightning_wallet_scheme \<Rightarrow> 'w \<Rightarrow> PaymentDetails list" where
  "ln_list_payments N w = nd_list_payments N w"

text \<open>The fee estimate is a stub in the source: every lightning payment is estimated free.\<close>

definition ln_estimate_fee :: "PaymentMethod \<Rightarrow> Amount \<Rightarrow> (NodeError, Amount) result" where
  "ln_estimate_fee _ _ = Ok 0"

subsection \<open>Receiving\<close>

definition get_on_chain_address :: "('w, 'l) lightning_wallet_scheme \<Rightarrow> 'w \<Rightarrow>
    (NodeError, Address) result \<times> 'w" where
  "get_on_chain_address N w = nd_new_address N w"

definition ln_get_bolt11_invoice :: "amount_ops \<Rightarrow> ('w, 'l) lightning_wallet_scheme \<Rightarrow>
    Amount option \<Rightarrow> 'w \<Rightarrow> (NodeError, Bolt11Invoice) result \<times> 'w" where
  "ln_get_bolt11_invoice A N amount w =
     and_then (infallible (estimate_receivable_balance A N w, w)) (\<lambda>receivable w.
       case amount of
         Some amt \<Rightarrow>
           (if amt \<le> receivable then nd_receive N (milli_sats amt) DEFAULT_INVOICE_EXPIRY_SECS w
            else nd_receive_via_jit_channel N (milli_sats amt) DEFAULT_INVOICE_EXPIRY_SECS w)
       | None \<Rightarrow>
           (case from_sats A 100000 of
              Ok threshold \<Rightarrow>
                (if threshold \<le> receivable
                 then nd_receive_variable_amount N DEFAULT_INVOICE_EXPIRY_SECS w
                 else nd_receive_variable_amount_via_jit_channel N DEFAULT_INVOICE_EXPIRY_SECS w)
            | _ \<Rightarrow> (Panic ''valid amount'', w)))"

subsection \<open>Paying\<close>

definition lsp_channel :: "('w, 'l) lightning_wallet_scheme \<Rightarrow> 'w \<Rightarrow> ChannelDetails option" where
  "lsp_channel N w = find (\<lambda>c. cd_counterparty c = lsp_node_id N) (nd_list_channels N w)"

definition splice_out_details :: "OutPoint \<Rightarrow> u64 \<Rightarrow> duration \<Rightarrow> PaymentDetails" where
  "splice_out_details funding_txo amount_sats now =
     \<lparr>pd_id = op_txid funding_txo, pd_kind = Onchain (op_txid funding_txo) Unconfirmed,
      pd_amount_msat = Some (u64_wrapping_mul amount_sats 1000), pd_fee_paid_msat = Some 69,
      pd_direction = Outbound, pd_status = PS_Succeeded,
      pd_latest_update_timestamp = as_secs now\<rparr>"

definition pay_by_splice_out :: "('s, 'e) wallet_env_scheme \<Rightarrow> ('w, 'l) lightning_wallet_scheme \<Rightarrow>
    ChannelDetails \<Rightarrow> Address \<Rightarrow> u64 \<Rightarrow> ('s, 'w, 'x) wallet_state_scheme \<Rightarrow>
    (NodeError, LdkPaymentId) result \<times> ('s, 'w, 'x) wallet_state_scheme" where
  "pay_by_splice_out E N chan address amount_sats s =
     and_then (outside_call (nd_splice_out N (cd_user_channel_id chan) (cd_counterparty chan)
         address amount_sats) s) (\<lambda>_ s.
       case outside_call (await_splice_pending N (cd_user_channel_id chan)) s of
         (funding_txo, s) \<Rightarrow>
           and_then (infallible (write_splice_out E (splice_out_details funding_txo
               amount_sats (nd_clock N (outside s))) s))
             (\<lambda>_ s. (Ok (op_txid funding_txo), s)))"

definition ln_pay :: "amount_ops \<Rightarrow> ('s, 'e) wallet_env_scheme \<Rightarrow>
    ('w, 'l) lightning_wallet_scheme \<Rightarrow> PaymentMethod \<Rightarrow> Amount \<Rightarrow>
    ('s, 'w, 'x) wallet_state_scheme \<Rightarrow>
    (NodeError, LdkPaymentId) result \<times> ('s, 'w, 'x) wallet_state_scheme" where
  "ln_pay A E N method amount s =
     (case method of
        LightningBolt11 invoice \<Rightarrow>
          outside_call (nd_bolt11_send_using_amount N invoice (milli_sats amount)) s
      | LightningBolt12 offer \<Rightarrow>
          outside_call (nd_bolt12_send_using_amount N offer (milli_sats amount)) s
      | OnChain address \<Rightarrow>
          (case sats A amount of
             Err _ \<Rightarrow> (Err NE_InvalidAmount, s)
           | Panic m \<Rightarrow> (Panic m, s)
           | Ok amount_sats \<Rightarrow>
               (if amount_sats < bd_spendable_onchain_balance_sats (nd_list_balances N (outside s))
                then outside_call (nd_send_to_address N address amount_sats) s
                else case lsp_channel N (outside s) of
                    None \<Rightarrow> (Err NE_InsufficientFunds, s)
                  | Some chan \<Rightarrow> pay_by_splice_out E N chan address amount_sats s)))"

definition pay_bolt11_underpaying :: "('w, 'l) lightning_wallet_scheme \<Rightarrow> Bolt11Invoice \<Rightarrow>
    Amount \<Rightarrow> 'w \<Rightarrow> (NodeError, LdkPaymentId) result \<times> 'w" where
  "pay_bolt11_underpaying N invoice amount w =
     nd_bolt11_send_using_amount_underpaying N invoice (milli_sats amount) w"

subsection \<open>Channels\<close>

definition splice_all_into_channel :: "('w, 'l) lightning_wallet_scheme \<Rightarrow> 'w \<Rightarrow>
    (NodeError, UserChannelId) result \<times> 'w" where
  "splice_all_into_channel N w =
     (case lsp_channel N w of
        Some chan \<Rightarrow>
          and_then (nd_splice_in_with_all N (cd_user_channel_id chan) (cd_counterparty chan) w)
            (\<lambda>_ w. (Ok (cd_user_channel_id chan), w))
      | None \<Rightarrow> (Err NE_WalletOperationFailed, w))"

definition open_channel_with_lsp :: "('w, 'l) lightning_wallet_scheme \<Rightarrow> 'w \<Rightarrow>
    (NodeError, UserChannelId) result \<times> 'w" where
  "open_channel_with_lsp N w = nd_open_channel_with_all N (lsp_node_id N) (lsp_socket_addr N) w"

fun close_each :: "('w, 'l) lightning_wallet_scheme \<Rightarrow> ChannelDetails list \<Rightarrow> 'w \<Rightarrow>
    (NodeError, unit) result \<times> 'w" where
  "close_each N [] w = (Ok (), w)"
| "close_each N (chan # channels) w =
     and_then
       (if cd_is_usable chan then nd_close_channel N (cd_user_channel_id chan) (cd_counterparty chan) w
        else nd_force_close_channel N (cd_user_channel_id chan) (cd_counterparty chan) w)
       (\<lambda>_ w. close_each N channels w)"

definition ln_close_channels :: "('w, 'l) lightning_wallet_scheme \<Rightarrow> 'w \<Rightarrow>
    (NodeError, unit) result \<times> 'w" where
  "ln_close_channels N w = close_each N (nd_list_channels N w) w"

definition ln_stop :: "('w, 'l) lightning_wallet_scheme \<Rightarrow> 'w \<Rightarrow> 'w" where
  "ln_stop N w = snd (nd_stop N w)"

definition has_channel_with_lsp :: "('w, 'l) lightning_wallet_scheme \<Rightarrow> 'w \<Rightarrow> bool" where
  "has_channel_with_lsp N w = list_ex (\<lambda>c. cd_counterparty c = lsp_node_id N) (nd_list_channels N w)"

subsection \<open>Waiting\<close>

text \<open>
  The two loops of the rebalancer's interface run until the node shows what they wait for;
  \<open>None\<close> is not returning.
\<close>

definition received_payment :: "PaymentDetails \<Rightarrow> ReceivedLightningPayment option option" where
  "received_payment payment =
     (case pd_kind payment of
        Bolt11 _ _ counterparty_skimmed_fee_msat \<Rightarrow>
          (case pd_status payment of
             PS_Succeeded \<Rightarrow> Some (Some \<lparr>rp_id = pd_id payment,
                 rp_fee_paid_msat = counterparty_skimmed_fee_msat\<rparr>)
           | PS_Pending \<Rightarrow> None
           | PS_Failed \<Rightarrow> Some None)
      | _ \<Rightarrow> Some None)"

partial_function (option) await_payment_receipt :: "('w, 'l) lightning_wallet_scheme \<Rightarrow>
    bytes32 \<Rightarrow> 'w \<Rightarrow> (ReceivedLightningPayment option \<times> 'w) option" where
  "await_payment_receipt N payment_hash w =
     (case Option.bind (nd_payment N payment_hash w) received_payment of
        Some answer \<Rightarrow> Some (answer, w)
      | None \<Rightarrow> await_payment_receipt N payment_hash (await_payment_receipt_flag N w))"

partial_function (option) await_channel_pending :: "('w, 'l) lightning_wallet_scheme \<Rightarrow>
    u128 \<Rightarrow> 'w \<Rightarrow> (OutPoint \<times> 'w) option" where
  "await_channel_pending N channel_id w =
     (case Option.bind (find (\<lambda>c. cd_user_channel_id c = channel_id \<and> cd_funding_txo c \<noteq> None)
           (nd_list_channels N w)) cd_funding_txo of
        Some funding_txo \<Rightarrow> Some (funding_txo, w)
      | None \<Rightarrow> await_channel_pending N channel_id (await_channel_pending_flag N channel_id w))"

end
