(* ===== verification/Payment_Info.thy ===== *)
theory Payment_Info
  imports Lightning_Wallet
begin

text \<open>
  The data of \<open>lib.rs\<close>: balances, tunables, errors of the wallet, and \<open>PaymentInfo\<close>, payment
  instructions with the amount to pay. \<open>PaymentInstructions\<close> belongs to the crate
  \<open>bitcoin_payment_instructions\<close>; it is what the wallet reads of it.
\<close>

subsection \<open>Balances, tunables and errors\<close>

record Balances =
  bal_trusted :: Amount
  bal_lightning :: Amount
  bal_pending_balance :: Amount

definition available_balance :: "amount_ops \<Rightarrow> Balances \<Rightarrow> Amount" where
  "available_balance A b = saturating_add A (bal_lightning b) (bal_trusted b)"

definition Tunables_default :: "amount_ops \<Rightarrow> (unit, Tunables) result" where
  "Tunables_default A =
     (case (from_sats A 100000, from_sats A 5000, from_sats A 10000) of
        (Ok limit, Ok m, Ok threshold) \<Rightarrow>
          Ok \<lparr>trusted_balance_limit = limit, rebalance_min = m,
              onchain_receive_threshold = threshold, enable_amountless_receive_on_chain = True\<rparr>
      | _ \<Rightarrow> Panic ''valid amount'')"

datatype WalletError =
    LdkNodeFailure NodeError
  | TrustedFailure TrustedError

definition WalletError_from_trusted :: "TrustedError \<Rightarrow> WalletError" where
  "WalletError_from_trusted e = TrustedFailure e"

definition WalletError_from_node :: "NodeError \<Rightarrow> WalletError" where
  "WalletError_from_node e = LdkNodeFailure e"

typedecl BuildError
typedecl VssStoreBuildError

datatype InitFailure =
    IoError io_error
  | LdkNodeBuildFailure BuildError
  | LdkNodeStartFailure NodeError
  | Init_TrustedFailure TrustedError
  | VssStoreBuildFailure VssStoreBuildError

definition InitFailure_from_io :: "io_error \<Rightarrow> InitFailure" where
  "InitFailure_from_io e = IoError e"

definition InitFailure_from_build :: "BuildError \<Rightarrow> InitFailure" where
  "InitFailure_from_build e = LdkNodeBuildFailure e"

definition InitFailure_from_node :: "NodeError \<Rightarrow> InitFailure" where
  "InitFailure_from_node e = LdkNodeStartFailure e"

definition InitFailure_from_trusted :: "TrustedError \<Rightarrow> InitFailure" where
  "InitFailure_from_trusted e = Init_TrustedFailure e"

definition InitFailure_from_vss :: "VssStoreBuildError \<Rightarrow> InitFailure" where
  "InitFailure_from_vss e = VssStoreBuildFailure e"

subsection \<open>Payment instructions with an amount\<close>

record ConfigurableAmountInstructions =
  min_amt :: "Amount option"
  max_amt :: "Amount option"
  conf_text :: string

record FixedAmountInstructions =
  ln_payment_amount :: "Amount option"
  onchain_payment_amount :: "Amount option"
  fi_methods :: "PaymentMethod list"

datatype PaymentInstructions =
    ConfigurableAmount ConfigurableAmountInstructions
  | FixedAmount FixedAmountInstructions

record PaymentInfo =
  pi_instructions :: PaymentInstructions
  pi_amount :: Amount

datatype PaymentInfoBuildError =
    AmountMismatch (mm_given: Amount) (mm_ln_amount: "Amount option")
      (mm_onchain_amount: "Amount option")
  | MissingAmount
  | AmountOutOfRange (or_given: Amount) (or_min: "Amount option") (or_max: "Amount option")

definition PaymentInfo_build :: "PaymentInstructions \<Rightarrow> Amount option \<Rightarrow>
    (PaymentInfoBuildError, PaymentInfo) result" where
  "PaymentInfo_build instructions amount =
     (let info = (\<lambda>a. Ok \<lparr>pi_instructions = instructions, pi_amount = a\<rparr>)
      in case instructions of
        ConfigurableAmount conf \<Rightarrow>
          (case amount of
             None \<Rightarrow> Err MissingAmount
           | Some amount \<Rightarrow>
               (if map_or 0 (\<lambda>a. a) (min_amt conf) > amount
                    \<or> map_or amount_max (\<lambda>a. a) (max_amt conf) < amount
                then Err (AmountOutOfRange amount (min_amt conf) (max_amt conf))
                else info amount))
      | FixedAmount fixed \<Rightarrow>
          (case (ln_payment_amount fixed, onchain_payment_amount fixed) of
             (Some ln, None) \<Rightarrow>
               (case amount of
                  None \<Rightarrow> info ln
                | Some amount \<Rightarrow>
                    (if amount \<noteq> ln then Err (AmountMismatch amount (Some ln) None)
                     else info amount))
           | (None, Some chain) \<Rightarrow>
               (case amount of
                  None \<Rightarrow> info chain
                | Some amount \<Rightarrow>
                    (if amount \<noteq> chain then Err (AmountMismatch amount None (Some chain))
                     else info amount))
           | (Some ln, Some chain) \<Rightarrow>
               (case amount of
                  None \<Rightarrow> (if ln = chain then info ln else Err MissingAmount)
                | Some amount \<Rightarrow>
                    (if ln \<noteq> amount \<and> chain \<noteq> amount
                     then Err (AmountMismatch amount (Some ln) (Some chain))
                     else info amount))
           | (None, None) \<Rightarrow>
               (case amount of
                  None \<Rightarrow> Err MissingAmount
                | Some amount \<Rightarrow> info amount)))"

definition PaymentInfo_instructions :: "PaymentInfo \<Rightarrow> PaymentInstructions" where
  "PaymentInfo_instructions info = pi_instructions info"

definition PaymentInfo_amount :: "PaymentInfo \<Rightarrow> Amount" where
  "PaymentInfo_amount info = pi_amount info"

subsection \<open>What can be paid\<close>

text \<open>
  The amounts the instructions fix, and the amounts they accept: a range, one of the fixed
  amounts, or anything when none is fixed.
\<close>

definition fixed_amounts :: "PaymentInstructions \<Rightarrow> Amount set" where
  "fixed_amounts instr = (case instr of
     ConfigurableAmount _ \<Rightarrow> {}
   | FixedAmount f \<Rightarrow> set_option (ln_payment_amount f) \<union> set_option (onchain_payment_amount f))"

definition accepts :: "PaymentInstructions \<Rightarrow> Amount \<Rightarrow> bool" where
  "accepts instr a \<longleftrightarrow> (case instr of
     ConfigurableAmount c \<Rightarrow> pred_option (\<lambda>m. m \<le> a) (min_amt c) \<and> pred_option (\<lambda>m. a \<le> m) (max_amt c)
   | FixedAmount f \<Rightarrow> fixed_amounts instr = {} \<or> a \<in> fixed_amounts instr)"

definition build_spec :: "PaymentInstructions \<Rightarrow> Amount option \<Rightarrow>
    (PaymentInfoBuildError, PaymentInfo) result" where
  "build_spec instr given =
     (case given of
        Some a \<Rightarrow>
          (if accepts instr a then Ok \<lparr>pi_instructions = instr, pi_amount = a\<rparr>
           else Err (case instr of
               ConfigurableAmount c \<Rightarrow> AmountOutOfRange a (min_amt c) (max_amt c)
             | FixedAmount f \<Rightarrow> AmountMismatch a (ln_payment_amount f) (onchain_payment_amount f)))
      | None \<Rightarrow>
          (if card (fixed_amounts instr) = 1
           then Ok \<lparr>pi_instructions = instr, pi_amount = Max (fixed_amounts instr)\<rparr>
           else Err MissingAmount))"


definition sample_invoice :: Bolt11Invoice where
  "sample_invoice = \<lparr>inv_payment_hash = replicate 32 3, inv_amount_milli_satoshis = Some 200\<rparr>"

definition sample_fixed :: PaymentInstructions where
  "sample_fixed = FixedAmount \<lparr>ln_payment_amount = Some 200, onchain_payment_amount = None,
     fi_methods = [LightningBolt11 sample_invoice]\<rparr>"


end
