(* ===== verification/Wallet_Pay.thy ===== *)
theory Wallet_Pay
  imports Payment_Info Mpp_Events
begin

text \<open>
  Paying (\<open>lib.rs\<close>): \<open>Wallet::pay\<close> tries the trusted balance, then lightning, then a multi-path
  payment split over both, then the chain; \<open>try_mpp_bolt11\<close> makes the split. The record \<open>wallet\<close> is
  \<open>WalletImpl\<close>: the two wallets, the tunables, the amounts, and the resolver that sets the amount
  of configurable instructions. While a multi-path payment is being registered, background
  tasks may add events: \<open>arrivals\<close> says which ones.
\<close>

record 'w wallet =
  amounts :: amount_ops
  trusted :: "'w trusted_wallet_ops"
  ln_wallet :: "'w lightning_wallet"
  tunables :: Tunables
  set_amount :: "ConfigurableAmountInstructions \<Rightarrow> Amount \<Rightarrow> 'w \<Rightarrow>
    (string, FixedAmountInstructions) result \<times> 'w"
  arrivals :: "'w \<Rightarrow> Event list \<times> 'w"

text \<open>What became of one attempt: paid, not tried, or refused by the wallet that was asked.\<close>

datatype attempt = Paid PaymentId | Skipped | Refused WalletError

record pay_errors =
  last_trusted_err :: "WalletError option"
  last_lightning_err :: "WalletError option"
  last_mpp_err :: "WalletError option"

definition payment_metadata :: "'w wallet \<Rightarrow> PaymentType \<Rightarrow> ('s, 'w, 'x) wallet_state_scheme \<Rightarrow>
    TxMetadata" where
  "payment_metadata X ty s =
     \<lparr>md_time = nd_clock (ln_wallet X) (outside s), md_ty = Payment ty\<rparr>"

definition spawn_rebalance :: "('s, 'w, 'x) wallet_state_scheme \<Rightarrow>
    ('s, 'w, 'x) wallet_state_scheme" where
  "spawn_rebalance s = s\<lparr>rebalance_tasks := rebalance_tasks s + 1\<rparr>"

subsection \<open>One wallet pays the whole amount\<close>

definition pay_trusted :: "('s, 'e) wallet_env_scheme \<Rightarrow> 'w wallet \<Rightarrow> Amount \<Rightarrow> Amount \<Rightarrow>
    PaymentMethod \<Rightarrow> PaymentType \<Rightarrow> ('s, 'w, 'x) wallet_state_scheme \<Rightarrow>
    (unit, attempt) result \<times> ('s, 'w, 'x) wallet_state_scheme" where
  "pay_trusted E X amount trusted_balance method ty s =
     (if amount \<le> trusted_balance then
        (case outside_call (tw_estimate_fee (trusted X) method amount) s of
           (Panic m, s) \<Rightarrow> (Panic m, s)
         | (estimate, s) \<Rightarrow>
             (let trusted_fee = (case estimate of Ok fee \<Rightarrow> fee | _ \<Rightarrow> 0)
              in if saturating_add (amounts X) trusted_fee amount \<le> trusted_balance then
                   (case outside_call (tw_pay (trusted X) method amount) s of
                      (Ok i, s) \<Rightarrow>
                        and_then (insert_md E (Trusted i) (payment_metadata X ty s) s)
                          (\<lambda>_ s. (Ok (Paid (Trusted i)), s))
                    | (Err e, s) \<Rightarrow> (Ok (Refused (TrustedFailure e)), s)
                    | (Panic m, s) \<Rightarrow> (Panic m, s))
                 else (Ok Skipped, s)))
      else (Ok Skipped, s))"

definition pay_lightning :: "('s, 'e) wallet_env_scheme \<Rightarrow> 'w wallet \<Rightarrow> Amount \<Rightarrow>
    LightningWalletBalance \<Rightarrow> PaymentMethod \<Rightarrow> PaymentType \<Rightarrow> ('s, 'w, 'x) wallet_state_scheme \<Rightarrow>
    (unit, attempt) result \<times> ('s, 'w, 'x) wallet_state_scheme" where
  "pay_lightning E X amount ln_balance method ty s =
     (let balance = (case ty of
            OutgoingOnChain _ \<Rightarrow> max (lw_onchain ln_balance) (lw_lightning ln_balance)
          | _ \<Rightarrow> lw_lightning ln_balance)
      in if amount \<le> balance then
           (case ln_estimate_fee method amount of
              Ok lightning_fee \<Rightarrow>
                (if saturating_add (amounts X) lightning_fee amount \<le> balance then
                   (case ln_pay (amounts X) E (ln_wallet X) method amount s of
                      (Ok i, s) \<Rightarrow>
                        and_then (upsert E (SelfCustodial i) (payment_metadata X ty s) s)
                          (\<lambda>_ s. (Ok (Paid (SelfCustodial i)), spawn_rebalance s))
                    | (Err e, s) \<Rightarrow> (Ok (Refused (LdkNodeFailure e)), s)
                    | (Panic m, s) \<Rightarrow> (Panic m, s))
                 else (Ok Skipped, s))
            | Err _ \<Rightarrow> (Ok Skipped, s)
            | Panic m \<Rightarrow> (Panic m, s))
         else (Ok Skipped, s))"

subsection \<open>Both wallets pay a part\<close>

text \<open>Events that background tasks add meanwhile; they log an error and go on.\<close>

fun add_events_logged :: "('s, 'e) event_env_scheme \<Rightarrow> Event list \<Rightarrow> ('s, 'x) event_queue_scheme \<Rightarrow>
    (unit, unit) result \<times> ('s, 'x) event_queue_scheme" where
  "add_events_logged E [] s = (Ok (), s)"
| "add_events_logged E (event # events) s =
     (case add_event E event s of
        (Panic m, s) \<Rightarrow> (Panic m, s)
      | (_, s) \<Rightarrow> add_events_logged E events s)"

definition meanwhile :: "('s, 'e) wallet_env_scheme \<Rightarrow> 'w wallet \<Rightarrow> ('s, 'w, 'x) wallet_state_scheme \<Rightarrow>
    (WalletError, unit) result \<times> ('s, 'w, 'x) wallet_state_scheme" where
  "meanwhile E X s =
     (case outside_call (arrivals X) s of (events, s) \<Rightarrow> infallible (add_events_logged E events s))"

definition mpp_metadata :: "'w wallet \<Rightarrow> PaymentId \<Rightarrow> LdkPaymentId \<Rightarrow> Amount \<Rightarrow>
    ('s, 'w, 'x) wallet_state_scheme \<Rightarrow> TxMetadata" where
  "mpp_metadata X surface ln_id amount s =
     \<lparr>md_time = nd_clock (ln_wallet X) (outside s),
      md_ty = MppPayment
        \<lparr>surface_id = surface, lightning_leg = ln_id, total_amount_msat = milli_sats amount,
         mpp_ty = OutgoingLightningBolt11 None, trusted_fee_msat = None, lightning_fee_msat = None,
         preimage = None, failed = False, finalized = False\<rparr>\<rparr>"

text \<open>\<open>finish_mpp_setup\<close>, whose error is logged.\<close>

definition finish_mpp_setup_logged :: "('s, 'e) event_env_scheme \<Rightarrow> PaymentHash \<Rightarrow>
    ('s, 'x) event_queue_scheme \<Rightarrow> (WalletError, unit) result \<times> ('s, 'x) event_queue_scheme" where
  "finish_mpp_setup_logged E payment_hash s =
     (case finish_mpp_setup E payment_hash s of
        (Panic m, s) \<Rightarrow> (Panic m, s)
      | (_, s) \<Rightarrow> (Ok (), s))"

text \<open>From the successful trusted part to the end of \<open>try_mpp_bolt11\<close>.\<close>

definition complete_mpp :: "('s, 'e) wallet_env_scheme \<Rightarrow> 'w wallet \<Rightarrow> Bolt11Invoice \<Rightarrow> Amount \<Rightarrow>
    Amount \<Rightarrow> bytes32 \<Rightarrow> ('s, 'w, 'x) wallet_state_scheme \<Rightarrow>
    (WalletError, PaymentId) result \<times> ('s, 'w, 'x) wallet_state_scheme" where
  "complete_mpp E X invoice amount ln_portion trusted_id s =
     (let surface = Trusted trusted_id; payment_hash = inv_payment_hash invoice
      in case outside_call (pay_bolt11_underpaying (ln_wallet X) invoice ln_portion) s of
           (Panic m, s) \<Rightarrow> (Panic m, s)
         | (Err e, s) \<Rightarrow>
             and_then (infallible (insert_md E surface
                 (payment_metadata X (OutgoingLightningBolt11 None) s) s)) (\<lambda>_ s.
             and_then (finish_mpp_setup_logged E payment_hash s) (\<lambda>_ s. (Err (LdkNodeFailure e), s)))
         | (Ok ln_id, s) \<Rightarrow>
             and_then (meanwhile E X s) (\<lambda>_ s.
             and_then (infallible (insert_md E surface (mpp_metadata X surface ln_id amount s) s)) (\<lambda>_ s.
             and_then (infallible (upsert E (SelfCustodial ln_id)
                 (mpp_metadata X surface ln_id amount s) s)) (\<lambda>_ s.
             and_then (finish_mpp_setup_logged E payment_hash s)
               (\<lambda>_ s. (Ok surface, spawn_rebalance s))))))"

definition try_mpp_bolt11 :: "('s, 'e) wallet_env_scheme \<Rightarrow> 'w wallet \<Rightarrow> Bolt11Invoice \<Rightarrow> Amount \<Rightarrow>
    Amount \<Rightarrow> Amount \<Rightarrow> ('s, 'w, 'x) wallet_state_scheme \<Rightarrow>
    (WalletError, PaymentId) result \<times> ('s, 'w, 'x) wallet_state_scheme" where
  "try_mpp_bolt11 E X invoice amount trusted_balance ln_lightning_balance s =
     (case inv_amount_milli_satoshis invoice of
        None \<Rightarrow> (Err (LdkNodeFailure NE_InvalidInvoice), s)
      | Some invoice_amount_msat \<Rightarrow>
          (if invoice_amount_msat \<noteq> milli_sats amount then (Err (LdkNodeFailure NE_InvalidAmount), s)
           else let trusted_portion = trusted_balance in
             if trusted_portion = 0 \<or> trusted_portion \<ge> amount
             then (Err (LdkNodeFailure NE_InsufficientFunds), s)
             else let ln_portion = saturating_sub (amounts X) amount trusted_portion;
                      ln_fee = (case ln_estimate_fee (LightningBolt11 invoice) ln_portion of
                                  Ok fee \<Rightarrow> fee | _ \<Rightarrow> 0)
               in if saturating_add (amounts X) ln_fee ln_portion > ln_lightning_balance
                  then (Err (LdkNodeFailure NE_InsufficientFunds), s)
                  else let s = begin_mpp_setup (inv_payment_hash invoice) s
                    in case outside_call (tw_pay_partial (trusted X) invoice trusted_portion) s of
                         (Panic m, s) \<Rightarrow> (Panic m, s)
                       | (Err e, s) \<Rightarrow>
                           and_then (meanwhile E X s) (\<lambda>_ s.
                           and_then (finish_mpp_setup_logged E (inv_payment_hash invoice) s)
                             (\<lambda>_ s. (Err (TrustedFailure e), s)))
                       | (Ok trusted_id, s) \<Rightarrow>
                           and_then (meanwhile E X s)
                             (\<lambda>_ s. complete_mpp E X invoice amount ln_portion trusted_id s)))"

subsection \<open>The order of attempts\<close>

text \<open>A loop over the methods: stop at the first payment, remember the last refusal.\<close>

fun first_paid :: "(PaymentMethod \<Rightarrow> 's \<Rightarrow> (unit, attempt) result \<times> 's) \<Rightarrow>
    (WalletError \<Rightarrow> pay_errors \<Rightarrow> pay_errors) \<Rightarrow> PaymentMethod list \<Rightarrow> pay_errors \<Rightarrow> 's \<Rightarrow>
    (unit, PaymentId option \<times> pay_errors) result \<times> 's" where
  "first_paid attempt_with note [] errs s = (Ok (None, errs), s)"
| "first_paid attempt_with note (method # methods) errs s =
     and_then (attempt_with method s) (\<lambda>out s. case out of
         Paid i \<Rightarrow> (Ok (Some i, errs), s)
       | Skipped \<Rightarrow> first_paid attempt_with note methods errs s
       | Refused e \<Rightarrow> first_paid attempt_with note methods (note e errs) s)"

fun run_phases :: "((PaymentMethod \<Rightarrow> 's \<Rightarrow> (unit, attempt) result \<times> 's) \<times>
      (WalletError \<Rightarrow> pay_errors \<Rightarrow> pay_errors)) list \<Rightarrow> PaymentMethod list \<Rightarrow> pay_errors \<Rightarrow> 's \<Rightarrow>
    (unit, PaymentId option \<times> pay_errors) result \<times> 's" where
  "run_phases [] methods errs s = (Ok (None, errs), s)"
| "run_phases ((attempt_with, note) # phases) methods errs s =
     and_then (first_paid attempt_with note methods errs s) (\<lambda>(paid, errs) s. case paid of
         Some i \<Rightarrow> (Ok (Some i, errs), s)
       | None \<Rightarrow> run_phases phases methods errs s)"

fun lightning_type :: "PaymentMethod \<Rightarrow> PaymentType option" where
  "lightning_type (LightningBolt11 _) = Some (OutgoingLightningBolt11 None)"
| "lightning_type (LightningBolt12 _) = Some (OutgoingLightningBolt12 None)"
| "lightning_type (OnChain _) = None"

fun onchain_type :: "PaymentMethod \<Rightarrow> PaymentType option" where
  "onchain_type (OnChain _) = Some (OutgoingOnChain None)"
| "onchain_type _ = None"

definition when_typed :: "(PaymentMethod \<Rightarrow> PaymentType option) \<Rightarrow>
    (PaymentMethod \<Rightarrow> PaymentType \<Rightarrow> 's \<Rightarrow> (unit, attempt) result \<times> 's) \<Rightarrow> PaymentMethod \<Rightarrow> 's \<Rightarrow>
    (unit, attempt) result \<times> 's" where
  "when_typed type_of pay_with method s =
     (case type_of method of Some ty \<Rightarrow> pay_with method ty s | None \<Rightarrow> (Ok Skipped, s))"

definition attempt_mpp :: "('s, 'e) wallet_env_scheme \<Rightarrow> 'w wallet \<Rightarrow> Amount \<Rightarrow> Amount \<Rightarrow>
    LightningWalletBalance \<Rightarrow> PaymentMethod \<Rightarrow> ('s, 'w, 'x) wallet_state_scheme \<Rightarrow>
    (unit, attempt) result \<times> ('s, 'w, 'x) wallet_state_scheme" where
  "attempt_mpp E X amount trusted_balance ln_balance method s =
     (case method of
        LightningBolt11 invoice \<Rightarrow>
          (if tw_supports_partial_payments (trusted X) then
             (case try_mpp_bolt11 E X invoice amount trusted_balance (lw_lightning ln_balance) s of
                (Ok i, s) \<Rightarrow> (Ok (Paid i), s)
              | (Err e, s) \<Rightarrow> (Ok (Refused e), s)
              | (Panic m, s) \<Rightarrow> (Panic m, s))
           else (Ok Skipped, s))
      | _ \<Rightarrow> (Ok Skipped, s))"

definition note_trusted :: "WalletError \<Rightarrow> pay_errors \<Rightarrow> pay_errors" where
  "note_trusted e errs = errs\<lparr>last_trusted_err := Some e\<rparr>"
definition note_lightning :: "WalletError \<Rightarrow> pay_errors \<Rightarrow> pay_errors" where
  "note_lightning e errs = errs\<lparr>last_lightning_err := Some e\<rparr>"
definition note_mpp :: "WalletError \<Rightarrow> pay_errors \<Rightarrow> pay_errors" where
  "note_mpp e errs = errs\<lparr>last_mpp_err := Some e\<rparr>"

definition pay_phases :: "('s, 'e) wallet_env_scheme \<Rightarrow> 'w wallet \<Rightarrow> Amount \<Rightarrow> Amount \<Rightarrow>
    LightningWalletBalance \<Rightarrow>
    ((PaymentMethod \<Rightarrow> ('s, 'w, 'x) wallet_state_scheme \<Rightarrow>
        (unit, attempt) result \<times> ('s, 'w, 'x) wallet_state_scheme) \<times>
      (WalletError \<Rightarrow> pay_errors \<Rightarrow> pay_errors)) list" where
  "pay_phases E X amount tb lb =
     [(when_typed lightning_type (pay_trusted E X amount tb), note_trusted),
      (when_typed lightning_type (pay_lightning E X amount lb), note_lightning),
      (attempt_mpp E X amount tb lb, note_mpp),
      (when_typed onchain_type (pay_trusted E X amount tb), note_trusted),
      (when_typed onchain_type (pay_lightning E X amount lb), note_lightning)]"

definition payment_methods :: "'w wallet \<Rightarrow> PaymentInfo \<Rightarrow> ('s, 'w, 'x) wallet_state_scheme \<Rightarrow>
    (WalletError, PaymentMethod list) result \<times> ('s, 'w, 'x) wallet_state_scheme" where
  "payment_methods X info s =
     (case pi_instructions info of
        ConfigurableAmount conf \<Rightarrow>
          and_then (map_err (\<lambda>_. LdkNodeFailure NE_InvalidUri)
              (outside_call (set_amount X conf (pi_amount info)) s))
            (\<lambda>fixed_instr s. (Ok (fi_methods fixed_instr), s))
      | FixedAmount fixed \<Rightarrow> (Ok (fi_methods fixed), s))"

definition pay_error :: "pay_errors \<Rightarrow> WalletError" where
  "pay_error errs =
     (case last_lightning_err errs of Some e \<Rightarrow> e
      | None \<Rightarrow> (case last_mpp_err errs of Some e \<Rightarrow> e
        | None \<Rightarrow> (case last_trusted_err errs of Some e \<Rightarrow> e
          | None \<Rightarrow> LdkNodeFailure NE_InsufficientFunds)))"

definition pay :: "('s, 'e) wallet_env_scheme \<Rightarrow> 'w wallet \<Rightarrow> PaymentInfo \<Rightarrow>
    ('s, 'w, 'x) wallet_state_scheme \<Rightarrow>
    (WalletError, PaymentId) result \<times> ('s, 'w, 'x) wallet_state_scheme" where
  "pay E X info s =
     and_then (map_err TrustedFailure (outside_call (tw_get_balance (trusted X)) s))
       (\<lambda>trusted_balance s.
     and_then (infallible (ln_get_balance (amounts X) (ln_wallet X) (outside s), s)) (\<lambda>ln_balance s.
     and_then (payment_methods X info s) (\<lambda>methods s.
     and_then (infallible (run_phases
         (pay_phases E X (pi_amount info) trusted_balance ln_balance) methods
         \<lparr>last_trusted_err = None, last_lightning_err = None, last_mpp_err = None\<rparr> s))
       (\<lambda>(paid, errs) s. case paid of
            Some i \<Rightarrow> (Ok i, s)
          | None \<Rightarrow> (Err (pay_error errs), s)))))"

end
