(* ===== verification/Wallet_Pay_Facts.thy ===== *)
theory Wallet_Pay_Facts
  imports Wallet_Pay
begin

text \<open>
  What \<open>pay\<close> moves. The function \<open>watched\<close> adds to a wallet the list of the payments its two
  sides accepted and of the lightning parts that were refused; the locale \<open>payment_log\<close> says how
  each call extends such a list. The lemmas follow the list through the attempts, the loops and
  the phases, and show which payments have metadata afterwards.
\<close>

subsection \<open>The payments that were accepted\<close>

datatype sent =
    Sent_whole "PaymentId option" Amount
  | Sent_part PaymentId Amount
  | Refused_part Amount

definition unlogged :: "('w \<Rightarrow> 'a \<times> 'w) \<Rightarrow> 'w \<times> sent list \<Rightarrow> 'a \<times> ('w \<times> sent list)" where
  "unlogged f = (\<lambda>(w, log). case f w of (r, w) \<Rightarrow> (r, (w, log)))"

definition logged :: "('a \<Rightarrow> sent) \<Rightarrow> ('w \<Rightarrow> ('e, 'a) result \<times> 'w) \<Rightarrow> 'w \<times> sent list \<Rightarrow>
    ('e, 'a) result \<times> ('w \<times> sent list)" where
  "logged entry f = (\<lambda>(w, log). case f w of
     (r, w) \<Rightarrow> (r, (w, log @ (case r of Ok a \<Rightarrow> [entry a] | _ \<Rightarrow> []))))"

text \<open>The same, with an entry for a call that was refused.\<close>

definition logged_or_refused :: "('a \<Rightarrow> sent) \<Rightarrow> sent \<Rightarrow> ('w \<Rightarrow> ('e, 'a) result \<times> 'w) \<Rightarrow> 'w \<times> sent list \<Rightarrow>
    ('e, 'a) result \<times> ('w \<times> sent list)" where
  "logged_or_refused entry refusal f = (\<lambda>(w, log). case f w of
     (r, w) \<Rightarrow> (r, (w, log @ (case r of Ok a \<Rightarrow> [entry a] | Err _ \<Rightarrow> [refusal] | Panic _ \<Rightarrow> []))))"

definition watched_trusted :: "'w trusted_wallet_ops \<Rightarrow> ('w \<times> sent list) trusted_wallet_ops" where
  "watched_trusted W =
     \<lparr>tw_get_balance = unlogged (tw_get_balance W),
      tw_get_reusable_receive_uri = unlogged (tw_get_reusable_receive_uri W),
      tw_get_bolt11_invoice = (\<lambda>a. unlogged (tw_get_bolt11_invoice W a)),
      tw_list_payments = unlogged (tw_list_payments W),
      tw_estimate_fee = (\<lambda>m a. unlogged (tw_estimate_fee W m a)),
      tw_pay = (\<lambda>m a. logged (\<lambda>i. Sent_whole (Some (Trusted i)) a) (tw_pay W m a)),
      tw_supports_partial_payments = tw_supports_partial_payments W,
      tw_pay_partial = (\<lambda>v a. logged (\<lambda>i. Sent_part (Trusted i) a) (tw_pay_partial W v a)),
      tw_await_payment_success = (\<lambda>h. unlogged (tw_await_payment_success W h)),
      tw_get_lightning_address = unlogged (tw_get_lightning_address W),
      tw_register_lightning_address = (\<lambda>n. unlogged (tw_register_lightning_address W n)),
      tw_stop = map_prod (tw_stop W) id\<rparr>"

definition watched_lightning :: "'w lightning_wallet \<Rightarrow> ('w \<times> sent list) lightning_wallet" where
  "watched_lightning N =
     \<lparr>nd_list_payments = nd_list_payments N \<circ> fst,
      nd_payment = (\<lambda>i. nd_payment N i \<circ> fst),
      nd_list_balances = nd_list_balances N \<circ> fst,
      nd_list_channels = nd_list_channels N \<circ> fst,
      nd_list_peers = nd_list_peers N \<circ> fst,
      nd_clock = nd_clock N \<circ> fst,
      nd_new_address = unlogged (nd_new_address N),
      nd_receive = (\<lambda>a t. unlogged (nd_receive N a t)),
      nd_receive_via_jit_channel = (\<lambda>a t. unlogged (nd_receive_via_jit_channel N a t)),
      nd_receive_variable_amount = (\<lambda>t. unlogged (nd_receive_variable_amount N t)),
      nd_receive_variable_amount_via_jit_channel =
        (\<lambda>t. unlogged (nd_receive_variable_amount_via_jit_channel N t)),
      nd_bolt11_send_using_amount = (\<lambda>v a. logged (\<lambda>i. Sent_whole (Some (SelfCustodial i)) a)
        (nd_bolt11_send_using_amount N v a)),
      nd_bolt11_send_using_amount_underpaying = (\<lambda>v a. logged_or_refused
        (\<lambda>i. Sent_part (SelfCustodial i) a) (Refused_part a) (nd_bolt11_send_using_amount_underpaying N v a)),
      nd_bolt12_send_using_amount = (\<lambda>v a. logged (\<lambda>i. Sent_whole (Some (SelfCustodial i)) a)
        (nd_bolt12_send_using_amount N v a)),
      nd_send_to_address = (\<lambda>d a. logged (\<lambda>i. Sent_whole (Some (SelfCustodial i)) (1000 * a))
        (nd_send_to_address N d a)),
      nd_splice_out = (\<lambda>u p d a. logged (\<lambda>_. Sent_whole None (1000 * a)) (nd_splice_out N u p d a)),
      nd_splice_in_with_all = (\<lambda>u p. unlogged (nd_splice_in_with_all N u p)),
      nd_open_channel_with_all = (\<lambda>p a. unlogged (nd_open_channel_with_all N p a)),
      nd_close_channel = (\<lambda>u p. unlogged (nd_close_channel N u p)),
      nd_force_close_channel = (\<lambda>u p. unlogged (nd_force_close_channel N u p)),
      nd_sync_wallets = unlogged (nd_sync_wallets N),
      nd_event_handled = unlogged (nd_event_handled N),
      nd_stop = unlogged (nd_stop N),
      lsp_node_id = lsp_node_id N,
      lsp_socket_addr = lsp_socket_addr N,
      await_payment_receipt_flag = map_prod (await_payment_receipt_flag N) id,
      await_channel_pending_flag = (\<lambda>c. map_prod (await_channel_pending_flag N c) id),
      await_splice_pending = (\<lambda>c. unlogged (await_splice_pending N c))\<rparr>"

definition watched :: "'w wallet \<Rightarrow> ('w \<times> sent list) wallet" where
  "watched X =
     \<lparr>amounts = amounts X, trusted = watched_trusted (trusted X),
      ln_wallet = watched_lightning (ln_wallet X), tunables = tunables X,
      set_amount = (\<lambda>c a. unlogged (set_amount X c a)), arrivals = unlogged (arrivals X)\<rparr>"

subsection \<open>Frames\<close>

lemma outside_callE:
  assumes "outside_call f s = (r, s')"
  obtains w where "f (outside s) = (r, w)" and "s' = s\<lparr>outside := w\<rparr>"
  using assms by (auto simp: outside_call_def split: prod.splits)

text \<open>Payments with metadata that says so.\<close>

fun is_payment :: "TxType \<Rightarrow> bool" where
  "is_payment (Payment _) = True"
| "is_payment (MppPayment _) = True"
| "is_payment _ = False"

definition tracked :: "('s, 'x) tx_store_scheme \<Rightarrow> PaymentId set" where
  "tracked s = {i. \<exists>md. tx_metadata s i = Some md \<and> is_payment (md_ty md)}"

text \<open>The stores and queues changed, the world outside did not, and no payment lost its metadata.\<close>

definition local_step :: "('s, 'w, 'x) wallet_state_scheme \<Rightarrow> ('s, 'w, 'x) wallet_state_scheme \<Rightarrow> bool" where
  "local_step s s' \<longleftrightarrow> outside s' = outside s \<and> tracked s \<subseteq> tracked s'"

named_theorems local_intros

lemma local_step_refl [simp, local_intros]: "local_step s s"
  by (simp add: local_step_def)

lemma local_step_trans [trans]: "local_step s t \<Longrightarrow> local_step t u \<Longrightarrow> local_step s u"
  by (auto simp: local_step_def)

lemma local_step_fields [simp]:
  "local_step s (t\<lparr>disk := d\<rparr>) = local_step s t"
  "local_step s (t\<lparr>queue := q\<rparr>) = local_step s t"
  "local_step s (t\<lparr>pending_mpp_events := p\<rparr>) = local_step s t"
  "local_step s (t\<lparr>waker := v\<rparr>) = local_step s t"
  "local_step s (t\<lparr>woken := k\<rparr>) = local_step s t"
  "local_step s (t\<lparr>rebalance_tasks := n\<rparr>) = local_step s t"
  by (simp_all add: local_step_def tracked_def)

lemma local_and_then [local_intros]:
  assumes "local_step s (snd r)" and "\<And>a t. r = (Ok a, t) \<Longrightarrow> local_step s t \<Longrightarrow> local_step s (snd (f a t))"
  shows "local_step s (snd (and_then r f))"
  using assms by (cases "(r, f)" rule: and_then.cases) auto

lemma local_disk_write [local_intros]:
  "local_step s t \<Longrightarrow> local_step s (snd (disk_write E p q k d t))"
  by (simp add: disk_write_def split: prod.split)

lemma local_persist_entry [local_intros]:
  "local_step s t \<Longrightarrow> local_step s (snd (persist_entry E i m t))"
  by (simp add: persist_entry_def local_disk_write)

lemma local_set_payment [local_intros]:
  "local_step s t \<Longrightarrow> is_payment (md_ty m) \<Longrightarrow>
   local_step s (t\<lparr>tx_metadata := (tx_metadata t)(i \<mapsto> m)\<rparr>)"
  by (auto simp: local_step_def tracked_def)

lemma local_insert_md [local_intros]:
  "local_step s t \<Longrightarrow> is_payment (md_ty m) \<Longrightarrow> local_step s (snd (insert_md E i m t))"
  "local_step s t \<Longrightarrow> is_payment (md_ty m) \<Longrightarrow> local_step s (snd (upsert E i m t))"
  unfolding insert_md_def upsert_def do_set_def Let_def by (intro local_intros | simp)+

lemma local_record_mpp_leg [local_intros]:
  "local_step s t \<Longrightarrow> local_step s (snd (record_mpp_leg E i r t))"
  unfolding record_mpp_leg_def Let_def
  by (auto split: option.split TxType.split result.split simp del: map_option_case intro!: local_intros)

lemma local_push_event [local_intros]:
  "local_step s t \<Longrightarrow> local_step s (snd (push_event E e t))"
  unfolding push_event_def persist_queue_def wake_waker_def
  by (intro local_intros) (auto split: option.split)

lemma local_buffer_or_push [local_intros]:
  "local_step s t \<Longrightarrow> local_step s (snd (buffer_or_push E e t))"
  unfolding buffer_or_push_def by (auto split: option.split intro: local_intros)

lemma local_push_combined_mpp [local_intros]:
  "local_step s t \<Longrightarrow> local_step s (snd (push_combined_mpp E c t))"
  unfolding push_combined_mpp_def by (auto split: option.split MppOutcome.split intro: local_intros)

lemma snd_infallible [simp]: "snd (infallible r) = snd r"
  by (simp add: infallible_def)

lemma local_add_event [local_intros]:
  "local_step s t \<Longrightarrow> local_step s (snd (add_event E e t))"
  unfolding add_event_def by (cases e) (auto intro!: local_intros)

lemma local_add_events [local_intros]:
  "local_step s t \<Longrightarrow> local_step s (snd (add_events E es t))"
  by (induction es arbitrary: t) (auto intro!: local_intros)

lemma local_add_events_logged [local_intros]:
  "local_step s t \<Longrightarrow> local_step s (snd (add_events_logged E es t))"
proof (induction es arbitrary: t)
  case (Cons e es)
  then have "local_step s (snd (add_event E e t))" by (intro local_intros)
  with Cons.IH show ?case by (auto split: prod.split result.split)
qed simp

lemma local_finish_mpp_setup [local_intros]:
  "local_step s t \<Longrightarrow> local_step s (snd (finish_mpp_setup E h t))"
  unfolding finish_mpp_setup_def Let_def by (auto split: option.split intro: local_intros)

lemma local_finish_logged [local_intros]:
  "local_step s t \<Longrightarrow> local_step s (snd (finish_mpp_setup_logged E h t))"
  using local_finish_mpp_setup [of s t E h]
  unfolding finish_mpp_setup_logged_def by (auto split: prod.split result.split)

lemma local_begin_mpp_setup [simp]: "local_step s (begin_mpp_setup h t) = local_step s t"
  by (simp add: begin_mpp_setup_def split: option.split)

lemma local_write_splice_out [local_intros]:
  "local_step s t \<Longrightarrow> local_step s (snd (write_splice_out E d t))"
  by (simp add: write_splice_out_def local_disk_write)


subsection \<open>What an attempt moves\<close>

definition sent_ids :: "sent list \<Rightarrow> PaymentId set" where
  "sent_ids log = {i. \<exists>a. Sent_whole (Some i) a \<in> set log \<or> Sent_part i a \<in> set log}"

text \<open>
  A trusted part followed by the refusal of the lightning part that was to complete it; it fails for
  lack of it. \<open>orphans\<close>: at most \<open>n\<close> of these and nothing else.
\<close>

definition abandoned :: "Amount \<Rightarrow> Amount \<Rightarrow> bytes32 \<Rightarrow> sent list" where
  "abandoned amount tb t = [Sent_part (Trusted t) tb, Refused_part (amount - tb)]"

definition orphans :: "Amount \<Rightarrow> Amount \<Rightarrow> nat \<Rightarrow> sent list \<Rightarrow> bool" where
  "orphans amount tb n log \<longleftrightarrow> (\<exists>ts. log = concat (map (abandoned amount tb) ts) \<and> length ts \<le> n)"

text \<open>
  The payments behind a surfaced identifier: one payment of the whole amount, or two parts that
  add up to it.
\<close>

definition settled :: "Amount \<Rightarrow> Amount \<Rightarrow> PaymentId \<Rightarrow> sent list \<Rightarrow> bool" where
  "settled amount tb i log \<longleftrightarrow>
     (\<exists>j. log = [Sent_whole j amount] \<and> (case i of
        Trusted _ \<Rightarrow> j = Some i \<and> amount \<le> tb
      | SelfCustodial _ \<Rightarrow> j = Some i \<or> j = None))
   \<or> (\<exists>t l. log = [Sent_part (Trusted t) tb, Sent_part (SelfCustodial l) (amount - tb)]
        \<and> i = Trusted t \<and> 0 < tb \<and> tb < amount)"

text \<open>How many splits a call may try: one for each BOLT 11 invoice among the payment methods.\<close>

fun split_bound :: "PaymentMethod \<Rightarrow> nat" where
  "split_bound (LightningBolt11 _) = 1"
| "split_bound _ = 0"

definition resolved_methods :: "'w wallet \<Rightarrow> PaymentInfo \<Rightarrow> ('s, 'w, 'x) wallet_state_scheme \<Rightarrow>
    PaymentMethod list" where
  "resolved_methods X info s = (case payment_methods X info s of (Ok ms, _) \<Rightarrow> ms | _ \<Rightarrow> [])"

definition bolt11_count :: "PaymentMethod list \<Rightarrow> nat" where
  "bolt11_count ms = sum_list (map split_bound ms)"

text \<open>A panic may come between the two parts.\<close>

definition interrupted :: "Amount \<Rightarrow> Amount \<Rightarrow> sent list \<Rightarrow> bool" where
  "interrupted amount tb log \<longleftrightarrow>
     log = [] \<or> (\<exists>t. log = [Sent_part (Trusted t) tb]) \<or> (\<exists>i. settled amount tb i log)"

text \<open>One call: what it adds to the list, with at most \<open>n\<close> abandoned splits, and that metadata is there.\<close>

definition pay_step :: "('w \<Rightarrow> sent list) \<Rightarrow> Amount \<Rightarrow> Amount \<Rightarrow> nat \<Rightarrow> ('e, PaymentId option) result \<Rightarrow>
    ('s, 'w, 'x) wallet_state_scheme \<Rightarrow> ('s, 'w, 'x) wallet_state_scheme \<Rightarrow> bool" where
  "pay_step log amount tb n r s s' \<longleftrightarrow> tracked s \<subseteq> tracked s' \<and>
     (\<exists>orph rest. log (outside s') = log (outside s) @ orph @ rest \<and> orphans amount tb n orph \<and>
        (case r of
           Ok (Some i) \<Rightarrow> settled amount tb i rest \<and> i \<in> tracked s'
         | Panic _ \<Rightarrow> interrupted amount tb rest
         | _ \<Rightarrow> rest = []) \<and>
        (is_panic r \<or> sent_ids (orph @ rest) \<subseteq> tracked s'))"

lemma orphans_Nil [simp]: "orphans amount tb n []"
  unfolding orphans_def by (intro exI [of _ "[]"]) simp

lemma orphans_append: "orphans amount tb n xs \<Longrightarrow> orphans amount tb m ys \<Longrightarrow> orphans amount tb (n + m) (xs @ ys)"
  unfolding orphans_def by (metis add_mono concat_append length_append map_append)

lemma orphans_mono: "orphans amount tb n xs \<Longrightarrow> n \<le> m \<Longrightarrow> orphans amount tb m xs"
  unfolding orphans_def using order_trans by blast

lemma orphans_one: "orphans amount tb (Suc n) [Sent_part (Trusted t) tb, Refused_part (amount - tb)]"
  unfolding orphans_def by (intro exI [of _ "[t]"]) (simp add: abandoned_def)

lemma interrupted_simps [simp]:
  "interrupted amount tb []" "interrupted amount tb [Sent_part (Trusted t) tb]"
  "settled amount tb i log \<Longrightarrow> interrupted amount tb log"
  by (auto simp: interrupted_def)

lemma sent_ids_simps [simp]:
  "sent_ids [] = {}" "sent_ids (xs @ ys) = sent_ids xs \<union> sent_ids ys"
  "sent_ids (Sent_whole j a # xs) = set_option j \<union> sent_ids xs"
  "sent_ids (Sent_part i a # xs) = {i} \<union> sent_ids xs"
  "sent_ids (Refused_part a # xs) = sent_ids xs"
  by (auto simp: sent_ids_def)

lemma pay_step_trans:
  assumes "pay_step log amount tb n (Ok None) s t" and "pay_step log amount tb m r t u"
  shows "pay_step log amount tb (n + m) r s u"
proof -
  from assms(1) obtain orph where 1: "tracked s \<subseteq> tracked t" "orphans amount tb n orph"
    "log (outside t) = log (outside s) @ orph" "sent_ids orph \<subseteq> tracked t"
    by (auto simp: pay_step_def)
  from assms(2) obtain orph' rest where 2: "tracked t \<subseteq> tracked u"
    "log (outside u) = log (outside t) @ orph' @ rest" "orphans amount tb m orph'"
    "case r of Ok (Some i) \<Rightarrow> settled amount tb i rest \<and> i \<in> tracked u
       | Panic _ \<Rightarrow> interrupted amount tb rest | _ \<Rightarrow> rest = []"
    "is_panic r \<or> sent_ids (orph' @ rest) \<subseteq> tracked u"
    by (auto simp: pay_step_def)
  show ?thesis
    unfolding pay_step_def using 1 2 orphans_append [OF 1(2) 2(3)]
    by (intro conjI exI [of _ "orph @ orph'"] exI [of _ rest]) auto
qed

lemma pay_step_mono: "pay_step log amount tb n r s s' \<Longrightarrow> n \<le> m \<Longrightarrow> pay_step log amount tb m r s s'"
  unfolding pay_step_def by (blast intro: orphans_mono)

lemma pay_step_add: "pay_step log amount tb n r s s' \<Longrightarrow> pay_step log amount tb (n + m) r s s'"
  using pay_step_mono [of log amount tb n r s s' "n + m"] by simp

lemma pay_step_same:
  assumes "log (outside s') = log (outside s)" and "tracked s \<subseteq> tracked s'" and "\<And>i. r \<noteq> Ok (Some i)"
  shows "pay_step log amount tb n r s s'"
  using assms unfolding pay_step_def
  by (intro conjI exI [of _ "[]"]) (auto split: result.split option.split)

lemma pay_step_pre:
  assumes "log (outside t) = log (outside s)" and "tracked s \<subseteq> tracked t" and "pay_step log amount tb n r t u"
  shows "pay_step log amount tb n r s u"
  using pay_step_trans [of log amount tb 0 s t n r u] assms by (simp add: pay_step_same)

lemma pay_step_local:
  "local_step s s' \<Longrightarrow> (\<And>i. r \<noteq> Ok (Some i)) \<Longrightarrow> pay_step log amount tb n r s s'"
  by (rule pay_step_same) (simp_all add: local_step_def)

lemma pay_step_sent:
  assumes "log (outside s') = log (outside s) @ new" and "settled amount tb i new"
    and "tracked s \<subseteq> tracked s'" and "is_panic r \<or> r = Ok (Some i) \<and> insert i (sent_ids new) \<subseteq> tracked s'"
  shows "pay_step log amount tb n r s s'"
  using assms unfolding pay_step_def
  by (intro conjI exI [of _ "[]"] exI [of _ new]) (auto split: result.split simp: is_panic_iff)

fun paid_by :: "attempt \<Rightarrow> PaymentId option" where
  "paid_by (Paid i) = Some i"
| "paid_by _ = None"

lemma outside_update [simp]: "tracked (s\<lparr>outside := w\<rparr>) = tracked s"
  by (simp add: tracked_def)

lemma insert_md_tracked:
  "insert_md E i m s = (r, s') \<Longrightarrow> is_payment (md_ty m) \<Longrightarrow> i \<in> tracked s'"
  "upsert E i m s = (r, s') \<Longrightarrow> is_payment (md_ty m) \<Longrightarrow> i \<in> tracked s'"
proof -
  assume pm: "is_payment (md_ty m)"
  let ?s = "s\<lparr>tx_metadata := (tx_metadata s)(i \<mapsto> m)\<rparr>"
  have "tx_metadata (snd (do_set E i m s)) = tx_metadata ?s"
    unfolding do_set_def Let_def
    by (cases "persist_entry E i m ?s"; cases "fst (persist_entry E i m ?s)")
      (auto simp: persist_entry_def disk_write_def split: prod.splits
        dest!: arg_cong [where f = "tx_metadata \<circ> snd"])
  then have *: "i \<in> tracked (snd (do_set E i m s))" using pm by (simp add: tracked_def)
  show "i \<in> tracked s'" if "insert_md E i m s = (r, s')"
    using that * by (cases "do_set E i m s"; cases "fst (do_set E i m s)") (auto simp: insert_md_def)
  show "i \<in> tracked s'" if "upsert E i m s = (r, s')"
    using that * by (cases "do_set E i m s"; cases "fst (do_set E i m s)") (auto simp: upsert_def)
qed

locale payment_log =
  fixes X :: "'w wallet" and log :: "'w \<Rightarrow> sent list"
  assumes quiet:
    "log (snd (tw_get_balance (trusted X) w)) = log w"
    "log (snd (tw_estimate_fee (trusted X) m a w)) = log w"
    "log (snd (await_splice_pending (ln_wallet X) c w)) = log w"
    "log (snd (set_amount X conf a w)) = log w"
    "log (snd (arrivals X w)) = log w"
  and sends:
    "tw_pay (trusted X) m a w = (r, w') \<Longrightarrow>
       log w' = log w @ (case r of Ok i \<Rightarrow> [Sent_whole (Some (Trusted i)) a] | _ \<Rightarrow> [])"
    "tw_pay_partial (trusted X) v a w = (r, w') \<Longrightarrow>
       log w' = log w @ (case r of Ok i \<Rightarrow> [Sent_part (Trusted i) a] | _ \<Rightarrow> [])"
    "nd_bolt11_send_using_amount (ln_wallet X) v a w = (r1, w') \<Longrightarrow>
       log w' = log w @ (case r1 of Ok i \<Rightarrow> [Sent_whole (Some (SelfCustodial i)) a] | _ \<Rightarrow> [])"
    "nd_bolt12_send_using_amount (ln_wallet X) f a w = (r1, w') \<Longrightarrow>
       log w' = log w @ (case r1 of Ok i \<Rightarrow> [Sent_whole (Some (SelfCustodial i)) a] | _ \<Rightarrow> [])"
    "nd_bolt11_send_using_amount_underpaying (ln_wallet X) v a w = (r1, w') \<Longrightarrow>
       log w' = log w @ (case r1 of Ok i \<Rightarrow> [Sent_part (SelfCustodial i) a] | Err _ \<Rightarrow> [Refused_part a] | Panic _ \<Rightarrow> [])"
    "nd_send_to_address (ln_wallet X) d a w = (r1, w') \<Longrightarrow>
       log w' = log w @ (case r1 of Ok i \<Rightarrow> [Sent_whole (Some (SelfCustodial i)) (1000 * a)] | _ \<Rightarrow> [])"
    "nd_splice_out (ln_wallet X) u p d a w = (r2, w') \<Longrightarrow>
       log w' = log w @ (case r2 of Ok _ \<Rightarrow> [Sent_whole None (1000 * a)] | _ \<Rightarrow> [])"

interpretation watched: payment_log "watched X" snd for X
  by unfold_locales
    (auto simp: watched_def watched_trusted_def watched_lightning_def unlogged_def logged_def logged_or_refused_def
      split: prod.splits)

end
