(* ===== verification/Wallet_Pay_Log.thy ===== *)
theory Wallet_Pay_Log
  imports Wallet_Pay_Facts
begin

text \<open>
  The log of accepted payments through \<open>pay\<close>: what each attempt adds to it, then the loops and
  the phases.
\<close>

lemma is_payment_metadata [simp]:
  "is_payment (md_ty (payment_metadata X ty s))" "is_payment (md_ty (mpp_metadata X i l a s))"
  by (simp_all add: payment_metadata_def mpp_metadata_def)

lemma and_then_eq_Err:
  "and_then r f = (Err e, s') \<longleftrightarrow> r = (Err e, s') \<or> (\<exists>a s. r = (Ok a, s) \<and> f a s = (Err e, s'))"
  by (cases "(r, f)" rule: and_then.cases) auto

text \<open>Storing metadata: both ways of it return or panic, and keep the entry.\<close>

lemma do_set_not_Err: "do_set E i m s \<noteq> (Err e, s')"
  by (simp add: do_set_def persist_entry_def Let_def and_then_eq_Err)

lemma put_step:
  assumes "put = insert_md E \<or> put = upsert E" and "put i m s = (r, s')" and "is_payment (md_ty m)"
  shows "local_step s s' \<and> i \<in> tracked s' \<and> (r = Ok () \<or> is_panic r)"
proof -
  have "r \<noteq> Err e" for e
    using assms(1,2) do_set_not_Err [of E i m s] by (auto simp: insert_md_def upsert_def and_then_eq_Err)
  then have "r = Ok () \<or> is_panic r" by (cases r) auto
  with assms local_insert_md [of s s m E i] insert_md_tracked [of E i m s r s'] show ?thesis by auto
qed

lemma record_payment_step:
  assumes "put = insert_md E \<or> put = upsert E" and "is_payment (md_ty m)"
    and "and_then (put i m u) (\<lambda>_ s. (Ok (Paid i), g s)) = (r, s')" and "\<And>s. local_step s (g s)"
    and "log (outside u) = log (outside t) @ new" and "tracked t \<subseteq> tracked u"
    and "settled amount tb i new" and "sent_ids new \<subseteq> {i}"
  shows "pay_step log amount tb n (map_result id paid_by r) t s'"
proof -
  obtain res v where v: "put i m u = (res, v)" by fastforce
  from put_step [OF assms(1) v assms(2)] have "local_step u v" "i \<in> tracked v" "res = Ok () \<or> is_panic res"
    by auto
  with assms(3) v assms(4) [of v] have "local_step u s'" "i \<in> tracked s'"
    "is_panic r \<or> r = Ok (Paid i)" by (auto simp: is_panic_iff local_step_def)
  with assms(5-8) show ?thesis
    by (intro pay_step_sent [of _ _ _ new]) (auto simp: local_step_def is_panic_iff)
qed

lemma local_stepD: "local_step s t \<Longrightarrow> outside t = outside s" "local_step s t \<Longrightarrow> tracked s \<subseteq> tracked t"
  by (simp_all add: local_step_def)

context payment_log
begin

lemma outside_call_quiet:
  assumes "outside_call f s = (r, t)" and "\<And>w. log (snd (f w)) = log w"
  shows "log (outside t) = log (outside s)" and "tracked t = tracked s"
proof -
  from assms(1) obtain w where w: "f (outside s) = (r, w)" "t = s\<lparr>outside := w\<rparr>" by (rule outside_callE)
  with assms(2) [of "outside s"] show "log (outside t) = log (outside s)" and "tracked t = tracked s" by simp_all
qed

lemma pay_trusted_step:
  assumes "pay_trusted E X amount tb m ty s = (r, s')"
  shows "pay_step log amount tb n (map_result id paid_by r) s s'"
proof (cases "amount \<le> tb")
  case False
  with assms show ?thesis by (auto simp: pay_trusted_def intro!: pay_step_same)
next
  case True
  obtain est t where t: "outside_call (tw_estimate_fee (trusted X) m amount) s = (est, t)" by fastforce
  note quiet_t = outside_call_quiet [OF t quiet(2)]
  obtain out u where u: "outside_call (tw_pay (trusted X) m amount) t = (out, u)" by fastforce
  from u obtain w where w: "tw_pay (trusted X) m amount (outside t) = (out, w)" "u = t\<lparr>outside := w\<rparr>"
    by (rule outside_callE)
  note log_u = sends(1) [OF w(1)]
  have step: "pay_step log amount tb n (map_result id paid_by r) t s'"
    if r: "(case (out, u) of (Ok i, s) \<Rightarrow> and_then (insert_md E (Trusted i) (payment_metadata X ty s) s)
          (\<lambda>_ s. (Ok (Paid (Trusted i)), s))
        | (Err e, s) \<Rightarrow> (Ok (Refused (TrustedFailure e)), s) | (Panic m, s) \<Rightarrow> (Panic m, s)) = (r, s')"
  proof (cases out)
    case (Ok i)
    have "settled amount tb (Trusted i) [Sent_whole (Some (Trusted i)) amount]"
      using True by (simp add: settled_def)
    with Ok r w(2) log_u show ?thesis
      by (intro record_payment_step [where put = "insert_md E" and g = "\<lambda>s. s"]) auto
  qed (use r w(2) log_u in \<open>auto intro!: pay_step_same\<close>)
  show ?thesis
  proof (rule pay_step_pre)
    show "log (outside t) = log (outside s)" "tracked s \<subseteq> tracked t" using quiet_t by auto
    show "pay_step log amount tb n (map_result id paid_by r) t s'"
      using assms True t u step
      by (cases est) (auto simp: pay_trusted_def Let_def pay_step_same split: if_splits)
  qed
qed

end

text \<open>The lightning wallet's own payments.\<close>

definition ln_sent :: "Amount \<Rightarrow> (NodeError, LdkPaymentId) result \<Rightarrow> sent list \<Rightarrow> bool" where
  "ln_sent amount r new \<longleftrightarrow> (case r of
     Ok i \<Rightarrow> new \<in> {[Sent_whole (Some (SelfCustodial i)) amount], [Sent_whole None amount]}
   | Err _ \<Rightarrow> new = []
   | Panic _ \<Rightarrow> new \<in> {[], [Sent_whole None amount]})"

context payment_log
begin

lemma ln_pay_splice:
  assumes "pay_by_splice_out E (ln_wallet X) chan d n s = (r, s')"
  shows "\<exists>new. log (outside s') = log (outside s) @ new \<and> tracked s \<subseteq> tracked s' \<and> ln_sent (1000 * n) r new"
proof -
  let ?u = "cd_user_channel_id chan" and ?p = "cd_counterparty chan"
  let ?details = "\<lambda>txo s. splice_out_details txo n (nd_clock (ln_wallet X) (outside s))"
  obtain out t where t: "outside_call (nd_splice_out (ln_wallet X) ?u ?p d n) s = (out, t)" by fastforce
  from t obtain w where w: "nd_splice_out (ln_wallet X) ?u ?p d n (outside s) = (out, w)" "t = s\<lparr>outside := w\<rparr>"
    by (rule outside_callE)
  note log_t = sends(7) [OF w(1)]
  obtain txo v where v: "outside_call (await_splice_pending (ln_wallet X) ?u) t = (txo, v)" by fastforce
  note quiet_v = outside_call_quiet [OF v quiet(3)]
  obtain res z where z: "write_splice_out E (?details txo v) v = (res, z)" by fastforce
  have "local_step v z" using local_write_splice_out [of v v E "?details txo v"] z by simp
  then have z': "outside z = outside v" "tracked v \<subseteq> tracked z" by (simp_all add: local_step_def)
  have "res \<noteq> Err e" for e using z by (auto simp: write_splice_out_def)
  with assms t v z z' w(2) log_t quiet_v show ?thesis
    by (cases out; cases res) (auto simp: pay_by_splice_out_def ln_sent_def infallible_def)
qed

lemma ln_pay_log:
  assumes "amount_laws (amounts X)" and "ln_pay (amounts X) E (ln_wallet X) m amount s = (r, s')"
  shows "\<exists>new. log (outside s') = log (outside s) @ new \<and> tracked s \<subseteq> tracked s' \<and> ln_sent amount r new"
proof (cases m)
  case (LightningBolt11 v)
  with assms(2) have "outside_call (nd_bolt11_send_using_amount (ln_wallet X) v amount) s = (r, s')"
    by (simp add: ln_pay_def)
  then obtain w where w: "nd_bolt11_send_using_amount (ln_wallet X) v amount (outside s) = (r, w)"
    "s' = s\<lparr>outside := w\<rparr>" by (rule outside_callE)
  with sends(3) [OF w(1)] show ?thesis by (cases r) (simp_all add: ln_sent_def)
next
  case (LightningBolt12 f)
  with assms(2) have "outside_call (nd_bolt12_send_using_amount (ln_wallet X) f amount) s = (r, s')"
    by (simp add: ln_pay_def)
  then obtain w where w: "nd_bolt12_send_using_amount (ln_wallet X) f amount (outside s) = (r, w)"
    "s' = s\<lparr>outside := w\<rparr>" by (rule outside_callE)
  with sends(4) [OF w(1)] show ?thesis by (cases r) (simp_all add: ln_sent_def)
next
  case (OnChain d)
  show ?thesis
  proof (cases "amount mod 1000 = 0")
    case False
    then have "sats (amounts X) amount = Err ()" by (rule amount_laws.sats_err [OF assms(1)])
    with assms(2) OnChain show ?thesis by (auto simp: ln_pay_def ln_sent_def)
  next
    case True
    let ?n = "amount div 1000"
    have n: "sats (amounts X) amount = Ok ?n" "1000 * ?n = amount"
      using True amount_laws.sats_ok [OF assms(1) True] by auto
    consider (direct) "outside_call (nd_send_to_address (ln_wallet X) d ?n) s = (r, s')"
      | (none) "(Err NE_InsufficientFunds, s) = (r, s')"
      | (splice) chan where "pay_by_splice_out E (ln_wallet X) chan d ?n s = (r, s')"
      using assms(2) OnChain n(1) by (auto simp: ln_pay_def split: if_splits option.splits)
    then show ?thesis
    proof cases
      case direct
      from direct obtain w where w: "nd_send_to_address (ln_wallet X) d ?n (outside s) = (r, w)"
        "s' = s\<lparr>outside := w\<rparr>" by (rule outside_callE)
      with sends(6) [OF w(1)] n(2) show ?thesis by (cases r) (simp_all add: ln_sent_def)
    next
      case none
      then show ?thesis by (auto simp: ln_sent_def)
    next
      case splice
      from ln_pay_splice [OF this] n(2) show ?thesis by simp
    qed
  qed
qed

lemma pay_lightning_step:
  assumes "amount_laws (amounts X)" and "pay_lightning E X amount lb m ty s = (r, s')"
  shows "pay_step log amount tb n (map_result id paid_by r) s s'"
proof -
  obtain out u where u: "ln_pay (amounts X) E (ln_wallet X) m amount s = (out, u)" by fastforce
  from ln_pay_log [OF assms(1) u] obtain new where new: "log (outside u) = log (outside s) @ new"
    "tracked s \<subseteq> tracked u" "ln_sent amount out new" by blast
  have "pay_step log amount tb n (map_result id paid_by r) s s'"
    if r: "(case (out, u) of (Ok i, s) \<Rightarrow> and_then (upsert E (SelfCustodial i) (payment_metadata X ty s) s)
          (\<lambda>_ s. (Ok (Paid (SelfCustodial i)), spawn_rebalance s))
        | (Err e, s) \<Rightarrow> (Ok (Refused (LdkNodeFailure e)), s) | (Panic m, s) \<Rightarrow> (Panic m, s)) = (r, s')"
  proof (cases out)
    case (Ok i)
    with new(3) have "settled amount tb (SelfCustodial i) new" "sent_ids new \<subseteq> {SelfCustodial i}"
      by (auto simp: ln_sent_def settled_def)
    with Ok r new show ?thesis
      by (intro record_payment_step [where put = "upsert E" and g = spawn_rebalance])
        (auto simp: spawn_rebalance_def)
  next
    case (Err e)
    with r new show ?thesis by (auto simp: ln_sent_def intro!: pay_step_same)
  next
    case (Panic msg)
    then have "new = [] \<or> settled amount tb (SelfCustodial []) new" using new(3)
      by (auto simp: ln_sent_def settled_def)
    with Panic r new show ?thesis
      by (elim disjE) (auto intro: pay_step_same pay_step_sent [of _ _ _ new])
  qed
  moreover have "pay_step log amount tb n (map_result id paid_by (Ok Skipped)) s s"
    by (simp add: pay_step_same)
  ultimately show ?thesis
    using assms(2) u by (auto simp: pay_lightning_def Let_def ln_estimate_fee_def split: if_splits)
qed

end

definition quiet_step :: "('w \<Rightarrow> sent list) \<Rightarrow> ('s, 'w, 'x) wallet_state_scheme \<Rightarrow>
    ('s, 'w, 'x) wallet_state_scheme \<Rightarrow> bool" where
  "quiet_step log s s' \<longleftrightarrow> log (outside s') = log (outside s) \<and> tracked s \<subseteq> tracked s'"

lemma quiet_step_trans [trans]: "quiet_step log s t \<Longrightarrow> quiet_step log t u \<Longrightarrow> quiet_step log s u"
  by (auto simp: quiet_step_def)

lemma quiet_step_local: "local_step s t \<Longrightarrow> quiet_step log s t"
  by (simp add: quiet_step_def local_step_def)

lemma quiet_and_then:
  assumes "quiet_step log s (snd x)" and "\<And>a t. x = (Ok a, t) \<Longrightarrow> quiet_step log t (snd (f a t))"
  shows "quiet_step log s (snd (and_then x f))"
  using assms by (cases "(x, f)" rule: and_then.cases) (auto simp: quiet_step_def)

lemma finish_logged_quiet: "quiet_step log s (snd (finish_mpp_setup_logged E h s))"
  by (intro quiet_step_local local_finish_logged) simp

lemma put_quiet:
  "is_payment (md_ty m) \<Longrightarrow> quiet_step log s (snd (infallible (insert_md E i m s)))"
  "is_payment (md_ty m) \<Longrightarrow> quiet_step log s (snd (infallible (upsert E i m s)))"
  by (simp_all add: quiet_step_local local_insert_md)

lemma infallible_Ok [simp]: "infallible x = (Ok a, t) \<longleftrightarrow> x = (Ok a, t)"
  by (simp add: infallible_def)

lemma not_Err [simp]:
  "infallible x \<noteq> (Err e, s')" "meanwhile E X s \<noteq> (Err e', t)" "finish_mpp_setup_logged E h q \<noteq> (Err e', q')"
  by (auto simp: infallible_def meanwhile_def finish_mpp_setup_logged_def split: prod.splits result.splits)

text \<open>What completing a multi-path payment sends beyond the trusted part.\<close>

definition mpp_sent :: "PaymentId \<Rightarrow> Amount \<Rightarrow> (WalletError, PaymentId) result \<Rightarrow> sent list \<Rightarrow>
    PaymentId set \<Rightarrow> bool" where
  "mpp_sent surface ln_portion r new known \<longleftrightarrow>
     (case r of
        Ok i \<Rightarrow> i = surface \<and> surface \<in> known \<and>
          (\<exists>l. new = [Sent_part (SelfCustodial l) ln_portion] \<and> SelfCustodial l \<in> known)
      | Err _ \<Rightarrow> new = [Refused_part ln_portion] \<and> surface \<in> known
      | Panic _ \<Rightarrow> new \<in> {[], [Refused_part ln_portion]} \<or> (\<exists>l. new = [Sent_part (SelfCustodial l) ln_portion]))"

context payment_log
begin

lemma meanwhile_quiet: "quiet_step log s (snd (meanwhile E X s))"
proof -
  obtain es t where t: "outside_call (arrivals X) s = (es, t)" by fastforce
  note quiet_t = outside_call_quiet [OF t quiet(5)]
  have "local_step t (snd (add_events_logged E es t))" by (intro local_intros)
  with t quiet_t show ?thesis
    by (auto simp: meanwhile_def quiet_step_def local_step_def)
qed

lemma complete_mpp_rest:
  assumes "and_then (meanwhile E X t) (\<lambda>_ s.
      and_then (infallible (insert_md E surface (mpp_metadata X surface l amount s) s)) (\<lambda>_ s.
      and_then (infallible (upsert E (SelfCustodial l) (mpp_metadata X surface l amount s) s)) (\<lambda>_ s.
      and_then (finish_mpp_setup_logged E h s) (\<lambda>_ s. (Ok surface, spawn_rebalance s))))) = (r, s')"
    (is "?run = _")
  shows "quiet_step log t s'" and "r = Ok surface \<and> {surface, SelfCustodial l} \<subseteq> tracked s' \<or> is_panic r"
proof -
  have "quiet_step log t (snd ?run)"
    by (intro quiet_and_then meanwhile_quiet put_quiet finish_logged_quiet)
      (simp_all add: quiet_step_local spawn_rebalance_def)
  with assms show "quiet_step log t s'" by simp
  show "r = Ok surface \<and> {surface, SelfCustodial l} \<subseteq> tracked s' \<or> is_panic r"
  proof (cases r)
    case (Ok i)
    with assms obtain s1 s2 s3 s4 where run:
      "insert_md E surface (mpp_metadata X surface l amount s1) s1 = (Ok (), s2)"
      "upsert E (SelfCustodial l) (mpp_metadata X surface l amount s2) s2 = (Ok (), s3)"
      "finish_mpp_setup_logged E h s3 = (Ok (), s4)" "s' = spawn_rebalance s4" "r = Ok surface"
      by auto
    from put_step [OF disjI1 [OF refl] run(1)] put_step [OF disjI2 [OF refl] run(2)]
    have "local_step s2 s3" "surface \<in> tracked s2" "SelfCustodial l \<in> tracked s3" by auto
    moreover have "local_step s3 s4" using local_finish_logged [of s3 s3 E h] run(3) by simp
    moreover have "local_step s4 s'" using run(4) by (simp add: spawn_rebalance_def)
    ultimately show ?thesis using run(5) by (auto simp: local_step_def)
  next
    case (Err e)
    with assms Err show ?thesis by (auto simp: and_then_eq_Err)
  qed simp
qed

end

context payment_log
begin

lemma complete_mpp_step:
  assumes "complete_mpp E X v amount ln_portion tid t = (r, s')"
  shows "\<exists>new. log (outside s') = log (outside t) @ new \<and> tracked t \<subseteq> tracked s'
    \<and> mpp_sent (Trusted tid) ln_portion r new (tracked s')"
proof -
  let ?send = "outside_call (pay_bolt11_underpaying (ln_wallet X) v ln_portion) t"
  obtain out u where u: "?send = (out, u)" by fastforce
  from u obtain w where w: "pay_bolt11_underpaying (ln_wallet X) v ln_portion (outside t) = (out, w)"
    "u = t\<lparr>outside := w\<rparr>" by (rule outside_callE)
  from w(1) have "nd_bolt11_send_using_amount_underpaying (ln_wallet X) v ln_portion (outside t) = (out, w)"
    by (simp add: pay_bolt11_underpaying_def)
  note log_u = sends(5) [OF this]
  show ?thesis
  proof (cases out)
    case (Ok l)
    with assms u have run: "and_then (meanwhile E X u) (\<lambda>_ s.
        and_then (infallible (insert_md E (Trusted tid) (mpp_metadata X (Trusted tid) l amount s) s)) (\<lambda>_ s.
        and_then (infallible (upsert E (SelfCustodial l) (mpp_metadata X (Trusted tid) l amount s) s)) (\<lambda>_ s.
        and_then (finish_mpp_setup_logged E (inv_payment_hash v) s)
          (\<lambda>_ s. (Ok (Trusted tid), spawn_rebalance s))))) = (r, s')"
      by (simp add: complete_mpp_def Let_def)
    from complete_mpp_rest [OF run] log_u Ok w(2) show ?thesis
      by (auto simp: quiet_step_def mpp_sent_def is_panic_iff)
  next
    case (Err e)
    let ?md = "payment_metadata X (OutgoingLightningBolt11 None) u"
    obtain res z where z: "insert_md E (Trusted tid) ?md u = (res, z)" by fastforce
    note z' = put_step [OF disjI1 [OF refl] z is_payment_metadata(1)]
    obtain fin y where y: "finish_mpp_setup_logged E (inv_payment_hash v) z = (fin, y)"
      by fastforce
    have "local_step z y" using local_finish_logged [of z z E "inv_payment_hash v"] y by (metis local_step_refl snd_conv)
    moreover have "fin \<noteq> Err e'" for e' using y by auto
    ultimately show ?thesis
      using assms u Err z z' y log_u w(2)
      by (cases res; cases fin) (auto simp: complete_mpp_def infallible_def mpp_sent_def local_step_def)
  next
    case (Panic msg)
    with assms u log_u w(2) show ?thesis by (auto simp: complete_mpp_def mpp_sent_def)
  qed
qed

lemma mpp_pay_step:
  assumes "0 < tb" and "tb < amount" and "log (outside t) = log (outside s) @ [Sent_part (Trusted tid) tb]"
    and "tracked s \<subseteq> tracked t" and "log (outside s') = log (outside t) @ new" and "tracked t \<subseteq> tracked s'"
    and "mpp_sent (Trusted tid) (amount - tb) r new (tracked s')"
  shows "pay_step log amount tb (Suc 0) (map_result id Some r) s s'"
proof -
  let ?p = "[Sent_part (Trusted tid) tb]"
  have all: "settled amount tb (Trusted tid) (?p @ [Sent_part (SelfCustodial l) (amount - tb)])" for l
    using assms(1,2) by (simp add: settled_def)
  consider (none) m where "r = Panic m" "new = []" | (refused) "\<And>i. r \<noteq> Ok i" "new = [Refused_part (amount - tb)]"
    | (sent) l where "new = [Sent_part (SelfCustodial l) (amount - tb)]" "\<And>e. r \<noteq> Err e"
    using assms(7) by (cases r) (auto simp: mpp_sent_def)
  then show ?thesis
  proof cases
    case none
    with assms(3-6) show ?thesis
      unfolding pay_step_def by (intro conjI exI [of _ "[]"] exI [of _ ?p]) auto
  next
    case refused
    with assms(3-7) orphans_one [of amount tb 0 tid] show ?thesis
      unfolding pay_step_def
      by (intro conjI exI [of _ "?p @ new"] exI [of _ "[]"]) (auto simp: mpp_sent_def split: result.splits)
  next
    case sent
    with assms(3-7) all [of l] show ?thesis
      unfolding pay_step_def
      by (intro conjI exI [of _ "[]"] exI [of _ "?p @ new"]) (auto simp: mpp_sent_def split: result.splits)
  qed
qed

lemma try_mpp_step:
  assumes "amount_laws (amounts X)" and "try_mpp_bolt11 E X v amount tb lb s = (r, s')"
  shows "pay_step log amount tb (Suc 0) (map_result id Some r) s s'"
proof -
  let ?t = "begin_mpp_setup (inv_payment_hash v) s"
  have bgn: "local_step s ?t" by simp
  obtain out u where u: "outside_call (tw_pay_partial (trusted X) v tb) ?t = (out, u)" by fastforce
  from u obtain w where w: "tw_pay_partial (trusted X) v tb (outside ?t) = (out, w)" "u = ?t\<lparr>outside := w\<rparr>"
    by (rule outside_callE)
  note log_u = sends(2) [OF w(1)]
  consider (early) e where "(Err e, s) = (r, s')"
    | (go) "0 < tb" "tb < amount"
      "(case (out, u) of (Panic m, s) \<Rightarrow> (Panic m, s)
         | (Err e, s) \<Rightarrow> and_then (meanwhile E X s) (\<lambda>_ s.
             and_then (finish_mpp_setup_logged E (inv_payment_hash v) s) (\<lambda>_ s. (Err (TrustedFailure e), s)))
         | (Ok tid, s) \<Rightarrow> and_then (meanwhile E X s) (\<lambda>_ s. complete_mpp E X v amount
             (saturating_sub (amounts X) amount tb) tid s)) = (r, s')"
    using assms(2) u unfolding try_mpp_bolt11_def Let_def by (auto split: option.splits if_splits)
  then show ?thesis
  proof cases
    case early
    then show ?thesis by (auto intro!: pay_step_same)
  next
    case go
    have sub: "saturating_sub (amounts X) amount tb = amount - tb"
      by (rule amount_laws.saturating_sub_eq [OF assms(1)])
    show ?thesis
    proof (cases out)
      case (Ok tid)
      obtain m t where t: "meanwhile E X u = (m, t)" by fastforce
      have quiet_t: "quiet_step log u t" using meanwhile_quiet [of u E] t by simp
      with log_u Ok w(2) bgn have log_t: "log (outside t) = log (outside s) @ [Sent_part (Trusted tid) tb]"
        "tracked s \<subseteq> tracked t" by (auto simp: quiet_step_def local_step_def)
      show ?thesis
      proof (cases m)
        case m: (Ok x)
        with go(3) Ok t sub have "complete_mpp E X v amount (amount - tb) tid t = (r, s')" by simp
        from complete_mpp_step [OF this] obtain new where new: "log (outside s') = log (outside t) @ new"
          "tracked t \<subseteq> tracked s'" "mpp_sent (Trusted tid) (amount - tb) r new (tracked s')" by blast
        from mpp_pay_step [OF go(1,2) log_t new] show ?thesis .
      next
        case (Err e)
        with t show ?thesis by simp
      next
        case (Panic msg)
        with go(3) Ok t have "r = Panic msg" "s' = t" by auto
        with log_t show ?thesis unfolding pay_step_def
          by (intro conjI exI [of _ "[]"] exI [of _ "[Sent_part (Trusted tid) tb]"]) auto
      qed
    next
      case (Err e)
      let ?run = "and_then (meanwhile E X u) (\<lambda>_ s.
        and_then (finish_mpp_setup_logged E (inv_payment_hash v) s) (\<lambda>_ s. (Err (TrustedFailure e) :: (WalletError, PaymentId) result, s)))"
      have "quiet_step log u (snd ?run)"
        by (intro quiet_and_then meanwhile_quiet finish_logged_quiet) (simp add: quiet_step_def)
      moreover have run: "?run = (r, s')" using go(3) Err by simp
      moreover have "r \<noteq> Ok i" for i using run by auto
      ultimately show ?thesis using log_u Err w(2) bgn
        by (intro pay_step_same) (auto simp: quiet_step_def local_step_def, cases r, auto)
    next
      case (Panic msg)
      with go w(2) log_u bgn show ?thesis by (auto simp: local_step_def intro!: pay_step_same)
    qed
  qed
qed

end

subsection \<open>Loops and phases\<close>

lemma pay_step_result:
  "pay_step log amount tb n (Ok x :: ('e, _) result) s s' \<Longrightarrow> pay_step log amount tb n (Ok x :: ('f, _) result) s s'"
  "pay_step log amount tb n (Panic m :: ('e, _) result) s s' \<Longrightarrow> pay_step log amount tb n (Panic k :: ('f, _) result) s s'"
  "pay_step log amount tb n (Err e) s s' \<Longrightarrow> pay_step log amount tb n (Ok None :: ('f, _) result) s s'"
  "pay_step log amount tb n (Ok None :: ('f, _) result) s s' \<Longrightarrow> pay_step log amount tb n (Err e) s s'"
  "pay_step log amount tb n (Err e) s s' \<Longrightarrow> pay_step log amount tb n (Panic k :: ('f, _) result) s s'"
  by (simp_all add: pay_step_def) (metis append_Nil2 interrupted_simps(1))

lemma quiet_outside_call:
  assumes "\<And>w. log (snd (f w)) = log w"
  shows "quiet_step log s (snd (outside_call f s))"
proof -
  obtain r w where w: "f (outside s) = (r, w)" by fastforce
  with assms [of "outside s"] show ?thesis by (simp add: outside_call_def quiet_step_def tracked_def)
qed

lemma first_paid_step:
  assumes "\<And>m s r s'. att m s = (r, s') \<Longrightarrow> pay_step log amount tb (b m) (map_result id paid_by r) s s'"
    and "first_paid att nt ms errs s = (r, s')"
  shows "pay_step log amount tb (sum_list (map b ms)) (map_result id fst r) s s'"
  using assms(2)
proof (induction ms arbitrary: errs s)
  case Nil
  then show ?case by (auto intro!: pay_step_same)
next
  case (Cons m ms)
  obtain out t where t: "att m s = (out, t)" by fastforce
  note step = assms(1) [OF t]
  show ?case
  proof (cases out)
    case (Ok a)
    show ?thesis
    proof (cases a)
      case (Paid i)
      with Ok t step Cons.prems show ?thesis by (auto intro: pay_step_add)
    next
      case Skipped
      with Ok t Cons.prems have "first_paid att nt ms errs t = (r, s')" by simp
      from pay_step_trans [OF _ Cons.IH [OF this], of "b m" s] step Ok Skipped show ?thesis by simp
    next
      case (Refused e)
      with Ok t Cons.prems have "first_paid att nt ms (nt e errs) t = (r, s')" by simp
      from pay_step_trans [OF _ Cons.IH [OF this], of "b m" s] step Ok Refused show ?thesis by simp
    qed
  qed (use t step Cons.prems in \<open>auto intro: pay_step_add\<close>)
qed

text \<open>The phases, each with a bound for every payment method.\<close>

lemma run_phases_step:
  assumes "list_all2 (\<lambda>(att, nt) b. \<forall>m s r s'. att m s = (r, s') \<longrightarrow>
      pay_step log amount tb (b m) (map_result id paid_by r) s s') phases bs"
    and "run_phases phases ms errs s = (r, s')"
  shows "pay_step log amount tb (sum_list (map (\<lambda>b. sum_list (map b ms)) bs)) (map_result id fst r) s s'"
  using assms
proof (induction phases bs arbitrary: errs s rule: list_all2_induct)
  case Nil
  then show ?case by (auto intro!: pay_step_same)
next
  case (Cons ph phases b bs)
  let ?n = "sum_list (map b ms)" and ?k = "sum_list (map (\<lambda>b. sum_list (map b ms)) bs)"
  obtain att nt where ph: "ph = (att, nt)" by fastforce
  obtain out t where t: "first_paid att nt ms errs s = (out, t)" by fastforce
  have step: "pay_step log amount tb ?n (map_result id fst out) s t"
    by (rule first_paid_step [OF _ t]) (use Cons.hyps(1) ph in simp)
  show ?case
  proof (cases out)
    case (Ok a)
    obtain paid errs' where a: "a = (paid, errs')" by fastforce
    show ?thesis
    proof (cases paid)
      case None
      with Ok a t ph Cons.prems have "run_phases phases ms errs' t = (r, s')" by simp
      from Cons.IH [OF this] have rest: "pay_step log amount tb ?k (map_result id fst r) t s'" .
      from step Ok a None have "pay_step log amount tb ?n (Ok None :: (unit, _) result) s t" by simp
      from pay_step_trans [OF this rest] show ?thesis by (simp only: list.map sum_list.Cons)
    next
      case (Some i)
      with Ok a t ph step Cons.prems show ?thesis by (auto intro: pay_step_add)
    qed
  qed (use t ph step Cons.prems in \<open>auto intro: pay_step_add\<close>)
qed

context payment_log
begin

lemma typed_step:
  assumes "amount_laws (amounts X)"
  shows "when_typed ty (pay_trusted E X amount tb) m s = (r, s') \<Longrightarrow>
      pay_step log amount tb n (map_result id paid_by r) s s'"
    and "when_typed ty (pay_lightning E X amount lb) m s = (r, s') \<Longrightarrow>
      pay_step log amount tb n (map_result id paid_by r) s s'"
  using pay_trusted_step [of E amount tb m _ s r s'] pay_lightning_step [OF assms(1), of E amount lb m _ s r s']
  by (auto simp: when_typed_def pay_step_same split: option.splits)

lemma attempt_mpp_step:
  assumes "amount_laws (amounts X)" and "attempt_mpp E X amount tb lb m s = (r, s')"
  shows "pay_step log amount tb (split_bound m) (map_result id paid_by r) s s'"
proof -
  have skip: "pay_step log amount tb n (map_result id paid_by (Ok Skipped)) s s" for n by (simp add: pay_step_same)
  show ?thesis
  proof (cases m)
    case (LightningBolt11 v)
    obtain out t where t: "try_mpp_bolt11 E X v amount tb (lw_lightning lb) s = (out, t)" by fastforce
    note step = try_mpp_step [OF assms(1) t]
    with step t assms(2) LightningBolt11 skip show ?thesis
      by (cases out) (auto simp: attempt_mpp_def intro: pay_step_result split: if_splits)
  qed (use assms(2) skip in \<open>auto simp: attempt_mpp_def\<close>)
qed

lemma pay_phases_step:
  assumes "amount_laws (amounts X)"
  shows "list_all2 (\<lambda>(att, nt) b. \<forall>m s r s'. att m s = (r, s') \<longrightarrow>
      pay_step log amount tb (b m) (map_result id paid_by r) s s')
    (pay_phases E X amount tb lb) [\<lambda>_. 0, \<lambda>_. 0, split_bound, \<lambda>_. 0, \<lambda>_. 0]"
  using typed_step [OF assms] attempt_mpp_step [OF assms] by (auto simp: pay_phases_def)

lemma payment_methods_quiet: "quiet_step log s (snd (payment_methods X info s))"
  unfolding payment_methods_def
  by (cases "pi_instructions info")
    (auto intro!: quiet_and_then quiet_outside_call simp: quiet(4), auto simp: quiet_step_def)

lemma pay_moves:
  assumes "amount_laws (amounts X)" and "pay E X info s = (r, s')"
    and "fst (tw_get_balance (trusted X) (outside s)) = Ok tb"
  shows "pay_step log (pi_amount info) tb
      (bolt11_count (resolved_methods X info (snd (outside_call (tw_get_balance (trusted X)) s))))
      (map_result id Some r) s s'"
    (is "pay_step _ _ _ ?n _ _ _")
proof -
  obtain t where t: "outside_call (tw_get_balance (trusted X)) s = (Ok tb, t)"
    using assms(3) by (cases "tw_get_balance (trusted X) (outside s)") (auto simp: outside_call_def)
  have quiet_t: "quiet_step log s t" using quiet_outside_call [of log "tw_get_balance (trusted X)" s] quiet(1) t
    by simp
  obtain ms u where u: "payment_methods X info t = (ms, u)" by fastforce
  have quiet_u: "quiet_step log t u" using payment_methods_quiet [of t info] u by simp
  let ?lb = "ln_get_balance (amounts X) (ln_wallet X) (outside t)"
  let ?errs = "\<lparr>last_trusted_err = None, last_lightning_err = None, last_mpp_err = None\<rparr>"
  have stop: "pay_step log (pi_amount info) tb ?n (map_result id Some r) s v"
    if "quiet_step log s v" "\<And>i. r \<noteq> Ok i" for v
    using that by (intro pay_step_same) (auto simp: quiet_step_def, cases r, auto)
  consider (no_balance) "\<not> is_ok ?lb" | (no_methods) b where "?lb = Ok b" "\<not> is_ok ms"
    | (run) b xs where "?lb = Ok b" "ms = Ok xs" by (cases ?lb; cases ms) auto
  then show ?thesis
  proof cases
    case no_balance
    with assms(2) t have "s' = t" "\<And>i. r \<noteq> Ok i" by (cases ?lb; auto simp: pay_def infallible_def)+
    with stop quiet_t show ?thesis by simp
  next
    case no_methods
    with assms(2) t u have "s' = u" "\<And>i. r \<noteq> Ok i" by (cases ms; auto simp: pay_def infallible_def)+
    with stop quiet_step_trans [OF quiet_t quiet_u] show ?thesis by simp
  next
    case run
    obtain out v where v: "run_phases (pay_phases E X (pi_amount info) tb b) xs ?errs u = (out, v)" by fastforce
    have "pay_step log (pi_amount info) tb ?n (map_result id fst out) u v"
      using run_phases_step [OF pay_phases_step [OF assms(1)] v] u t run
      by (simp add: bolt11_count_def resolved_methods_def)
    then have step: "pay_step log (pi_amount info) tb ?n (map_result id fst out) s v"
      using quiet_step_trans [OF quiet_t quiet_u] by (intro pay_step_pre [of log u s]) (simp_all add: quiet_step_def)
    from assms(2) t u run v have "(case infallible (out, v) of (Ok (paid, errs), s) \<Rightarrow> (case paid of
        Some i \<Rightarrow> (Ok i, s) | None \<Rightarrow> (Err (pay_error errs), s)) | (Err e, s) \<Rightarrow> (Err e, s)
        | (Panic m, s) \<Rightarrow> (Panic m, s)) = (r, s')"
      by (cases out) (auto simp: pay_def infallible_def)
    then consider i errs where "out = Ok (Some i, errs)" "r = Ok i" "s' = v"
      | e errs where "out = Ok (None, errs)" "r = Err e" "s' = v"
      | m where "out = Err ()" "r = Panic m" "s' = v" | m where "out = Panic m" "r = Panic m" "s' = v"
      by (cases out) (auto simp: infallible_def split: option.splits)
    then show ?thesis
    proof cases
      case 1
      with step show ?thesis by (auto intro: pay_step_result(1))
    next
      case 2
      with step show ?thesis by (auto intro: pay_step_result(4))
    next
      case 3
      with step show ?thesis by (auto intro: pay_step_result(5))
    next
      case 4
      with step show ?thesis by (auto intro: pay_step_result(2))
    qed
  qed
qed

end

end
