(* ===== verification/Wallet_Api.thy ===== *)
theory Wallet_Api
  imports Wallet_Pay
begin

text \<open>
  The other operations of \<open>Wallet\<close> (\<open>lib.rs\<close>): balances, receiving, channels, events, the
  lightning address and stopping. \<open>Wallet::new\<close> is in \<open>Wallet_New\<close>, and \<open>stop\<close> beside the
  background tasks in \<open>Background_Tasks\<close>; parsing instructions is a call into \<open>bitcoin_payment_instructions\<close>.
\<close>

subsection \<open>Receiving\<close>

record SingleUseReceiveUri =
  uri_address :: "Address option"
  uri_invoice :: Bolt11Invoice
  uri_amount :: "Amount option"
  uri_from_trusted :: bool

definition to_ascii_uppercase_char :: "char \<Rightarrow> char" where
  "to_ascii_uppercase_char c =
     (let n = (of_char c :: nat) in if 97 \<le> n \<and> n \<le> 122 then char_of (n - 32) else c)"

definition to_ascii_uppercase :: "string \<Rightarrow> string" where
  "to_ascii_uppercase cs = map to_ascii_uppercase_char cs"

text \<open>How the crates print addresses, invoices and amounts is a parameter.\<close>

record uri_texts =
  address_text :: "Address \<Rightarrow> string"
  invoice_text :: "Bolt11Invoice \<Rightarrow> string"
  btc_decimal_rounding_up_to_sats :: "Amount \<Rightarrow> string"

definition SingleUseReceiveUri_to_string :: "uri_texts \<Rightarrow> SingleUseReceiveUri \<Rightarrow> string" where
  "SingleUseReceiveUri_to_string T uri =
     (case uri_address uri of
        Some address \<Rightarrow>
          to_ascii_uppercase (''BITCOIN:'' @ address_text T address
            @ (case uri_amount uri of
                 Some amt \<Rightarrow> ''?AMOUNT='' @ btc_decimal_rounding_up_to_sats T amt @ ''&''
               | None \<Rightarrow> ''?'')
            @ ''LIGHTNING='' @ invoice_text T (uri_invoice uri))
      | None \<Rightarrow> ''LIGHTNING:'' @ to_ascii_uppercase (invoice_text T (uri_invoice uri)))"

fun falls_back :: "NodeError \<Rightarrow> bool" where
  "falls_back NE_ConnectionFailed = True"
| "falls_back NE_LiquidityRequestFailed = True"
| "falls_back NE_LiquiditySourceUnavailable = True"
| "falls_back _ = False"

definition use_ln :: "'w wallet \<Rightarrow> Amount \<Rightarrow> Amount \<Rightarrow> bool \<Rightarrow> bool" where
  "use_ln X amt receivable lsp_online \<longleftrightarrow>
     amt > trusted_balance_limit (tunables X)
   \<or> (amt < saturating_sub (amounts X) receivable (rebalance_min (tunables X)) \<and> lsp_online)"

text \<open>The invoice of the URI and whether it is the trusted wallet's.\<close>

definition receive_invoice :: "'w wallet \<Rightarrow> Amount option \<Rightarrow> ('s, 'w, 'x) wallet_state_scheme \<Rightarrow>
    (WalletError, Bolt11Invoice \<times> bool) result \<times> ('s, 'w, 'x) wallet_state_scheme" where
  "receive_invoice X amount s =
     (let from_trusted = (\<lambda>s. and_then (map_err TrustedFailure
            (outside_call (tw_get_bolt11_invoice (trusted X) amount) s)) (\<lambda>invoice s. (Ok (invoice, True), s)))
      in case amount of
           Some amt \<Rightarrow>
             and_then (infallible (estimate_receivable_balance (amounts X) (ln_wallet X) (outside s), s))
               (\<lambda>receivable s.
                  if use_ln X amt receivable (is_connected_to_lsp (ln_wallet X) (outside s)) then
                    (case outside_call (ln_get_bolt11_invoice (amounts X) (ln_wallet X) amount) s of
                       (Ok invoice, s) \<Rightarrow> (Ok (invoice, False), s)
                     | (Err e, s) \<Rightarrow>
                         (if falls_back e then from_trusted s else (Err (LdkNodeFailure e), s))
                     | (Panic m, s) \<Rightarrow> (Panic m, s))
                  else from_trusted s)
         | None \<Rightarrow> from_trusted s)"

definition enable_onchain :: "'w wallet \<Rightarrow> Amount option \<Rightarrow> bool" where
  "enable_onchain X amount = (case amount of
     Some amt \<Rightarrow> amt \<ge> onchain_receive_threshold (tunables X)
   | None \<Rightarrow> enable_amountless_receive_on_chain (tunables X))"

definition get_single_use_receive_uri :: "'w wallet \<Rightarrow> Amount option \<Rightarrow>
    ('s, 'w, 'x) wallet_state_scheme \<Rightarrow>
    (WalletError, SingleUseReceiveUri) result \<times> ('s, 'w, 'x) wallet_state_scheme" where
  "get_single_use_receive_uri X amount s =
     and_then (receive_invoice X amount s) (\<lambda>(bolt11, from_trusted) s.
       if enable_onchain X amount then
         and_then (map_err LdkNodeFailure (outside_call (get_on_chain_address (ln_wallet X)) s)) (\<lambda>address s.
           (Ok \<lparr>uri_address = Some address, uri_invoice = bolt11, uri_amount = amount,
                uri_from_trusted = from_trusted\<rparr>, s))
       else
         (Ok \<lparr>uri_address = None, uri_invoice = bolt11, uri_amount = amount,
              uri_from_trusted = from_trusted\<rparr>, s))"

definition get_reusable_receive_uri :: "'w wallet \<Rightarrow> ('s, 'w, 'x) wallet_state_scheme \<Rightarrow>
    (WalletError, string) result \<times> ('s, 'w, 'x) wallet_state_scheme" where
  "get_reusable_receive_uri X s =
     map_err TrustedFailure (outside_call (tw_get_reusable_receive_uri (trusted X)) s)"

subsection \<open>Balances, channels, events\<close>

definition get_balance :: "'w wallet \<Rightarrow> ('s, 'w, 'x) wallet_state_scheme \<Rightarrow>
    (WalletError, Balances) result \<times> ('s, 'w, 'x) wallet_state_scheme" where
  "get_balance X s =
     and_then (map_err TrustedFailure (outside_call (tw_get_balance (trusted X)) s))
       (\<lambda>trusted_balance s.
     and_then (infallible (ln_get_balance (amounts X) (ln_wallet X) (outside s), s)) (\<lambda>ln_balance s.
       (Ok \<lparr>bal_trusted = trusted_balance, bal_lightning = lw_lightning ln_balance,
            bal_pending_balance = lw_onchain ln_balance\<rparr>, s)))"

definition estimate_fee :: "PaymentInstructions \<Rightarrow> Amount" where
  "estimate_fee _ = 0"

definition wallet_set_rebalance_enabled :: "('s, 'e) wallet_env_scheme \<Rightarrow> bool \<Rightarrow>
    ('s, 'w, 'x) wallet_state_scheme \<Rightarrow> (unit, unit) result \<times> ('s, 'w, 'x) wallet_state_scheme" where
  "wallet_set_rebalance_enabled E value s = set_rebalance_enabled E value s"

definition wallet_get_rebalance_enabled :: "('s, 'e) wallet_env_scheme \<Rightarrow>
    ('s, 'w, 'x) wallet_state_scheme \<Rightarrow> (unit, bool) result \<times> ('s, 'w, 'x) wallet_state_scheme" where
  "wallet_get_rebalance_enabled E s = get_rebalance_enabled E s"

definition channels :: "'w wallet \<Rightarrow> ('s, 'w, 'x) wallet_state_scheme \<Rightarrow> ChannelDetails list" where
  "channels X s = nd_list_channels (ln_wallet X) (outside s)"

definition get_tunables :: "'w wallet \<Rightarrow> Tunables" where
  "get_tunables X = tunables X"

definition wallet_next_event :: "('s, 'w, 'x) wallet_state_scheme \<Rightarrow> Event option" where
  "wallet_next_event s = next_event s"

definition close_channels :: "('s, 'e) wallet_env_scheme \<Rightarrow> 'w wallet \<Rightarrow>
    ('s, 'w, 'x) wallet_state_scheme \<Rightarrow>
    (WalletError, unit) result \<times> ('s, 'w, 'x) wallet_state_scheme" where
  "close_channels E X s =
     and_then (infallible (wallet_set_rebalance_enabled E False s)) (\<lambda>_ s.
       map_err LdkNodeFailure (outside_call (ln_close_channels (ln_wallet X)) s))"

definition wallet_event_handled :: "('s, 'e) wallet_env_scheme \<Rightarrow>
    ('s, 'w, 'x) wallet_state_scheme \<Rightarrow> (unit, unit) result \<times> ('s, 'w, 'x) wallet_state_scheme" where
  "wallet_event_handled E s =
     and_then (map_err (\<lambda>_. ()) (event_handled E s)) (\<lambda>_ s. (Ok (), spawn_rebalance s))"

definition get_lightning_address :: "'w wallet \<Rightarrow> ('s, 'w, 'x) wallet_state_scheme \<Rightarrow>
    (WalletError, string option) result \<times> ('s, 'w, 'x) wallet_state_scheme" where
  "get_lightning_address X s =
     map_err TrustedFailure (outside_call (tw_get_lightning_address (trusted X)) s)"

definition register_lightning_address :: "'w wallet \<Rightarrow> string \<Rightarrow>
    ('s, 'w, 'x) wallet_state_scheme \<Rightarrow>
    (WalletError, unit) result \<times> ('s, 'w, 'x) wallet_state_scheme" where
  "register_lightning_address X name s =
     map_err TrustedFailure (outside_call (tw_register_lightning_address (trusted X) name) s)"

definition sync_ln_wallet :: "'w wallet \<Rightarrow> ('s, 'w, 'x) wallet_state_scheme \<Rightarrow>
    (WalletError, unit) result \<times> ('s, 'w, 'x) wallet_state_scheme" where
  "sync_ln_wallet X s = map_err LdkNodeFailure (outside_call (nd_sync_wallets (ln_wallet X)) s)"

text \<open>
  Stopping aborts the cancellable tasks, waits for the rebalancer's mutex, which no task holds
  then, and stops both wallets; the node's answer is ignored.
\<close>

definition wallet_stop :: "'w wallet \<Rightarrow> ('s, 'w, 'x) wallet_state_scheme \<Rightarrow>
    ('s, 'w, 'x) wallet_state_scheme" where
  "wallet_stop X s =
     (let s = s\<lparr>rebalance_tasks := 0\<rparr>;
          s = s\<lparr>outside := tw_stop (trusted X) (outside s)\<rparr>
      in s\<lparr>outside := ln_stop (ln_wallet X) (outside s)\<rparr>)"

end
