(* ===== verification/Sample_Wallet.thy ===== *)
theory Sample_Wallet
  imports Wallet_Pay_Facts Event_Props "HOL-Library.Code_Target_Nat"
begin

text \<open>
  A concrete wallet on which the hypotheses of the wallet's properties are evaluated: a trusted
  wallet with 50 millisatoshi and partial payments, a node with a channel to its LSP, the store
  in memory. Its answers are constants; the properties are about every wallet.
\<close>

definition sample_wallet_env :: "mem_kv wallet_env" where
  "sample_wallet_env = event_env.extend sample_event_env (wallet_env.fields (\<lambda>_. []) (\<lambda>_. None))"

lemma sample_wallet_env_simps [simp]:
  "kvs sample_wallet_env = kvs sample_env" "as_hex sample_wallet_env = as_hex sample_env"
  "from_hex_array sample_wallet_env = from_hex_array sample_env"
  "md_encode sample_wallet_env = md_encode sample_env" "md_decode sample_wallet_env = md_decode sample_env"
  "bool_encode sample_wallet_env = bool_encode sample_env"
  "bool_decode sample_wallet_env = bool_decode sample_env"
  by (simp_all add: sample_wallet_env_def sample_event_env_def store_env.defs event_env.defs)

interpretation sample_wal: reliable_event_ctx sample_wallet_env mem_view
  unfolding reliable_event_ctx_def
  by (rule tx_env_cong [OF sample.reliable_tx_env_axioms]) simp_all

definition sample_trusted :: "unit trusted_wallet_ops" where
  "sample_trusted =
     \<lparr>tw_get_balance = (\<lambda>w. (Ok 50, w)),
      tw_get_reusable_receive_uri = (\<lambda>w. (Err (UnsupportedOperation ''''), w)),
      tw_get_bolt11_invoice = (\<lambda>_ w. (Ok sample_invoice, w)),
      tw_list_payments = (\<lambda>w. (Ok [], w)),
      tw_estimate_fee = (\<lambda>_ _ w. (Ok 1, w)),
      tw_pay = (\<lambda>_ _ w. (Ok (replicate 32 6), w)),
      tw_supports_partial_payments = True,
      tw_pay_partial = (\<lambda>_ _ w. (Ok (replicate 32 7), w)),
      tw_await_payment_success = (\<lambda>_ w. (None, w)),
      tw_get_lightning_address = (\<lambda>w. (Ok None, w)),
      tw_register_lightning_address = (\<lambda>_ w. (Err (UnsupportedOperation ''''), w)),
      tw_stop = (\<lambda>w. w)\<rparr>"

definition sample_channel :: ChannelDetails where
  "sample_channel = \<lparr>cd_user_channel_id = 4, cd_counterparty = [2], cd_funding_txo = None,
     cd_is_usable = True, cd_inbound_capacity_msat = 900, cd_outbound_capacity_msat = 180\<rparr>"

definition sample_node :: "u64 \<Rightarrow> unit lightning_wallet" where
  "sample_node n =
     \<lparr>nd_list_payments = (\<lambda>_. []), nd_payment = (\<lambda>_ _. None),
      nd_list_balances = (\<lambda>_. \<lparr>bd_total_lightning_balance_sats = n,
        bd_total_onchain_balance_sats = 0, bd_spendable_onchain_balance_sats = 0\<rparr>),
      nd_list_channels = (\<lambda>_. [sample_channel]),
      nd_list_peers = (\<lambda>_. [\<lparr>peer_node_id = [2], peer_is_connected = True\<rparr>]),
      nd_clock = (\<lambda>_. 5),
      nd_new_address = (\<lambda>w. (Err NE_WalletOperationFailed, w)),
      nd_receive = (\<lambda>_ _ w. (Ok sample_invoice, w)),
      nd_receive_via_jit_channel = (\<lambda>_ _ w. (Err NE_LiquidityRequestFailed, w)),
      nd_receive_variable_amount = (\<lambda>_ w. (Ok sample_invoice, w)),
      nd_receive_variable_amount_via_jit_channel = (\<lambda>_ w. (Err NE_LiquidityRequestFailed, w)),
      nd_bolt11_send_using_amount = (\<lambda>_ _ w. (Err NE_InsufficientFunds, w)),
      nd_bolt11_send_using_amount_underpaying = (\<lambda>_ _ w. (Ok (replicate 32 3), w)),
      nd_bolt12_send_using_amount = (\<lambda>_ _ w. (Err NE_InsufficientFunds, w)),
      nd_send_to_address = (\<lambda>_ _ w. (Err NE_InsufficientFunds, w)),
      nd_splice_out = (\<lambda>_ _ _ _ w. (Ok (), w)), nd_splice_in_with_all = (\<lambda>_ _ w. (Ok (), w)),
      nd_open_channel_with_all = (\<lambda>_ _ w. (Ok 4, w)),
      nd_close_channel = (\<lambda>_ _ w. (Ok (), w)), nd_force_close_channel = (\<lambda>_ _ w. (Ok (), w)),
      nd_sync_wallets = (\<lambda>w. (Ok (), w)), nd_event_handled = (\<lambda>w. (Ok (), w)),
      nd_stop = (\<lambda>w. (Ok (), w)),
      lsp_node_id = [2], lsp_socket_addr = '''',
      await_payment_receipt_flag = (\<lambda>w. w), await_channel_pending_flag = (\<lambda>_ w. w),
      await_splice_pending = (\<lambda>_ w. (\<lparr>op_txid = replicate 32 8, op_vout = 0\<rparr>, w))\<rparr>"

definition sample_wallet :: "u64 \<Rightarrow> unit wallet" where
  "sample_wallet n =
     \<lparr>amounts = msat_ops, trusted = sample_trusted, ln_wallet = sample_node n,
      tunables = \<lparr>trusted_balance_limit = 100000, rebalance_min = 5, onchain_receive_threshold = 10000,
        enable_amountless_receive_on_chain = True\<rparr>,
      set_amount = (\<lambda>_ _ w. (Err '''', w)),
      arrivals = (\<lambda>w. ([PaymentSuccessful (Trusted (replicate 32 7)) (replicate 32 3) [1] (Some 1)], w))\<rparr>"

definition sample_state :: "'w \<Rightarrow> (mem_kv, 'w) wallet_state" where
  "sample_state w = trigger_state.extend (OrangeTrigger_new None empty_queue) (wallet_state.fields w 0)"

definition sample_info :: PaymentInfo where
  "sample_info = \<lparr>pi_instructions = sample_fixed, pi_amount = 200\<rparr>"

end
