(* ===== verification/Wallet_Props.thy ===== *)
theory Wallet_Props
  imports Wallet_Pay_Log Wallet_Api Sample_Wallet
begin

text \<open>The properties of the wallet's operations, with their witnesses on the sample wallet.\<close>

subsection \<open>Paying\<close>

lemma watched_simps [simp]:
  "amounts (watched X) = amounts X"
  "fst (tw_get_balance (trusted (watched X)) p) = fst (tw_get_balance (trusted X) (fst p))"
  by (cases p, simp_all add: watched_def watched_trusted_def unlogged_def split: prod.split)

lemma sample_pay:
  "fst (pay sample_wallet_env (watched (sample_wallet 1)) sample_info (sample_state ((), [])))
    = Ok (Trusted (replicate 32 7))"
  by code_simp

lemma sample_wallet_simps [simp]:
  "amounts (sample_wallet n) = msat_ops" "outside (sample_state w) = w"
  "tw_get_balance (trusted (sample_wallet n)) u = (Ok 50, u)"
  by (simp_all add: sample_wallet_def sample_trusted_def sample_state_def trigger_state.defs wallet_state.defs)

text \<open>
  C3. \<open>Wallet::pay\<close> pays once, up to refused splits. On any two wallets, watched for the payments
  they accept, and with any events arriving meanwhile: if \<open>pay\<close> returns an identifier, it made one
  payment of the whole amount under that identifier (from the trusted wallet only if its balance
  covers it), or a trusted part of the whole trusted balance and a lightning part that add up to
  the amount. What can come before that, and all there can be when \<open>pay\<close> returns an error, is
  abandoned splits: a trusted part that the trusted wallet accepted, directly followed by the
  lightning wallet's refusal of exactly the part that was missing. There is at most one of them
  for each BOLT 11 invoice the instructions resolve to, so none without an invoice. A panic can
  leave a split between its two parts.
\<close>

theorem pay_pays_once:
  assumes "amount_laws (amounts X)" and "snd (outside s) = []"
    and "fst (tw_get_balance (trusted X) (fst (outside s))) = Ok tb"
    and "pay E (watched X) info s = (r, s')"
    and "ms = resolved_methods (watched X) info (snd (outside_call (tw_get_balance (trusted (watched X))) s))"
  shows "\<exists>orph rest. snd (outside s') = orph @ rest
    \<and> orphans (pi_amount info) tb (bolt11_count ms) orph
    \<and> (\<forall>i. r = Ok i \<longrightarrow> settled (pi_amount info) tb i rest)
    \<and> (\<forall>e. r = Err e \<longrightarrow> rest = [])
    \<and> (is_panic r \<longrightarrow> interrupted (pi_amount info) tb rest)"
proof -
  have laws: "amount_laws (amounts (watched X))" using assms(1) by simp
  have bal: "fst (tw_get_balance (trusted (watched X)) (outside s)) = Ok tb"
    using assms(3) by simp
  from watched.pay_moves [OF laws assms(4) bal] assms(2) show ?thesis
    unfolding assms(5) by (cases r) (auto simp: pay_step_def)
qed

theorem pay_pays_once_witness:
  "\<exists>s' orph rest ms. pay sample_wallet_env (watched (sample_wallet 1)) sample_info (sample_state ((), []))
      = (Ok (Trusted (replicate 32 7)), s')
    \<and> snd (outside s') = orph @ rest \<and> orphans 200 50 (bolt11_count ms) orph
    \<and> settled 200 50 (Trusted (replicate 32 7)) rest"
proof -
  obtain s' where run: "pay sample_wallet_env (watched (sample_wallet 1)) sample_info
      (sample_state ((), [])) = (Ok (Trusted (replicate 32 7)), s')"
    using sample_pay by (metis prod.collapse)
  from pay_pays_once [OF _ _ _ run refl, of 50] run show ?thesis
    by (auto simp: msat.amount_laws_axioms sample_info_def)
qed

text \<open>
  C6. Every payment \<open>pay\<close> made is in the metadata when it returns, with or without an error: the
  surfaced identifier, both parts of a split payment and the trusted parts whose lightning part
  was refused are recorded as payments, and no payment recorded before is lost. So the list of
  transactions never meets an outgoing payment of \<open>pay\<close> without metadata.
\<close>

theorem pay_records_metadata:
  assumes "amount_laws (amounts X)" and "snd (outside s) = []"
    and "fst (tw_get_balance (trusted X) (fst (outside s))) = Ok tb"
    and "pay E (watched X) info s = (r, s')" and "\<not> is_panic r"
  shows "tracked s \<union> sent_ids (snd (outside s')) \<union> {i. r = Ok i} \<subseteq> tracked s'"
proof -
  have laws: "amount_laws (amounts (watched X))" using assms(1) by simp
  have bal: "fst (tw_get_balance (trusted (watched X)) (outside s)) = Ok tb"
    using assms(3) by simp
  from watched.pay_moves [OF laws assms(4) bal] assms(2,5) show ?thesis
    by (cases r) (auto simp: pay_step_def)
qed

theorem pay_records_metadata_witness:
  "\<exists>s'. pay sample_wallet_env (watched (sample_wallet 1)) sample_info (sample_state ((), []))
      = (Ok (Trusted (replicate 32 7)), s')
    \<and> sent_ids (snd (outside s')) \<union> {Trusted (replicate 32 7)} \<subseteq> tracked s'"
proof -
  obtain s' where run: "pay sample_wallet_env (watched (sample_wallet 1)) sample_info
      (sample_state ((), [])) = (Ok (Trusted (replicate 32 7)), s')"
    using sample_pay by (metis prod.collapse)
  from pay_records_metadata [OF _ _ _ run, of 50] run show ?thesis
    by (auto simp: msat.amount_laws_axioms)
qed

subsection \<open>Receiving\<close>

text \<open>When an amount is the lightning wallet's: over the trusted wallet's limit, or received by the channel.\<close>

definition lightning_suits :: "'w wallet \<Rightarrow> Amount \<Rightarrow> 'w \<Rightarrow> bool" where
  "lightning_suits X amt w \<longleftrightarrow> trusted_balance_limit (tunables X) < amt
   \<or> is_connected_to_lsp (ln_wallet X) w \<and>
     (\<exists>receivable. estimate_receivable_balance (amounts X) (ln_wallet X) w = Ok receivable
        \<and> amt + rebalance_min (tunables X) < receivable)"

lemma lightning_suits_iff:
  assumes "amount_laws (amounts X)" and "estimate_receivable_balance (amounts X) (ln_wallet X) w = Ok rc"
  shows "use_ln X amt rc (is_connected_to_lsp (ln_wallet X) w) \<longleftrightarrow> lightning_suits X amt w"
  using assms(2) amount_laws.saturating_sub_eq [OF assms(1)]
  by (auto simp: use_ln_def lightning_suits_def)

lemma receive_invoice_from:
  assumes "amount_laws (amounts X)" and "receive_invoice X amount s = (Ok (invoice, from_trusted), t)"
  defines "ask \<equiv> ln_get_bolt11_invoice (amounts X) (ln_wallet X) amount (outside s)"
  shows "(from_trusted \<longleftrightarrow> (\<forall>amt. amount = Some amt \<longrightarrow>
          \<not> lightning_suits X amt (outside s) \<or> (\<exists>e. fst ask = Err e \<and> falls_back e)))
    \<and> (\<not> from_trusted \<longrightarrow> fst ask = Ok invoice)
    \<and> (from_trusted \<longrightarrow> fst (tw_get_bolt11_invoice (trusted X) amount (outside s)) = Ok invoice
        \<or> fst (tw_get_bolt11_invoice (trusted X) amount (snd ask)) = Ok invoice)"
proof -
  show ?thesis
  proof (cases amount)
    case None
    with assms(2) show ?thesis by (auto simp: receive_invoice_def outside_call_def split: prod.splits)
  next
    case (Some amt)
    with assms(2) obtain rc where rc: "estimate_receivable_balance (amounts X) (ln_wallet X) (outside s) = Ok rc"
      by (auto simp: receive_invoice_def)
    note suits = lightning_suits_iff [OF assms(1) rc]
    obtain r w where ask: "ask = (r, w)" by fastforce
    show ?thesis
    proof (cases "lightning_suits X amt (outside s)")
      case True
      with assms(2) Some rc suits ask show ?thesis
        by (cases r) (auto simp: receive_invoice_def outside_call_def ask_def infallible_def
            split: if_splits prod.splits)
    next
      case False
      with assms(2) Some rc suits show ?thesis
        by (auto simp: receive_invoice_def outside_call_def infallible_def split: prod.splits)
    qed
  qed
qed

text \<open>
  C7. What a single-use URI asks for. It carries an on-chain address exactly when the amount
  reaches the threshold, or, without an amount, when the tunables enable it. Its invoice is the
  one the lightning wallet issued exactly when the amount is over the trusted wallet's limit, or
  the LSP is connected and the channel can receive it with the margin \<open>rebalance_min\<close>, and the
  lightning wallet did not refuse for lack of liquidity; otherwise, and always without an amount,
  it is one the trusted wallet issued. The flag of the URI says which.
\<close>

theorem receive_uri_choice:
  assumes "amount_laws (amounts X)" and "get_single_use_receive_uri X amount s = (Ok uri, s')"
  defines "ask \<equiv> ln_get_bolt11_invoice (amounts X) (ln_wallet X) amount (outside s)"
  shows "uri_amount uri = amount
    \<and> (uri_address uri \<noteq> None \<longleftrightarrow> enable_onchain X amount)
    \<and> (uri_from_trusted uri \<longleftrightarrow> (\<forall>amt. amount = Some amt \<longrightarrow>
          \<not> lightning_suits X amt (outside s) \<or> (\<exists>e. fst ask = Err e \<and> falls_back e)))
    \<and> (\<not> uri_from_trusted uri \<longrightarrow> fst ask = Ok (uri_invoice uri))
    \<and> (uri_from_trusted uri \<longrightarrow>
          fst (tw_get_bolt11_invoice (trusted X) amount (outside s)) = Ok (uri_invoice uri)
        \<or> fst (tw_get_bolt11_invoice (trusted X) amount (snd ask)) = Ok (uri_invoice uri))"
proof -
  obtain invoice ft t where t: "receive_invoice X amount s = (Ok (invoice, ft), t)"
    using assms(2) by (auto simp: get_single_use_receive_uri_def)
  then have uri: "uri_amount uri = amount" "uri_from_trusted uri = ft" "uri_invoice uri = invoice"
    "uri_address uri \<noteq> None \<longleftrightarrow> enable_onchain X amount"
    using assms(2) by (auto simp: get_single_use_receive_uri_def split: if_splits)
  with receive_invoice_from [OF assms(1) t] show ?thesis by (simp add: ask_def)
qed

theorem receive_uri_choice_witness:
  "\<exists>uri s'. get_single_use_receive_uri (sample_wallet 1) (Some 90) (sample_state ()) = (Ok uri, s')
    \<and> uri_amount uri = Some 90 \<and> uri_address uri = None"
proof -
  have "is_ok (fst (get_single_use_receive_uri (sample_wallet 1) (Some 90) (sample_state ())))" by code_simp
  then obtain uri s' where run: "get_single_use_receive_uri (sample_wallet 1) (Some 90) (sample_state ()) = (Ok uri, s')"
    by (cases "get_single_use_receive_uri (sample_wallet 1) (Some 90) (sample_state ())") (auto simp: is_ok_iff)
  have "\<not> enable_onchain (sample_wallet 1) (Some 90)" by (simp add: enable_onchain_def sample_wallet_def)
  with receive_uri_choice [OF _ run] run show ?thesis by (auto simp: msat.amount_laws_axioms)
qed

end
