(* ===== verification/Ldk_Events.thy ===== *)
theory Ldk_Events
  imports Lightning_Wallet Splice_Inbox Mpp_Events
begin

text \<open>
  \<open>LdkEventHandler\<close> (\<open>event.rs\<close>): what the wallet does with the events of the node. Each event is
  turned into metadata, signals for waiting tasks and an event for the user, and is then
  acknowledged to the node, which hands it out again after a restart until it is.
\<close>

datatype Ldk_Event =
    Ldk_PaymentSuccessful "LdkPaymentId option" PaymentHash "PaymentPreimage option" "u64 option"
  | Ldk_PaymentFailed "LdkPaymentId option" "PaymentHash option" "PaymentFailureReason option"
  | Ldk_PaymentReceived "LdkPaymentId option" PaymentHash u64 "CustomTlvRecord list"
  | Ldk_PaymentForwarded
  | Ldk_PaymentClaimable
  | Ldk_ChannelPending OutPoint
  | Ldk_ChannelReady ChannelId UserChannelId "PublicKey option" "OutPoint option"
  | Ldk_ChannelClosed ChannelId UserChannelId PublicKey "ClosureReason option"
  | Ldk_SpliceNegotiated ChannelId UserChannelId PublicKey OutPoint
  | Ldk_SpliceNegotiationFailed

text \<open>
  The handler's senders: how often a received payment was signalled, the channels signalled
  as pending, and the inbox of negotiated splices.
\<close>

record ('s, 'w) node_state = "('s, 'w) wallet_state" +
  payment_receipts :: nat
  channels_signalled :: "u128 list"
  splice_pending_inbox :: inbox_state

fun unwrap_option :: "'a option \<Rightarrow> ('e, 'a) result" where
  "unwrap_option (Some a) = Ok a"
| "unwrap_option None = Panic ''called `Option::unwrap()` on a `None` value''"

definition reserve_rebalance_slot_for_funding_tx :: "('s, 'e) event_env_scheme \<Rightarrow>
    ('w, 'l) lightning_wallet_scheme \<Rightarrow> Txid \<Rightarrow> ('s, 'w, 'x) wallet_state_scheme \<Rightarrow>
    (unit, unit) result \<times> ('s, 'w, 'x) wallet_state_scheme" where
  "reserve_rebalance_slot_for_funding_tx E N txid s =
     (case tx_metadata s (SelfCustodial txid) of
        Some _ \<Rightarrow> (Ok (), s)
      | None \<Rightarrow> upsert E (SelfCustodial txid)
          \<lparr>md_time = nd_clock N (outside s), md_ty = PendingRebalance\<rparr> s)"

text \<open>Queueing an event for the user: an error is logged and ends the handler.\<close>

definition add_event_or_log :: "('s, 'e) event_env_scheme \<Rightarrow> Event \<Rightarrow>
    ('s, 'x) event_queue_scheme \<Rightarrow> (unit, bool) result \<times> ('s, 'x) event_queue_scheme" where
  "add_event_or_log E event s =
     (case add_event E event s of
        (Ok _, s) \<Rightarrow> (Ok True, s)
      | (Err _, s) \<Rightarrow> (Ok False, s)
      | (Panic m, s) \<Rightarrow> (Panic m, s))"

definition skimmed_fee :: "PaymentDetails \<Rightarrow> u64 option" where
  "skimmed_fee p = (case pd_kind p of Bolt11 _ _ fee \<Rightarrow> fee | _ \<Rightarrow> None)"

text \<open>The match of \<open>handle_ldk_node_event\<close>; the outcome is whether control reaches its end.\<close>

definition process_ldk_event :: "('s, 'e) event_env_scheme \<Rightarrow>
    ('w, 'l) lightning_wallet_scheme \<Rightarrow> Ldk_Event \<Rightarrow> ('s, 'w, 'x) node_state_scheme \<Rightarrow>
    (unit, bool) result \<times> ('s, 'w, 'x) node_state_scheme" where
  "process_ldk_event E N event s =
     (case event of
        Ldk_PaymentSuccessful payment_id payment_hash payment_preimage fee_paid_msat \<Rightarrow>
          and_then (unwrap_option payment_preimage, s) (\<lambda>preimage s.
          and_then (unwrap_option payment_id, s) (\<lambda>payment_id s.
            case set_preimage E (SelfCustodial payment_id) preimage s of
              (Panic m, s) \<Rightarrow> (Panic m, s)
            | (_, s) \<Rightarrow> add_event_or_log E
                (PaymentSuccessful (SelfCustodial payment_id) payment_hash preimage fee_paid_msat) s))
      | Ldk_PaymentFailed payment_id payment_hash reason \<Rightarrow>
          and_then (unwrap_option payment_id, s) (\<lambda>payment_id s.
            add_event_or_log E (PaymentFailed (SelfCustodial payment_id) payment_hash reason) s)
      | Ldk_PaymentReceived payment_id payment_hash amount_msat custom_records \<Rightarrow>
          (case payment_id of
             None \<Rightarrow> (Panic ''this is safe'', s)
           | Some payment_id \<Rightarrow>
               (let lsp_fee_msats = Option.bind (nd_payment N payment_id (outside s)) skimmed_fee
                in and_then (add_event_or_log E (PaymentReceived (SelfCustodial payment_id)
                       payment_hash amount_msat custom_records lsp_fee_msats) s)
                     (\<lambda>_ s. (Ok True, s\<lparr>payment_receipts := payment_receipts s + 1\<rparr>))))
      | Ldk_PaymentForwarded \<Rightarrow> (Ok True, s)
      | Ldk_PaymentClaimable \<Rightarrow> (Ok True, s)
      | Ldk_ChannelPending funding_txo \<Rightarrow>
          and_then (reserve_rebalance_slot_for_funding_tx E N (op_txid funding_txo) s)
            (\<lambda>_ s. (Ok True, s))
      | Ldk_ChannelReady channel_id user_channel_id counterparty_node_id funding_txo \<Rightarrow>
          and_then (unwrap_option funding_txo, s) (\<lambda>funding_txo s.
          and_then (unwrap_option counterparty_node_id, s) (\<lambda>counterparty_node_id s.
          and_then (add_event_or_log E
              (ChannelOpened channel_id user_channel_id counterparty_node_id funding_txo) s)
            (\<lambda>queued s. if queued
               then (Ok True, s\<lparr>channels_signalled := channels_signalled s @ [user_channel_id]\<rparr>)
               else (Ok False, s))))
      | Ldk_ChannelClosed channel_id user_channel_id counterparty_node_id reason \<Rightarrow>
          and_then (set_rebalance_enabled E False s) (\<lambda>_ s.
            add_event_or_log E (ChannelClosed channel_id user_channel_id counterparty_node_id reason) s)
      | Ldk_SpliceNegotiated channel_id user_channel_id counterparty_node_id new_funding_txo \<Rightarrow>
          and_then (reserve_rebalance_slot_for_funding_tx E N (op_txid new_funding_txo) s) (\<lambda>_ s.
            add_event_or_log E
              (SplicePending channel_id user_channel_id counterparty_node_id new_funding_txo)
              (s\<lparr>splice_pending_inbox :=
                   deliver user_channel_id new_funding_txo (splice_pending_inbox s)\<rparr>))
      | Ldk_SpliceNegotiationFailed \<Rightarrow> (Ok True, s))"

definition handle_ldk_node_event :: "('s, 'e) event_env_scheme \<Rightarrow>
    ('w, 'l) lightning_wallet_scheme \<Rightarrow> Ldk_Event \<Rightarrow> ('s, 'w, 'x) node_state_scheme \<Rightarrow>
    (unit, unit) result \<times> ('s, 'w, 'x) node_state_scheme" where
  "handle_ldk_node_event E N event s =
     and_then (process_ldk_event E N event s) (\<lambda>acknowledge s.
       if acknowledge then
         (case outside_call (nd_event_handled N) s of
            (Panic m, s) \<Rightarrow> (Panic m, s)
          | (_, s) \<Rightarrow> (Ok (), s))
       else (Ok (), s))"

end
