(* ===== verification/Event_Reports.thy ===== *)
theory Event_Reports
  imports Wallet_Pay_Facts
begin

text \<open>
  What a handler that reports to the user does to the queue: the event is appended unless it
  belongs to a multi-path payment, and the preparations before it leave the queue alone.
\<close>

text \<open>Terminal events of multi-path payments go to their combined event instead.\<close>

fun absorbed :: "Event \<Rightarrow> ('s, 'x) event_queue_scheme \<Rightarrow> bool" where
  "absorbed (PaymentSuccessful i h p fee) s = (is_mpp_leg i s \<or> pending_mpp_events s h \<noteq> None)"
| "absorbed (PaymentFailed i h reason) s =
     (is_mpp_leg i s \<or> Option.bind h (pending_mpp_events s) \<noteq> None)"
| "absorbed _ s = False"

text \<open>
  They are of two kinds: those of registered legs, and those of a payment hash whose multi-path
  payment is still being set up.
\<close>

fun of_leg :: "Event \<Rightarrow> ('s, 'x) event_queue_scheme \<Rightarrow> bool" where
  "of_leg (PaymentSuccessful i h p fee) s = is_mpp_leg i s"
| "of_leg (PaymentFailed i h reason) s = is_mpp_leg i s"
| "of_leg _ s = False"

definition held :: "Event \<Rightarrow> ('s, 'x) event_queue_scheme \<Rightarrow> PaymentHash \<Rightarrow> Event list \<Rightarrow> bool" where
  "held e s h es \<longleftrightarrow> \<not> of_leg e s \<and> terminal_payment_hash e = Some h \<and> pending_mpp_events s h = Some es"

lemma absorbed_iff: "absorbed e s \<longleftrightarrow> of_leg e s \<or> (\<exists>h es. held e s h es)"
  by (cases e) (auto simp: held_def bind_eq_Some_conv split: option.splits)

lemma add_event_held:
  "held e s h es \<Longrightarrow>
   add_event E e s = (Ok (), s\<lparr>pending_mpp_events := (pending_mpp_events s)(h \<mapsto> es @ [e])\<rparr>)"
  by (cases e) (auto simp: held_def add_event_def buffer_or_push_def)

lemma held_cong:
  "pending_mpp_events t = pending_mpp_events s \<Longrightarrow> (\<And>i. is_mpp_leg i t = is_mpp_leg i s) \<Longrightarrow>
   held e t h es = held e s h es"
  by (cases e) (auto simp: held_def)

lemma add_event_push: "\<not> absorbed e s \<Longrightarrow> add_event E e s = push_event E e s"
  by (cases e) (auto simp: add_event_def buffer_or_push_def split: option.splits)

lemma absorbed_cong:
  "pending_mpp_events t = pending_mpp_events s \<Longrightarrow> (\<And>i. is_mpp_leg i t = is_mpp_leg i s) \<Longrightarrow>
   absorbed e t = absorbed e s"
  by (cases e) auto

text \<open>What the handler does before it queues the event leaves the queue and the world alone.\<close>

definition prepared :: "('s, 'w, 'x) wallet_state_scheme \<Rightarrow> ('s, 'w, 'x) wallet_state_scheme \<Rightarrow> bool" where
  "prepared s t \<longleftrightarrow> queue t = queue s \<and> outside t = outside s
     \<and> pending_mpp_events t = pending_mpp_events s \<and> (\<forall>i. is_mpp_leg i t = is_mpp_leg i s)"

lemma prepared_disk_write: "prepared s t \<Longrightarrow> prepared s (snd (disk_write E p q k d t))"
  by (simp add: disk_write_def prepared_def is_mpp_leg_def split: prod.split)

lemma prepared_metadata:
  assumes "prepared s t" and "\<not> is_mpp_leg i t" and "\<And>p. md_ty m \<noteq> MppPayment p"
  shows "prepared s (t\<lparr>tx_metadata := (tx_metadata t)(i \<mapsto> m)\<rparr>)"
  using assms by (auto simp: prepared_def is_mpp_leg_def split: TxType.split)

lemma prepared_refl [simp]: "prepared s s"
  by (simp add: prepared_def)

lemma is_mpp_leg_iff:
  "is_mpp_leg i s \<longleftrightarrow> (\<exists>m p. tx_metadata s i = Some m \<and> md_ty m = MppPayment p)"
  by (cases "tx_metadata s i") (auto simp: is_mpp_leg_def split: TxType.splits)

lemma prepared_put:
  "\<not> is_mpp_leg i s \<Longrightarrow> (\<And>p. md_ty m \<noteq> MppPayment p) \<Longrightarrow>
   prepared s (snd (persist_entry E i m (s\<lparr>tx_metadata := (tx_metadata s)(i \<mapsto> m)\<rparr>)))"
  by (simp add: persist_entry_def prepared_disk_write prepared_metadata)

lemma prepared_set_preimage: "prepared s (snd (set_preimage E i p s))"
  unfolding set_preimage_def Let_def
  by (auto split: option.split TxType.split PaymentType.split intro!: prepared_put simp: is_mpp_leg_iff)

lemma outside_push_event [simp]: "outside (snd (push_event E e s)) = outside s"
  using local_push_event [of s s E e] by (simp add: local_step_def)

text \<open>
  A handler that hands one event to the queue: the event is at the end of it, or, for a hash whose
  multi-path payment is being set up, in its buffer; an event of a registered leg can cause the
  combined event. In each case the queue grows by at most one.
\<close>

definition reported :: "Event \<Rightarrow> ('s, 'w, 'x) wallet_state_scheme \<Rightarrow> ('s, 'w, 'x) wallet_state_scheme \<Rightarrow> bool" where
  "reported e s t \<longleftrightarrow> (\<not> absorbed e s \<longrightarrow> queue t = queue s @ [e])
     \<and> (\<forall>h es. held e s h es \<longrightarrow> queue t = queue s
          \<and> pending_mpp_events t = (pending_mpp_events s)(h \<mapsto> es @ [e]))
     \<and> (\<exists>new. queue t = queue s @ new \<and> length new \<le> 1)"

definition silent :: "('s, 'w, 'x) wallet_state_scheme \<Rightarrow> ('s, 'w, 'x) wallet_state_scheme \<Rightarrow> bool" where
  "silent s t \<longleftrightarrow> queue t = queue s \<and> pending_mpp_events t = pending_mpp_events s"

lemma disk_write_queue: "queue (snd (disk_write E p q k d t)) = queue t"
  by (simp add: disk_write_def split: prod.split)

lemma record_mpp_leg_queue: "queue (snd (record_mpp_leg E i r s)) = queue s"
  unfolding record_mpp_leg_def Let_def
  by (auto split: option.split TxType.split result.split simp del: map_option_case
      simp: persist_entry_def disk_write_queue intro!: and_then_state [where P = "\<lambda>t. queue t = queue s"])

lemma add_event_grows: "\<exists>new. queue (snd (add_event E e s)) = queue s @ new \<and> length new \<le> 1"
proof (cases "of_leg e s")
  case True
  have leg: "\<exists>new. queue (snd (and_then (infallible (record_mpp_leg E i r s)) (push_combined_mpp E)))
      = queue s @ new \<and> length new \<le> 1" for i r
  proof -
    obtain c :: "(io_error, _) result" and t where c: "infallible (record_mpp_leg E i r s) = (c, t)" by fastforce
    then have t: "queue t = queue s" using record_mpp_leg_queue [of E i r s] by (metis snd_conv snd_infallible)
    show ?thesis
    proof (cases c)
      case (Ok out)
      have "queue (snd (push_combined_mpp E out t)) = queue t \<or> (\<exists>e. queue (snd (push_combined_mpp E out t)) = queue t @ [e])"
        by (auto simp: push_combined_mpp_def split: option.split MppOutcome.split)
      with c Ok t show ?thesis by auto
    qed (use c t in simp_all)
  qed
  with True show ?thesis by (cases e) (simp_all add: add_event_def)
next
  case False
  show ?thesis
  proof (cases "absorbed e s")
    case True
    then obtain h es where "held e s h es" using False absorbed_iff by blast
    from add_event_held [OF this, of E] show ?thesis by simp
  qed (simp add: add_event_push)
qed

lemma add_event_reports:
  assumes "prepared s t"
  shows "reported e s (snd (add_event E e t))"
proof -
  from assms have same: "absorbed e t = absorbed e s" "held e t h es = held e s h es" "queue t = queue s"
    "pending_mpp_events t = pending_mpp_events s" for h es
    using absorbed_cong [of t s e] held_cong [of t s e h es] by (simp_all add: prepared_def)
  have "held e t h es \<Longrightarrow> queue (snd (add_event E e t)) = queue t
      \<and> pending_mpp_events (snd (add_event E e t)) = (pending_mpp_events t)(h \<mapsto> es @ [e])" for h es
    by (simp add: add_event_held)
  moreover have "\<not> absorbed e t \<Longrightarrow> queue (snd (add_event E e t)) = queue t @ [e]"
    by (simp add: add_event_push)
  ultimately show ?thesis using same add_event_grows [of E e t] by (simp add: reported_def)
qed

lemma reported_after:
  "reported e s t \<Longrightarrow> queue u = queue t \<Longrightarrow> pending_mpp_events u = pending_mpp_events t \<Longrightarrow> reported e s u"
  by (simp add: reported_def)

lemma reported_before:
  assumes "reported e t u" and "prepared s t"
  shows "reported e s u"
  using assms absorbed_cong [of t s e] held_cong [of t s e] by (simp add: reported_def prepared_def)

end
