(* ===== verification/Node_Props.thy ===== *)
theory Node_Props
  imports Ldk_Events Event_Reports Sample_Wallet
begin

text \<open>
  The node's events: an event is acknowledged to the node only once the event it causes for the
  user is queued and on disk.
\<close>

fun user_event :: "('w, 'l) lightning_wallet_scheme \<Rightarrow> 'w \<Rightarrow> Ldk_Event \<Rightarrow> Event option" where
  "user_event N w (Ldk_PaymentSuccessful (Some i) h (Some p) fee) =
     Some (PaymentSuccessful (SelfCustodial i) h p fee)"
| "user_event N w (Ldk_PaymentFailed (Some i) h reason) = Some (PaymentFailed (SelfCustodial i) h reason)"
| "user_event N w (Ldk_PaymentReceived (Some i) h a records) =
     Some (PaymentReceived (SelfCustodial i) h a records (Option.bind (nd_payment N i w) skimmed_fee))"
| "user_event N w (Ldk_ChannelReady c u (Some p) (Some txo)) = Some (ChannelOpened c u p txo)"
| "user_event N w (Ldk_ChannelClosed c u p reason) = Some (ChannelClosed c u p reason)"
| "user_event N w (Ldk_SpliceNegotiated c u p txo) = Some (SplicePending c u p txo)"
| "user_event N w _ = None"

fun is_received :: "Ldk_Event \<Rightarrow> bool" where
  "is_received (Ldk_PaymentReceived _ _ _ _) = True"
| "is_received _ = False"

lemma prepared_reserve: "prepared s (snd (reserve_rebalance_slot_for_funding_tx E N txid s))"
proof (cases "tx_metadata s (SelfCustodial txid)")
  case None
  let ?m = "\<lparr>md_time = nd_clock N (outside s), md_ty = PendingRebalance\<rparr>"
  let ?put = "persist_entry E (SelfCustodial txid) ?m (s\<lparr>tx_metadata := (tx_metadata s)(SelfCustodial txid \<mapsto> ?m)\<rparr>)"
  have "prepared s (snd ?put)" using None by (intro prepared_put) (auto simp: is_mpp_leg_iff)
  moreover have "snd (upsert E (SelfCustodial txid) ?m s) = snd ?put"
    by (cases ?put; cases "fst ?put") (simp_all add: upsert_def do_set_def)
  ultimately show ?thesis using None by (simp add: reserve_rebalance_slot_for_funding_tx_def)
qed (simp add: reserve_rebalance_slot_for_funding_tx_def)

lemma prepared_set_rebalance: "prepared s (snd (set_rebalance_enabled E b s))"
proof -
  let ?w = "RebalanceEnabledCache_write E b s"
  have "prepared s (snd ?w)" by (simp add: RebalanceEnabledCache_write_def prepared_disk_write)
  then show ?thesis
    by (cases ?w; cases "fst ?w")
      (auto simp: set_rebalance_enabled_def RebalanceEnabledCache_set_def prepared_def is_mpp_leg_def)
qed

text \<open>Where the event of a prepared state ends up, and what is on disk if that went well.\<close>

definition delivered :: "('s, 'e) event_env_scheme \<Rightarrow> ('s \<Rightarrow> kv_view) \<Rightarrow> Event \<Rightarrow> bool \<Rightarrow>
    ('s, 'w, 'x) wallet_state_scheme \<Rightarrow> ('s, 'w, 'x) wallet_state_scheme \<Rightarrow> bool" where
  "delivered E view e ok s t \<longleftrightarrow> outside t = outside s
     \<and> (\<not> absorbed e s \<longrightarrow> queue t = queue s @ [e]
          \<and> (ok \<longrightarrow> view (disk t) queue_key = Some (EventQueueSerWrapper_encode E (queue t))))
     \<and> (\<forall>h es. held e s h es \<longrightarrow> queue t = queue s
          \<and> pending_mpp_events t = (pending_mpp_events s)(h \<mapsto> es @ [e]))"

context event_ctx
begin

lemma add_event_delivered:
  assumes "prepared s t" and "add_event_or_log E e t = (Ok ok, t')"
  shows "delivered E view e ok s t' \<and> (\<forall>h es. held e s h es \<longrightarrow> ok)"
proof -
  obtain r u where u: "add_event E e t = (r, u)" by fastforce
  with assms(2) have t': "t' = u \<and> ok = is_ok r" by (cases r) (simp_all add: add_event_or_log_def)
  have "outside u = outside s"
    using local_add_event [OF local_step_refl, of t E e] u assms(1) by (simp add: local_step_def prepared_def)
  moreover have "queue u = queue s @ [e] \<and> (is_ok r \<longrightarrow> view (disk u) queue_key = Some (EventQueueSerWrapper_encode E (queue u)))"
    if "\<not> absorbed e s"
  proof -
    from that have "\<not> absorbed e t" using assms(1) absorbed_cong [of t s e] by (simp add: prepared_def)
    then have "push_event E e t = (r, u)" using u add_event_push [of e t E] by simp
    then show ?thesis
      using push_event_queue [of E e t] queue_written [of "t\<lparr>queue := queue t @ [e]\<rparr>" u] assms(1)
      by (auto simp: push_event_def is_ok_iff prepared_def)
  qed
  moreover have "r = Ok () \<and> queue u = queue s \<and> pending_mpp_events u = (pending_mpp_events s)(h \<mapsto> es @ [e])"
    if "held e s h es" for h es
  proof -
    from that have "held e t h es" using assms(1) held_cong [of t s e h es] by (simp add: prepared_def)
    from add_event_held [OF this, of E] u assms(1) show ?thesis by (auto simp: prepared_def)
  qed
  ultimately show ?thesis by (auto simp: delivered_def t')
qed

lemma unwrap_option_and_then:
  "and_then (unwrap_option x, s) f = (Ok b, s') \<longleftrightarrow> (\<exists>a. x = Some a \<and> f a s = (Ok b, s'))"
  by (cases x) auto

lemma process_delivered:
  assumes "user_event N (outside s) ev = Some e" and "process_ldk_event E N ev s = (Ok ack, s')"
  shows "delivered E view e (ack \<and> \<not> is_received ev) s s' \<and> (is_received ev \<longrightarrow> ack)
    \<and> (\<forall>h es. held e s h es \<longrightarrow> ack)"
proof (cases ev)
  case (Ldk_PaymentSuccessful i h p fee)
  then obtain i' p' where ip: "i = Some i'" "p = Some p'" using assms(1) by (cases i; cases p) auto
  obtain r t where t: "set_preimage E (SelfCustodial i') p' s = (r, t)" by fastforce
  have "prepared s t" using prepared_set_preimage [of s E "SelfCustodial i'" p'] t by simp
  moreover have "add_event_or_log E e t = (Ok ack, s')"
    using assms Ldk_PaymentSuccessful ip t by (cases r) (auto simp: process_ldk_event_def)
  ultimately show ?thesis using add_event_delivered Ldk_PaymentSuccessful by simp
next
  case (Ldk_PaymentFailed i h reason)
  with assms have "add_event_or_log E e s = (Ok ack, s')"
    by (cases i) (auto simp: process_ldk_event_def)
  from add_event_delivered [OF prepared_refl this] Ldk_PaymentFailed show ?thesis by simp
next
  case (Ldk_PaymentReceived i h a records)
  then obtain i' where i: "i = Some i'" using assms(1) by (cases i) auto
  with assms Ldk_PaymentReceived obtain ok t where t: "add_event_or_log E e s = (Ok ok, t)"
    "s' = t\<lparr>payment_receipts := payment_receipts t + 1\<rparr>" "ack" by (auto simp: process_ldk_event_def Let_def)
  from add_event_delivered [OF prepared_refl t(1)] t(2,3) Ldk_PaymentReceived show ?thesis
    by (simp add: delivered_def)
next
  case (Ldk_ChannelReady c u p txo)
  with assms obtain ok t where t: "add_event_or_log E e s = (Ok ok, t)" "ack = ok"
    "s' = (if ok then t\<lparr>channels_signalled := channels_signalled t @ [u]\<rparr> else t)"
    by (cases p; cases txo) (auto simp: process_ldk_event_def split: if_splits)
  from add_event_delivered [OF prepared_refl t(1)] t(2,3) Ldk_ChannelReady show ?thesis
    by (simp add: delivered_def)
next
  case (Ldk_ChannelClosed c u p reason)
  with assms obtain t where t: "set_rebalance_enabled E False s = (Ok (), t)"
    "add_event_or_log E e t = (Ok ack, s')" by (auto simp: process_ldk_event_def)
  have "prepared s t" using prepared_set_rebalance [of s E False] t(1) by simp
  from add_event_delivered [OF this t(2)] Ldk_ChannelClosed show ?thesis by simp
next
  case (Ldk_SpliceNegotiated c u p txo)
  with assms obtain t where t: "reserve_rebalance_slot_for_funding_tx E N (op_txid txo) s = (Ok (), t)"
    "add_event_or_log E e (t\<lparr>splice_pending_inbox := deliver u txo (splice_pending_inbox t)\<rparr>) = (Ok ack, s')"
    by (auto simp: process_ldk_event_def)
  have "prepared s (t\<lparr>splice_pending_inbox := deliver u txo (splice_pending_inbox t)\<rparr>)"
    using prepared_reserve [of s E N "op_txid txo"] t(1) by (simp add: prepared_def is_mpp_leg_def)
  from add_event_delivered [OF this t(2)] Ldk_SpliceNegotiated show ?thesis by simp
qed (use assms in simp_all)

end

text \<open>
  C5. Where the event for the user goes when the handler of the node's events returns, and whether
  the node was told that its event was handled (it is told nothing else, and otherwise hands the
  event out again). An event that belongs to no multi-path payment is at the end of the queue; if
  the node was told, the queue with the event is on disk, except for a received payment: the node
  is always told that one was handled, also where the queue could not be written. A terminal
  event of a payment hash whose multi-path payment is being set up joins its buffer, which is in
  memory only, and the node is told. (The events of registered legs go to the combined event of
  C1 and C2.)
\<close>

theorem ldk_event_not_lost:
  assumes "event_ctx E view" and "user_event N (outside s) ev = Some e"
    and "handle_ldk_node_event E N ev s = (Ok (), s')"
  shows "\<exists>told. outside s' = (if told then snd (nd_event_handled N (outside s)) else outside s)
    \<and> (\<not> absorbed e s \<longrightarrow> queue s' = queue s @ [e]
        \<and> (told \<and> \<not> is_received ev \<longrightarrow> view (disk s') queue_key = Some (EventQueueSerWrapper_encode E (queue s'))))
    \<and> (is_received ev \<longrightarrow> told)
    \<and> (\<forall>h es. held e s h es \<longrightarrow> told \<and> queue s' = queue s
        \<and> pending_mpp_events s' = (pending_mpp_events s)(h \<mapsto> es @ [e]))"
proof -
  from assms(3) obtain ack t where t: "process_ldk_event E N ev s = (Ok ack, t)"
    by (auto simp: handle_ldk_node_event_def)
  have "s' = (if ack then t\<lparr>outside := snd (nd_event_handled N (outside t))\<rparr> else t)"
    using assms(3) t by (auto simp: handle_ldk_node_event_def outside_call_def split: prod.splits result.splits)
  with event_ctx.process_delivered [OF assms(1,2) t] show ?thesis
    by (intro exI [of _ ack]) (auto simp: delivered_def)
qed

definition sample_node_state :: "(mem_kv, unit) node_state" where
  "sample_node_state = wallet_state.extend (sample_state ()) (node_state.fields 0 [] inbox_init)"

theorem ldk_event_not_lost_witness:
  "\<exists>s'. handle_ldk_node_event sample_wallet_env (sample_node 1) (Ldk_ChannelClosed [1] 4 [2] None)
      sample_node_state = (Ok (), s') \<and> queue s' = [ChannelClosed [1] 4 [2] None]"
proof -
  let ?run = "handle_ldk_node_event sample_wallet_env (sample_node 1) (Ldk_ChannelClosed [1] 4 [2] None)
    sample_node_state"
  have "fst ?run = Ok ()" by code_simp
  then obtain s' where run: "?run = (Ok (), s')" by (metis prod.collapse)
  have "queue sample_node_state = []" by code_simp
  with ldk_event_not_lost [OF sample_wal.event_ctx_axioms _ run] run show ?thesis by auto
qed

end
