(* ===== verification/Transactions.thy ===== *)
theory Transactions
  imports Wallet_Api
begin

text \<open>
  The list of transactions (\<open>Wallet::list_transactions\<close> in \<open>lib.rs\<close>): the payments of both wallets
  and the splice-outs, with the transfers between the wallets folded into the payment that
  triggered them and the legs of a multi-path payment merged. The two hash maps are association
  lists; the order in which they are iterated is an argument. Release builds compile the debug
  assertions away.
\<close>

record InternalTransfer =
  it_receive_fee :: "Amount option"
  it_send_fee :: "Amount option"
  it_transaction :: "Transaction option"

definition InternalTransfer_default :: InternalTransfer where
  "InternalTransfer_default = \<lparr>it_receive_fee = None, it_send_fee = None, it_transaction = None\<rparr>"

record listing =
  li_res :: "Transaction list"
  li_transfers :: "(PaymentId \<times> InternalTransfer) list"
  li_mpp :: "(PaymentId \<times> MppMerge) list"

text \<open>\<open>*map.entry(k).or_insert(d)\<close>, changed by \<open>f\<close>.\<close>

definition entry_or_insert :: "'k \<Rightarrow> 'v \<Rightarrow> ('v \<Rightarrow> 'v) \<Rightarrow> ('k \<times> 'v) list \<Rightarrow> ('k \<times> 'v) list" where
  "entry_or_insert k d f m = AList.update k (f (case map_of m k of Some v \<Rightarrow> v | None \<Rightarrow> d)) m"

definition push_tx :: "Transaction \<Rightarrow> listing \<Rightarrow> listing" where
  "push_tx tx acc = acc\<lparr>li_res := li_res acc @ [tx]\<rparr>"

definition on_transfer :: "PaymentId \<Rightarrow> InternalTransfer \<Rightarrow> (InternalTransfer \<Rightarrow> InternalTransfer) \<Rightarrow>
    listing \<Rightarrow> listing" where
  "on_transfer k d f acc = acc\<lparr>li_transfers := entry_or_insert k d f (li_transfers acc)\<rparr>"

definition on_mpp :: "PaymentId \<Rightarrow> (MppMerge \<Rightarrow> MppMerge) \<Rightarrow> listing \<Rightarrow> listing" where
  "on_mpp k f acc = acc\<lparr>li_mpp := entry_or_insert k MppMerge_default f (li_mpp acc)\<rparr>"

subsection \<open>The payments of the trusted wallet\<close>

definition trusted_transaction :: "TrustedPayment \<Rightarrow> PaymentType \<Rightarrow> duration \<Rightarrow> Transaction" where
  "trusted_transaction p ty time =
     \<lparr>tx_id = Trusted (p_id p), tx_status = p_status p, tx_outbound = p_outbound p,
      tx_amount = Some (p_amount p), tx_fee = Some (p_fee p), tx_payment_type = ty,
      tx_time_since_epoch = time\<rparr>"

definition list_trusted_payment :: "(PaymentId \<rightharpoonup> TxMetadata) \<Rightarrow> TrustedPayment \<Rightarrow> listing \<Rightarrow> listing" where
  "list_trusted_payment md p acc =
     (case md (Trusted (p_id p)) of
        Some m \<Rightarrow>
          (case md_ty m of
             TrustedToLightning trusted_payment _ trigger \<Rightarrow>
               on_transfer trigger InternalTransfer_default
                 (\<lambda>e. if p_id p = trusted_payment then e\<lparr>it_send_fee := Some (p_fee p)\<rparr> else e) acc
           | OnchainToLightning _ _ \<Rightarrow> acc
           | PaymentTriggeringTransferLightning ty \<Rightarrow>
               on_transfer (Trusted (p_id p)) InternalTransfer_default
                 (\<lambda>e. e\<lparr>it_transaction := Some (trusted_transaction p ty (md_time m))\<rparr>) acc
           | Payment ty \<Rightarrow>
               push_tx (trusted_transaction p ty
                 (if p_outbound p then md_time m else p_time_since_epoch p)) acc
           | MppPayment mp \<Rightarrow>
               on_mpp (surface_id mp) (\<lambda>e. MppMerge_accumulate e Leg_Trusted (total_amount_msat mp)
                 (milli_sats (p_fee p)) (p_status p) (mpp_ty mp) (md_time m)) acc
           | PendingRebalance \<Rightarrow> acc)
      | None \<Rightarrow>
          (if p_status p \<noteq> Completed then acc
           else push_tx (trusted_transaction p
             (if p_outbound p then OutgoingLightningBolt11 None else IncomingLightning)
             (p_time_since_epoch p)) acc))"

subsection \<open>The payments of the lightning wallet\<close>

definition expect_amount :: "amount_ops \<Rightarrow> u64 option \<Rightarrow> (unit, Amount option) result" where
  "expect_amount A msat = (case msat of
     None \<Rightarrow> Ok None
   | Some n \<Rightarrow> (case from_milli_sats A n of Ok a \<Rightarrow> Ok (Some a) | _ \<Rightarrow> Panic ''Must be valid''))"

definition should_surface_lightning_payment_without_metadata :: "TxStatus \<Rightarrow> PaymentKind \<Rightarrow> bool" where
  "should_surface_lightning_payment_without_metadata status kind \<longleftrightarrow>
     status = Completed \<or> (case kind of Onchain _ _ \<Rightarrow> True | _ \<Rightarrow> False)"

definition ln_transaction :: "PaymentDetails \<Rightarrow> Amount option \<Rightarrow> Amount option \<Rightarrow> duration \<Rightarrow>
    Transaction" where
  "ln_transaction d amount fee time =
     \<lparr>tx_id = SelfCustodial (pd_id d), tx_status = TxStatus_from_PaymentStatus (pd_status d),
      tx_outbound = (pd_direction d = Outbound), tx_amount = amount, tx_fee = fee,
      tx_payment_type = PaymentType_from_PaymentDetails d, tx_time_since_epoch = time\<rparr>"

definition lightning_payment_without_metadata_to_transaction ::
  "amount_ops \<Rightarrow> PaymentDetails \<Rightarrow> Amount option \<Rightarrow> (unit, Transaction option) result" where
  "lightning_payment_without_metadata_to_transaction A d fee =
     (let status = TxStatus_from_PaymentStatus (pd_status d)
      in if \<not> should_surface_lightning_payment_without_metadata status (pd_kind d) then Ok None
         else case expect_amount A (pd_amount_msat d) of
             Ok amount \<Rightarrow> Ok (Some (ln_transaction d amount fee (from_secs (pd_latest_update_timestamp d))))
           | Err e \<Rightarrow> Err e
           | Panic m \<Rightarrow> Panic m)"

fun kind_skimmed_fee :: "PaymentKind \<Rightarrow> u64 option" where
  "kind_skimmed_fee (Bolt11 _ _ fee) = fee"
| "kind_skimmed_fee _ = None"

definition or_zero :: "Amount option \<Rightarrow> Amount" where
  "or_zero a = (case a of Some a \<Rightarrow> a | None \<Rightarrow> 0)"

definition lightning_fee :: "amount_ops \<Rightarrow> PaymentDetails \<Rightarrow> Amount option \<Rightarrow> (unit, Amount option) result" where
  "lightning_fee A d receive_fee =
     (if pd_direction d = Outbound then
        (case pd_fee_paid_msat d of
           None \<Rightarrow> Ok (Some (or_zero receive_fee))
         | Some fee \<Rightarrow> (case from_milli_sats A fee of
               Ok a \<Rightarrow> Ok (Some (saturating_add A a (or_zero receive_fee)))
             | _ \<Rightarrow> Panic ''called `Result::unwrap()` on an `Err` value''))
      else Ok (Some (or_zero receive_fee)))"

text \<open>One payment of the lightning wallet, with its fees at hand.\<close>

definition list_lightning_payment_with :: "amount_ops \<Rightarrow> (PaymentId \<rightharpoonup> TxMetadata) \<Rightarrow> PaymentDetails \<Rightarrow>
    Amount option \<Rightarrow> Amount option \<Rightarrow> listing \<Rightarrow> (unit, unit) result \<times> listing" where
  "list_lightning_payment_with A md d receive_fee fee acc =
     (case md (SelfCustodial (pd_id d)) of
        Some m \<Rightarrow>
          (case md_ty m of
             TrustedToLightning _ lightning_payment trigger \<Rightarrow>
               (Ok (), on_transfer trigger InternalTransfer_default
                  (\<lambda>e. if pd_id d = lightning_payment
                       then e\<lparr>it_receive_fee := Some (or_zero receive_fee)\<rparr> else e) acc)
           | OnchainToLightning channel_txid triggering_txid \<Rightarrow>
               (if pd_id d = channel_txid then
                  and_then (expect_amount A (pd_fee_paid_msat d), acc) (\<lambda>send_fee acc.
                    (Ok (), on_transfer (SelfCustodial triggering_txid) InternalTransfer_default
                       (\<lambda>e. e\<lparr>it_send_fee := send_fee\<rparr>) acc))
                else (Ok (), on_transfer (SelfCustodial triggering_txid) InternalTransfer_default
                        (\<lambda>e. e) acc))
           | PaymentTriggeringTransferLightning _ \<Rightarrow>
               and_then (expect_amount A (pd_amount_msat d), acc) (\<lambda>amount acc.
                 (Ok (), on_transfer (SelfCustodial (pd_id d))
                    (InternalTransfer_default\<lparr>it_receive_fee := receive_fee\<rparr>)
                    (\<lambda>e. e\<lparr>it_transaction := Some (ln_transaction d amount fee (md_time m))\<rparr>) acc))
           | Payment _ \<Rightarrow>
               and_then (expect_amount A (pd_amount_msat d), acc) (\<lambda>amount acc.
                 (Ok (), push_tx (ln_transaction d amount fee (md_time m)) acc))
           | MppPayment mp \<Rightarrow>
               (Ok (), on_mpp (surface_id mp) (\<lambda>e. MppMerge_accumulate e Leg_Lightning
                  (total_amount_msat mp) (milli_sats (or_zero fee))
                  (TxStatus_from_PaymentStatus (pd_status d)) (PaymentType_from_PaymentDetails d)
                  (md_time m)) acc)
           | PendingRebalance \<Rightarrow> (Ok (), acc))
      | None \<Rightarrow>
          and_then (lightning_payment_without_metadata_to_transaction A d fee, acc) (\<lambda>tx acc.
            (Ok (), case tx of Some tx \<Rightarrow> push_tx tx acc | None \<Rightarrow> acc)))"

definition list_lightning_payment :: "amount_ops \<Rightarrow> (PaymentId \<rightharpoonup> TxMetadata) \<Rightarrow> PaymentDetails \<Rightarrow>
    listing \<Rightarrow> (unit, unit) result \<times> listing" where
  "list_lightning_payment A md d acc =
     and_then (expect_amount A (kind_skimmed_fee (pd_kind d)), acc) (\<lambda>receive_fee acc.
     and_then (lightning_fee A d receive_fee, acc) (\<lambda>fee acc.
       list_lightning_payment_with A md d receive_fee fee acc))"

fun list_each :: "('a \<Rightarrow> listing \<Rightarrow> (unit, unit) result \<times> listing) \<Rightarrow> 'a list \<Rightarrow> listing \<Rightarrow>
    (unit, unit) result \<times> listing" where
  "list_each f [] acc = (Ok (), acc)"
| "list_each f (x # xs) acc = and_then (f x acc) (\<lambda>_ acc. list_each f xs acc)"

subsection \<open>Splice-outs, transfers and multi-path payments\<close>

definition list_splice_out :: "amount_ops \<Rightarrow> PaymentDetails \<Rightarrow> listing \<Rightarrow> (unit, unit) result \<times> listing" where
  "list_splice_out A d acc =
     and_then (expect_amount A (pd_amount_msat d), acc) (\<lambda>amount acc.
     and_then (expect_amount A (pd_fee_paid_msat d), acc) (\<lambda>fee acc.
       (Ok (), push_tx (ln_transaction d amount fee (from_secs (pd_latest_update_timestamp d))) acc)))"

definition in_order :: "('k list \<Rightarrow> 'k list) \<Rightarrow> ('k \<times> 'v) list \<Rightarrow> ('k \<times> 'v) list" where
  "in_order order m = map (\<lambda>k. (k, the (map_of m k))) (order (map fst m))"

definition list_transfer :: "amount_ops \<Rightarrow> PaymentId \<times> InternalTransfer \<Rightarrow> listing \<Rightarrow>
    (unit, unit) result \<times> listing" where
  "list_transfer A entry acc =
     (case entry of (_, tx_info) \<Rightarrow>
        (Ok (), case it_transaction tx_info of
           Some transaction \<Rightarrow>
             push_tx (transaction\<lparr>tx_fee := Some (saturating_add A
                 (saturating_add A (or_zero (tx_fee transaction)) (or_zero (it_receive_fee tx_info)))
                 (or_zero (it_send_fee tx_info)))\<rparr>) acc
         | None \<Rightarrow> acc))"

definition list_mpp :: "amount_ops \<Rightarrow> PaymentId \<times> MppMerge \<Rightarrow> listing \<Rightarrow> (unit, unit) result \<times> listing" where
  "list_mpp A entry acc =
     (case entry of (surface, merge) \<Rightarrow>
        and_then (MppMerge_into_transaction A merge surface, acc) (\<lambda>tx acc. (Ok (), push_tx tx acc)))"

definition collect_transactions :: "amount_ops \<Rightarrow> (PaymentId list \<Rightarrow> PaymentId list) \<Rightarrow>
    (PaymentId \<rightharpoonup> TxMetadata) \<Rightarrow> TrustedPayment list \<Rightarrow> PaymentDetails list \<Rightarrow> PaymentDetails list \<Rightarrow>
    (unit, Transaction list) result" where
  "collect_transactions A order md trusted_payments lightning_payments splice_outs =
     fst (and_then (list_each (list_lightning_payment A md)
           (sort_key pd_latest_update_timestamp lightning_payments)
           (fold (list_trusted_payment md) trusted_payments \<lparr>li_res = [], li_transfers = [], li_mpp = []\<rparr>))
         (\<lambda>_ acc. and_then (list_each (list_splice_out A) splice_outs acc)
         (\<lambda>_ acc. and_then (list_each (list_transfer A) (in_order order (li_transfers acc)) acc)
         (\<lambda>_ acc. and_then (list_each (list_mpp A) (in_order order (li_mpp acc)) acc)
         (\<lambda>_ acc. (Ok (sort_key tx_time_since_epoch (li_res acc)), acc))))))"

definition list_transactions :: "('s, 'e) wallet_env_scheme \<Rightarrow> 'w wallet \<Rightarrow>
    (PaymentId list \<Rightarrow> PaymentId list) \<Rightarrow> ('s, 'w, 'x) wallet_state_scheme \<Rightarrow>
    (WalletError, Transaction list) result \<times> ('s, 'w, 'x) wallet_state_scheme" where
  "list_transactions E X order s =
     (case outside_call (tw_list_payments (trusted X)) s of (trusted_payments, s) \<Rightarrow>
      case read_splice_outs E s of (splice_outs, s) \<Rightarrow>
      and_then (infallible (splice_outs, s)) (\<lambda>splice_outs s.
      and_then (map_err TrustedFailure (trusted_payments, s)) (\<lambda>trusted_payments s.
        infallible (collect_transactions (amounts X) order (tx_metadata s) trusted_payments
          (ln_list_payments (ln_wallet X) (outside s)) splice_outs, s))))"

end
