(* ===== verification/Transaction_Facts.thy ===== *)
theory Transaction_Facts
  imports Transactions "HOL-Library.Multiset"
begin

text \<open>
  What the list of transactions contains, as a function of the metadata: which payments are
  listed as they are, which trigger a transfer and stand for it, and which are legs of a
  multi-path payment. The invariant \<open>collected\<close> relates these to the accumulators of the loops.
\<close>

fun is_trigger_type :: "TxType \<Rightarrow> bool" where
  "is_trigger_type (PaymentTriggeringTransferLightning _) = True"
| "is_trigger_type _ = False"

fun is_plain_type :: "TxType \<Rightarrow> bool" where
  "is_plain_type (Payment _) = True"
| "is_plain_type _ = False"

fun surface_of_type :: "TxType \<Rightarrow> PaymentId option" where
  "surface_of_type (MppPayment mp) = Some (surface_id mp)"
| "surface_of_type _ = None"

definition is_trigger :: "(PaymentId \<rightharpoonup> TxMetadata) \<Rightarrow> PaymentId \<Rightarrow> bool" where
  "is_trigger md i = (case md i of Some m \<Rightarrow> is_trigger_type (md_ty m) | None \<Rightarrow> False)"

definition surface_of :: "(PaymentId \<rightharpoonup> TxMetadata) \<Rightarrow> PaymentId \<Rightarrow> PaymentId option" where
  "surface_of md i = (case md i of Some m \<Rightarrow> surface_of_type (md_ty m) | None \<Rightarrow> None)"

text \<open>Listed as they are: payments with payment metadata, and settled ones without metadata.\<close>

definition plain_trusted :: "(PaymentId \<rightharpoonup> TxMetadata) \<Rightarrow> TrustedPayment \<Rightarrow> bool" where
  "plain_trusted md p = (case md (Trusted (p_id p)) of
     Some m \<Rightarrow> is_plain_type (md_ty m) | None \<Rightarrow> p_status p = Completed)"

definition plain_lightning :: "(PaymentId \<rightharpoonup> TxMetadata) \<Rightarrow> PaymentDetails \<Rightarrow> bool" where
  "plain_lightning md d = (case md (SelfCustodial (pd_id d)) of
     Some m \<Rightarrow> is_plain_type (md_ty m)
   | None \<Rightarrow> should_surface_lightning_payment_without_metadata
               (TxStatus_from_PaymentStatus (pd_status d)) (pd_kind d))"

definition trusted_pid :: "TrustedPayment \<Rightarrow> PaymentId" where
  "trusted_pid p = Trusted (p_id p)"

definition ln_pid :: "PaymentDetails \<Rightarrow> PaymentId" where
  "ln_pid d = SelfCustodial (pd_id d)"

text \<open>Transfers that have their transaction.\<close>

definition shown :: "(PaymentId \<times> InternalTransfer) list \<Rightarrow> PaymentId set" where
  "shown m = {k. \<exists>e. map_of m k = Some e \<and> it_transaction e \<noteq> None}"

definition collected :: "(PaymentId \<rightharpoonup> TxMetadata) \<Rightarrow> PaymentId set \<Rightarrow> PaymentId list \<Rightarrow> listing \<Rightarrow> bool" where
  "collected md I ids acc \<longleftrightarrow>
     map tx_id (li_res acc) = ids
   \<and> distinct (map fst (li_transfers acc)) \<and> distinct (map fst (li_mpp acc))
   \<and> (\<forall>k e tx. map_of (li_transfers acc) k = Some e \<longrightarrow> it_transaction e = Some tx \<longrightarrow> tx_id tx = k)
   \<and> shown (li_transfers acc) = {i \<in> I. is_trigger md i}
   \<and> set (map fst (li_mpp acc)) = {k. \<exists>i \<in> I. surface_of md i = Some k}"

lemma entry_or_insert_simps [simp]:
  "map_of (entry_or_insert k d f m) = (map_of m)(k \<mapsto> f (case map_of m k of Some v \<Rightarrow> v | None \<Rightarrow> d))"
  "fst ` set (entry_or_insert k d f m) = insert k (fst ` set m)"
  by (simp_all add: entry_or_insert_def dom_update)

lemma distinct_entry_or_insert [simp]:
  "distinct (map fst m) \<Longrightarrow> distinct (map fst (entry_or_insert k d f m))"
  by (simp add: entry_or_insert_def distinct_update)

lemma collected_push:
  "collected md I ids acc \<Longrightarrow> \<not> is_trigger md i \<Longrightarrow> surface_of md i = None \<Longrightarrow> tx_id tx = i \<Longrightarrow>
   collected md (insert i I) (ids @ [i]) (push_tx tx acc)"
  by (auto simp: collected_def push_tx_def)

lemma collected_skip:
  "collected md I ids acc \<Longrightarrow> \<not> is_trigger md i \<Longrightarrow> surface_of md i = None \<Longrightarrow>
   collected md (insert i I) ids acc"
  by (auto simp: collected_def)

lemma collected_fee:
  assumes "collected md I ids acc" and "\<not> is_trigger md i" and "surface_of md i = None"
    and "\<And>e. it_transaction (f e) = it_transaction e" and "it_transaction d = None"
  shows "collected md (insert i I) ids (on_transfer k d f acc)"
proof -
  have "shown (entry_or_insert k d f (li_transfers acc)) = shown (li_transfers acc)"
    using assms(4,5) by (auto simp: shown_def split: option.splits)
  with assms show ?thesis
    by (auto simp: collected_def on_transfer_def split: option.splits)
qed

lemma collected_trigger:
  assumes "collected md I ids acc" and "is_trigger md i" and "surface_of md i = None"
    and "\<And>e. it_transaction (f e) = Some tx" and "tx_id tx = i"
  shows "collected md (insert i I) ids (on_transfer i d f acc)"
proof -
  have "shown (entry_or_insert i d f (li_transfers acc)) = insert i (shown (li_transfers acc))"
    using assms(4) by (auto simp: shown_def)
  with assms show ?thesis by (auto simp: collected_def on_transfer_def)
qed

lemma collected_leg:
  assumes "collected md I ids acc" and "\<not> is_trigger md i" and "surface_of md i = Some k"
  shows "collected md (insert i I) ids (on_mpp k f acc)"
  using assms by (auto simp: collected_def on_mpp_def)

lemma collected_trusted:
  assumes "collected md I ids acc"
  shows "collected md (insert (trusted_pid p) I)
    (ids @ (if plain_trusted md p then [trusted_pid p] else [])) (list_trusted_payment md p acc)"
proof (cases "md (trusted_pid p)")
  case None
  then show ?thesis
    using assms by (auto simp: list_trusted_payment_def plain_trusted_def trusted_pid_def is_trigger_def
        surface_of_def trusted_transaction_def intro: collected_push collected_skip)
next
  case (Some m)
  then show ?thesis
    using assms by (cases "md_ty m") (auto simp: list_trusted_payment_def plain_trusted_def trusted_pid_def
        is_trigger_def surface_of_def trusted_transaction_def
        intro: collected_push collected_skip collected_fee collected_trigger collected_leg
        simp: InternalTransfer_default_def)
qed

lemma collected_trusted_all:
  "collected md I ids acc \<Longrightarrow>
   collected md (I \<union> trusted_pid ` set ps) (ids @ map trusted_pid (filter (plain_trusted md) ps))
     (fold (list_trusted_payment md) ps acc)"
proof (induction ps arbitrary: I ids acc)
  case (Cons p ps)
  from Cons.IH [OF collected_trusted [OF Cons.prems, of p]] show ?case by (cases "plain_trusted md p") simp_all
qed simp

lemma collected_lightning:
  assumes "collected md I ids acc" and "list_lightning_payment A md d acc = (Ok (), acc')"
  shows "collected md (insert (ln_pid d) I) (ids @ (if plain_lightning md d then [ln_pid d] else [])) acc'"
proof -
  obtain rf fee where run: "list_lightning_payment_with A md d rf fee acc = (Ok (), acc')"
    using assms(2) by (auto simp: list_lightning_payment_def)
  show ?thesis
  proof (cases "md (ln_pid d)")
    case None
    then show ?thesis
      using assms(1) run by (auto simp: list_lightning_payment_with_def plain_lightning_def ln_pid_def
          is_trigger_def surface_of_def ln_transaction_def
          lightning_payment_without_metadata_to_transaction_def Let_def
          split: if_splits result.splits intro: collected_push collected_skip)
  next
    case (Some m)
    then show ?thesis
      using assms(1) run by (cases "md_ty m") (auto simp: list_lightning_payment_with_def plain_lightning_def
          ln_pid_def is_trigger_def surface_of_def ln_transaction_def InternalTransfer_default_def
          split: if_splits
          intro: collected_push collected_skip collected_fee collected_trigger collected_leg)
  qed
qed

lemma collected_lightning_all:
  "collected md I ids acc \<Longrightarrow> list_each (list_lightning_payment A md) ds acc = (Ok (), acc') \<Longrightarrow>
   collected md (I \<union> ln_pid ` set ds) (ids @ map ln_pid (filter (plain_lightning md) ds)) acc'"
proof (induction ds arbitrary: I ids acc)
  case (Cons d ds)
  from Cons.prems(2) obtain acc1 where "list_lightning_payment A md d acc = (Ok (), acc1)"
    "list_each (list_lightning_payment A md) ds acc1 = (Ok (), acc')" by auto
  from Cons.IH [OF collected_lightning [OF Cons.prems(1) this(1)] this(2)] show ?case
    by (cases "plain_lightning md d") simp_all
qed simp

subsection \<open>After the loops over the payments\<close>

lemma list_splice_outs_ids:
  "list_each (list_splice_out A) ds acc = (Ok (), acc') \<Longrightarrow>
   map tx_id (li_res acc') = map tx_id (li_res acc) @ map ln_pid ds
   \<and> li_transfers acc' = li_transfers acc \<and> li_mpp acc' = li_mpp acc"
proof (induction ds arbitrary: acc)
  case (Cons d ds)
  then obtain acc1 where acc1: "list_splice_out A d acc = (Ok (), acc1)"
    "list_each (list_splice_out A) ds acc1 = (Ok (), acc')" by auto
  from acc1(1) have "map tx_id (li_res acc1) = map tx_id (li_res acc) @ [ln_pid d]
    \<and> li_transfers acc1 = li_transfers acc \<and> li_mpp acc1 = li_mpp acc"
    by (auto simp: list_splice_out_def push_tx_def ln_transaction_def ln_pid_def)
  with Cons.IH [OF acc1(2)] show ?case by simp
qed simp

lemma list_transfers_ids:
  "list_each (list_transfer A) es acc = (Ok (), acc') \<Longrightarrow>
   (\<And>k e tx. (k, e) \<in> set es \<Longrightarrow> it_transaction e = Some tx \<Longrightarrow> tx_id tx = k) \<Longrightarrow>
   map tx_id (li_res acc') = map tx_id (li_res acc)
     @ map fst (filter (\<lambda>(k, e). it_transaction e \<noteq> None) es) \<and> li_mpp acc' = li_mpp acc"
proof (induction es arbitrary: acc)
  case (Cons x es)
  obtain k e where x: "x = (k, e)" by fastforce
  from Cons.prems(1) obtain acc1 where acc1: "list_transfer A x acc = (Ok (), acc1)"
    "list_each (list_transfer A) es acc1 = (Ok (), acc')" by auto
  have "tx_id tx = k" if "it_transaction e = Some tx" for tx using Cons.prems(2) [of k e tx] that x by simp
  with acc1(1) x have "map tx_id (li_res acc1) = map tx_id (li_res acc)
      @ (if it_transaction e \<noteq> None then [k] else []) \<and> li_mpp acc1 = li_mpp acc"
    by (auto simp: list_transfer_def push_tx_def split: option.splits)
  moreover have "map tx_id (li_res acc') = map tx_id (li_res acc1)
     @ map fst (filter (\<lambda>(k, e). it_transaction e \<noteq> None) es) \<and> li_mpp acc' = li_mpp acc1"
    by (rule Cons.IH [OF acc1(2)]) (use Cons.prems(2) in auto)
  ultimately show ?case using x by simp
qed simp

lemma into_transaction_id: "MppMerge_into_transaction A m k = Ok tx \<Longrightarrow> tx_id tx = k"
  by (auto simp: MppMerge_into_transaction_def Let_def split: result.splits)

lemma list_mpp_ids:
  "list_each (list_mpp A) es acc = (Ok (), acc') \<Longrightarrow>
   map tx_id (li_res acc') = map tx_id (li_res acc) @ map fst es"
proof (induction es arbitrary: acc)
  case (Cons x es)
  then obtain acc1 where acc1: "list_mpp A x acc = (Ok (), acc1)"
    "list_each (list_mpp A) es acc1 = (Ok (), acc')" by auto
  from acc1(1) have "map tx_id (li_res acc1) = map tx_id (li_res acc) @ [fst x]"
    by (cases x) (auto simp: list_mpp_def push_tx_def dest: into_transaction_id)
  with Cons.IH [OF acc1(2)] show ?case by simp
qed simp

lemma in_order_simps [simp]: "map fst (in_order order m) = order (map fst m)"
  by (simp add: in_order_def comp_def)

lemma mset_distinct: "distinct xs \<Longrightarrow> mset ys = mset xs \<Longrightarrow> mset ys = mset_set (set xs)"
  by (simp add: mset_set_set)

lemma shown_in_order:
  assumes "mset (order (map fst m)) = mset (map fst m)" and "distinct (map fst m)"
  shows "mset (map fst (filter (\<lambda>(k, e). it_transaction e \<noteq> None) (in_order order m))) = mset_set (shown m)"
proof -
  let ?P = "\<lambda>k. it_transaction (the (map_of m k)) \<noteq> None"
  have set: "set (order (map fst m)) = fst ` set m" using arg_cong [OF assms(1), of set_mset] by simp
  have "map fst (filter (\<lambda>(k, e). it_transaction e \<noteq> None) (in_order order m)) = filter ?P (order (map fst m))"
    by (simp add: in_order_def filter_map comp_def)
  moreover have "mset (filter ?P (order (map fst m))) = mset (filter ?P (map fst m))"
    using assms(1) by (simp add: mset_filter)
  moreover have "distinct (filter ?P (map fst m))" using assms(2) by simp
  moreover have "set (filter ?P (map fst m)) = shown m"
  proof (rule set_eqI)
    fix k show "k \<in> set (filter ?P (map fst m)) \<longleftrightarrow> k \<in> shown m"
      using map_of_eq_None_iff [of m k] by (cases "map_of m k") (simp_all add: shown_def)
  qed
  ultimately show ?thesis by (metis mset_distinct)
qed

lemma fst_eq_ex: "fst x = a \<Longrightarrow> \<exists>s. x = (a, s)"
  by (cases x) simp

lemma collect_transactions_ids:
  assumes "\<forall>ks. mset (order ks) = mset ks" and "collect_transactions A order md tps lps sps = Ok txs"
  shows "sorted (map tx_time_since_epoch txs)
    \<and> mset (map tx_id txs) = mset (map trusted_pid (filter (plain_trusted md) tps))
        + mset (map ln_pid (filter (plain_lightning md) lps)) + mset (map ln_pid sps)
        + mset_set {i \<in> trusted_pid ` set tps \<union> ln_pid ` set lps. is_trigger md i}
        + mset_set {k. \<exists>i \<in> trusted_pid ` set tps \<union> ln_pid ` set lps. surface_of md i = Some k}"
proof -
  let ?lps = "sort_key pd_latest_update_timestamp lps" and ?I = "trusted_pid ` set tps \<union> ln_pid ` set lps"
  let ?acc0 = "fold (list_trusted_payment md) tps \<lparr>li_res = [], li_transfers = [], li_mpp = []\<rparr>"
  have "\<exists>acc. and_then (list_each (list_lightning_payment A md) ?lps ?acc0) (\<lambda>_ acc.
      and_then (list_each (list_splice_out A) sps acc) (\<lambda>_ acc.
      and_then (list_each (list_transfer A) (in_order order (li_transfers acc)) acc) (\<lambda>_ acc.
      and_then (list_each (list_mpp A) (in_order order (li_mpp acc)) acc) (\<lambda>_ acc.
        (Ok (sort_key tx_time_since_epoch (li_res acc)), acc))))) = (Ok txs, acc)"
    using assms(2) unfolding collect_transactions_def by (rule fst_eq_ex)
  then obtain acc1 acc2 acc3 acc4 where runs:
    "list_each (list_lightning_payment A md) ?lps ?acc0 = (Ok (), acc1)"
    "list_each (list_splice_out A) sps acc1 = (Ok (), acc2)"
    "list_each (list_transfer A) (in_order order (li_transfers acc2)) acc2 = (Ok (), acc3)"
    "list_each (list_mpp A) (in_order order (li_mpp acc3)) acc3 = (Ok (), acc4)"
    and txs: "txs = sort_key tx_time_since_epoch (li_res acc4)"
    by auto
  have "collected md {} [] \<lparr>li_res = [], li_transfers = [], li_mpp = []\<rparr>"
    by (simp add: collected_def shown_def)
  from collected_lightning_all [OF collected_trusted_all [OF this] runs(1)]
  have col: "collected md ?I (map trusted_pid (filter (plain_trusted md) tps)
      @ map ln_pid (filter (plain_lightning md) ?lps)) acc1" by simp
  note sp = list_splice_outs_ids [OF runs(2)]
  have ids: "tx_id tx = k" if "(k, e) \<in> set (in_order order (li_transfers acc2))" "it_transaction e = Some tx" for k e tx
    using that col sp arg_cong [OF assms(1) [rule_format], of set_mset]
    by (auto simp: in_order_def collected_def)
  have tr: "map tx_id (li_res acc3) = map tx_id (li_res acc2)
      @ map fst (filter (\<lambda>(k, e). it_transaction e \<noteq> None) (in_order order (li_transfers acc2)))
    \<and> li_mpp acc3 = li_mpp acc2" by (rule list_transfers_ids [OF runs(3) ids])
  note mp = list_mpp_ids [OF runs(4)]
  have a1: "mset (map fst (filter (\<lambda>(k, e). it_transaction e \<noteq> None) (in_order order (li_transfers acc2))))
      = mset_set {i \<in> ?I. is_trigger md i}"
    using col sp assms(1) by (subst shown_in_order) (simp_all add: collected_def)
  have a2: "mset (map fst (in_order order (li_mpp acc3))) = mset_set {k. \<exists>i \<in> ?I. surface_of md i = Some k}"
    using col sp tr assms(1) mset_distinct [of "map fst (li_mpp acc3)" "order (map fst (li_mpp acc3))"]
    by (simp add: collected_def)
  have a3: "mset (map ln_pid (filter (plain_lightning md) ?lps)) = mset (map ln_pid (filter (plain_lightning md) lps))"
    by (simp add: mset_filter)
  have all: "map tx_id (li_res acc4) = map trusted_pid (filter (plain_trusted md) tps)
      @ map ln_pid (filter (plain_lightning md) ?lps) @ map ln_pid sps
      @ map fst (filter (\<lambda>(k, e). it_transaction e \<noteq> None) (in_order order (li_transfers acc2)))
      @ map fst (in_order order (li_mpp acc3))"
    using mp tr sp col by (simp add: collected_def)
  have "mset (map tx_id txs) = mset (map tx_id (li_res acc4))" using txs by simp
  then have "mset (map tx_id txs) = mset (map trusted_pid (filter (plain_trusted md) tps))
        + mset (map ln_pid (filter (plain_lightning md) lps)) + mset (map ln_pid sps)
        + mset_set {i \<in> ?I. is_trigger md i}
        + mset_set {k. \<exists>i \<in> ?I. surface_of md i = Some k}"
    unfolding all mset_append a1 a2 a3 by (simp only: add.assoc)
  with txs show ?thesis by simp
qed

end
