(* ===== verification/Transaction_Props.thy ===== *)
theory Transaction_Props
  imports Transaction_Facts Sample_Wallet
begin

text \<open>The properties of the list of transactions.\<close>

text \<open>
  C4. The list of transactions is complete, has no duplicates of its own making, and is in order.
  Whenever it returns, whatever the iteration order of the hash maps: the transactions are
  sorted by time, and their identifiers are, counted with multiplicity, those of the trusted
  and lightning payments that are recorded as payments or are settled without metadata, those
  of the splice-outs, once each payment that triggered a transfer, and once each multi-path
  payment under its surfaced identifier. The legs of transfers and of multi-path payments and
  pending rebalances do not appear.
\<close>

theorem list_transactions_each_once:
  assumes "\<forall>ks. mset (order ks) = mset ks" and "list_transactions E X order s = (Ok txs, s')"
  shows "\<exists>tps sps t. outside_call (tw_list_payments (trusted X)) s = (Ok tps, t)
    \<and> read_splice_outs E t = (Ok sps, s')
    \<and> sorted (map tx_time_since_epoch txs)
    \<and> mset (map tx_id txs) = mset (map trusted_pid (filter (plain_trusted (tx_metadata s')) tps))
        + mset (map ln_pid (filter (plain_lightning (tx_metadata s')) (ln_list_payments (ln_wallet X) (outside s'))))
        + mset (map ln_pid sps)
        + mset_set {i \<in> trusted_pid ` set tps \<union> ln_pid ` set (ln_list_payments (ln_wallet X) (outside s')).
            is_trigger (tx_metadata s') i}
        + mset_set {k. \<exists>i \<in> trusted_pid ` set tps \<union> ln_pid ` set (ln_list_payments (ln_wallet X) (outside s')).
            surface_of (tx_metadata s') i = Some k}"
proof -
  obtain tres t where t: "outside_call (tw_list_payments (trusted X)) s = (tres, t)" by fastforce
  obtain sres u where u: "read_splice_outs E t = (sres, u)" by fastforce
  from assms(2) t u obtain tps sps where ok: "tres = Ok tps" "sres = Ok sps" "s' = u"
    and run: "collect_transactions (amounts X) order (tx_metadata s') tps
      (ln_list_payments (ln_wallet X) (outside s')) sps = Ok txs"
    by (cases sres; cases tres) (auto simp: list_transactions_def infallible_def)
  from collect_transactions_ids [OF assms(1) run] t u ok show ?thesis by blast
qed

definition sample_listing :: "unit wallet" where
  "sample_listing = (sample_wallet 1)\<lparr>trusted := sample_trusted\<lparr>tw_list_payments := (\<lambda>w. (Ok
     [\<lparr>p_id = replicate 32 9, p_amount = 60, p_fee = 1, p_status = Completed, p_outbound = False,
       p_time_since_epoch = 8\<rparr>,
      \<lparr>p_id = replicate 32 5, p_amount = 40, p_fee = 1, p_status = Completed, p_outbound = False,
       p_time_since_epoch = 3\<rparr>], w))\<rparr>\<rparr>"

theorem list_transactions_each_once_witness:
  "\<exists>txs s'. list_transactions sample_wallet_env sample_listing rev (sample_state ()) = (Ok txs, s')
    \<and> map tx_id txs = [Trusted (replicate 32 5), Trusted (replicate 32 9)]
    \<and> sorted (map tx_time_since_epoch txs)"
proof -
  let ?run = "list_transactions sample_wallet_env sample_listing rev (sample_state ())"
  have "(case fst ?run of Ok txs \<Rightarrow> map tx_id txs | _ \<Rightarrow> []) = [Trusted (replicate 32 5), Trusted (replicate 32 9)]"
    by code_simp
  then obtain txs s' where run: "?run = (Ok txs, s')"
    and ids: "map tx_id txs = [Trusted (replicate 32 5), Trusted (replicate 32 9)]"
    by (cases ?run; cases "fst ?run") auto
  have "\<forall>ks. mset (rev ks :: PaymentId list) = mset ks" by simp
  from list_transactions_each_once [OF this run] have srt: "sorted (map tx_time_since_epoch txs)"
    by (elim exE conjE)
  show ?thesis by (intro exI conjI) (rule run, rule ids, rule srt)
qed

end
