(* ===== verification/Spark_Types.thy ===== *)
theory Spark_Types
  imports Cashu_Types "HOL-Library.List_Lexorder" "HOL-Library.Char_ord"
begin

text \<open>
  The data of the Spark wallet's storage (\<open>trusted_wallet/spark/spark_store.rs\<close>): the records of
  the crate \<open>breez_sdk_spark\<close> with the fields the store reads (the rest of each is one opaque
  field), the values of \<open>serde_json\<close>, and the environment, whose fields are what those crates,
  the hash function and the formatting of errors compute. A string is its UTF-8 bytes, so the
  lexicographic order on lists of characters is the order of Rust's \<open>String\<close>.
\<close>

subsection \<open>Values of serde\_json\<close>

datatype JsonNumber = PosInt u64 | OtherNumber bytes

text \<open>The map of an object is ordered by its keys.\<close>

datatype Value =
    VNull
  | VBool bool
  | VNumber JsonNumber
  | VString string
  | VArray "Value list"
  | VObject "(string \<times> Value) list"

fun map_insert :: "string \<Rightarrow> Value \<Rightarrow> (string \<times> Value) list \<Rightarrow> (string \<times> Value) list" where
  "map_insert k v [] = [(k, v)]"
| "map_insert k v ((k', v') # m) =
     (if k < k' then (k, v) # (k', v') # m
      else if k = k' then (k, v) # m
      else (k', v') # map_insert k v m)"

definition json_object :: "(string \<times> Value) list \<Rightarrow> Value" where
  "json_object members = VObject (fold (\<lambda>(k, v). map_insert k v) members [])"

fun value_index :: "Value \<Rightarrow> string \<Rightarrow> Value" where
  "value_index (VObject m) k = (case map_of m k of Some v \<Rightarrow> v | None \<Rightarrow> VNull)"
| "value_index v k = VNull"

fun value_assign :: "Value \<Rightarrow> string \<Rightarrow> Value \<Rightarrow> ('e, Value) result" where
  "value_assign (VObject m) k v = Ok (VObject (map_insert k v m))"
| "value_assign VNull k v = Ok (VObject [(k, v)])"
| "value_assign _ k v = Panic ''cannot access key in JSON value''"

fun as_object :: "Value \<Rightarrow> (string \<times> Value) list option" where
  "as_object (VObject m) = Some m"
| "as_object v = None"

fun str_or_default :: "Value \<Rightarrow> string" where
  "str_or_default (VString s) = s"
| "str_or_default v = ''''"

fun u64_or_zero :: "Value \<Rightarrow> u64" where
  "u64_or_zero (VNumber (PosInt n)) = n"
| "u64_or_zero v = 0"

subsection \<open>Records of breez\_sdk\_spark\<close>

type_synonym SyncData = bytes

record RecordId =
  ri_type :: string
  ri_data_id :: string

record SyncRecord =
  rec_id :: RecordId
  rec_schema_version :: string
  rec_data :: SyncData
  rec_revision :: u64

record UnversionedRecordChange =
  uc_id :: RecordId
  uc_schema_version :: string
  uc_updated_fields :: SyncData

record RecordChange =
  rc_id :: RecordId
  rc_schema_version :: string
  rc_updated_fields :: SyncData
  rc_local_revision :: u64

record OutgoingChange =
  oc_change :: RecordChange
  oc_parent :: "SyncRecord option"

record IncomingChange =
  ic_new_state :: SyncRecord
  ic_old_state :: "SyncRecord option"

datatype SparkPaymentStatus = Sp_Completed | Sp_Pending | Sp_Failed

datatype SparkPaymentType = Sp_Send | Sp_Receive

record HtlcDetails =
  hd_payment_hash :: string
  hd_preimage :: "string option"

datatype SparkPaymentDetails =
    Spd_Spark "string option" bytes
  | Spd_Token bytes
  | Spd_Lightning string HtlcDetails bytes
  | Spd_Withdraw bytes
  | Spd_Deposit bytes

record SparkPayment =
  sp_id :: string
  sp_payment_type :: SparkPaymentType
  sp_status :: SparkPaymentStatus
  sp_amount :: u128
  sp_fees :: u128
  sp_timestamp :: u64
  sp_details :: "SparkPaymentDetails option"
  sp_rest :: bytes

record PaymentMetadata =
  pm_parent_payment_id :: "string option"
  pm_lnurl_pay_info :: "bytes option"
  pm_lnurl_withdraw_info :: "bytes option"
  pm_lnurl_description :: "string option"
  pm_conversion_info :: "bytes option"
  pm_conversion_status :: "bytes option"

record DepositInfo =
  di_txid :: string
  di_vout :: u32
  di_amount_sats :: u64
  di_is_mature :: bool
  di_refund_tx :: "string option"
  di_refund_tx_id :: "string option"
  di_claim_error :: "bytes option"
  di_refund_state :: "bytes option"
  di_instant_claim_status :: "bytes option"

datatype UpdateDepositPayload =
    ClaimError bytes
  | Refund string string bytes
  | InstantClaim bytes
  | RefundBroadcastState string bytes

record StoredCrossChainSwap =
  cs_provider :: string
  cs_id :: string
  cs_is_terminal :: bool
  cs_rest :: bytes

record StorageListPaymentsRequest =
  lr_offset :: "u32 option"
  lr_limit :: "u32 option"
  lr_sort_ascending :: "bool option"
  lr_filters :: bytes

definition StorageListPaymentsRequest_default :: StorageListPaymentsRequest where
  "StorageListPaymentsRequest_default =
     \<lparr>lr_offset = None, lr_limit = None, lr_sort_ascending = None, lr_filters = []\<rparr>"

datatype StorageError = Se_Implementation string | Se_Serialization string | Se_NotFound

subsection \<open>The environment\<close>

record 's spark_env =
  spark_kvs :: "'s kv_ops"
  KVSTORE_NAMESPACE_KEY_MAX_LEN :: nat
  sha256 :: "bytes \<Rightarrow> bytes32"
  io_error_debug :: "io_error \<Rightarrow> string"
  json_error_debug :: "string \<Rightarrow> string"
  utf8_error_debug :: "bytes \<Rightarrow> string"
  StorageError_from_json :: "string \<Rightarrow> StorageError"
  is_final :: "SparkPaymentStatus \<Rightarrow> bool"
  data_to_value :: "SyncData \<Rightarrow> Value"
  data_from_value :: "Value \<Rightarrow> string + SyncData"
  json_value :: "Value json"
  json_payment :: "SparkPayment json"
  json_metadata :: "PaymentMetadata json"
  json_deposit :: "DepositInfo json"
  json_swap :: "StoredCrossChainSwap json"

subsection \<open>Text of the standard library\<close>

definition bytes_to_text :: "bytes \<Rightarrow> string" where
  "bytes_to_text data = map (\<lambda>b. char_of (unat b)) data"

text \<open>\<open>str::parse::<u64>\<close>: an optional plus sign, then at least one digit, within 64 bits.\<close>

definition parse_u64 :: "string \<Rightarrow> u64 option" where
  "parse_u64 s =
     (let ds = (case s of c # cs \<Rightarrow> if c = CHR ''+'' then cs else s | [] \<Rightarrow> []) in
      if ds \<noteq> [] \<and> list_all (\<lambda>c. 48 \<le> (of_char c :: nat) \<and> (of_char c :: nat) \<le> 57) ds
         \<and> decimal_value ds \<le> u64_max
      then Some (decimal_value ds) else None)"

text \<open>\<open>format!("{n:020}")\<close>.\<close>

definition zero_pad20 :: "nat \<Rightarrow> string" where
  "zero_pad20 n = (let d = decimal n in replicate (20 - length d) (CHR ''0'') @ d)"

text \<open>\<open>&xs[start..end]\<close>.\<close>

definition slice_range :: "'a list \<Rightarrow> nat \<Rightarrow> nat \<Rightarrow> ('e, 'a list) result" where
  "slice_range xs start end' = (if start \<le> end' \<and> end' \<le> length xs
     then Ok (take (end' - start) (drop start xs))
     else Panic ''range end index out of range'')"

end
