(* ===== verification/Spark_Store.thy ===== *)
theory Spark_Store
  imports Spark_Types
begin

text \<open>
  The Spark wallet's storage (\<open>SparkStore\<close> of \<open>spark_store.rs\<close>): cached items, payments and
  their metadata, deposits, cross-chain swaps and the record synchronisation queues, each in a
  namespace of a key-value store whose operations may fail. The struct holds that store and three
  locks, so its state is the store's; an operation that takes a lock holds it to its end.
\<close>

definition SPARK_PRIMARY_NAMESPACE :: string where "SPARK_PRIMARY_NAMESPACE = ''spark''"
definition SPARK_CACHE_NAMESPACE :: string where "SPARK_CACHE_NAMESPACE = ''cache''"
definition SPARK_PAYMENTS_NAMESPACE :: string where "SPARK_PAYMENTS_NAMESPACE = ''payment''"
definition SPARK_DEPOSITS_NAMESPACE :: string where "SPARK_DEPOSITS_NAMESPACE = ''deposit''"
definition SPARK_CROSS_CHAIN_NAMESPACE :: string where "SPARK_CROSS_CHAIN_NAMESPACE = ''cross_chain''"
definition SPARK_METADATA_NAMESPACE :: string where "SPARK_METADATA_NAMESPACE = ''metadata''"
definition SPARK_SYNC_STATE_NAMESPACE :: string where "SPARK_SYNC_STATE_NAMESPACE = ''sync_state''"
definition SPARK_SYNC_OUT_NAMESPACE :: string where "SPARK_SYNC_OUT_NAMESPACE = ''sync_out''"
definition SPARK_SYNC_IN_NAMESPACE :: string where "SPARK_SYNC_IN_NAMESPACE = ''sync_in''"
definition SPARK_SYNC_REV_NAMESPACE :: string where "SPARK_SYNC_REV_NAMESPACE = ''sync_rev''"
definition REVISION_KEY :: string where "REVISION_KEY = ''revision''"
definition LOCAL_REVISION_KEY :: string where "LOCAL_REVISION_KEY = ''local_revision''"

lemmas spark_namespaces = SPARK_CACHE_NAMESPACE_def SPARK_PAYMENTS_NAMESPACE_def
  SPARK_DEPOSITS_NAMESPACE_def SPARK_CROSS_CHAIN_NAMESPACE_def SPARK_METADATA_NAMESPACE_def
  SPARK_SYNC_STATE_NAMESPACE_def SPARK_SYNC_OUT_NAMESPACE_def SPARK_SYNC_IN_NAMESPACE_def
  SPARK_SYNC_REV_NAMESPACE_def

subsection \<open>Access to the store\<close>

definition spark_read :: "('s, 'x) spark_env_scheme \<Rightarrow> string \<Rightarrow> string \<Rightarrow> 's \<Rightarrow>
    (io_error, bytes) result \<times> 's" where
  "spark_read E ns key s = kv_read (spark_kvs E) s SPARK_PRIMARY_NAMESPACE ns key"

definition implementation :: "('s, 'x) spark_env_scheme \<Rightarrow> io_error \<Rightarrow> StorageError" where
  "implementation E e = Se_Implementation (io_error_debug E e)"

definition spark_write :: "('s, 'x) spark_env_scheme \<Rightarrow> string \<Rightarrow> string \<Rightarrow> bytes \<Rightarrow> 's \<Rightarrow>
    (StorageError, unit) result \<times> 's" where
  "spark_write E ns key data s =
     map_err (implementation E) (kv_write (spark_kvs E) s SPARK_PRIMARY_NAMESPACE ns key data)"

definition spark_remove :: "('s, 'x) spark_env_scheme \<Rightarrow> string \<Rightarrow> string \<Rightarrow> 's \<Rightarrow>
    (StorageError, unit) result \<times> 's" where
  "spark_remove E ns key s =
     map_err (implementation E) (kv_remove (spark_kvs E) s SPARK_PRIMARY_NAMESPACE ns key False)"

definition spark_list :: "('s, 'x) spark_env_scheme \<Rightarrow> string \<Rightarrow> 's \<Rightarrow>
    (StorageError, string list) result \<times> 's" where
  "spark_list E ns s =
     map_err (implementation E) (kv_list (spark_kvs E) s SPARK_PRIMARY_NAMESPACE ns)"

text \<open>\<open>let _ = remove(..)\<close>: the outcome is dropped.\<close>

definition spark_remove_ignored :: "('s, 'x) spark_env_scheme \<Rightarrow> string \<Rightarrow> string \<Rightarrow> 's \<Rightarrow>
    (StorageError, unit) result \<times> 's" where
  "spark_remove_ignored E ns key s = (case spark_remove E ns key s of
     (Panic m, s) \<Rightarrow> (Panic m, s) | (_, s) \<Rightarrow> (Ok (), s))"

text \<open>
  The two ways a failure of \<open>serde_json\<close> becomes an error: mapped to \<open>Serialization\<close> with its
  debug text, or through the \<open>From\<close> of \<open>StorageError\<close> behind a bare \<open>?\<close>.
\<close>

definition serialization :: "('s, 'x) spark_env_scheme \<Rightarrow> string \<Rightarrow> StorageError" where
  "serialization E e = Se_Serialization (json_error_debug E e)"

definition or_fail :: "(string \<Rightarrow> StorageError) \<Rightarrow> string + 'a \<Rightarrow> 's \<Rightarrow>
    (StorageError, 'a) result \<times> 's" where
  "or_fail f r s = (case r of Inl e \<Rightarrow> (Err (f e), s) | Inr x \<Rightarrow> (Ok x, s))"

text \<open>A lookup: a missing key is no value, every other failure an error.\<close>

definition spark_lookup :: "('s, 'x) spark_env_scheme \<Rightarrow> string \<Rightarrow> string \<Rightarrow> 's \<Rightarrow>
    (StorageError, bytes option) result \<times> 's" where
  "spark_lookup E ns key s = (case spark_read E ns key s of
     (Ok data, s) \<Rightarrow> (Ok (Some data), s)
   | (Err NotFound, s) \<Rightarrow> (Ok None, s)
   | (Err e, s) \<Rightarrow> (Err (implementation E e), s)
   | (Panic m, s) \<Rightarrow> (Panic m, s))"

text \<open>The loops that read and decode every key of a list, stopping at the first failure.\<close>

fun read_each :: "('s, 'x) spark_env_scheme \<Rightarrow> string \<Rightarrow>
    (bytes \<Rightarrow> 's \<Rightarrow> (StorageError, 'a) result \<times> 's) \<Rightarrow> string list \<Rightarrow> 's \<Rightarrow>
    (StorageError, 'a list) result \<times> 's" where
  "read_each E ns decode [] s = (Ok [], s)"
| "read_each E ns decode (key # keys) s =
     and_then (map_err (implementation E) (spark_read E ns key s)) (\<lambda>data s.
     and_then (decode data s) (\<lambda>x s.
     and_then (read_each E ns decode keys s) (\<lambda>xs s. (Ok (x # xs), s))))"

subsection \<open>Keys\<close>

definition sanitize_key :: "('s, 'x) spark_env_scheme \<Rightarrow> string \<Rightarrow> 's \<Rightarrow>
    (StorageError, string) result \<times> 's" where
  "sanitize_key E key s =
     (if length key > KVSTORE_NAMESPACE_KEY_MAX_LEN E
      then (slice_to key (KVSTORE_NAMESPACE_KEY_MAX_LEN E), s) else (Ok key, s))"

definition joined_parts :: "string list \<Rightarrow> string" where
  "joined_parts parts = fold (\<lambda>part key. key @ decimal (length part) @ ''_'' @ part) parts ''''"

definition sync_record_key :: "('s, 'x) spark_env_scheme \<Rightarrow> string list \<Rightarrow> string" where
  "sync_record_key E parts =
     (let key = joined_parts parts in
      if length key > KVSTORE_NAMESPACE_KEY_MAX_LEN E
      then ''h_'' @ to_lower_hex_string (sha256 E (as_bytes key)) else key)"

definition record_id_key :: "('s, 'x) spark_env_scheme \<Rightarrow> RecordId \<Rightarrow> string" where
  "record_id_key E i = sync_record_key E [ri_type i, ri_data_id i]"

definition incoming_record_key :: "('s, 'x) spark_env_scheme \<Rightarrow> SyncRecord \<Rightarrow> string" where
  "incoming_record_key E r =
     sync_record_key E [ri_type (rec_id r), ri_data_id (rec_id r), decimal (rec_revision r)]"

subsection \<open>Records as JSON\<close>

definition record_to_bytes :: "('s, 'x) spark_env_scheme \<Rightarrow> SyncRecord \<Rightarrow> 's \<Rightarrow>
    (StorageError, bytes) result \<times> 's" where
  "record_to_bytes E r s =
     or_fail (serialization E) (to_vec (json_value E) (json_object
       [(''record_type'', VString (ri_type (rec_id r))),
        (''data_id'', VString (ri_data_id (rec_id r))),
        (''schema_version'', VString (rec_schema_version r)),
        (''data'', data_to_value E (rec_data r)),
        (''revision'', VNumber (PosInt (rec_revision r)))])) s"

definition bytes_to_record :: "('s, 'x) spark_env_scheme \<Rightarrow> bytes \<Rightarrow> 's \<Rightarrow>
    (StorageError, SyncRecord) result \<times> 's" where
  "bytes_to_record E bytes s =
     and_then (or_fail (serialization E) (from_slice (json_value E) bytes) s) (\<lambda>v s.
     and_then (or_fail (serialization E) (data_from_value E (value_index v ''data'')) s) (\<lambda>data s.
       (Ok \<lparr>rec_id = \<lparr>ri_type = str_or_default (value_index v ''record_type''),
                      ri_data_id = str_or_default (value_index v ''data_id'')\<rparr>,
            rec_schema_version = str_or_default (value_index v ''schema_version''),
            rec_data = data,
            rec_revision = u64_or_zero (value_index v ''revision'')\<rparr>, s)))"

subsection \<open>Cached items\<close>

definition delete_cached_item :: "('s, 'x) spark_env_scheme \<Rightarrow> string \<Rightarrow> 's \<Rightarrow>
    (StorageError, unit) result \<times> 's" where
  "delete_cached_item E key s =
     and_then (sanitize_key E key s) (\<lambda>key s. spark_remove E SPARK_CACHE_NAMESPACE key s)"

definition get_cached_item :: "('s, 'x) spark_env_scheme \<Rightarrow> string \<Rightarrow> 's \<Rightarrow>
    (StorageError, string option) result \<times> 's" where
  "get_cached_item E key s =
     and_then (sanitize_key E key s) (\<lambda>key s.
     and_then (spark_lookup E SPARK_CACHE_NAMESPACE key s) (\<lambda>found s.
       case found of None \<Rightarrow> (Ok None, s)
       | Some bytes \<Rightarrow>
           if valid_utf8 (map unat bytes) then (Ok (Some (bytes_to_text bytes)), s)
           else (Err (Se_Serialization (''Invalid UTF-8 in cached item: '' @ utf8_error_debug E bytes)), s)))"

definition set_cached_item :: "('s, 'x) spark_env_scheme \<Rightarrow> string \<Rightarrow> string \<Rightarrow> 's \<Rightarrow>
    (StorageError, unit) result \<times> 's" where
  "set_cached_item E key value s =
     and_then (sanitize_key E key s) (\<lambda>key s.
       spark_write E SPARK_CACHE_NAMESPACE key (as_bytes value) s)"

subsection \<open>The migration of old deposit payments\<close>

definition legacy_deposit :: "Value \<Rightarrow> bool" where
  "legacy_deposit payment =
     (case as_object (value_index (value_index payment ''details'') ''Deposit'') of
        Some details \<Rightarrow> map_of details ''vout'' = None | None \<Rightarrow> False)"

definition reset_sync_offset :: "('s, 'x) spark_env_scheme \<Rightarrow> 's \<Rightarrow> (StorageError, unit) result \<times> 's" where
  "reset_sync_offset E s =
     and_then (get_cached_item E ''sync_offset'' s) (\<lambda>value s.
       case value of None \<Rightarrow> (Ok (), s)
       | Some value \<Rightarrow>
           and_then (or_fail (StorageError_from_json E) (from_slice (json_value E) (as_bytes value)) s) (\<lambda>sync s.
             case as_object sync of
               None \<Rightarrow> (Err (Se_Serialization ''sync_offset must be an object''), s)
             | Some object \<Rightarrow>
                 and_then (or_fail (StorageError_from_json E) (to_vec (json_value E)
                     (VObject (map_insert ''offset'' (VNumber (PosInt 0)) object))) s) (\<lambda>data s.
                   set_cached_item E ''sync_offset'' (bytes_to_text data) s)))"

fun migrate_payments :: "('s, 'x) spark_env_scheme \<Rightarrow> string list \<Rightarrow> bool \<Rightarrow> 's \<Rightarrow>
    (StorageError, unit) result \<times> 's" where
  "migrate_payments E [] sync_reset s = (Ok (), s)"
| "migrate_payments E (key # keys) sync_reset s =
     and_then (map_err (implementation E) (spark_read E SPARK_PAYMENTS_NAMESPACE key s)) (\<lambda>data s.
     and_then (or_fail (StorageError_from_json E) (from_slice (json_value E) data) s) (\<lambda>payment s.
       if \<not> legacy_deposit payment then migrate_payments E keys sync_reset s
       else and_then (if sync_reset then (Ok (), s) else reset_sync_offset E s) (\<lambda>_ s.
            and_then (value_assign payment ''details'' VNull, s) (\<lambda>payment s.
            and_then (or_fail (StorageError_from_json E) (to_vec (json_value E) payment) s) (\<lambda>data s.
            and_then (spark_write E SPARK_PAYMENTS_NAMESPACE key data s) (\<lambda>_ s.
              migrate_payments E keys True s))))))"

definition migrate_deposit_details :: "('s, 'x) spark_env_scheme \<Rightarrow> 's \<Rightarrow>
    (StorageError, unit) result \<times> 's" where
  "migrate_deposit_details E s =
     and_then (get_cached_item E ''deposit_vout_migrated'' s) (\<lambda>migrated s.
       if migrated \<noteq> None then (Ok (), s)
       else and_then (spark_list E SPARK_PAYMENTS_NAMESPACE s) (\<lambda>keys s.
            and_then (migrate_payments E keys False s) (\<lambda>_ s.
              set_cached_item E ''deposit_vout_migrated'' ''true'' s)))"

subsection \<open>Payments and their metadata\<close>

definition get_payment_by_id :: "('s, 'x) spark_env_scheme \<Rightarrow> string \<Rightarrow> 's \<Rightarrow>
    (StorageError, SparkPayment) result \<times> 's" where
  "get_payment_by_id E i s =
     and_then (map_err (\<lambda>e. if e = NotFound then Se_NotFound else implementation E e)
       (spark_read E SPARK_PAYMENTS_NAMESPACE i s)) (\<lambda>data s.
     or_fail (serialization E) (from_slice (json_payment E) data) s)"

text \<open>The filters of a request other than order, offset and limit are not looked at.\<close>

definition list_payments :: "('s, 'x) spark_env_scheme \<Rightarrow> StorageListPaymentsRequest \<Rightarrow> 's \<Rightarrow>
    (StorageError, SparkPayment list) result \<times> 's" where
  "list_payments E request s =
     and_then (spark_list E SPARK_PAYMENTS_NAMESPACE s) (\<lambda>keys s.
     and_then (read_each E SPARK_PAYMENTS_NAMESPACE
         (\<lambda>data s. or_fail (serialization E) (from_slice (json_payment E) data) s) keys s) (\<lambda>payments s.
       let sort_ascending = (case lr_sort_ascending request of Some b \<Rightarrow> b | None \<Rightarrow> False);
           payments = (if sort_ascending then sort_key sp_timestamp payments
                       else sort_key (\<lambda>p. - int (sp_timestamp p)) payments);
           start = (case lr_offset request of Some n \<Rightarrow> n | None \<Rightarrow> 0);
           end' = (case lr_limit request of Some l \<Rightarrow> min (start + l) (length payments)
                   | None \<Rightarrow> length payments)
       in if start < length payments then (slice_range payments start end', s) else (Ok [], s)))"

text \<open>The match with which \<open>apply_payment_update\<close> starts: a payment not found has no status.\<close>

definition lookup_status :: "('s, 'x) spark_env_scheme \<Rightarrow> string \<Rightarrow> 's \<Rightarrow>
    (StorageError, SparkPaymentStatus option) result \<times> 's" where
  "lookup_status E i s = (case get_payment_by_id E i s of
     (Ok stored, s) \<Rightarrow> (Ok (Some (sp_status stored)), s)
   | (Err Se_NotFound, s) \<Rightarrow> (Ok None, s)
   | (Err e, s) \<Rightarrow> (Err e, s)
   | (Panic m, s) \<Rightarrow> (Panic m, s))"

definition apply_payment_update :: "('s, 'x) spark_env_scheme \<Rightarrow> SparkPayment \<Rightarrow> 's \<Rightarrow>
    (StorageError, bool) result \<times> 's" where
  "apply_payment_update E payment s =
     and_then (lookup_status E (sp_id payment) s) (\<lambda>stored_status s.
       if (case stored_status of
             Some status \<Rightarrow> is_final E status \<and> status \<noteq> sp_status payment | None \<Rightarrow> False)
       then (Ok False, s)
       else let should_emit = (stored_status \<noteq> Some (sp_status payment)) in
         and_then (or_fail (serialization E) (to_vec (json_payment E) payment) s) (\<lambda>data s.
         and_then (spark_write E SPARK_PAYMENTS_NAMESPACE (sp_id payment) data s) (\<lambda>_ s.
           (Ok should_emit, s))))"

definition option_or :: "'a option \<Rightarrow> 'a option \<Rightarrow> 'a option" where
  "option_or x y = (case x of Some a \<Rightarrow> Some a | None \<Rightarrow> y)"

definition merge_metadata :: "PaymentMetadata \<Rightarrow> PaymentMetadata \<Rightarrow> PaymentMetadata" where
  "merge_metadata metadata existing =
     \<lparr>pm_parent_payment_id = option_or (pm_parent_payment_id metadata) (pm_parent_payment_id existing),
      pm_lnurl_pay_info = option_or (pm_lnurl_pay_info metadata) (pm_lnurl_pay_info existing),
      pm_lnurl_withdraw_info = option_or (pm_lnurl_withdraw_info metadata) (pm_lnurl_withdraw_info existing),
      pm_lnurl_description = option_or (pm_lnurl_description metadata) (pm_lnurl_description existing),
      pm_conversion_info = option_or (pm_conversion_info metadata) (pm_conversion_info existing),
      pm_conversion_status = option_or (pm_conversion_status metadata) (pm_conversion_status existing)\<rparr>"

definition insert_payment_metadata :: "('s, 'x) spark_env_scheme \<Rightarrow> string \<Rightarrow> PaymentMetadata \<Rightarrow> 's \<Rightarrow>
    (StorageError, unit) result \<times> 's" where
  "insert_payment_metadata E payment_id metadata s =
     and_then (case spark_read E SPARK_METADATA_NAMESPACE payment_id s of
         (Ok bytes, s) \<Rightarrow> (Ok (case from_slice (json_metadata E) bytes of
            Inr existing \<Rightarrow> Some existing | Inl _ \<Rightarrow> None), s)
       | (Err _, s) \<Rightarrow> (Ok None, s)
       | (Panic m, s) \<Rightarrow> (Panic m, s)) (\<lambda>existing s.
       let merged = (case existing of Some existing \<Rightarrow> merge_metadata metadata existing
                     | None \<Rightarrow> metadata) in
       and_then (or_fail (serialization E) (to_vec (json_metadata E) merged) s) (\<lambda>data s.
         spark_write E SPARK_METADATA_NAMESPACE payment_id data s))"

definition matches_invoice :: "string \<Rightarrow> SparkPayment \<Rightarrow> bool" where
  "matches_invoice invoice p = (case sp_details p of
     Some (Spd_Spark invoice_details _) \<Rightarrow> invoice_details = Some invoice
   | Some (Spd_Lightning i _ _) \<Rightarrow> i = invoice
   | _ \<Rightarrow> False)"

definition get_payment_by_invoice :: "('s, 'x) spark_env_scheme \<Rightarrow> string \<Rightarrow> 's \<Rightarrow>
    (StorageError, SparkPayment option) result \<times> 's" where
  "get_payment_by_invoice E invoice s =
     and_then (list_payments E StorageListPaymentsRequest_default s) (\<lambda>payments s.
       (Ok (find (matches_invoice invoice) payments), s))"

fun collect_by_parent :: "('s, 'x) spark_env_scheme \<Rightarrow> string set \<Rightarrow> string list \<Rightarrow>
    (string \<rightharpoonup> SparkPayment list) \<Rightarrow> 's \<Rightarrow>
    (StorageError, string \<rightharpoonup> SparkPayment list) result \<times> 's" where
  "collect_by_parent E parents [] acc s = (Ok acc, s)"
| "collect_by_parent E parents (key # keys) acc s =
     and_then (map_err (implementation E) (spark_read E SPARK_METADATA_NAMESPACE key s)) (\<lambda>data s.
       case from_slice (json_metadata E) data of
         Inl _ \<Rightarrow> collect_by_parent E parents keys acc s
       | Inr metadata \<Rightarrow> (case pm_parent_payment_id metadata of
           None \<Rightarrow> collect_by_parent E parents keys acc s
         | Some parent_id \<Rightarrow>
             if parent_id \<in> parents then
               (case get_payment_by_id E key s of
                  (Ok payment, s) \<Rightarrow> collect_by_parent E parents keys
                    (acc(parent_id \<mapsto> (case acc parent_id of Some ps \<Rightarrow> ps | None \<Rightarrow> []) @ [payment])) s
                | (Err _, s) \<Rightarrow> collect_by_parent E parents keys acc s
                | (Panic m, s) \<Rightarrow> (Panic m, s))
             else collect_by_parent E parents keys acc s))"

definition get_payments_by_parent_ids :: "('s, 'x) spark_env_scheme \<Rightarrow> string list \<Rightarrow> 's \<Rightarrow>
    (StorageError, string \<rightharpoonup> SparkPayment list) result \<times> 's" where
  "get_payments_by_parent_ids E parent_payment_ids s =
     (if parent_payment_ids = [] then (Ok Map.empty, s)
      else and_then (spark_list E SPARK_METADATA_NAMESPACE s) (\<lambda>keys s.
           and_then (collect_by_parent E (set parent_payment_ids) keys Map.empty s) (\<lambda>result s.
             (Ok (\<lambda>k. map_option (sort_key sp_timestamp) (result k)), s))))"

subsection \<open>Deposits\<close>

definition deposit_key :: "string \<Rightarrow> u32 \<Rightarrow> string" where
  "deposit_key txid vout = txid @ ''_'' @ decimal vout"

definition add_deposit :: "('s, 'x) spark_env_scheme \<Rightarrow> string \<Rightarrow> u32 \<Rightarrow> u64 \<Rightarrow> bool \<Rightarrow> 's \<Rightarrow>
    (StorageError, unit) result \<times> 's" where
  "add_deposit E txid vout amount_sats is_mature s =
     (let i = deposit_key txid vout in
      and_then (spark_lookup E SPARK_DEPOSITS_NAMESPACE i s) (\<lambda>found s.
      and_then (case found of
          Some data \<Rightarrow> or_fail (StorageError_from_json E) (from_slice (json_deposit E) data) s
        | None \<Rightarrow> (Ok \<lparr>di_txid = txid, di_vout = vout, di_amount_sats = amount_sats,
            di_is_mature = is_mature, di_refund_tx = None, di_refund_tx_id = None,
            di_claim_error = None, di_refund_state = None, di_instant_claim_status = None\<rparr>, s)) (\<lambda>info s.
      and_then (or_fail (serialization E) (to_vec (json_deposit E)
          (info\<lparr>di_amount_sats := amount_sats, di_is_mature := is_mature\<rparr>)) s) (\<lambda>data s.
        spark_write E SPARK_DEPOSITS_NAMESPACE i data s))))"

definition delete_deposit :: "('s, 'x) spark_env_scheme \<Rightarrow> string \<Rightarrow> u32 \<Rightarrow> 's \<Rightarrow>
    (StorageError, unit) result \<times> 's" where
  "delete_deposit E txid vout s = spark_remove E SPARK_DEPOSITS_NAMESPACE (deposit_key txid vout) s"

definition list_deposits :: "('s, 'x) spark_env_scheme \<Rightarrow> 's \<Rightarrow>
    (StorageError, DepositInfo list) result \<times> 's" where
  "list_deposits E s =
     and_then (spark_list E SPARK_DEPOSITS_NAMESPACE s) (\<lambda>keys s.
       read_each E SPARK_DEPOSITS_NAMESPACE
         (\<lambda>data s. or_fail (serialization E) (from_slice (json_deposit E) data) s) keys s)"

text \<open>What an update makes of a deposit; None is the early return of a refund that is not its own.\<close>

fun updated_deposit :: "UpdateDepositPayload \<Rightarrow> DepositInfo \<Rightarrow> DepositInfo option" where
  "updated_deposit (ClaimError error) d = Some (d\<lparr>di_claim_error := Some error\<rparr>)"
| "updated_deposit (Refund refund_txid refund_tx state) d =
     Some (d\<lparr>di_refund_tx_id := Some refund_txid, di_refund_tx := Some refund_tx,
       di_refund_state := Some state, di_claim_error := None\<rparr>)"
| "updated_deposit (InstantClaim status) d = Some (d\<lparr>di_instant_claim_status := Some status\<rparr>)"
| "updated_deposit (RefundBroadcastState refund_txid state) d =
     (if di_refund_tx_id d \<noteq> Some refund_txid then None
      else Some (d\<lparr>di_refund_state := Some state\<rparr>))"

definition update_deposit :: "('s, 'x) spark_env_scheme \<Rightarrow> string \<Rightarrow> u32 \<Rightarrow> UpdateDepositPayload \<Rightarrow> 's \<Rightarrow>
    (StorageError, unit) result \<times> 's" where
  "update_deposit E txid vout payload s =
     (let i = deposit_key txid vout in
      and_then (spark_lookup E SPARK_DEPOSITS_NAMESPACE i s) (\<lambda>found s.
        case found of None \<Rightarrow> (Ok (), s)
        | Some data \<Rightarrow>
            and_then (or_fail (serialization E) (from_slice (json_deposit E) data) s) (\<lambda>deposit s.
              case updated_deposit payload deposit of None \<Rightarrow> (Ok (), s)
              | Some deposit \<Rightarrow>
                  and_then (or_fail (serialization E) (to_vec (json_deposit E) deposit) s) (\<lambda>data s.
                    spark_write E SPARK_DEPOSITS_NAMESPACE i data s))))"

subsection \<open>Cross-chain swaps\<close>

definition set_cross_chain_swap :: "('s, 'x) spark_env_scheme \<Rightarrow> StoredCrossChainSwap \<Rightarrow> 's \<Rightarrow>
    (StorageError, unit) result \<times> 's" where
  "set_cross_chain_swap E swap s =
     (let key = sync_record_key E [cs_provider swap, cs_id swap] in
      and_then (or_fail (StorageError_from_json E) (to_vec (json_swap E) swap) s) (\<lambda>data s.
        spark_write E SPARK_CROSS_CHAIN_NAMESPACE key data s))"

definition get_cross_chain_swap :: "('s, 'x) spark_env_scheme \<Rightarrow> string \<Rightarrow> string \<Rightarrow> 's \<Rightarrow>
    (StorageError, StoredCrossChainSwap option) result \<times> 's" where
  "get_cross_chain_swap E provider i s =
     (let key = sync_record_key E [provider, i] in
      and_then (spark_lookup E SPARK_CROSS_CHAIN_NAMESPACE key s) (\<lambda>found s.
        case found of None \<Rightarrow> (Ok None, s)
        | Some data \<Rightarrow>
            and_then (or_fail (StorageError_from_json E) (from_slice (json_swap E) data) s) (\<lambda>swap s.
              (Ok (Some swap), s))))"

definition list_active_cross_chain_swaps :: "('s, 'x) spark_env_scheme \<Rightarrow> string \<Rightarrow> 's \<Rightarrow>
    (StorageError, StoredCrossChainSwap list) result \<times> 's" where
  "list_active_cross_chain_swaps E provider s =
     and_then (spark_list E SPARK_CROSS_CHAIN_NAMESPACE s) (\<lambda>keys s.
     and_then (read_each E SPARK_CROSS_CHAIN_NAMESPACE
         (\<lambda>data s. or_fail (StorageError_from_json E) (from_slice (json_swap E) data) s) keys s) (\<lambda>swaps s.
       (Ok (filter (\<lambda>swap. cs_provider swap = provider \<and> \<not> cs_is_terminal swap) swaps), s)))"

subsection \<open>What the wallet does not use\<close>

definition set_lnurl_metadata :: "bytes list \<Rightarrow> 's \<Rightarrow> (StorageError, unit) result \<times> 's" where
  "set_lnurl_metadata metadata s = (Ok (), s)"

definition list_contacts :: "bytes \<Rightarrow> 's \<Rightarrow> (StorageError, bytes list) result \<times> 's" where
  "list_contacts request s = (Ok [], s)"

definition get_contact :: "string \<Rightarrow> 's \<Rightarrow> (StorageError, bytes) result \<times> 's" where
  "get_contact i s = (Err (Se_Implementation ''contacts are not supported''), s)"

definition insert_contact :: "bytes \<Rightarrow> 's \<Rightarrow> (StorageError, unit) result \<times> 's" where
  "insert_contact contact s = (Ok (), s)"

definition delete_contact :: "string \<Rightarrow> 's \<Rightarrow> (StorageError, unit) result \<times> 's" where
  "delete_contact i s = (Ok (), s)"

end
