(* ===== verification/Spark_Sync.thy ===== *)
theory Spark_Sync
  imports Spark_Store
begin

text \<open>
  The record synchronisation half of \<open>spark_store.rs\<close>: the last known state of each record, the
  queue of local changes not yet acknowledged by the server, keyed by a local revision counter,
  the records received but not yet processed, and the last server revision. Operations are taken
  one at a time: the source holds the revision lock only while it counts the revision up, so that
  the entries of two changes queued at the same time can be written in the other order (the queue
  is ordered by their revisions, not by the writes).
\<close>

subsection \<open>Sync state and revisions\<close>

definition read_sync_state :: "('s, 'x) spark_env_scheme \<Rightarrow> RecordId \<Rightarrow> 's \<Rightarrow>
    (StorageError, SyncRecord option) result \<times> 's" where
  "read_sync_state E i s =
     and_then (spark_lookup E SPARK_SYNC_STATE_NAMESPACE (record_id_key E i) s) (\<lambda>found s.
       case found of None \<Rightarrow> (Ok None, s)
       | Some bytes \<Rightarrow> and_then (bytes_to_record E bytes s) (\<lambda>r s. (Ok (Some r), s)))"

definition write_sync_state :: "('s, 'x) spark_env_scheme \<Rightarrow> SyncRecord \<Rightarrow> 's \<Rightarrow>
    (StorageError, unit) result \<times> 's" where
  "write_sync_state E r s =
     and_then (record_to_bytes E r s) (\<lambda>data s.
       spark_write E SPARK_SYNC_STATE_NAMESPACE (record_id_key E (rec_id r)) data s)"

definition read_revision :: "('s, 'x) spark_env_scheme \<Rightarrow> string \<Rightarrow> 's \<Rightarrow>
    (StorageError, u64) result \<times> 's" where
  "read_revision E key s =
     and_then (spark_lookup E SPARK_SYNC_REV_NAMESPACE key s) (\<lambda>found s.
       case found of None \<Rightarrow> (Ok 0, s)
       | Some bytes \<Rightarrow>
           if valid_utf8 (map unat bytes)
           then (Ok (case parse_u64 (bytes_to_text bytes) of Some n \<Rightarrow> n | None \<Rightarrow> 0), s)
           else (Err (Se_Serialization (utf8_error_debug E bytes)), s))"

definition write_revision :: "('s, 'x) spark_env_scheme \<Rightarrow> string \<Rightarrow> u64 \<Rightarrow> 's \<Rightarrow>
    (StorageError, unit) result \<times> 's" where
  "write_revision E key value s =
     spark_write E SPARK_SYNC_REV_NAMESPACE key (as_bytes (decimal value)) s"

definition update_server_revision :: "('s, 'x) spark_env_scheme \<Rightarrow> u64 \<Rightarrow> 's \<Rightarrow>
    (StorageError, unit) result \<times> 's" where
  "update_server_revision E new_revision s =
     and_then (read_revision E REVISION_KEY s) (\<lambda>current s.
       if new_revision > current then write_revision E REVISION_KEY new_revision s else (Ok (), s))"

definition next_local_revision :: "('s, 'x) spark_env_scheme \<Rightarrow> 's \<Rightarrow>
    (StorageError, u64) result \<times> 's" where
  "next_local_revision E s =
     and_then (read_revision E LOCAL_REVISION_KEY s) (\<lambda>current s.
       let next' = u64_wrapping_add current 1 in
       and_then (write_revision E LOCAL_REVISION_KEY next' s) (\<lambda>_ s. (Ok next', s)))"

definition get_last_revision :: "('s, 'x) spark_env_scheme \<Rightarrow> 's \<Rightarrow>
    (StorageError, u64) result \<times> 's" where
  "get_last_revision E s = read_revision E REVISION_KEY s"

subsection \<open>Outgoing changes\<close>

definition change_entry :: "('s, 'x) spark_env_scheme \<Rightarrow> UnversionedRecordChange \<Rightarrow> u64 \<Rightarrow> Value" where
  "change_entry E r local_revision = json_object
     [(''record_type'', VString (ri_type (uc_id r))),
      (''data_id'', VString (ri_data_id (uc_id r))),
      (''schema_version'', VString (uc_schema_version r)),
      (''updated_fields'', data_to_value E (uc_updated_fields r)),
      (''local_revision'', VNumber (PosInt local_revision))]"

definition add_outgoing_change :: "('s, 'x) spark_env_scheme \<Rightarrow> UnversionedRecordChange \<Rightarrow> 's \<Rightarrow>
    (StorageError, u64) result \<times> 's" where
  "add_outgoing_change E r s =
     and_then (next_local_revision E s) (\<lambda>local_revision s.
     and_then (or_fail (serialization E) (to_vec (json_value E) (change_entry E r local_revision)) s) (\<lambda>data s.
     and_then (spark_write E SPARK_SYNC_OUT_NAMESPACE (zero_pad20 local_revision) data s) (\<lambda>_ s.
       (Ok local_revision, s))))"

definition complete_outgoing_sync :: "('s, 'x) spark_env_scheme \<Rightarrow> SyncRecord \<Rightarrow> u64 \<Rightarrow> 's \<Rightarrow>
    (StorageError, unit) result \<times> 's" where
  "complete_outgoing_sync E r local_revision s =
     and_then (spark_remove_ignored E SPARK_SYNC_OUT_NAMESPACE (zero_pad20 local_revision) s) (\<lambda>_ s.
     and_then (write_sync_state E r s) (\<lambda>_ s.
       update_server_revision E (rec_revision r) s))"

text \<open>What both readers of the queue make of an entry.\<close>

definition outgoing_change :: "('s, 'x) spark_env_scheme \<Rightarrow> bytes \<Rightarrow> 's \<Rightarrow>
    (StorageError, OutgoingChange) result \<times> 's" where
  "outgoing_change E data s =
     and_then (or_fail (serialization E) (from_slice (json_value E) data) s) (\<lambda>v s.
     and_then (or_fail (serialization E) (data_from_value E (value_index v ''updated_fields'')) s)
       (\<lambda>updated_fields s.
        let i = \<lparr>ri_type = str_or_default (value_index v ''record_type''),
                 ri_data_id = str_or_default (value_index v ''data_id'')\<rparr>;
            change = \<lparr>rc_id = i,
              rc_schema_version = str_or_default (value_index v ''schema_version''),
              rc_updated_fields = updated_fields,
              rc_local_revision = u64_or_zero (value_index v ''local_revision'')\<rparr>
        in and_then (read_sync_state E i s) (\<lambda>parent s.
             (Ok \<lparr>oc_change = change, oc_parent = parent\<rparr>, s))))"

definition get_pending_outgoing_changes :: "('s, 'x) spark_env_scheme \<Rightarrow> u32 \<Rightarrow> 's \<Rightarrow>
    (StorageError, OutgoingChange list) result \<times> 's" where
  "get_pending_outgoing_changes E limit s =
     and_then (spark_list E SPARK_SYNC_OUT_NAMESPACE s) (\<lambda>keys s.
       read_each E SPARK_SYNC_OUT_NAMESPACE (outgoing_change E) (take limit (sort keys)) s)"

definition get_latest_outgoing_change :: "('s, 'x) spark_env_scheme \<Rightarrow> 's \<Rightarrow>
    (StorageError, OutgoingChange option) result \<times> 's" where
  "get_latest_outgoing_change E s =
     and_then (spark_list E SPARK_SYNC_OUT_NAMESPACE s) (\<lambda>keys s.
       if keys = [] then (Ok None, s)
       else and_then (map_err (implementation E)
              (spark_read E SPARK_SYNC_OUT_NAMESPACE (last (sort keys)) s)) (\<lambda>data s.
            and_then (outgoing_change E data s) (\<lambda>change s. (Ok (Some change), s))))"

subsection \<open>Incoming records\<close>

fun insert_incoming_records :: "('s, 'x) spark_env_scheme \<Rightarrow> SyncRecord list \<Rightarrow> 's \<Rightarrow>
    (StorageError, unit) result \<times> 's" where
  "insert_incoming_records E [] s = (Ok (), s)"
| "insert_incoming_records E (r # rs) s =
     and_then (record_to_bytes E r s) (\<lambda>data s.
     and_then (spark_write E SPARK_SYNC_IN_NAMESPACE (incoming_record_key E r) data s) (\<lambda>_ s.
       insert_incoming_records E rs s))"

definition delete_incoming_record :: "('s, 'x) spark_env_scheme \<Rightarrow> SyncRecord \<Rightarrow> 's \<Rightarrow>
    (StorageError, unit) result \<times> 's" where
  "delete_incoming_record E r s =
     spark_remove_ignored E SPARK_SYNC_IN_NAMESPACE (incoming_record_key E r) s"

fun with_old_states :: "('s, 'x) spark_env_scheme \<Rightarrow> SyncRecord list \<Rightarrow> 's \<Rightarrow>
    (StorageError, IncomingChange list) result \<times> 's" where
  "with_old_states E [] s = (Ok [], s)"
| "with_old_states E (r # rs) s =
     and_then (read_sync_state E (rec_id r) s) (\<lambda>old_state s.
     and_then (with_old_states E rs s) (\<lambda>cs s.
       (Ok (\<lparr>ic_new_state = r, ic_old_state = old_state\<rparr> # cs), s)))"

definition get_incoming_records :: "('s, 'x) spark_env_scheme \<Rightarrow> u32 \<Rightarrow> 's \<Rightarrow>
    (StorageError, IncomingChange list) result \<times> 's" where
  "get_incoming_records E limit s =
     and_then (spark_list E SPARK_SYNC_IN_NAMESPACE s) (\<lambda>keys s.
     and_then (read_each E SPARK_SYNC_IN_NAMESPACE (bytes_to_record E) keys s) (\<lambda>incoming s.
       with_old_states E (take limit (sort_key rec_revision incoming)) s))"

definition update_record_from_incoming :: "('s, 'x) spark_env_scheme \<Rightarrow> SyncRecord \<Rightarrow> 's \<Rightarrow>
    (StorageError, unit) result \<times> 's" where
  "update_record_from_incoming E r s =
     and_then (write_sync_state E r s) (\<lambda>_ s. update_server_revision E (rec_revision r) s)"

end
