(* ===== verification/Spark_Keys.thy ===== *)
theory Spark_Keys
  imports Spark_Sync
begin

text \<open>
  Lemmas on the keys of the Spark storage: decimal texts and their order, the zero-padded keys
  of the outgoing queue, the length-prefixed keys of records.
\<close>

subsection \<open>Digits\<close>

definition digit :: "char \<Rightarrow> bool" where
  "digit c \<longleftrightarrow> 48 \<le> (of_char c :: nat) \<and> (of_char c :: nat) \<le> 57"

lemma decimal_digits: "c \<in> set (decimal n) \<Longrightarrow> digit c"
  using decimal_digit by (simp add: digit_def)

lemma decimal_value_shift:
  "foldl (\<lambda>n c. 10 * n + ((of_char c :: nat) - 48)) a cs = a * 10 ^ length cs + decimal_value cs"
proof (induction cs arbitrary: a)
  case (Cons c cs)
  show ?case
    using Cons.IH [of "10 * a + (of_char c - 48)"] Cons.IH [of "of_char c - 48"]
    by (simp add: decimal_value_def algebra_simps)
qed (simp add: decimal_value_def)

lemma decimal_value_Cons:
  "decimal_value (c # cs) = ((of_char c :: nat) - 48) * 10 ^ length cs + decimal_value cs"
  using decimal_value_shift [of "of_char c - 48" cs] by (simp add: decimal_value_def)

lemma decimal_value_Nil [simp]: "decimal_value [] = 0"
  by (simp add: decimal_value_def)

lemma decimal_value_bound: "list_all digit cs \<Longrightarrow> decimal_value cs < 10 ^ length cs"
proof (induction cs)
  case (Cons c cs)
  then have "(of_char c :: nat) - 48 \<le> 9" and "decimal_value cs < 10 ^ length cs"
    by (auto simp: digit_def)
  then have "decimal_value (c # cs) < 9 * 10 ^ length cs + 10 ^ length cs"
    unfolding decimal_value_Cons by (meson add_le_less_mono mult_le_mono1)
  then show ?case by simp
qed simp

text \<open>On digit strings of one length the order of texts is the order of numbers.\<close>

lemma digits_less_iff:
  assumes "length xs = length ys" and "list_all digit xs" and "list_all digit ys"
  shows "xs < ys \<longleftrightarrow> decimal_value xs < decimal_value ys"
  using assms
proof (induction xs ys rule: list_induct2)
  case (Cons x xs y ys)
  let ?k = "10 ^ length ys :: nat"
  let ?d = "\<lambda>c. (of_char c :: nat) - 48"
  have bounds: "decimal_value xs < ?k" "decimal_value ys < ?k"
    using Cons decimal_value_bound [of xs] decimal_value_bound [of ys] by auto
  have digits: "x < y \<longleftrightarrow> ?d x < ?d y" "x = y \<longleftrightarrow> ?d x = ?d y"
    using Cons.prems by (auto simp: digit_def less_char_def) (metis eq_diff_iff of_char_eq_iff)
  have split: "a * ?k + decimal_value xs < b * ?k + decimal_value ys
      \<longleftrightarrow> a < b \<or> a = b \<and> decimal_value xs < decimal_value ys" for a b :: nat
  proof (cases a b rule: linorder_cases)
    case less
    then have "Suc a * ?k \<le> b * ?k" by (intro mult_le_mono1) simp
    with less bounds show ?thesis by simp
  next
    case greater
    then have "Suc b * ?k \<le> a * ?k" by (intro mult_le_mono1) simp
    with greater bounds show ?thesis by simp
  qed simp
  show ?case
    using Cons split [of "?d x" "?d y"] digits by (simp add: decimal_value_Cons)
qed simp

lemma decimal_length: "n < 10 ^ Suc k \<Longrightarrow> length (decimal n) \<le> Suc k"
proof (induction k arbitrary: n)
  case 0
  then show ?case by (simp add: decimal.simps [of n])
next
  case (Suc k)
  then have "n div 10 < 10 ^ Suc k" by auto
  from Suc.IH [OF this] show ?case by (subst decimal.simps) simp
qed

subsection \<open>Revisions as text\<close>

lemma parse_u64_decimal [simp]: "n \<le> u64_max \<Longrightarrow> parse_u64 (decimal n) = Some n"
proof -
  assume n: "n \<le> u64_max"
  obtain c cs where d: "decimal n = c # cs" by (cases "decimal n") auto
  then have "digit c" using decimal_digits [of c n] by simp
  then have "c \<noteq> CHR ''+''" by (auto simp: digit_def)
  moreover have "list_all (\<lambda>c. 48 \<le> (of_char c :: nat) \<and> (of_char c :: nat) \<le> 57) (decimal n)"
    using decimal_digit by (simp add: list_all_iff)
  ultimately show ?thesis
    using n d decimal_value_decimal [of n] by (simp add: parse_u64_def del: decimal_value_decimal)
qed

lemma bytes_to_text_as_bytes [simp]: "bytes_to_text (as_bytes s) = s"
proof -
  have "char_of (unat (word_of_nat (of_char c) :: u8)) = c" for c
    by (simp add: unat_of_nat)
  then show ?thesis by (simp add: bytes_to_text_def as_bytes_def o_def)
qed

lemma valid_utf8_ascii: "list_all (\<lambda>b. b < 128) bs \<Longrightarrow> valid_utf8 bs"
  by (induction bs) auto

lemma valid_utf8_decimal [simp]: "valid_utf8 (map unat (as_bytes (decimal n)))"
proof (rule valid_utf8_ascii)
  have "unat (word_of_nat (of_char c) :: u8) < 128" if "c \<in> set (decimal n)" for c
    using decimal_digit [OF that] by (simp add: unat_of_nat)
  then show "list_all (\<lambda>b. b < 128) (map unat (as_bytes (decimal n)))"
    by (simp add: as_bytes_def list_all_iff)
qed

text \<open>The keys of the outgoing queue.\<close>

lemma length_decimal_u64: "n \<le> u64_max \<Longrightarrow> length (decimal n) \<le> 20"
  using decimal_length [of n 19] by (simp add: u64_max_def)

lemma length_zero_pad20: "n \<le> u64_max \<Longrightarrow> length (zero_pad20 n) = 20"
  using length_decimal_u64 [of n] by (simp add: zero_pad20_def Let_def)

lemma zero_pad20_digits: "list_all digit (zero_pad20 n)"
  using decimal_digits by (auto simp: zero_pad20_def Let_def list_all_iff digit_def)

lemma decimal_value_zeros [simp]: "decimal_value (replicate m (CHR ''0'') @ cs) = decimal_value cs"
  by (induction m) (simp_all add: decimal_value_Cons)

lemma decimal_value_zero_pad20 [simp]: "decimal_value (zero_pad20 n) = n"
  by (simp add: zero_pad20_def Let_def)

lemma zero_pad20_inj [simp]: "zero_pad20 m = zero_pad20 n \<longleftrightarrow> m = n"
  by (metis decimal_value_zero_pad20)

lemma zero_pad20_less:
  "m \<le> u64_max \<Longrightarrow> n \<le> u64_max \<Longrightarrow> zero_pad20 m < zero_pad20 n \<longleftrightarrow> m < n"
  using digits_less_iff [OF _ zero_pad20_digits zero_pad20_digits, of m n]
  by (simp add: length_zero_pad20)

lemma sort_zero_pad20:
  assumes "set ks = zero_pad20 ` A" and "distinct ks" and "\<And>n. n \<in> A \<Longrightarrow> n \<le> u64_max"
  shows "sort ks = map zero_pad20 (sorted_list_of_set A)"
proof -
  have A: "finite A"
    using assms(1) finite_set [of ks] by (metis finite_imageD inj_onI zero_pad20_inj)
  have "strict_mono_on A zero_pad20"
    using assms(3) zero_pad20_less by (auto simp: strict_mono_on_def)
  moreover have "sorted_wrt (<) (sorted_list_of_set A)" by simp
  ultimately have "sorted_wrt (<) (map zero_pad20 (sorted_list_of_set A))"
    using A unfolding sorted_wrt_map
    by (elim sorted_wrt_mono_rel [rotated]) (auto simp: strict_mono_on_def)
  moreover have "sorted_wrt (<) (sort ks)"
    using assms(2) by (simp add: strict_sorted_iff)
  ultimately show ?thesis
    using A assms(1) by (intro strict_sorted_equal) auto
qed

subsection \<open>Length-prefixed keys\<close>

lemma joined_parts_shift:
  "fold (\<lambda>part key. key @ decimal (length part) @ ''_'' @ part) parts a = a @ joined_parts parts"
proof (induction parts arbitrary: a)
  case (Cons p ps)
  show ?case
    using Cons.IH [of "a @ decimal (length p) @ ''_'' @ p"] Cons.IH [of "decimal (length p) @ ''_'' @ p"]
    by (simp add: joined_parts_def)
qed (simp add: joined_parts_def)

lemma joined_parts_simps [simp]:
  "joined_parts [] = []"
  "joined_parts (p # ps) = decimal (length p) @ ''_'' @ p @ joined_parts ps"
proof -
  show "joined_parts [] = []" by (simp add: joined_parts_def)
  have "joined_parts (p # ps)
      = fold (\<lambda>part key. key @ decimal (length part) @ ''_'' @ part) ps (decimal (length p) @ ''_'' @ p)"
    by (simp add: joined_parts_def)
  also have "\<dots> = (decimal (length p) @ ''_'' @ p) @ joined_parts ps"
    by (rule joined_parts_shift)
  finally show "joined_parts (p # ps) = decimal (length p) @ ''_'' @ p @ joined_parts ps"
    by simp
qed

lemma split_at_unique:
  "as @ x # xs = bs @ x # ys \<Longrightarrow> x \<notin> set as \<Longrightarrow> x \<notin> set bs \<Longrightarrow> as = bs \<and> xs = ys"
proof (induction as arbitrary: bs)
  case Nil
  then show ?case by (cases bs) auto
next
  case (Cons a as)
  then show ?case by (cases bs) auto
qed

text \<open>A run of digits ended by an underscore can be split off in one way.\<close>

lemma decimal_prefix_unique:
  assumes "decimal m @ CHR ''_'' # xs = decimal n @ CHR ''_'' # ys"
  shows "m = n \<and> xs = ys"
proof -
  have underscore: "CHR ''_'' \<notin> set (decimal k)" for k
    using decimal_digits [of "CHR ''_''" k] by (auto simp: digit_def)
  from split_at_unique [OF assms underscore underscore] show ?thesis by simp
qed

lemma joined_parts_inj: "joined_parts ps = joined_parts qs \<Longrightarrow> ps = qs"
proof (induction ps arbitrary: qs)
  case Nil
  then show ?case by (cases qs) auto
next
  case (Cons p ps)
  then obtain q qs' where qs: "qs = q # qs'" by (cases qs) auto
  from Cons.prems have "length p = length q \<and> p @ joined_parts ps = q @ joined_parts qs'"
    unfolding qs by (intro decimal_prefix_unique) simp
  with Cons.IH [of qs'] qs show ?case by auto
qed

lemma joined_parts_not_hashed: "joined_parts ps \<noteq> ''h_'' @ xs"
proof (cases ps)
  case (Cons p ps')
  obtain c cs where d: "decimal (length p) = c # cs" by (cases "decimal (length p)") auto
  then have "digit c" using decimal_digits [of c "length p"] by simp
  with d Cons show ?thesis by (auto simp: digit_def)
qed simp

end
