(* ===== verification/Spark_Facts.thy ===== *)
theory Spark_Facts
  imports Spark_Keys
begin

text \<open>
  Lemmas on the Spark storage over any store that keeps the contract \<open>kv_store\<close>: the steps the
  wallet's SDK can take on it, what each leaves alone, the stored status of a payment and the
  queue of outgoing changes as a map from local revisions.
\<close>

subsection \<open>Steps\<close>

text \<open>One call of the \<open>Storage\<close> trait, whatever it returns.\<close>

inductive spark_step :: "('s, 'x) spark_env_scheme \<Rightarrow> 's \<Rightarrow> 's \<Rightarrow> bool" for E where
  "spark_step E s (snd (delete_cached_item E key s))"
| "spark_step E s (snd (get_cached_item E key s))"
| "spark_step E s (snd (set_cached_item E key value s))"
| "spark_step E s (snd (list_payments E request s))"
| step_apply_payment_update: "spark_step E s (snd (apply_payment_update E payment s))"
| "spark_step E s (snd (insert_payment_metadata E i metadata s))"
| "spark_step E s (snd (get_payment_by_id E i s))"
| "spark_step E s (snd (get_payment_by_invoice E invoice s))"
| "spark_step E s (snd (get_payments_by_parent_ids E is s))"
| "spark_step E s (snd (add_deposit E txid vout amount_sats is_mature s))"
| "spark_step E s (snd (delete_deposit E txid vout s))"
| "spark_step E s (snd (list_deposits E s))"
| "spark_step E s (snd (update_deposit E txid vout payload s))"
| "spark_step E s (snd (set_cross_chain_swap E swap s))"
| "spark_step E s (snd (get_cross_chain_swap E provider i s))"
| "spark_step E s (snd (list_active_cross_chain_swaps E provider s))"
| step_add_outgoing_change: "spark_step E s (snd (add_outgoing_change E change s))"
| step_complete_outgoing_sync: "spark_step E s (snd (complete_outgoing_sync E r local_revision s))"
| "spark_step E s (snd (get_pending_outgoing_changes E limit s))"
| "spark_step E s (snd (get_last_revision E s))"
| "spark_step E s (snd (insert_incoming_records E rs s))"
| "spark_step E s (snd (delete_incoming_record E r s))"
| "spark_step E s (snd (get_incoming_records E limit s))"
| "spark_step E s (snd (get_latest_outgoing_change E s))"
| step_update_record: "spark_step E s (snd (update_record_from_incoming E r s))"

subsection \<open>A calculus of final states\<close>

text \<open>\<open>ends P r\<close>: the call ends, in whatever way, in a state with \<open>P\<close>.\<close>

definition ends :: "('s \<Rightarrow> bool) \<Rightarrow> ('e, 'a) result \<times> 's \<Rightarrow> bool" where
  "ends P r \<longleftrightarrow> P (snd r)"

named_theorems ends_intros

lemma ends_and_then [ends_intros]:
  "ends P r \<Longrightarrow> (\<And>a t. P t \<Longrightarrow> ends P (f a t)) \<Longrightarrow> ends P (and_then r f)"
  by (cases "(r, f)" rule: and_then.cases) (auto simp: ends_def)

lemma ends_map_err [ends_intros]: "ends P r \<Longrightarrow> ends P (map_err f r)"
  by (simp add: ends_def)

lemma ends_pair [ends_intros]: "P t \<Longrightarrow> ends P (r, t)"
  by (simp add: ends_def)

lemma ends_if [ends_intros]: "(b \<Longrightarrow> ends P x) \<Longrightarrow> (\<not> b \<Longrightarrow> ends P y) \<Longrightarrow> ends P (if b then x else y)"
  by simp

lemma ends_Let [ends_intros]: "ends P (f x) \<Longrightarrow> ends P (Let x f)"
  by simp

lemma ends_option [ends_intros]:
  "(x = None \<Longrightarrow> ends P a) \<Longrightarrow> (\<And>y. x = Some y \<Longrightarrow> ends P (f y)) \<Longrightarrow>
   ends P (case x of None \<Rightarrow> a | Some y \<Rightarrow> f y)"
  by (cases x) auto

lemma ends_sum [ends_intros]:
  "(\<And>a. x = Inl a \<Longrightarrow> ends P (f a)) \<Longrightarrow> (\<And>b. x = Inr b \<Longrightarrow> ends P (g b)) \<Longrightarrow>
   ends P (case x of Inl a \<Rightarrow> f a | Inr b \<Rightarrow> g b)"
  by (cases x) auto

lemma ends_match [ends_intros]:
  assumes "ends P x" and "\<And>a t. P t \<Longrightarrow> ends P (f a t)" and "\<And>e t. P t \<Longrightarrow> ends P (g e t)"
    and "\<And>m t. P t \<Longrightarrow> ends P (h m t)"
  shows "ends P (case x of (r, t) \<Rightarrow> (case r of Ok a \<Rightarrow> f a t | Err e \<Rightarrow> g e t | Panic m \<Rightarrow> h m t))"
  using assms by (cases x; cases "fst x") (auto simp: ends_def)

lemma ends_io_error [ends_intros]:
  "ends P a \<Longrightarrow> (\<And>x. ends P (f x)) \<Longrightarrow> ends P (case e of NotFound \<Rightarrow> a | IoOther x \<Rightarrow> f x)"
  by (cases e) auto

lemma ends_storage_error [ends_intros]:
  "(\<And>x. ends P (f x)) \<Longrightarrow> (\<And>x. ends P (g x)) \<Longrightarrow> ends P a \<Longrightarrow>
   ends P (case e of Se_Implementation x \<Rightarrow> f x | Se_Serialization x \<Rightarrow> g x | Se_NotFound \<Rightarrow> a)"
  by (cases e) auto

lemma ends_or_fail [ends_intros]: "P t \<Longrightarrow> ends P (or_fail f r t)"
  by (simp add: ends_def or_fail_def split: sum.split)

lemma ends_slice [ends_intros]: "P t \<Longrightarrow> ends P (sanitize_key E key t)"
  by (simp add: ends_def sanitize_key_def)

lemma or_fail_simps [simp]: "or_fail f (Inr x) s = (Ok x, s)" "or_fail f (Inl e) s = (Err (f e), s)"
  by (simp_all add: or_fail_def)

subsection \<open>The contract of the store\<close>

locale spark_ctx =
  fixes E :: "('s, 'x) spark_env_scheme" and view :: "'s \<Rightarrow> kv_view"
  assumes store: "kv_store (spark_kvs E) view"

sublocale spark_ctx \<subseteq> kv: kv_store "spark_kvs E" view
  by (rule store)

abbreviation "spark_cell view s ns k \<equiv> view s (SPARK_PRIMARY_NAMESPACE, ns, k)"

definition leaves :: "('s \<Rightarrow> kv_view) \<Rightarrow> (string \<times> string) set \<Rightarrow> 's \<Rightarrow> 's \<Rightarrow> bool" where
  "leaves view N s t \<longleftrightarrow> (\<forall>p q k. p \<noteq> SPARK_PRIMARY_NAMESPACE \<or> (q, k) \<notin> N \<longrightarrow> view t (p, q, k) = view s (p, q, k))"

lemma leaves_refl [simp, intro]: "leaves view N s s"
  by (simp add: leaves_def)

lemma leaves_cell: "leaves view N s t \<Longrightarrow> (ns, k) \<notin> N \<Longrightarrow> spark_cell view t ns k = spark_cell view s ns k"
  by (simp add: leaves_def)

lemma leaves_mono: "leaves view N s t \<Longrightarrow> N \<subseteq> M \<Longrightarrow> leaves view M s t"
  by (auto simp: leaves_def)

context spark_ctx
begin

lemma spark_read_cases:
  obtains r t where "spark_read E ns k s = (r, t)" and "view t = view s"
    and "\<And>data. r = Ok data \<Longrightarrow> spark_cell view s ns k = Some data"
    and "r = Err NotFound \<Longrightarrow> spark_cell view s ns k = None"
  using kv.read_keeps [of s SPARK_PRIMARY_NAMESPACE ns k] kv.read_Ok [of s SPARK_PRIMARY_NAMESPACE ns k]
    kv.read_NotFound [of s SPARK_PRIMARY_NAMESPACE ns k] that
  by (cases "spark_read E ns k s") (auto simp: spark_read_def)

lemma spark_write_cases:
  obtains r t where "spark_write E ns k d s = (r, t)"
    and "view t = view s \<or> view t = (view s)((SPARK_PRIMARY_NAMESPACE, ns, k) \<mapsto> d)"
    and "r = Ok () \<Longrightarrow> view t = (view s)((SPARK_PRIMARY_NAMESPACE, ns, k) \<mapsto> d)"
proof (rule that)
  let ?w = "kv_write (spark_kvs E) s SPARK_PRIMARY_NAMESPACE ns k d"
  show "spark_write E ns k d s = (fst (spark_write E ns k d s), snd ?w)"
    by (cases "spark_write E ns k d s") (metis fst_conv snd_conv snd_map_err spark_write_def)
  show "view (snd ?w) = view s \<or> view (snd ?w) = (view s)((SPARK_PRIMARY_NAMESPACE, ns, k) \<mapsto> d)"
    using kv.write_any [of s SPARK_PRIMARY_NAMESPACE ns k d] by simp
  show "view (snd ?w) = (view s)((SPARK_PRIMARY_NAMESPACE, ns, k) \<mapsto> d)"
    if "fst (spark_write E ns k d s) = Ok ()"
    using that kv.write_Ok [of s SPARK_PRIMARY_NAMESPACE ns k d] by (simp add: spark_write_def)
qed

lemma spark_list_cases:
  obtains r t where "spark_list E ns s = (r, t)" and "view t = view s"
    and "\<And>ks. r = Ok ks \<Longrightarrow> distinct ks \<and> set ks = {k. spark_cell view s ns k \<noteq> None}"
proof (rule that)
  let ?w = "kv_list (spark_kvs E) s SPARK_PRIMARY_NAMESPACE ns"
  show "spark_list E ns s = (fst (spark_list E ns s), snd ?w)"
    by (cases "spark_list E ns s") (metis fst_conv snd_conv snd_map_err spark_list_def)
  show "view (snd ?w) = view s" by (rule kv.list_keeps)
  show "distinct ks \<and> set ks = {k. spark_cell view s ns k \<noteq> None}" if "fst (spark_list E ns s) = Ok ks" for ks
    using that kv.list_Ok [of s SPARK_PRIMARY_NAMESPACE ns ks] by (simp add: spark_list_def)
qed

lemma spark_lookup_cases:
  obtains r t where "spark_lookup E ns k s = (r, t)" and "view t = view s"
    and "\<And>x. r = Ok x \<Longrightarrow> x = spark_cell view s ns k"
  using spark_read_cases [of ns k s]
proof -
  assume *: "\<And>r t. spark_lookup E ns k s = (r, t) \<Longrightarrow> view t = view s \<Longrightarrow>
      (\<And>x. r = Ok x \<Longrightarrow> x = spark_cell view s ns k) \<Longrightarrow> thesis"
  from spark_read_cases [of ns k s] obtain r t where
    rt: "spark_read E ns k s = (r, t)" "view t = view s"
      "\<And>data. r = Ok data \<Longrightarrow> spark_cell view s ns k = Some data"
      "r = Err NotFound \<Longrightarrow> spark_cell view s ns k = None" by blast
  show thesis
    by (rule * [of "fst (spark_lookup E ns k s)" t])
      (use rt in \<open>auto simp: spark_lookup_def split: result.splits io_error.splits\<close>)
qed

subsection \<open>What is left alone\<close>

lemma leaves_read [ends_intros]: "leaves view N s t \<Longrightarrow> ends (leaves view N s) (spark_read E ns k t)"
  using kv.read_keeps [of t SPARK_PRIMARY_NAMESPACE ns k] by (simp add: ends_def leaves_def spark_read_def)

lemma leaves_list [ends_intros]: "leaves view N s t \<Longrightarrow> ends (leaves view N s) (spark_list E ns t)"
  using kv.list_keeps [of t SPARK_PRIMARY_NAMESPACE ns] by (simp add: ends_def leaves_def spark_list_def)

lemma leaves_write [ends_intros]:
  "(ns, k) \<in> N \<Longrightarrow> leaves view N s t \<Longrightarrow> ends (leaves view N s) (spark_write E ns k d t)"
  using kv.write_any [of t SPARK_PRIMARY_NAMESPACE ns k d]
  by (auto simp: ends_def leaves_def spark_write_def)

lemma leaves_remove [ends_intros]:
  "(ns, k) \<in> N \<Longrightarrow> leaves view N s t \<Longrightarrow> ends (leaves view N s) (spark_remove E ns k t)"
  using kv.remove_any [of t SPARK_PRIMARY_NAMESPACE ns k False]
  by (auto simp: ends_def leaves_def spark_remove_def)

lemma leaves_remove_ignored [ends_intros]:
  "(ns, k) \<in> N \<Longrightarrow> leaves view N s t \<Longrightarrow> ends (leaves view N s) (spark_remove_ignored E ns k t)"
  unfolding spark_remove_ignored_def by (intro ends_intros)

lemma leaves_lookup [ends_intros]: "leaves view N s t \<Longrightarrow> ends (leaves view N s) (spark_lookup E ns k t)"
  unfolding spark_lookup_def by (intro ends_intros)

lemma leaves_read_each [ends_intros]:
  assumes "\<And>d t. leaves view N s t \<Longrightarrow> ends (leaves view N s) (decode d t)"
  shows "leaves view N s t \<Longrightarrow> ends (leaves view N s) (read_each E ns decode keys t)"
proof (induction keys arbitrary: t)
  case (Cons k ks)
  show ?case unfolding read_each.simps by (intro ends_intros assms Cons)
qed (simp add: ends_def)

lemma leaves_get_cached_item [ends_intros]:
  "leaves view N s t \<Longrightarrow> ends (leaves view N s) (get_cached_item E key t)"
  unfolding get_cached_item_def by (intro ends_intros)

lemma leaves_get_payment_by_id [ends_intros]:
  "leaves view N s t \<Longrightarrow> ends (leaves view N s) (get_payment_by_id E i t)"
  unfolding get_payment_by_id_def by (intro ends_intros)

lemma leaves_list_payments [ends_intros]:
  "leaves view N s t \<Longrightarrow> ends (leaves view N s) (list_payments E request t)"
  unfolding list_payments_def Let_def by (intro ends_intros)

lemma leaves_collect_by_parent [ends_intros]:
  "leaves view N s t \<Longrightarrow> ends (leaves view N s) (collect_by_parent E parents keys acc t)"
proof (induction keys arbitrary: acc t)
  case (Cons k ks)
  show ?case unfolding collect_by_parent.simps by (intro ends_intros Cons)
qed (simp add: ends_def)

lemma leaves_bytes_to_record [ends_intros]:
  "leaves view N s t \<Longrightarrow> ends (leaves view N s) (bytes_to_record E d t)"
  unfolding bytes_to_record_def by (intro ends_intros)

lemma leaves_record_to_bytes [ends_intros]:
  "leaves view N s t \<Longrightarrow> ends (leaves view N s) (record_to_bytes E r t)"
  unfolding record_to_bytes_def by (intro ends_intros)

lemma leaves_read_sync_state [ends_intros]:
  "leaves view N s t \<Longrightarrow> ends (leaves view N s) (read_sync_state E i t)"
  unfolding read_sync_state_def by (intro ends_intros)

lemma leaves_read_revision [ends_intros]:
  "leaves view N s t \<Longrightarrow> ends (leaves view N s) (read_revision E key t)"
  unfolding read_revision_def by (intro ends_intros)

lemma leaves_outgoing_change [ends_intros]:
  "leaves view N s t \<Longrightarrow> ends (leaves view N s) (outgoing_change E d t)"
  unfolding outgoing_change_def Let_def by (intro ends_intros)

lemma leaves_with_old_states [ends_intros]:
  "leaves view N s t \<Longrightarrow> ends (leaves view N s) (with_old_states E rs t)"
proof (induction rs arbitrary: t)
  case (Cons r rs)
  show ?case unfolding with_old_states.simps by (intro ends_intros Cons)
qed (simp add: ends_def)

text \<open>The operations that only read leave everything alone.\<close>

lemmas reading_ops = get_payment_by_invoice_def get_payments_by_parent_ids_def list_deposits_def
  get_cross_chain_swap_def list_active_cross_chain_swaps_def get_pending_outgoing_changes_def
  get_last_revision_def get_incoming_records_def get_latest_outgoing_change_def

text \<open>The operations that write, by the keys they may write.\<close>

lemma leaves_cache_ops:
  assumes "{SPARK_CACHE_NAMESPACE} \<times> UNIV \<subseteq> N"
  shows "ends (leaves view N s) (delete_cached_item E key s)"
    and "ends (leaves view N s) (set_cached_item E key value s)"
  unfolding delete_cached_item_def set_cached_item_def by (intro ends_intros leaves_refl; use assms in blast)+

lemma leaves_metadata_op:
  assumes "{SPARK_METADATA_NAMESPACE} \<times> UNIV \<subseteq> N"
  shows "ends (leaves view N s) (insert_payment_metadata E i metadata s)"
  unfolding insert_payment_metadata_def Let_def by (intro ends_intros leaves_refl; use assms in blast)

lemma leaves_deposit_ops:
  assumes "{SPARK_DEPOSITS_NAMESPACE} \<times> UNIV \<subseteq> N"
  shows "ends (leaves view N s) (add_deposit E txid vout amount_sats is_mature s)"
    and "ends (leaves view N s) (delete_deposit E txid vout s)"
    and "ends (leaves view N s) (update_deposit E txid vout payload s)"
  unfolding add_deposit_def delete_deposit_def update_deposit_def Let_def
  by (intro ends_intros leaves_refl; use assms in blast)+

lemma leaves_swap_op:
  assumes "{SPARK_CROSS_CHAIN_NAMESPACE} \<times> UNIV \<subseteq> N"
  shows "ends (leaves view N s) (set_cross_chain_swap E swap s)"
  unfolding set_cross_chain_swap_def Let_def by (intro ends_intros leaves_refl; use assms in blast)

lemma leaves_write_revision [ends_intros]:
  "(SPARK_SYNC_REV_NAMESPACE, key) \<in> N \<Longrightarrow> leaves view N s t \<Longrightarrow>
   ends (leaves view N s) (write_revision E key n t)"
  unfolding write_revision_def by (intro ends_intros)

lemma leaves_server_revision [ends_intros]:
  "(SPARK_SYNC_REV_NAMESPACE, REVISION_KEY) \<in> N \<Longrightarrow> leaves view N s t \<Longrightarrow>
   ends (leaves view N s) (update_server_revision E n t)"
  unfolding update_server_revision_def by (intro ends_intros)

lemma leaves_write_sync_state [ends_intros]:
  "(SPARK_SYNC_STATE_NAMESPACE, record_id_key E (rec_id r)) \<in> N \<Longrightarrow> leaves view N s t \<Longrightarrow>
   ends (leaves view N s) (write_sync_state E r t)"
  unfolding write_sync_state_def by (intro ends_intros)

lemma leaves_update_record:
  "{SPARK_SYNC_STATE_NAMESPACE} \<times> UNIV \<subseteq> N \<Longrightarrow> (SPARK_SYNC_REV_NAMESPACE, REVISION_KEY) \<in> N \<Longrightarrow>
   ends (leaves view N s) (update_record_from_incoming E r s)"
  unfolding update_record_from_incoming_def by (intro ends_intros leaves_refl) blast+

lemma leaves_insert_incoming:
  assumes N: "{SPARK_SYNC_IN_NAMESPACE} \<times> UNIV \<subseteq> N"
  shows "leaves view N s t \<Longrightarrow> ends (leaves view N s) (insert_incoming_records E rs t)"
proof (induction rs arbitrary: t)
  case (Cons r rs)
  from N have key: "(SPARK_SYNC_IN_NAMESPACE, incoming_record_key E r) \<in> N" by blast
  show ?case
    unfolding insert_incoming_records.simps by (intro ends_intros key Cons.prems Cons.IH)
qed (simp add: ends_def)

lemma leaves_delete_incoming:
  "{SPARK_SYNC_IN_NAMESPACE} \<times> UNIV \<subseteq> N \<Longrightarrow> ends (leaves view N s) (delete_incoming_record E r s)"
  unfolding delete_incoming_record_def by (intro ends_intros leaves_refl) blast

end

end
