(* ===== verification/Spark_Queue.thy ===== *)
theory Spark_Queue
  imports Spark_Facts "HOL-Library.Multiset"
begin

text \<open>
  What the contents of the store say about payments and about the outgoing queue, and how the
  operations change it.
\<close>

definition stored_status :: "('s, 'x) spark_env_scheme \<Rightarrow> ('s \<Rightarrow> kv_view) \<Rightarrow> 's \<Rightarrow> string \<Rightarrow>
    SparkPaymentStatus option" where
  "stored_status E view s i = (case spark_cell view s SPARK_PAYMENTS_NAMESPACE i of
     None \<Rightarrow> None
   | Some d \<Rightarrow> (case from_slice (json_payment E) d of Inr p \<Rightarrow> Some (sp_status p) | Inl _ \<Rightarrow> None))"

text \<open>The change an entry of the queue stands for, the queue as a map, and the counter.\<close>

definition entry_change :: "('s, 'x) spark_env_scheme \<Rightarrow> bytes \<Rightarrow> RecordChange option" where
  "entry_change E d = (case from_slice (json_value E) d of
     Inl _ \<Rightarrow> None
   | Inr v \<Rightarrow> (case data_from_value E (value_index v ''updated_fields'') of
       Inl _ \<Rightarrow> None
     | Inr updated \<Rightarrow> Some \<lparr>rc_id = \<lparr>ri_type = str_or_default (value_index v ''record_type''),
           ri_data_id = str_or_default (value_index v ''data_id'')\<rparr>,
         rc_schema_version = str_or_default (value_index v ''schema_version''),
         rc_updated_fields = updated,
         rc_local_revision = u64_or_zero (value_index v ''local_revision'')\<rparr>))"

definition pending_changes :: "('s, 'x) spark_env_scheme \<Rightarrow> ('s \<Rightarrow> kv_view) \<Rightarrow> 's \<Rightarrow>
    u64 \<rightharpoonup> RecordChange" where
  "pending_changes E view s n =
     (case spark_cell view s SPARK_SYNC_OUT_NAMESPACE (zero_pad20 n) of
        None \<Rightarrow> None | Some d \<Rightarrow> entry_change E d)"

definition local_counter :: "('s \<Rightarrow> kv_view) \<Rightarrow> 's \<Rightarrow> u64" where
  "local_counter view s = (case spark_cell view s SPARK_SYNC_REV_NAMESPACE LOCAL_REVISION_KEY of
     None \<Rightarrow> 0
   | Some bytes \<Rightarrow> (case parse_u64 (bytes_to_text bytes) of Some n \<Rightarrow> n | None \<Rightarrow> 0))"

definition queue_wf :: "('s, 'x) spark_env_scheme \<Rightarrow> ('s \<Rightarrow> kv_view) \<Rightarrow> 's \<Rightarrow> bool" where
  "queue_wf E view s \<longleftrightarrow> (\<forall>k d. spark_cell view s SPARK_SYNC_OUT_NAMESPACE k = Some d \<longrightarrow>
     (\<exists>n c. k = zero_pad20 n \<and> n \<le> local_counter view s \<and> entry_change E d = Some c
        \<and> rc_local_revision c = n))"

definition versioned :: "UnversionedRecordChange \<Rightarrow> u64 \<Rightarrow> RecordChange" where
  "versioned r n = \<lparr>rc_id = uc_id r, rc_schema_version = uc_schema_version r,
     rc_updated_fields = uc_updated_fields r, rc_local_revision = n\<rparr>"

lemma local_counter_bound: "local_counter view s \<le> u64_max"
  by (auto simp: local_counter_def parse_u64_def Let_def split: option.split if_splits)

lemma queue_wfD:
  "queue_wf E view s \<Longrightarrow> spark_cell view s SPARK_SYNC_OUT_NAMESPACE k = Some d \<Longrightarrow>
   \<exists>c. entry_change E d = Some c \<and> k = zero_pad20 (rc_local_revision c)
     \<and> rc_local_revision c \<le> local_counter view s"
  unfolding queue_wf_def by blast

lemma dom_pending:
  assumes "queue_wf E view s"
  shows "dom (pending_changes E view s)
      = {n. spark_cell view s SPARK_SYNC_OUT_NAMESPACE (zero_pad20 n) \<noteq> None}"
  using queue_wfD [OF assms] by (fastforce simp: pending_changes_def split: option.splits)

lemma pending_bound:
  assumes "queue_wf E view s" and "n \<in> dom (pending_changes E view s)"
  shows "n \<le> local_counter view s"
  using assms(2) by (auto simp: dom_pending [OF assms(1)] dest: queue_wfD [OF assms(1)])

lemma queue_keys:
  assumes "queue_wf E view s"
  shows "{k. spark_cell view s SPARK_SYNC_OUT_NAMESPACE k \<noteq> None}
      = zero_pad20 ` dom (pending_changes E view s)"
  by (auto simp: dom_pending [OF assms] dest: queue_wfD [OF assms])

text \<open>Two states with the same queue and counter.\<close>

lemma queue_cong:
  assumes "\<And>k. spark_cell view t SPARK_SYNC_OUT_NAMESPACE k = spark_cell view s SPARK_SYNC_OUT_NAMESPACE k"
    and "spark_cell view t SPARK_SYNC_REV_NAMESPACE LOCAL_REVISION_KEY
       = spark_cell view s SPARK_SYNC_REV_NAMESPACE LOCAL_REVISION_KEY"
  shows "queue_wf E view t = queue_wf E view s" and "pending_changes E view t = pending_changes E view s"
    and "local_counter view t = local_counter view s"
  by (auto simp: queue_wf_def pending_changes_def local_counter_def fun_eq_iff assms)

abbreviation "queue_keys_set \<equiv>
  {SPARK_SYNC_OUT_NAMESPACE} \<times> UNIV \<union> {(SPARK_SYNC_REV_NAMESPACE, LOCAL_REVISION_KEY)}"

lemma leaves_queue:
  assumes "leaves view (- queue_keys_set) s t"
  shows "queue_wf E view t = queue_wf E view s" and "pending_changes E view t = pending_changes E view s"
    and "local_counter view t = local_counter view s"
  by (rule queue_cong; rule leaves_cell [OF assms]; simp)+

locale spark_codecs = spark_ctx E view for E :: "('s, 'x) spark_env_scheme" and view +
  assumes payment_json: "lawful (json_payment E)"
    and value_json: "lawful (json_value E)"
    and data_value: "data_from_value E (data_to_value E x) = Inr x"

context spark_ctx
begin

lemma step_leaves:
  assumes "{SPARK_CACHE_NAMESPACE, SPARK_METADATA_NAMESPACE, SPARK_DEPOSITS_NAMESPACE,
      SPARK_CROSS_CHAIN_NAMESPACE, SPARK_SYNC_STATE_NAMESPACE, SPARK_SYNC_IN_NAMESPACE} \<times> UNIV \<subseteq> N"
    and rev: "(SPARK_SYNC_REV_NAMESPACE, REVISION_KEY) \<in> N" and step: "spark_step E s t"
  shows "leaves view N s t \<or> (\<exists>p. t = snd (apply_payment_update E p s))
    \<or> (\<exists>c. t = snd (add_outgoing_change E c s)) \<or> (\<exists>r n. t = snd (complete_outgoing_sync E r n s))"
proof -
  have N: "{SPARK_CACHE_NAMESPACE} \<times> UNIV \<subseteq> N" "{SPARK_METADATA_NAMESPACE} \<times> UNIV \<subseteq> N"
    "{SPARK_DEPOSITS_NAMESPACE} \<times> UNIV \<subseteq> N" "{SPARK_CROSS_CHAIN_NAMESPACE} \<times> UNIV \<subseteq> N"
    "{SPARK_SYNC_STATE_NAMESPACE} \<times> UNIV \<subseteq> N" "{SPARK_SYNC_IN_NAMESPACE} \<times> UNIV \<subseteq> N"
    using assms(1) by auto
  note writing = leaves_cache_ops [OF N(1)] leaves_metadata_op [OF N(2)] leaves_deposit_ops [OF N(3)]
    leaves_swap_op [OF N(4)] leaves_update_record [OF N(5) rev]
    leaves_insert_incoming [OF N(6) leaves_refl] leaves_delete_incoming [OF N(6)]
  have reading: "ends (leaves view N s) (get_payment_by_invoice E invoice s)"
    "ends (leaves view N s) (get_payments_by_parent_ids E is s)"
    "ends (leaves view N s) (list_deposits E s)" "ends (leaves view N s) (get_cross_chain_swap E provider i s)"
    "ends (leaves view N s) (list_active_cross_chain_swaps E provider s)"
    "ends (leaves view N s) (get_pending_outgoing_changes E limit s)"
    "ends (leaves view N s) (get_last_revision E s)" "ends (leaves view N s) (get_incoming_records E limit s)"
    "ends (leaves view N s) (get_latest_outgoing_change E s)" for invoice "is" provider i limit
    unfolding reading_ops Let_def
    by - (rule ends_intros leaves_refl | assumption)+
  from step show ?thesis
    by cases (use writing reading leaves_get_cached_item leaves_get_payment_by_id leaves_list_payments
        in \<open>auto simp: ends_def\<close>)
qed

lemma lookup_status_cases:
  obtains r t where "lookup_status E i s = (r, t)" and "view t = view s"
    and "\<And>x. r = Ok x \<Longrightarrow> x = stored_status E view s i"
proof -
  obtain rd t where rd: "spark_read E SPARK_PAYMENTS_NAMESPACE i s = (rd, t)" and t: "view t = view s"
    and found: "\<And>data. rd = Ok data \<Longrightarrow> spark_cell view s SPARK_PAYMENTS_NAMESPACE i = Some data"
    and missing: "rd = Err NotFound \<Longrightarrow> spark_cell view s SPARK_PAYMENTS_NAMESPACE i = None"
    using spark_read_cases by blast
  note defs = lookup_status_def get_payment_by_id_def or_fail_def implementation_def serialization_def
  have "snd (lookup_status E i s) = t"
    using rd by (cases rd) (auto simp: defs split: sum.split)
  moreover have "x = stored_status E view s i" if "fst (lookup_status E i s) = Ok x" for x
    using that rd found missing
    by (cases rd) (auto simp: defs stored_status_def split: sum.splits if_splits)
  ultimately show thesis
    using that [of "fst (lookup_status E i s)" t] t by (metis prod.collapse)
qed

text \<open>An update of a payment: refused by a final status, or a write of the new payment.\<close>

abbreviation "payment_written s p d \<equiv>
  (view s)((SPARK_PRIMARY_NAMESPACE, SPARK_PAYMENTS_NAMESPACE, sp_id p) \<mapsto> d)"

lemma apply_payment_update_cases:
  assumes upd: "apply_payment_update E p s = (r, t)"
  obtains (unchanged) "view t = view s" and "\<And>b. r = Ok b \<Longrightarrow> \<not> b"
  | (written) d where "to_vec (json_payment E) p = Inr d"
      and "view t = view s \<or> view t = payment_written s p d"
      and "\<And>st. stored_status E view s (sp_id p) = Some st \<Longrightarrow> is_final E st \<Longrightarrow> st = sp_status p"
      and "\<And>b. r = Ok b \<Longrightarrow> b \<longleftrightarrow> stored_status E view s (sp_id p) \<noteq> Some (sp_status p)"
      and "\<And>b. r = Ok b \<Longrightarrow> view t = payment_written s p d"
proof -
  obtain rl s1 where look: "lookup_status E (sp_id p) s = (rl, s1)" and s1: "view s1 = view s"
    and status: "\<And>x. rl = Ok x \<Longrightarrow> x = stored_status E view s (sp_id p)"
    using lookup_status_cases by blast
  let ?final = "\<exists>st. rl = Ok (Some st) \<and> is_final E st \<and> st \<noteq> sp_status p"
  show thesis
  proof (cases "is_ok rl \<and> \<not> ?final \<and> (\<exists>d. to_vec (json_payment E) p = Inr d)")
    case False
    with upd look s1 show thesis
      by (intro unchanged; cases rl; cases "to_vec (json_payment E) p")
        (auto simp: apply_payment_update_def Let_def split: option.splits if_splits)
  next
    case True
    then obtain x d where x: "rl = Ok x" and d: "to_vec (json_payment E) p = Inr d"
      and nf: "\<not> ?final" by (auto simp: is_ok_iff)
    obtain rw t' where w: "spark_write E SPARK_PAYMENTS_NAMESPACE (sp_id p) d s1 = (rw, t')"
      and any: "view t' = view s1 \<or> view t' = payment_written s1 p d"
      and ok: "rw = Ok () \<Longrightarrow> view t' = payment_written s1 p d"
      using spark_write_cases by blast
    have run: "and_then (rw, t') (\<lambda>_ s. (Ok (x \<noteq> Some (sp_status p)), s)) = (r, t)"
      using nf upd look x d w by (auto simp: apply_payment_update_def Let_def split: option.splits)
    then have t: "t = t'" by (cases rw) auto
    from d show thesis
    proof (rule written)
      show "view t = view s \<or> view t = payment_written s p d" using any s1 t by simp
      show "st = sp_status p" if "stored_status E view s (sp_id p) = Some st" "is_final E st" for st
        using nf status [OF x] x that by auto
      show "b \<longleftrightarrow> stored_status E view s (sp_id p) \<noteq> Some (sp_status p)" if "r = Ok b" for b
        using run that status [OF x] by (cases rw) auto
      show "view t = payment_written s p d" if "r = Ok b" for b
        using run that ok s1 t by (cases rw) auto
    qed
  qed
qed

end

subsection \<open>The outgoing queue\<close>

lemma queue_bump:
  assumes "queue_wf E view s" and "n = Suc (local_counter view s)" and "n \<le> u64_max"
    and t: "view t = (view s)((SPARK_PRIMARY_NAMESPACE, SPARK_SYNC_REV_NAMESPACE, LOCAL_REVISION_KEY)
      \<mapsto> as_bytes (decimal n))"
  shows "queue_wf E view t \<and> pending_changes E view t = pending_changes E view s
    \<and> local_counter view t = n"
proof -
  have out: "spark_cell view t SPARK_SYNC_OUT_NAMESPACE k = spark_cell view s SPARK_SYNC_OUT_NAMESPACE k" for k
    by (simp add: t spark_namespaces)
  have n: "local_counter view t = n"
    using assms(3) by (simp add: local_counter_def t)
  show ?thesis
    using assms(1,2) n by (fastforce simp: queue_wf_def pending_changes_def out)
qed

lemma queue_insert:
  assumes wf: "queue_wf E view s" and "n \<le> local_counter view s"
    and "entry_change E d = Some c" and "rc_local_revision c = n"
    and t: "view t = (view s)((SPARK_PRIMARY_NAMESPACE, SPARK_SYNC_OUT_NAMESPACE, zero_pad20 n) \<mapsto> d)"
  shows "queue_wf E view t \<and> pending_changes E view t = (pending_changes E view s)(n \<mapsto> c)
    \<and> local_counter view t = local_counter view s"
proof -
  have "local_counter view t = local_counter view s"
    by (simp add: local_counter_def t spark_namespaces)
  then show ?thesis
    using assms by (auto simp: queue_wf_def pending_changes_def fun_eq_iff)
qed

lemma queue_delete:
  assumes wf: "queue_wf E view s"
    and t: "view t = (view s)((SPARK_PRIMARY_NAMESPACE, SPARK_SYNC_OUT_NAMESPACE, zero_pad20 n) := None)"
  shows "queue_wf E view t \<and> pending_changes E view t = (pending_changes E view s)(n := None)
    \<and> local_counter view t = local_counter view s"
proof -
  have "local_counter view t = local_counter view s"
    by (simp add: local_counter_def t spark_namespaces)
  then show ?thesis
    using assms by (auto simp: queue_wf_def pending_changes_def fun_eq_iff)
qed

context spark_ctx
begin

lemma read_local_revision_cases:
  obtains r t where "read_revision E LOCAL_REVISION_KEY s = (r, t)" and "view t = view s"
    and "\<And>n. r = Ok n \<Longrightarrow> n = local_counter view s"
proof -
  obtain rl t where rl: "spark_lookup E SPARK_SYNC_REV_NAMESPACE LOCAL_REVISION_KEY s = (rl, t)"
    and t: "view t = view s"
    and found: "\<And>x. rl = Ok x \<Longrightarrow> x = spark_cell view s SPARK_SYNC_REV_NAMESPACE LOCAL_REVISION_KEY"
    using spark_lookup_cases by blast
  have "snd (read_revision E LOCAL_REVISION_KEY s) = t"
    using rl by (cases rl) (auto simp: read_revision_def split: option.split)
  moreover have "n = local_counter view s" if "fst (read_revision E LOCAL_REVISION_KEY s) = Ok n" for n
    using that rl found by (cases rl) (auto simp: read_revision_def local_counter_def split: option.splits if_splits)
  ultimately show thesis
    using that [of "fst (read_revision E LOCAL_REVISION_KEY s)" t] t by (metis prod.collapse)
qed

lemma next_local_revision_cases:
  assumes "local_counter view s < u64_max"
  obtains (failed) r t where "next_local_revision E s = (r, t)" and "\<not> is_ok r"
      and "view t = view s \<or> view t = (view s)((SPARK_PRIMARY_NAMESPACE, SPARK_SYNC_REV_NAMESPACE,
        LOCAL_REVISION_KEY) \<mapsto> as_bytes (decimal (Suc (local_counter view s))))"
  | (allocated) t where "next_local_revision E s = (Ok (Suc (local_counter view s)), t)"
      and "view t = (view s)((SPARK_PRIMARY_NAMESPACE, SPARK_SYNC_REV_NAMESPACE,
        LOCAL_REVISION_KEY) \<mapsto> as_bytes (decimal (Suc (local_counter view s))))"
proof -
  obtain rr s1 where rr: "read_revision E LOCAL_REVISION_KEY s = (rr, s1)" and s1: "view s1 = view s"
    and ok: "\<And>n. rr = Ok n \<Longrightarrow> n = local_counter view s"
    using read_local_revision_cases by blast
  have wrap: "u64_wrapping_add (local_counter view s) 1 = Suc (local_counter view s)"
    using assms by (simp add: u64_wrapping_add_def)
  let ?d = "as_bytes (decimal (Suc (local_counter view s)))"
  obtain rw t where w: "spark_write E SPARK_SYNC_REV_NAMESPACE LOCAL_REVISION_KEY ?d s1 = (rw, t)"
    and any: "view t = view s1 \<or> view t = (view s1)((SPARK_PRIMARY_NAMESPACE, SPARK_SYNC_REV_NAMESPACE, LOCAL_REVISION_KEY) \<mapsto> ?d)"
    and okw: "rw = Ok () \<Longrightarrow> view t = (view s1)((SPARK_PRIMARY_NAMESPACE, SPARK_SYNC_REV_NAMESPACE, LOCAL_REVISION_KEY) \<mapsto> ?d)"
    using spark_write_cases by blast
  note run = next_local_revision_def write_revision_def rr wrap [simplified] Let_def
  show thesis
  proof (cases rr)
    case (Ok n)
    with ok have n: "n = local_counter view s" by simp
    have next_eq: "next_local_revision E s = and_then (rw, t) (\<lambda>_ s'. (Ok (Suc (local_counter view s)), s'))"
      by (cases rw) (simp_all add: run Ok n w)
    show thesis
    proof (cases rw)
      case (Ok u)
      show thesis
        by (rule allocated [of t]) (use next_eq Ok okw s1 in simp_all)
    next
      case (Err e)
      show thesis
        by (rule failed [of "Err e" t]) (use next_eq Err any s1 in simp_all)
    next
      case (Panic m)
      show thesis
        by (rule failed [of "Panic m" t]) (use next_eq Panic any s1 in simp_all)
    qed
  next
    case (Err e)
    show thesis
      by (rule failed [of "Err e" s1]) (use Err s1 in \<open>simp_all add: run\<close>)
  next
    case (Panic m)
    show thesis
      by (rule failed [of "Panic m" s1]) (use Panic s1 in \<open>simp_all add: run\<close>)
  qed
qed

end

context spark_codecs
begin

lemma entry_change_entry:
  assumes "to_vec (json_value E) (change_entry E r n) = Inr d"
  shows "entry_change E d = Some (versioned r n)"
proof -
  have "from_slice (json_value E) d = Inr (change_entry E r n)"
    using value_json assms by (simp add: lawful_def)
  then show ?thesis
    by (simp add: entry_change_def change_entry_def json_object_def data_value versioned_def)
qed

lemma add_outgoing_change_queue:
  assumes wf: "queue_wf E view s" and room: "local_counter view s < u64_max"
    and add: "add_outgoing_change E c s = (r, t)"
  shows "queue_wf E view t
    \<and> (\<forall>n. r = Ok n \<longrightarrow> n = Suc (local_counter view s) \<and> local_counter view t = n
         \<and> pending_changes E view t = (pending_changes E view s)(n \<mapsto> versioned c n))"
  using room
proof (cases rule: next_local_revision_cases)
  case (failed r1 s1)
  then have "t = s1" and "\<not> is_ok r"
    using add by (cases r1; auto simp: add_outgoing_change_def)+
  moreover have "queue_wf E view s1"
    using failed(3) queue_bump [OF wf refl, of s1] room wf queue_cong(1) [of view s1 s E] by auto
  ultimately show ?thesis by auto
next
  case (allocated s1)
  let ?n = "Suc (local_counter view s)"
  have s1: "queue_wf E view s1" "pending_changes E view s1 = pending_changes E view s" "local_counter view s1 = ?n"
    using queue_bump [OF wf refl _ allocated(2)] room by auto
  show ?thesis
  proof (cases "to_vec (json_value E) (change_entry E c ?n)")
    case (Inl e)
    with add allocated(1) s1 show ?thesis by (auto simp: add_outgoing_change_def)
  next
    case (Inr d)
    obtain rw t' where w: "spark_write E SPARK_SYNC_OUT_NAMESPACE (zero_pad20 ?n) d s1 = (rw, t')"
      and any: "view t' = view s1 \<or> view t' = (view s1)((SPARK_PRIMARY_NAMESPACE, SPARK_SYNC_OUT_NAMESPACE, zero_pad20 ?n) \<mapsto> d)"
      and ok: "rw = Ok () \<Longrightarrow> view t' = (view s1)((SPARK_PRIMARY_NAMESPACE, SPARK_SYNC_OUT_NAMESPACE, zero_pad20 ?n) \<mapsto> d)"
      using spark_write_cases by blast
    have run: "and_then (rw, t') (\<lambda>_ s. (Ok ?n, s)) = (r, t)"
      using add allocated(1) Inr w by (simp add: add_outgoing_change_def)
    then have t: "t = t'" and r: "\<And>n. r = Ok n \<Longrightarrow> rw = Ok () \<and> n = ?n" by (cases rw; auto)+
    note ins = queue_insert [OF s1(1) _ entry_change_entry [OF Inr], of ?n t', simplified versioned_def, simplified]
    show ?thesis
      using any ok r t s1 ins queue_cong(1) [of view t' s1 E] by (auto simp: versioned_def)
  qed
qed

end

context spark_ctx
begin

lemma leaves_apply_payment_update:
  assumes N: "{SPARK_PAYMENTS_NAMESPACE} \<times> UNIV \<subseteq> N"
  shows "ends (leaves view N s) (apply_payment_update E p s)"
proof -
  from N have key: "(SPARK_PAYMENTS_NAMESPACE, sp_id p) \<in> N" by blast
  show ?thesis
    unfolding apply_payment_update_def lookup_status_def Let_def by (intro ends_intros leaves_refl key)
qed

lemma complete_outgoing_sync_queue:
  assumes wf: "queue_wf E view s" and run: "complete_outgoing_sync E r n s = (res, t)"
  shows "queue_wf E view t \<and> local_counter view t = local_counter view s
    \<and> pending_changes E view t \<in> {pending_changes E view s, (pending_changes E view s)(n := None)}"
proof -
  obtain rr s1 where rm: "spark_remove_ignored E SPARK_SYNC_OUT_NAMESPACE (zero_pad20 n) s = (rr, s1)"
    and s1: "view s1 \<in> {view s, (view s)((SPARK_PRIMARY_NAMESPACE, SPARK_SYNC_OUT_NAMESPACE, zero_pad20 n) := None)}"
  proof (rule that [OF surjective_pairing])
    let ?rm = "kv_remove (spark_kvs E) s SPARK_PRIMARY_NAMESPACE SPARK_SYNC_OUT_NAMESPACE (zero_pad20 n) False"
    have "snd (spark_remove_ignored E SPARK_SYNC_OUT_NAMESPACE (zero_pad20 n) s) = snd ?rm"
      by (cases "?rm"; cases "fst ?rm") (auto simp: spark_remove_ignored_def spark_remove_def)
    then show "view (snd (spark_remove_ignored E SPARK_SYNC_OUT_NAMESPACE (zero_pad20 n) s))
        \<in> {view s, (view s)((SPARK_PRIMARY_NAMESPACE, SPARK_SYNC_OUT_NAMESPACE, zero_pad20 n) := None)}"
      using kv.remove_any by simp
  qed
  have "ends (leaves view (- queue_keys_set) s1) (and_then (write_sync_state E r s1) (\<lambda>_ s. update_server_revision E (rec_revision r) s))"
    by (intro ends_intros leaves_refl) (simp_all add: spark_namespaces REVISION_KEY_def LOCAL_REVISION_KEY_def)
  then have t: "leaves view (- queue_keys_set) s1 t"
    using run rm by (cases rr) (auto simp: complete_outgoing_sync_def ends_def)
  have "queue_wf E view s1 \<and> local_counter view s1 = local_counter view s
      \<and> pending_changes E view s1 \<in> {pending_changes E view s, (pending_changes E view s)(n := None)}"
    using s1 queue_delete [OF wf, of s1 n] queue_cong(1,2) [of view s1 s E] queue_cong(3) [of view s1 s] wf by auto
  then show ?thesis
    by (simp add: leaves_queue [OF t])
qed

lemma list_all2_keyed:
  "list_all2 (\<lambda>n c. P n c \<and> n = f c) ns cs \<Longrightarrow> map f cs = ns \<and> list_all (\<lambda>c. P (f c) c) cs"
  by (induction rule: list_all2_induct) auto

text \<open>The loop that reads a list of keys, when it succeeds.\<close>

lemma read_each_Ok:
  assumes "read_each E ns decode keys s = (Ok xs, t)"
    and decode: "\<And>d s. view (snd (decode d s)) = view s"
  shows "list_all2 (\<lambda>k x. \<exists>d s1 s2. spark_cell view s ns k = Some d \<and> view s1 = view s
      \<and> decode d s1 = (Ok x, s2)) keys xs"
  using assms(1)
proof (induction keys arbitrary: s xs)
  case (Cons k ks)
  obtain rd s1 where rd: "spark_read E ns k s = (rd, s1)" "view s1 = view s"
    "\<And>data. rd = Ok data \<Longrightarrow> spark_cell view s ns k = Some data"
    using spark_read_cases by blast
  from Cons.prems rd obtain d x s2 xs' where d: "spark_cell view s ns k = Some d"
    and x: "decode d s1 = (Ok x, s2)" and rest: "read_each E ns decode ks s2 = (Ok xs', t)"
    and xs: "xs = x # xs'"
    by auto
  from decode [of d s1] x rd(2) have s2: "view s2 = view s" by simp
  from Cons.IH [OF rest] d x rd(2) show ?case unfolding xs s2 by auto
qed simp

lemma outgoing_change_Ok:
  "outgoing_change E d s = (Ok oc, t) \<Longrightarrow> entry_change E d = Some (oc_change oc)"
  by (auto simp: outgoing_change_def entry_change_def or_fail_def Let_def split: sum.splits)

lemma outgoing_change_view: "view (snd (outgoing_change E d s)) = view s"
  using leaves_outgoing_change [of "{}" s s d] by (auto simp: ends_def leaves_def)

lemma get_pending_queue:
  assumes wf: "queue_wf E view s" and run: "get_pending_outgoing_changes E limit s = (Ok cs, t)"
  shows "map (\<lambda>c. rc_local_revision (oc_change c)) cs
      = take limit (sorted_list_of_set (dom (pending_changes E view s)))
    \<and> list_all (\<lambda>c. pending_changes E view s (rc_local_revision (oc_change c)) = Some (oc_change c)) cs"
proof -
  let ?dom = "dom (pending_changes E view s)"
  obtain rl s1 where rl: "spark_list E SPARK_SYNC_OUT_NAMESPACE s = (rl, s1)" and s1: "view s1 = view s"
    and keys: "\<And>ks. rl = Ok ks \<Longrightarrow> distinct ks \<and> set ks = {k. spark_cell view s SPARK_SYNC_OUT_NAMESPACE k \<noteq> None}"
    using spark_list_cases by blast
  from run rl obtain ks where ks: "rl = Ok ks"
    and reads: "read_each E SPARK_SYNC_OUT_NAMESPACE (outgoing_change E) (take limit (sort ks)) s1 = (Ok cs, t)"
    by (cases rl) (auto simp: get_pending_outgoing_changes_def)
  have sort: "sort ks = map zero_pad20 (sorted_list_of_set ?dom)"
  proof (rule sort_zero_pad20)
    show "set ks = zero_pad20 ` ?dom" using keys [OF ks] queue_keys [OF wf] by simp
    show "distinct ks" using keys [OF ks] by simp
    show "n \<le> u64_max" if "n \<in> ?dom" for n
      by (rule order_trans [OF pending_bound [OF wf that] local_counter_bound])
  qed
  from read_each_Ok [OF reads outgoing_change_view]
  have "list_all2 (\<lambda>n c. pending_changes E view s n = Some (oc_change c)
      \<and> n = rc_local_revision (oc_change c)) (take limit (sorted_list_of_set ?dom)) cs"
    unfolding sort take_map list_all2_map1 s1
    by (rule list_all2_mono) (use queue_wfD [OF wf] outgoing_change_Ok in \<open>fastforce simp: pending_changes_def\<close>)
  then show ?thesis by (rule list_all2_keyed)
qed

end

context spark_codecs
begin

subsection \<open>The status of a payment\<close>

lemma stored_status_written:
  assumes "to_vec (json_payment E) p = Inr d" and "view t = payment_written s p d"
  shows "stored_status E view t i = (if i = sp_id p then Some (sp_status p) else stored_status E view s i)"
  using payment_json assms by (simp add: lawful_def stored_status_def)

lemma stored_status_view: "view t = view s \<Longrightarrow> stored_status E view t i = stored_status E view s i"
  by (simp add: stored_status_def)

lemma apply_payment_update_keeps_final:
  assumes "apply_payment_update E p s = (r, t)" and "stored_status E view s i = Some st" and "is_final E st"
  shows "stored_status E view t i = Some st"
  using assms(1)
proof (cases rule: apply_payment_update_cases)
  case unchanged
  with assms(2) stored_status_view [of t s i] show ?thesis by simp
next
  case (written d)
  from written(2) show ?thesis
  proof
    assume "view t = view s"
    with assms(2) stored_status_view [of t s i] show ?thesis by simp
  next
    assume "view t = payment_written s p d"
    from stored_status_written [OF written(1) this] written(3) [of st] assms(2,3)
    show ?thesis by (cases "i = sp_id p") simp_all
  qed
qed

lemma step_keeps_final:
  assumes "spark_step E s t" and "stored_status E view s i = Some st" and "is_final E st"
  shows "stored_status E view t i = Some st"
proof -
  let ?N = "- ({SPARK_PAYMENTS_NAMESPACE} \<times> UNIV)"
  have add: "ends (leaves view ?N s) (add_outgoing_change E c s)" for c
    unfolding add_outgoing_change_def next_local_revision_def Let_def
    by (intro ends_intros leaves_refl) (simp_all add: spark_namespaces)
  have complete: "ends (leaves view ?N s) (complete_outgoing_sync E r n s)" for r n
    unfolding complete_outgoing_sync_def
    by (intro ends_intros leaves_refl) (simp_all add: spark_namespaces)
  have other: "stored_status E view t i = Some st" if "leaves view ?N s t"
    using leaves_cell [OF that] assms(2) by (simp add: stored_status_def)
  have "leaves view ?N s t \<or> (\<exists>p. t = snd (apply_payment_update E p s))
    \<or> (\<exists>c. t = snd (add_outgoing_change E c s)) \<or> (\<exists>r n. t = snd (complete_outgoing_sync E r n s))"
    by (rule step_leaves [OF _ _ assms(1)]) (auto simp: spark_namespaces)
  then show ?thesis
    using other add complete apply_payment_update_keeps_final [OF surjective_pairing assms(2,3)]
    unfolding ends_def by blast
qed

lemma update_emits:
  assumes "apply_payment_update E p s = (Ok emit, t)"
  shows "emit \<longleftrightarrow> stored_status E view t (sp_id p) \<noteq> stored_status E view s (sp_id p)"
  using assms
proof (cases rule: apply_payment_update_cases)
  case unchanged
  then show ?thesis using stored_status_view [of t s] by simp
next
  case (written d)
  then show ?thesis using stored_status_written [of p d t s] by auto
qed

subsection \<open>The queue over all steps\<close>

lemma step_queue_wf:
  assumes wf: "queue_wf E view s" and room: "local_counter view s < u64_max" and step: "spark_step E s t"
  shows "queue_wf E view t"
proof -
  have update: "leaves view (- queue_keys_set) s (snd (apply_payment_update E p s))" for p
    using leaves_apply_payment_update [of "- queue_keys_set" s p] by (auto simp: ends_def spark_namespaces)
  have "leaves view (- queue_keys_set) s t \<or> (\<exists>p. t = snd (apply_payment_update E p s))
    \<or> (\<exists>c. t = snd (add_outgoing_change E c s)) \<or> (\<exists>r n. t = snd (complete_outgoing_sync E r n s))"
    by (rule step_leaves [OF _ _ step]) (auto simp: spark_namespaces REVISION_KEY_def LOCAL_REVISION_KEY_def)
  then show ?thesis
    using wf leaves_queue(1) [of view s t E] leaves_queue(1) [OF update, of E]
      add_outgoing_change_queue [OF wf room surjective_pairing]
      complete_outgoing_sync_queue [OF wf surjective_pairing] by auto
qed

lemma added_change_is_handed_out:
  assumes wf: "queue_wf E view s" and room: "local_counter view s < u64_max"
    and add: "add_outgoing_change E c s = (Ok n, t)"
    and get: "get_pending_outgoing_changes E limit t = (Ok cs, u)"
  shows "map (\<lambda>c. rc_local_revision (oc_change c)) cs
        = take limit (sorted_list_of_set (dom (pending_changes E view s)) @ [n])
    \<and> list_all (\<lambda>ch. ((pending_changes E view s)(n \<mapsto> versioned c n)) (rc_local_revision (oc_change ch))
        = Some (oc_change ch)) cs"
proof -
  let ?dom = "dom (pending_changes E view s)"
  have t: "queue_wf E view t" "n = Suc (local_counter view s)"
    "pending_changes E view t = (pending_changes E view s)(n \<mapsto> versioned c n)"
    using add_outgoing_change_queue [OF wf room add] by auto
  have new: "m < n" if "m \<in> ?dom" for m
    using pending_bound [OF wf that] t(2) by simp
  then have fin: "finite ?dom" by (meson bounded_nat_set_is_finite)
  have "sorted_list_of_set (insert n ?dom) = sorted_list_of_set ?dom @ [n]"
    by (rule strict_sorted_equal) (use fin new in \<open>simp_all add: sorted_wrt_append del: sorted_list_of_set_insert_remove\<close>)
  then show ?thesis
    using get_pending_queue [OF t(1) get] by (simp add: t(3))
qed

end

subsection \<open>Listing payments\<close>

text \<open>The page of a list a request asks for, and the payments in the store as a bag.\<close>

definition page :: "StorageListPaymentsRequest \<Rightarrow> 'a list \<Rightarrow> 'a list" where
  "page request xs =
     (let rest = drop (case lr_offset request of Some n \<Rightarrow> n | None \<Rightarrow> 0) xs in
      case lr_limit request of Some l \<Rightarrow> take l rest | None \<Rightarrow> rest)"

definition payment_at :: "('s, 'x) spark_env_scheme \<Rightarrow> ('s \<Rightarrow> kv_view) \<Rightarrow> 's \<Rightarrow> string \<Rightarrow> SparkPayment" where
  "payment_at E view s k =
     projr (from_slice (json_payment E) (the (spark_cell view s SPARK_PAYMENTS_NAMESPACE k)))"

definition stored_payments :: "('s, 'x) spark_env_scheme \<Rightarrow> ('s \<Rightarrow> kv_view) \<Rightarrow> 's \<Rightarrow> SparkPayment multiset" where
  "stored_payments E view s =
     image_mset (payment_at E view s) (mset_set {k. spark_cell view s SPARK_PAYMENTS_NAMESPACE k \<noteq> None})"

text \<open>The slice of \<open>list_payments\<close> is within bounds and is the page.\<close>

lemma page_slice:
  fixes request :: StorageListPaymentsRequest
  defines "start \<equiv> (case lr_offset request of Some n \<Rightarrow> n | None \<Rightarrow> 0)"
  assumes "start < length ps"
  shows "slice_range ps start
      (case lr_limit request of Some l \<Rightarrow> min (start + l) (length ps) | None \<Rightarrow> length ps) = Ok (page request ps)"
  using assms(2) unfolding page_def start_def [symmetric]
  by (auto simp: slice_range_def Let_def min_def split: option.split)

lemma page_beyond:
  "length ps \<le> (case lr_offset request of Some n \<Rightarrow> n | None \<Rightarrow> 0) \<Longrightarrow> page request ps = []"
  by (simp add: page_def split: option.split)

lemma page_of_sorted:
  "(if (case lr_offset request of Some n \<Rightarrow> n | None \<Rightarrow> 0) < length ps
    then (slice_range ps (case lr_offset request of Some n \<Rightarrow> n | None \<Rightarrow> 0)
        (case lr_limit request of
           Some l \<Rightarrow> min ((case lr_offset request of Some n \<Rightarrow> n | None \<Rightarrow> 0) + l) (length ps)
         | None \<Rightarrow> length ps), s)
    else (Ok [], s)) = (Ok (page request ps), s)"
  by (simp add: page_slice page_beyond not_less)

text \<open>Sorting by the negated timestamp puts the newest first.\<close>

lemma sorted_newest_first: "sorted (map sp_timestamp (rev (sort_key (\<lambda>p. - int (sp_timestamp p)) ps)))"
proof -
  have "sorted (map (\<lambda>p. - int (sp_timestamp p)) (sort_key (\<lambda>p. - int (sp_timestamp p)) ps))" by simp
  then show ?thesis by (simp add: rev_map [symmetric] sorted_wrt_rev sorted_wrt_map)
qed

locale spark_reliable = spark_ctx E view for E :: "('s, 'x) spark_env_scheme" and view +
  assumes reliable: "reliable_kv_store (spark_kvs E) view"

sublocale spark_reliable \<subseteq> rkv: reliable_kv_store "spark_kvs E" view
  by (rule reliable)

context spark_reliable
begin

lemma read_payments_total:
  assumes "list_all (\<lambda>k. \<exists>d p. spark_cell view s SPARK_PAYMENTS_NAMESPACE k = Some d
      \<and> from_slice (json_payment E) d = Inr p) keys"
  shows "fst (read_each E SPARK_PAYMENTS_NAMESPACE
      (\<lambda>data s. or_fail (serialization E) (from_slice (json_payment E) data) s) keys s)
    = Ok (map (payment_at E view s) keys)"
  using assms
proof (induction keys arbitrary: s)
  case (Cons k ks)
  from Cons.prems obtain d p where d: "spark_cell view s SPARK_PAYMENTS_NAMESPACE k = Some d"
    and p: "from_slice (json_payment E) d = Inr p" by auto
  obtain s1 where read: "spark_read E SPARK_PAYMENTS_NAMESPACE k s = (Ok d, s1)"
    using rkv.read_total [OF d] by (metis prod.collapse spark_read_def)
  have s1: "view s1 = view s"
    using kv.read_keeps [of s SPARK_PRIMARY_NAMESPACE SPARK_PAYMENTS_NAMESPACE k] read by (simp add: spark_read_def)
  have pays: "payment_at E view s1 = payment_at E view s" "payment_at E view s k = p"
    by (simp_all add: payment_at_def s1 d p fun_eq_iff)
  from Cons have "fst (read_each E SPARK_PAYMENTS_NAMESPACE
      (\<lambda>data s. or_fail (serialization E) (from_slice (json_payment E) data) s) ks s1) = Ok (map (payment_at E view s1) ks)"
    by (simp add: s1)
  then show ?case
    by (cases "read_each E SPARK_PAYMENTS_NAMESPACE
      (\<lambda>data s. or_fail (serialization E) (from_slice (json_payment E) data) s) ks s1") (simp add: read p pays)
qed simp

lemma list_payments_total:
  assumes decodes: "\<And>k d. spark_cell view s SPARK_PAYMENTS_NAMESPACE k = Some d \<Longrightarrow>
      \<exists>p. from_slice (json_payment E) d = Inr p"
  shows "\<exists>ps. fst (list_payments E request s) = Ok (page request ps) \<and> mset ps = stored_payments E view s
    \<and> sorted (map sp_timestamp (if lr_sort_ascending request = Some True then ps else rev ps))"
proof -
  obtain keys s1 where keys: "spark_list E SPARK_PAYMENTS_NAMESPACE s = (Ok keys, s1)"
    and ks: "distinct keys" "set keys = {k. spark_cell view s SPARK_PAYMENTS_NAMESPACE k \<noteq> None}"
    and s1: "view s1 = view s"
  proof -
    obtain rl s1 where "spark_list E SPARK_PAYMENTS_NAMESPACE s = (rl, s1)" and "view s1 = view s"
      and "\<And>ks. rl = Ok ks \<Longrightarrow> distinct ks \<and> set ks = {k. spark_cell view s SPARK_PAYMENTS_NAMESPACE k \<noteq> None}"
      using spark_list_cases by blast
    moreover obtain ks where "fst (kv_list (spark_kvs E) s SPARK_PRIMARY_NAMESPACE SPARK_PAYMENTS_NAMESPACE) = Ok ks"
      using rkv.list_total by blast
    ultimately show thesis using that [of ks s1] by (simp add: spark_list_def) (metis fst_conv fst_map_err_Ok)
  qed
  define ps where "ps = (if lr_sort_ascending request = Some True then sort_key sp_timestamp (map (payment_at E view s1) keys)
      else sort_key (\<lambda>p. - int (sp_timestamp p)) (map (payment_at E view s1) keys))"
  have "list_all (\<lambda>k. \<exists>d p. spark_cell view s1 SPARK_PAYMENTS_NAMESPACE k = Some d
      \<and> from_slice (json_payment E) d = Inr p) keys"
    using decodes ks(2) s1 by (auto simp: list_all_iff)
  from read_payments_total [OF this] obtain s2 where reads: "read_each E SPARK_PAYMENTS_NAMESPACE
      (\<lambda>data s. or_fail (serialization E) (from_slice (json_payment E) data) s) keys s1
      = (Ok (map (payment_at E view s1) keys), s2)" by (metis prod.collapse)
  have asc: "(case lr_sort_ascending request of Some b \<Rightarrow> b | None \<Rightarrow> False) \<longleftrightarrow> lr_sort_ascending request = Some True"
    by (auto split: option.split)
  have "fst (list_payments E request s) = Ok (page request ps)"
    unfolding list_payments_def keys and_then.simps reads asc
    by (simp only: Let_def ps_def [symmetric] page_of_sorted fst_conv)
  moreover have "mset ps = stored_payments E view s"
  proof -
    have "payment_at E view s1 = payment_at E view s"
      by (simp add: payment_at_def s1 fun_eq_iff)
    then show ?thesis
      using ks(1) unfolding stored_payments_def ks(2) [symmetric] by (simp add: ps_def mset_set_set)
  qed
  moreover have "sorted (map sp_timestamp (if lr_sort_ascending request = Some True then ps else rev ps))"
    by (simp add: ps_def sorted_newest_first)
  ultimately show ?thesis by blast
qed

end

end
