(* ===== verification/Spark_Props.thy ===== *)
theory Spark_Props
  imports Spark_Queue Cashu_Props "HOL-Library.Multiset" "HOL-Library.Code_Target_Nat"
begin

text \<open>The properties of the Spark storage, with a sample environment to evaluate them on.\<close>

subsection \<open>A sample environment\<close>

definition sample_payment :: "SparkPaymentStatus \<Rightarrow> SparkPayment" where
  "sample_payment status = \<lparr>sp_id = ''p'', sp_payment_type = Sp_Send, sp_status = status,
     sp_amount = 7, sp_fees = 1, sp_timestamp = 5, sp_details = None, sp_rest = []\<rparr>"

definition sample_change :: UnversionedRecordChange where
  "sample_change = \<lparr>uc_id = \<lparr>ri_type = ''t'', ri_data_id = ''d''\<rparr>, uc_schema_version = ''1'', uc_updated_fields = [7]\<rparr>"

definition sample_entry :: "u64 \<Rightarrow> Value" where
  "sample_entry n = json_object [(''record_type'', VString ''t''), (''data_id'', VString ''d''),
     (''schema_version'', VString ''1''), (''updated_fields'', VString [CHR 0x07]),
     (''local_revision'', VNumber (PosInt n))]"

definition sample_spark :: "mem_kv spark_env" where
  "sample_spark = \<lparr>spark_kvs = dyn_DynStore mem_kv_ops, KVSTORE_NAMESPACE_KEY_MAX_LEN = 120,
     sha256 = (\<lambda>d. replicate 32 (word_of_nat (length d))), io_error_debug = (\<lambda>_. ''io''),
     json_error_debug = (\<lambda>e. e), utf8_error_debug = (\<lambda>_. ''utf8''),
     StorageError_from_json = Se_Serialization, is_final = (\<lambda>st. st \<noteq> Sp_Pending),
     data_to_value = (\<lambda>d. VString (bytes_to_text d)),
     data_from_value = (\<lambda>v. case v of VString x \<Rightarrow> Inr (as_bytes x) | _ \<Rightarrow> Inl ''data''),
     json_value = table_json [sample_entry 1, sample_entry 2],
     json_payment = table_json [sample_payment Sp_Pending, sample_payment Sp_Completed],
     json_metadata = table_json [], json_deposit = table_json [], json_swap = table_json []\<rparr>"

lemma as_bytes_bytes_to_text [simp]: "as_bytes (bytes_to_text d) = d"
proof -
  have "(word_of_nat (of_char (char_of (unat b) :: char)) :: u8) = b" for b
    using unat_u8_less [of b] by (simp add: of_char_of)
  then show ?thesis by (simp add: bytes_to_text_def as_bytes_def o_def)
qed

interpretation sample_spark: spark_codecs sample_spark mem_view
  by (rule spark_codecs.intro [OF spark_ctx.intro spark_codecs_axioms.intro])
    (simp_all add: sample_spark_def mem.kv_store_axioms table_json_lawful)

definition sample_disk :: mem_kv where
  "sample_disk = [((SPARK_PRIMARY_NAMESPACE, SPARK_PAYMENTS_NAMESPACE, ''p''), [2])]"

lemma sample_status: "stored_status sample_spark mem_view sample_disk ''p'' = Some Sp_Completed"
  by code_simp

subsection \<open>Payments\<close>

text \<open>
  C26. Once a payment is stored with a final status, no sequence of calls of the \<open>Storage\<close>
  trait changes that status, whatever updates arrive, in whatever order, and whichever of the
  store's reads and writes fail on the way.
\<close>

theorem spark_final_status_kept:
  assumes "spark_codecs E view" and "(spark_step E)\<^sup>*\<^sup>* s t"
    and "stored_status E view s i = Some st" and "is_final E st"
  shows "stored_status E view t i = Some st"
  using assms(2)
proof (induction rule: rtranclp_induct)
  case base
  show ?case by (rule assms(3))
next
  case (step t u)
  from spark_codecs.step_keeps_final [OF assms(1) step.hyps(2) step.IH assms(4)] show ?case .
qed

theorem spark_final_status_kept_witness:
  "stored_status sample_spark mem_view
     (snd (apply_payment_update sample_spark (sample_payment Sp_Pending) sample_disk)) ''p'' = Some Sp_Completed"
  by (rule spark_final_status_kept [OF sample_spark.spark_codecs_axioms
        r_into_rtranclp [of "spark_step sample_spark", OF step_apply_payment_update] sample_status])
    (simp add: sample_spark_def)

text \<open>
  A payment update tells the SDK to emit an event exactly when it changed the stored status
  of that payment: not when the same status arrives again, and not when the update was refused.
\<close>

theorem apply_payment_update_emits:
  assumes "spark_codecs E view" and "apply_payment_update E p s = (Ok emit, t)"
  shows "emit \<longleftrightarrow> stored_status E view t (sp_id p) \<noteq> stored_status E view s (sp_id p)"
  by (rule spark_codecs.update_emits [OF assms])

lemma sample_update:
  "apply_payment_update sample_spark (sample_payment Sp_Completed) [] = (Ok True, sample_disk)"
  by code_simp

theorem apply_payment_update_emits_witness:
  "apply_payment_update sample_spark (sample_payment Sp_Completed) [] = (Ok True, sample_disk)
   \<and> stored_status sample_spark mem_view sample_disk ''p'' \<noteq> stored_status sample_spark mem_view [] ''p''"
  using apply_payment_update_emits [OF sample_spark.spark_codecs_axioms sample_update] sample_update
  by (simp add: sample_payment_def)

subsection \<open>Keys\<close>

text \<open>
  The keys the store builds from a record's identifying parts fit the limit on keys, and two
  different lists of parts, of any lengths and whatever characters they hold, share a key only
  when SHA-256 collides on their encodings.
\<close>

theorem sync_record_key_unique:
  assumes "\<And>d. length (sha256 E d) = 32" and "66 \<le> KVSTORE_NAMESPACE_KEY_MAX_LEN E"
  shows "length (sync_record_key E ps) \<le> KVSTORE_NAMESPACE_KEY_MAX_LEN E
    \<and> (sync_record_key E ps = sync_record_key E qs \<longrightarrow> ps = qs
         \<or> joined_parts ps \<noteq> joined_parts qs
           \<and> sha256 E (as_bytes (joined_parts ps)) = sha256 E (as_bytes (joined_parts qs)))"
proof (intro conjI impI)
  show "length (sync_record_key E ps) \<le> KVSTORE_NAMESPACE_KEY_MAX_LEN E"
    using assms by (simp add: sync_record_key_def Let_def)
next
  assume eq: "sync_record_key E ps = sync_record_key E qs"
  show "ps = qs \<or> joined_parts ps \<noteq> joined_parts qs
      \<and> sha256 E (as_bytes (joined_parts ps)) = sha256 E (as_bytes (joined_parts qs))"
  proof (cases "joined_parts ps = joined_parts qs")
    case True
    then show ?thesis by (simp add: joined_parts_inj)
  next
    case False
    with eq show ?thesis
      using joined_parts_not_hashed [of ps] joined_parts_not_hashed [of qs, THEN not_sym]
      by (auto simp: sync_record_key_def Let_def split: if_splits)
  qed
qed

theorem sync_record_key_unique_witness:
  "sync_record_key sample_spark [''1_a'', ''b''] \<noteq> sync_record_key sample_spark [''1'', ''a1_b'']"
  using sync_record_key_unique [of sample_spark "[''1_a'', ''b'']" "[''1'', ''a1_b'']"]
  by (simp add: sample_spark_def sync_record_key_def decimal.simps)

subsection \<open>Outgoing changes\<close>

text \<open>
  C31. The queue of outgoing changes stays well formed under every call of the \<open>Storage\<close> trait,
  failing ones included, while the local revision counter has not reached its maximum: each key
  is the zero-padded revision of the change stored under it, and no revision is above the counter.
\<close>

theorem outgoing_queue_invariant:
  assumes "spark_codecs E view" and "queue_wf E view s" and "local_counter view s < u64_max"
    and "spark_step E s t"
  shows "queue_wf E view t"
  by (rule spark_codecs.step_queue_wf [OF assms])

lemma sample_queue_empty: "queue_wf sample_spark mem_view []" "local_counter mem_view [] = 0"
  by (simp_all add: queue_wf_def mem_view_def local_counter_def)

theorem outgoing_queue_invariant_witness:
  "queue_wf sample_spark mem_view (snd (add_outgoing_change sample_spark sample_change []))"
  by (rule outgoing_queue_invariant [OF sample_spark.spark_codecs_axioms sample_queue_empty(1) _ step_add_outgoing_change])
    (simp add: sample_queue_empty u64_max_def)

text \<open>
  C30. The outgoing queue is first in, first out: a change that was queued gets a revision above
  those of all changes pending, and the pending changes are handed out in the order of their
  revisions, the new one last, each as it was queued, cut off at the limit.
\<close>

theorem outgoing_changes_fifo:
  assumes "spark_codecs E view" and "queue_wf E view s" and "local_counter view s < u64_max"
    and "add_outgoing_change E c s = (Ok n, t)"
    and "get_pending_outgoing_changes E limit t = (Ok cs, u)"
  shows "map (\<lambda>c. rc_local_revision (oc_change c)) cs
        = take limit (sorted_list_of_set (dom (pending_changes E view s)) @ [n])
    \<and> list_all (\<lambda>ch. ((pending_changes E view s)(n \<mapsto> versioned c n)) (rc_local_revision (oc_change ch))
        = Some (oc_change ch)) cs"
  by (rule spark_codecs.added_change_is_handed_out [OF assms])

definition sample_queued :: mem_kv where
  "sample_queued = snd (add_outgoing_change sample_spark sample_change [])"

lemma sample_add: "add_outgoing_change sample_spark sample_change [] = (Ok 1, sample_queued)"
  by code_simp

lemma sample_get: "get_pending_outgoing_changes sample_spark 5 sample_queued
    = (Ok [\<lparr>oc_change = versioned sample_change 1, oc_parent = None\<rparr>], sample_queued)"
  by code_simp

theorem outgoing_changes_fifo_witness:
  "map (\<lambda>c. rc_local_revision (oc_change c)) [\<lparr>oc_change = versioned sample_change 1, oc_parent = None\<rparr>]
     = take 5 (sorted_list_of_set (dom (pending_changes sample_spark mem_view [])) @ [1])"
  using outgoing_changes_fifo [OF sample_spark.spark_codecs_axioms sample_queue_empty(1) _ sample_add sample_get]
  by (simp add: sample_queue_empty u64_max_def)

subsection \<open>Pages of payments\<close>

text \<open>
  On a store whose calls succeed and whose payments decode, listing payments returns: the
  slice taken is always within bounds, and the result is the requested page (offset and limit) of
  all stored payments, each once, sorted by timestamp, newest first unless asked otherwise.
\<close>

theorem list_payments_page:
  assumes "spark_reliable E view"
    and "\<And>k d. view s (SPARK_PRIMARY_NAMESPACE, SPARK_PAYMENTS_NAMESPACE, k) = Some d \<Longrightarrow>
      \<exists>p. from_slice (json_payment E) d = Inr p"
  shows "\<exists>ps. fst (list_payments E request s) = Ok (page request ps) \<and> mset ps = stored_payments E view s
    \<and> sorted (map sp_timestamp (if lr_sort_ascending request = Some True then ps else rev ps))"
  by (rule spark_reliable.list_payments_total [OF assms])

interpretation sample_reliable: spark_reliable sample_spark mem_view
  by (rule spark_reliable.intro [OF sample_spark.spark_ctx_axioms spark_reliable_axioms.intro])
    (simp add: sample_spark_def mem.reliable_kv_store_axioms)

lemma sample_disk_decodes:
  "mem_view sample_disk (SPARK_PRIMARY_NAMESPACE, SPARK_PAYMENTS_NAMESPACE, k) = Some d \<Longrightarrow>
   \<exists>p. from_slice (json_payment sample_spark) d = Inr p"
  by (auto simp: sample_disk_def mem_view_def sample_spark_def table_json_def split: if_splits)

theorem list_payments_page_witness:
  "\<exists>ps. fst (list_payments sample_spark StorageListPaymentsRequest_default sample_disk)
      = Ok (page StorageListPaymentsRequest_default ps)
    \<and> mset ps = stored_payments sample_spark mem_view sample_disk"
proof -
  from list_payments_page [of sample_spark mem_view sample_disk StorageListPaymentsRequest_default,
      OF sample_reliable.spark_reliable_axioms] sample_disk_decodes
  obtain ps where "fst (list_payments sample_spark StorageListPaymentsRequest_default sample_disk)
      = Ok (page StorageListPaymentsRequest_default ps)"
    and "mset ps = stored_payments sample_spark mem_view sample_disk" by metis
  then show ?thesis by (intro exI conjI)
qed

end
