(* ===== verification/Cashu_Wallet.thy ===== *)
theory Cashu_Wallet
  imports Cashu_Types Lightning_Wallet "HOL-Library.Option_ord"
begin

text \<open>
  The Cashu wallet (\<open>trusted_wallet/cashu/mod.rs\<close>). The wallet of the crate \<open>cdk\<close> is a
  parameter, a record of operations over a world \<open>'w\<close>; the state adds the tasks this code spawns
  (melts that are to be executed, quotes sent to the monitoring task), the flags a background task
  sets from the mint's information, and the signals of successful payments. The operations of the
  interface act on that state; the spawned tasks also act on the event queue and the metadata.
\<close>

type_synonym CdkError = string

datatype CdkPaymentMethod = Cdk_Bolt11 | Cdk_Bolt12

datatype MeltOptions = Melt_Amountless u64 | Melt_Mpp u64

datatype MeltQuoteState = Mq_Unpaid | Mq_Paid | Mq_Pending | Mq_Unknown | Mq_Failed

record FinalizedMelt =
  fm_state :: MeltQuoteState
  fm_payment_proof :: "string option"
  fm_fee_paid :: u64

record 'w cdk_wallet =
  ck_total_balance :: "'w \<Rightarrow> (CdkError, u64) result \<times> 'w"
  ck_mint_quote :: "CdkPaymentMethod \<Rightarrow> u64 option \<Rightarrow> 'w \<Rightarrow> (CdkError, MintQuote) result \<times> 'w"
  ck_list_transactions :: "TransactionDirection option \<Rightarrow> 'w \<Rightarrow>
    (CdkError, CashuTransaction list) result \<times> 'w"
  ck_melt_quote :: "CdkPaymentMethod \<Rightarrow> string \<Rightarrow> MeltOptions \<Rightarrow> 'w \<Rightarrow>
    (CdkError, MeltQuote) result \<times> 'w"
  ck_get_active_melt_quotes :: "'w \<Rightarrow> (CdkError, MeltQuote list) result \<times> 'w"
  ck_prepare_melt :: "string \<Rightarrow> (string \<times> string) list \<Rightarrow> 'w \<Rightarrow> (CdkError, bytes) result \<times> 'w"
  ck_confirm :: "bytes \<Rightarrow> 'w \<Rightarrow> (CdkError, FinalizedMelt) result \<times> 'w"
  ck_proof_stream_next :: "MintQuote \<Rightarrow> 'w \<Rightarrow> (CdkError, Proof list) result option \<times> 'w"
  ck_get_unspent_proofs :: "'w \<Rightarrow> (CdkError, KeysetId list) result \<times> 'w"
  ck_calculate_fee :: "u64 \<Rightarrow> KeysetId \<Rightarrow> 'w \<Rightarrow> (CdkError, u64) result \<times> 'w"
  ck_active_keyset :: "'w \<Rightarrow> (CdkError, KeysetId) result \<times> 'w"
  ck_get_keyset_fees_and_amounts_by_id :: "KeysetId \<Rightarrow> 'w \<Rightarrow> (CdkError, bytes) result \<times> 'w"
  ck_amount_add :: "u64 \<Rightarrow> u64 \<Rightarrow> (TrustedError, u64) result"
  ck_amount_split :: "u64 \<Rightarrow> bytes \<Rightarrow> CdkError + u64 list"
  ck_await_success_flag :: "'w \<Rightarrow> 'w"
  ck_bolt11_from_str :: "string \<Rightarrow> string + Bolt11Invoice"
  ck_bolt11_to_string :: "Bolt11Invoice \<Rightarrow> string"
  ck_offer_to_string :: "Offer \<Rightarrow> string"
  ck_payment_hash_to_string :: "PaymentHash \<Rightarrow> string"
  ck_unit_to_string :: "CurrencyUnit \<Rightarrow> string"
  ck_unit_debug :: "CurrencyUnit \<Rightarrow> string"
  ck_sha256 :: "bytes \<Rightarrow> bytes32"

text \<open>\<open>Cashu\<close>: the configuration, then the mutable part.\<close>

record 'w cashu_wallet = "'w cdk_wallet" +
  cw_amounts :: amount_ops
  cw_unit :: CurrencyUnit
  cw_npubcash_url :: "string option"
  cw_npub :: "string option"

record 'w cashu_outside =
  mint_world :: 'w
  supports_bolt12 :: bool
  supports_mpp :: bool
  monitor_alive :: bool
  quotes_to_monitor :: "MintQuote list"
  melt_tasks :: "(string \<times> bytes32 \<times> PaymentHash option) list"
  cashu_success_signals :: nat
  cashu_success_receivers :: nat
  cashu_shutdown :: bool

definition mint_call :: "('w \<Rightarrow> 'a \<times> 'w) \<Rightarrow> 'w cashu_outside \<Rightarrow> 'a \<times> 'w cashu_outside" where
  "mint_call f w = (case f (mint_world w) of (r, m) \<Rightarrow> (r, w\<lparr>mint_world := m\<rparr>))"

text \<open>\<open>map_err\<close> to \<open>WalletOperationFailed\<close> with a message.\<close>

definition operation_failed :: "string \<Rightarrow> (CdkError, 'a) result \<times> 's \<Rightarrow> (TrustedError, 'a) result \<times> 's" where
  "operation_failed msg = map_err (\<lambda>e. WalletOperationFailed (msg @ e))"

subsection \<open>Conversions\<close>

definition convert_amount :: "('w, 'c) cashu_wallet_scheme \<Rightarrow> u64 \<Rightarrow> (TrustedError, Amount) result" where
  "convert_amount C cdk_amount = (case cw_unit C of
     Cu_Sat \<Rightarrow> result_map_err (\<lambda>_. TAmountError) (from_sats (cw_amounts C) cdk_amount)
   | Cu_Msat \<Rightarrow> result_map_err (\<lambda>_. TAmountError) (from_milli_sats (cw_amounts C) cdk_amount)
   | unit' \<Rightarrow> Err (Other_TrustedError (''Unsupported currency unit '' @ ck_unit_to_string C unit'
       @ '' for Cashu wallet'')))"

definition id_to_32_byte_array :: "string \<Rightarrow> bytes32" where
  "id_to_32_byte_array i =
     (let id_bytes = as_bytes i; copy_len = min (length id_bytes) 32
      in take copy_len id_bytes @ replicate (32 - copy_len) 0)"

fun TxStatus_from_TransactionStatus :: "TransactionStatus \<Rightarrow> TxStatus" where
  "TxStatus_from_TransactionStatus Ts_Pending = Pending"
| "TxStatus_from_TransactionStatus Ts_Completed = Completed"
| "TxStatus_from_TransactionStatus Ts_Failed = Failed"

fun and_also :: "('e, 'a) result \<Rightarrow> ('a \<Rightarrow> ('e, 'b) result) \<Rightarrow> ('e, 'b) result" where
  "and_also (Ok a) f = f a"
| "and_also (Err e) f = Err e"
| "and_also (Panic m) f = Panic m"

definition convert_transaction_to_payment :: "('w, 'c) cashu_wallet_scheme \<Rightarrow> CashuTransaction \<Rightarrow>
    (TrustedError, TrustedPayment) result" where
  "convert_transaction_to_payment C transaction =
     (case ct_quote_id transaction of
        None \<Rightarrow> Err (WalletOperationFailed ''Missing quote ID in transaction'')
      | Some i \<Rightarrow>
          and_also (convert_amount C (ct_amount transaction)) (\<lambda>amount.
          and_also (convert_amount C (ct_fee transaction)) (\<lambda>fee.
            Ok \<lparr>p_id = id_to_32_byte_array i, p_amount = amount, p_fee = fee,
                p_status = TxStatus_from_TransactionStatus (ct_status transaction),
                p_outbound = (ct_direction transaction = Outgoing),
                p_time_since_epoch = from_secs (ct_timestamp transaction)\<rparr>)))"

text \<open>\<open>collect::<Result<Vec<_>, _>>()\<close>.\<close>

fun collect_ok :: "('a \<Rightarrow> ('e, 'b) result) \<Rightarrow> 'a list \<Rightarrow> ('e, 'b list) result" where
  "collect_ok f [] = Ok []"
| "collect_ok f (x # xs) = and_also (f x) (\<lambda>y. and_also (collect_ok f xs) (\<lambda>ys. Ok (y # ys)))"

subsection \<open>One payment per quote\<close>

definition priority :: "CashuTransaction \<Rightarrow> bool \<times> u64 \<times> Uuid option" where
  "priority tx = (ct_status tx = Ts_Completed, ct_timestamp tx, ct_saga_id tx)"

text \<open>
  The loop of \<open>convert_transactions_to_payments\<close>: the transactions selected so far and, for the
  quote of an outgoing one, its place among them.
\<close>

definition select_transaction :: "CashuTransaction \<Rightarrow> (string \<rightharpoonup> nat) \<times> CashuTransaction list \<Rightarrow>
    (string \<rightharpoonup> nat) \<times> CashuTransaction list" where
  "select_transaction transaction acc = (case acc of (outgoing_quotes, selected) \<Rightarrow>
     (case (if ct_direction transaction = Outgoing then ct_quote_id transaction else None) of
        None \<Rightarrow> (outgoing_quotes, selected @ [transaction])
      | Some quote_id \<Rightarrow>
          (case outgoing_quotes quote_id of
             Some index \<Rightarrow>
               (outgoing_quotes,
                if priority transaction > priority (selected ! index) then selected[index := transaction]
                else selected)
           | None \<Rightarrow> (outgoing_quotes(quote_id \<mapsto> length selected), selected @ [transaction]))))"

definition convert_transactions_to_payments :: "('w, 'c) cashu_wallet_scheme \<Rightarrow>
    CashuTransaction list \<Rightarrow> (TrustedError, TrustedPayment list) result" where
  "convert_transactions_to_payments C transactions =
     collect_ok (convert_transaction_to_payment C)
       (snd (fold select_transaction transactions (Map.empty, [])))"

subsection \<open>Fees\<close>

text \<open>The map of proof counts is iterated in an order the hasher picks, here \<open>sched\<close>.\<close>

definition count_proof :: "KeysetId \<Rightarrow> (KeysetId \<times> u64) list \<Rightarrow> (KeysetId \<times> u64) list" where
  "count_proof k m = (case map_of m k of
     Some n \<Rightarrow> AList.update k (u64_wrapping_add n 1) m | None \<Rightarrow> m @ [(k, 1)])"

fun add_keyset_fees :: "('w, 'c) cashu_wallet_scheme \<Rightarrow> (KeysetId \<times> u64) list \<Rightarrow> Amount \<Rightarrow>
    'w cashu_outside \<Rightarrow> (TrustedError, Amount) result \<times> 'w cashu_outside" where
  "add_keyset_fees C [] fee w = (Ok fee, w)"
| "add_keyset_fees C ((keyset_id, proof_count) # counts) fee w =
     and_then (operation_failed ''Failed to calculate input fee: ''
         (mint_call (ck_calculate_fee C proof_count keyset_id) w)) (\<lambda>keyset_fee w.
     and_then (convert_amount C keyset_fee, w) (\<lambda>f w.
       add_keyset_fees C counts (saturating_add (cw_amounts C) fee f) w))"

definition estimate_input_fee :: "('w, 'c) cashu_wallet_scheme \<Rightarrow>
    ((KeysetId \<times> u64) list \<Rightarrow> (KeysetId \<times> u64) list) \<Rightarrow> u64 \<Rightarrow>
    'w cashu_outside \<Rightarrow> (TrustedError, Amount) result \<times> 'w cashu_outside" where
  "estimate_input_fee C sched input_amount w =
     and_then (operation_failed ''Failed to get unspent proofs: ''
         (mint_call (ck_get_unspent_proofs C) w)) (\<lambda>proofs w.
     and_then (add_keyset_fees C (sched (fold count_proof proofs [])) 0 w) (\<lambda>fee w.
     and_then (operation_failed ''Failed to get active keyset: ''
         (mint_call (ck_active_keyset C) w)) (\<lambda>active_keyset w.
     and_then (operation_failed ''Failed to get keyset fee amounts: ''
         (mint_call (ck_get_keyset_fees_and_amounts_by_id C active_keyset) w)) (\<lambda>fee_and_amounts w.
     and_then (case ck_amount_split C input_amount fee_and_amounts of
         Inl e \<Rightarrow> (Err (WalletOperationFailed (''Failed to calculate melt output count: '' @ e)), w)
       | Inr outputs \<Rightarrow> (Ok outputs, w)) (\<lambda>output_count w.
     and_then (operation_failed ''Failed to calculate output fee: ''
         (mint_call (ck_calculate_fee C (length output_count) active_keyset) w)) (\<lambda>output_fee w.
     and_then (convert_amount C output_fee, w) (\<lambda>f w.
       (Ok (saturating_add (cw_amounts C) fee f), w))))))))"

subsection \<open>The interface\<close>

definition cashu_get_balance :: "('w, 'c) cashu_wallet_scheme \<Rightarrow> 'w cashu_outside \<Rightarrow>
    (TrustedError, Amount) result \<times> 'w cashu_outside" where
  "cashu_get_balance C w =
     and_then (operation_failed ''Failed to get balance: '' (mint_call (ck_total_balance C) w))
       (\<lambda>balance w. (convert_amount C balance, w))"

text \<open>\<open>mint_quote_sender.send\<close>: an error, when the monitoring task is gone, is only logged.\<close>

definition send_for_monitoring :: "MintQuote \<Rightarrow> 'w cashu_outside \<Rightarrow> 'w cashu_outside" where
  "send_for_monitoring quote w =
     (if monitor_alive w then w\<lparr>quotes_to_monitor := quotes_to_monitor w @ [quote]\<rparr> else w)"

definition cashu_get_reusable_receive_uri :: "('w, 'c) cashu_wallet_scheme \<Rightarrow> 'w cashu_outside \<Rightarrow>
    (TrustedError, string) result \<times> 'w cashu_outside" where
  "cashu_get_reusable_receive_uri C w =
     (if \<not> supports_bolt12 w then (Err (UnsupportedOperation ''Cashu mint does not support BOLT 12''), w)
      else and_then (operation_failed ''Failed to create mint quote: ''
             (mint_call (ck_mint_quote C Cdk_Bolt12 None) w)) (\<lambda>mint_quote w.
             (Ok (mq_request mint_quote), send_for_monitoring mint_quote w)))"

definition invoice_amount :: "('w, 'c) cashu_wallet_scheme \<Rightarrow> Amount \<Rightarrow> (TrustedError, u64) result" where
  "invoice_amount C a = (case cw_unit C of
     Cu_Sat \<Rightarrow> result_map_err (\<lambda>_. TAmountError) (sats (cw_amounts C) a)
   | Cu_Msat \<Rightarrow> Ok (milli_sats a)
   | unit' \<Rightarrow> Err (Other_TrustedError (''Unsupported currency unit '' @ ck_unit_debug C unit'
       @ '' for Cashu wallet'')))"

definition cashu_get_bolt11_invoice :: "('w, 'c) cashu_wallet_scheme \<Rightarrow> Amount option \<Rightarrow>
    'w cashu_outside \<Rightarrow> (TrustedError, Bolt11Invoice) result \<times> 'w cashu_outside" where
  "cashu_get_bolt11_invoice C amount w = (case amount of
     None \<Rightarrow> (Err (UnsupportedOperation ''Cashu does not support amount-less invoices''), w)
   | Some a \<Rightarrow>
       if a = 0 then (Err (UnsupportedOperation ''Cashu does not support amount-less invoices''), w)
       else and_then (invoice_amount C a, w) (\<lambda>cdk_amount w.
            and_then (operation_failed ''Failed to create mint quote: ''
              (mint_call (ck_mint_quote C Cdk_Bolt11 (Some cdk_amount)) w)) (\<lambda>quote w.
              case ck_bolt11_from_str C (mq_request quote) of
                Inl e \<Rightarrow> (Err (Other_TrustedError (''Failed to parse invoice: '' @ e)), w)
              | Inr invoice \<Rightarrow> (Ok invoice, send_for_monitoring quote w))))"

definition cashu_list_payments :: "('w, 'c) cashu_wallet_scheme \<Rightarrow> 'w cashu_outside \<Rightarrow>
    (TrustedError, TrustedPayment list) result \<times> 'w cashu_outside" where
  "cashu_list_payments C w =
     and_then (operation_failed ''Failed to list transactions: ''
         (mint_call (ck_list_transactions C None) w)) (\<lambda>transactions w.
       (convert_transactions_to_payments C transactions, w))"

definition quote_fee :: "('w, 'c) cashu_wallet_scheme \<Rightarrow>
    ((KeysetId \<times> u64) list \<Rightarrow> (KeysetId \<times> u64) list) \<Rightarrow> MeltQuote \<Rightarrow>
    'w cashu_outside \<Rightarrow> (TrustedError, Amount) result \<times> 'w cashu_outside" where
  "quote_fee C sched quote w =
     and_then (convert_amount C (lq_fee_reserve quote), w) (\<lambda>fee w.
     and_then (ck_amount_add C (lq_amount quote) (lq_fee_reserve quote), w) (\<lambda>input w.
     and_then (estimate_input_fee C sched input w) (\<lambda>input_fee w.
       (Ok (saturating_add (cw_amounts C) fee input_fee), w))))"

definition cashu_estimate_fee :: "('w, 'c) cashu_wallet_scheme \<Rightarrow>
    ((KeysetId \<times> u64) list \<Rightarrow> (KeysetId \<times> u64) list) \<Rightarrow> PaymentMethod \<Rightarrow> Amount \<Rightarrow>
    'w cashu_outside \<Rightarrow> (TrustedError, Amount) result \<times> 'w cashu_outside" where
  "cashu_estimate_fee C sched method amount w =
     (let melt_options = Melt_Amountless (milli_sats amount) in
      case method of
        LightningBolt11 invoice \<Rightarrow>
          and_then (operation_failed ''Failed to get melt quote: ''
            (mint_call (ck_melt_quote C Cdk_Bolt11 (ck_bolt11_to_string C invoice) melt_options) w))
            (\<lambda>quote w. quote_fee C sched quote w)
      | LightningBolt12 offer \<Rightarrow>
          and_then (operation_failed ''Failed to get melt quote: ''
            (mint_call (ck_melt_quote C Cdk_Bolt12 (ck_offer_to_string C offer) melt_options) w))
            (\<lambda>quote w. quote_fee C sched quote w)
      | OnChain _ \<Rightarrow> (Err (UnsupportedOperation ''Cashu mint does not support onchain''), w))"

text \<open>\<open>spawn_melt\<close> starts a task; its run is \<open>melt_task\<close> below.\<close>

definition spawn_melt :: "string \<Rightarrow> bytes32 \<Rightarrow> PaymentHash option \<Rightarrow> 'w cashu_outside \<Rightarrow> 'w cashu_outside" where
  "spawn_melt quote_id payment_id payment_hash w =
     w\<lparr>melt_tasks := melt_tasks w @ [(quote_id, payment_id, payment_hash)]\<rparr>"

definition melt_quote_for :: "('w, 'c) cashu_wallet_scheme \<Rightarrow> PaymentMethod \<Rightarrow> Amount \<Rightarrow>
    'w cashu_outside \<Rightarrow> (TrustedError, MeltQuote \<times> PaymentHash option) result \<times> 'w cashu_outside" where
  "melt_quote_for C method amount w =
     (let melt_options = Melt_Amountless (milli_sats amount) in
      case method of
        LightningBolt11 invoice \<Rightarrow>
          and_then (operation_failed ''Failed to get active melt quotes: ''
            (mint_call (ck_get_active_melt_quotes C) w)) (\<lambda>quotes w.
            case find (\<lambda>q. lq_request q = ck_bolt11_to_string C invoice) quotes of
              Some q \<Rightarrow> (Ok (q, Some (inv_payment_hash invoice)), w)
            | None \<Rightarrow>
                and_then (operation_failed ''Failed to create melt quote: ''
                  (mint_call (ck_melt_quote C Cdk_Bolt11 (ck_bolt11_to_string C invoice) melt_options) w))
                  (\<lambda>q w. (Ok (q, Some (inv_payment_hash invoice)), w)))
      | LightningBolt12 offer \<Rightarrow>
          if \<not> supports_bolt12 w
          then (Err (UnsupportedOperation ''Cashu mint does not support BOLT 12''), w)
          else and_then (operation_failed ''Failed to create melt quote: ''
            (mint_call (ck_melt_quote C Cdk_Bolt12 (ck_offer_to_string C offer) melt_options) w))
            (\<lambda>q w. (Ok (q, None), w))
      | OnChain _ \<Rightarrow> (Err (UnsupportedOperation ''Cashu mint does not support onchain''), w))"

definition cashu_pay :: "('w, 'c) cashu_wallet_scheme \<Rightarrow> PaymentMethod \<Rightarrow> Amount \<Rightarrow>
    'w cashu_outside \<Rightarrow> (TrustedError, bytes32) result \<times> 'w cashu_outside" where
  "cashu_pay C method amount w =
     and_then (melt_quote_for C method amount w) (\<lambda>(quote, payment_hash) w.
       let payment_id = id_to_32_byte_array (lq_id quote)
       in (Ok payment_id, spawn_melt (lq_id quote) payment_id payment_hash w))"

definition cashu_supports_partial_payments :: "'w cashu_outside \<Rightarrow> bool" where
  "cashu_supports_partial_payments w = supports_mpp w"

definition cashu_pay_partial :: "('w, 'c) cashu_wallet_scheme \<Rightarrow> Bolt11Invoice \<Rightarrow> Amount \<Rightarrow>
    'w cashu_outside \<Rightarrow> (TrustedError, bytes32) result \<times> 'w cashu_outside" where
  "cashu_pay_partial C invoice partial_amount w =
     (if \<not> supports_mpp w
      then (Err (UnsupportedOperation ''Cashu mint does not support partial (MPP) payments''), w)
      else and_then (operation_failed ''Failed to create MPP melt quote: ''
             (mint_call (ck_melt_quote C Cdk_Bolt11 (ck_bolt11_to_string C invoice)
                (Melt_Mpp (milli_sats partial_amount))) w)) (\<lambda>quote w.
             let payment_id = id_to_32_byte_array (lq_id quote)
             in (Ok payment_id, spawn_melt (lq_id quote) payment_id (Some (inv_payment_hash invoice)) w)))"

definition PAYMENT_HASH_METADATA_KEY :: string where
  "PAYMENT_HASH_METADATA_KEY = ''payment_hash''"

text \<open>One turn of the loop of \<open>await_payment_success\<close>: an answer, or to wait.\<close>

definition settled_transaction :: "bytes32 \<Rightarrow> CashuTransaction list \<Rightarrow> CashuTransaction option" where
  "settled_transaction payment_hash txs =
     find (\<lambda>tx. ct_status tx = Ts_Completed
        \<and> map_of (ct_metadata tx) PAYMENT_HASH_METADATA_KEY = Some (to_lower_hex_string payment_hash)) txs"

partial_function (option) cashu_await_payment_success :: "('w, 'c) cashu_wallet_scheme \<Rightarrow> bytes32 \<Rightarrow>
    'w cashu_outside \<Rightarrow>
    ((TrustedError, ReceivedLightningPayment option) result \<times> 'w cashu_outside) option" where
  "cashu_await_payment_success C payment_hash w =
     (case mint_call (ck_list_transactions C (Some Outgoing)) w of
        (Err e, w) \<Rightarrow> Some (Ok None, w)
      | (Panic m, w) \<Rightarrow> Some (Panic m, w)
      | (Ok txs, w) \<Rightarrow>
          (case settled_transaction payment_hash txs of
             Some tx \<Rightarrow>
               (case ct_quote_id tx of
                  None \<Rightarrow> Some (Panic ''safe'', w)
                | Some quote_id \<Rightarrow>
                    (case convert_amount C (ct_fee tx) of
                       Ok fee \<Rightarrow> Some (Ok (Some \<lparr>rp_id = id_to_32_byte_array quote_id,
                           rp_fee_paid_msat = Some (milli_sats fee)\<rparr>), w)
                     | Err e \<Rightarrow> Some (Ok None, w)
                     | Panic m \<Rightarrow> Some (Panic m, w)))
           | None \<Rightarrow> cashu_await_payment_success C payment_hash
                (snd (mint_call (\<lambda>m. ((), ck_await_success_flag C m)) w))))"

fun trim_start_matches :: "string \<Rightarrow> string \<Rightarrow> nat \<Rightarrow> string" where
  "trim_start_matches pat s 0 = s"
| "trim_start_matches pat s (Suc n) =
     (if take (length pat) s = pat then trim_start_matches pat (drop (length pat) s) n else s)"

definition cashu_get_lightning_address :: "('w, 'c) cashu_wallet_scheme \<Rightarrow>
    (TrustedError, string option) result" where
  "cashu_get_lightning_address C = (case (cw_npubcash_url C, cw_npub C) of
     (Some url, Some npub) \<Rightarrow>
       (let domain = trim_start_matches ''https://'' url (length url);
            domain = trim_start_matches ''http://'' domain (length domain)
        in Ok (Some (npub @ ''@'' @ domain)))
   | _ \<Rightarrow> Ok None)"

definition cashu_register_lightning_address :: "('w, 'c) cashu_wallet_scheme \<Rightarrow> string \<Rightarrow>
    (TrustedError, unit) result" where
  "cashu_register_lightning_address C name =
     (if cw_npubcash_url C = None
      then Err (UnsupportedOperation ''npubcash_url is not configured'') else Ok ())"

definition cashu_stop :: "'w cashu_outside \<Rightarrow> 'w cashu_outside" where
  "cashu_stop w = w\<lparr>cashu_shutdown := True\<rparr>"

subsection \<open>The spawned tasks\<close>

definition is_rebalance_payment :: "PaymentId \<Rightarrow> ('s, 'x) tx_store_scheme \<Rightarrow> bool" where
  "is_rebalance_payment payment_id s =
     (case tx_metadata s payment_id of Some m \<Rightarrow> is_rebalance (md_ty m) | None \<Rightarrow> False)"

text \<open>\<open>payment_success_sender.send(()).unwrap()\<close>: an error when no receiver is left.\<close>

definition signal_success :: "('s, 'w cashu_outside, 'x) wallet_state_scheme \<Rightarrow>
    (unit, unit) result \<times> ('s, 'w cashu_outside, 'x) wallet_state_scheme" where
  "signal_success s =
     (if cashu_success_receivers (outside s) = 0
      then (Panic ''called `Result::unwrap()` on an `Err` value'', s)
      else (Ok (), s\<lparr>outside := (outside s)\<lparr>cashu_success_signals :=
          Suc (cashu_success_signals (outside s))\<rparr>\<rparr>))"

text \<open>\<open>let _ = ..\<close>: an error is dropped, a panic is not.\<close>

definition ignore_error :: "('e, 'a) result \<times> 's \<Rightarrow> (unit, unit) result \<times> 's" where
  "ignore_error r = (case r of (Panic m, s) \<Rightarrow> (Panic m, s) | (_, s) \<Rightarrow> (Ok (), s))"

definition melt_preimage :: "FinalizedMelt \<Rightarrow> bytes32 option" where
  "melt_preimage res = Option.bind (fm_payment_proof res) from_hex32"

definition melt_hash :: "('w, 'c) cashu_wallet_scheme \<Rightarrow> PaymentHash option \<Rightarrow> bytes32 option \<Rightarrow> PaymentHash" where
  "melt_hash C payment_hash pre = (case payment_hash of
     Some h \<Rightarrow> h
   | None \<Rightarrow> (case pre of Some p \<Rightarrow> ck_sha256 C p | None \<Rightarrow> replicate 32 0))"

definition report_failed_melt :: "('s, 'e) event_env_scheme \<Rightarrow> PaymentId \<Rightarrow> PaymentHash option \<Rightarrow>
    ('s, 'x) event_queue_scheme \<Rightarrow> (unit, unit) result \<times> ('s, 'x) event_queue_scheme" where
  "report_failed_melt E payment_id payment_hash s =
     (if is_rebalance_payment payment_id s then (Ok (), s)
      else ignore_error (add_event E (PaymentFailed payment_id payment_hash None) s))"

definition finish_melt :: "('s, 'e) event_env_scheme \<Rightarrow> ('w, 'c) cashu_wallet_scheme \<Rightarrow> FinalizedMelt \<Rightarrow>
    PaymentId \<Rightarrow> PaymentHash option \<Rightarrow> ('s, 'w cashu_outside, 'x) wallet_state_scheme \<Rightarrow>
    (unit, unit) result \<times> ('s, 'w cashu_outside, 'x) wallet_state_scheme" where
  "finish_melt E C res payment_id payment_hash s = (case fm_state res of
     Mq_Paid \<Rightarrow>
       if is_rebalance_payment payment_id s then signal_success s
       else
         (let pre = melt_preimage res; hash = melt_hash C payment_hash pre;
              payment_preimage = (case pre of Some p \<Rightarrow> p | None \<Rightarrow> replicate 32 0)
          in and_then (ignore_error (set_preimage E payment_id payment_preimage s)) (\<lambda>_ s.
             and_then (ignore_error (add_event E (PaymentSuccessful payment_id hash payment_preimage
                 (Some (u64_wrapping_mul (fm_fee_paid res) 1000))) s)) (\<lambda>_ s.
               signal_success s)))
   | Mq_Failed \<Rightarrow> report_failed_melt E payment_id payment_hash s
   | _ \<Rightarrow> (Ok (), s))"

definition execute_melt :: "('w, 'c) cashu_wallet_scheme \<Rightarrow> string \<Rightarrow> PaymentHash option \<Rightarrow>
    'w cashu_outside \<Rightarrow> (CdkError, FinalizedMelt) result \<times> 'w cashu_outside" where
  "execute_melt C quote_id payment_hash w =
     (let metadata = (case payment_hash of
            Some hash \<Rightarrow> [(PAYMENT_HASH_METADATA_KEY, ck_payment_hash_to_string C hash)] | None \<Rightarrow> [])
      in and_then (mint_call (ck_prepare_melt C quote_id metadata) w) (\<lambda>prepared w.
           mint_call (ck_confirm C prepared) w))"

definition melt_task :: "('s, 'e) event_env_scheme \<Rightarrow> ('w, 'c) cashu_wallet_scheme \<Rightarrow>
    string \<times> bytes32 \<times> PaymentHash option \<Rightarrow> ('s, 'w cashu_outside, 'x) wallet_state_scheme \<Rightarrow>
    (unit, unit) result \<times> ('s, 'w cashu_outside, 'x) wallet_state_scheme" where
  "melt_task E C task s = (case task of (quote_id, payment_id, payment_hash) \<Rightarrow>
     (case outside_call (execute_melt C quote_id payment_hash) s of
        (Ok res, s) \<Rightarrow> finish_melt E C res (Trusted payment_id) payment_hash s
      | (Err e, s) \<Rightarrow> report_failed_melt E (Trusted payment_id) payment_hash s
      | (Panic m, s) \<Rightarrow> (Panic m, s)))"

text \<open>
  \<open>monitor_mint_quote\<close>: the stream of proofs minted for a quote may go on; None is not returning.
\<close>

definition report_minted :: "('s, 'e) event_env_scheme \<Rightarrow> ('w, 'c) cashu_wallet_scheme \<Rightarrow> (io_error \<Rightarrow> string) \<Rightarrow>
    MintQuote \<Rightarrow> ('s, 'w cashu_outside, 'x) wallet_state_scheme \<Rightarrow>
    (TrustedError, unit) result \<times> ('s, 'w cashu_outside, 'x) wallet_state_scheme" where
  "report_minted E C io_text mint_quote s =
     (case ck_bolt11_from_str C (mq_request mint_quote) of
        Inl e \<Rightarrow> (Err (Other_TrustedError (''Failed to parse invoice from mint quote: '' @ e)), s)
      | Inr invoice \<Rightarrow>
          map_err (\<lambda>e. Other_TrustedError (''Failed to add event: '' @ io_text e))
            (add_event E (PaymentReceived (Trusted (id_to_32_byte_array (mq_id mint_quote)))
               (inv_payment_hash invoice)
               (u64_wrapping_mul (case mq_amount mint_quote of Some a \<Rightarrow> a | None \<Rightarrow> 0) 1000) [] None) s))"

partial_function (option) monitor_mint_quote :: "('s, 'e) event_env_scheme \<Rightarrow>
    ('w, 'c) cashu_wallet_scheme \<Rightarrow> (io_error \<Rightarrow> string) \<Rightarrow> MintQuote \<Rightarrow>
    ('s, 'w cashu_outside, 'x) wallet_state_scheme \<Rightarrow>
    ((TrustedError, unit) result \<times> ('s, 'w cashu_outside, 'x) wallet_state_scheme) option" where
  "monitor_mint_quote E C io_text mint_quote s =
     (case outside_call (mint_call (ck_proof_stream_next C mint_quote)) s of
        (None, s) \<Rightarrow> Some (Ok (), s)
      | (Some (Err e), s) \<Rightarrow> Some (Err (Other_TrustedError (''Failed mint proofs: '' @ e)), s)
      | (Some (Panic m), s) \<Rightarrow> Some (Panic m, s)
      | (Some (Ok proofs), s) \<Rightarrow>
          (case report_minted E C io_text mint_quote s of
             (Ok _, s) \<Rightarrow> monitor_mint_quote E C io_text mint_quote s
           | (Err e, s) \<Rightarrow> Some (Err e, s)
           | (Panic m, s) \<Rightarrow> Some (Panic m, s)))"

end
