(* ===== verification/Spark_Wallet.thy ===== *)
theory Spark_Wallet
  imports Spark_Types Cashu_Wallet
begin

text \<open>
  The Spark wallet (\<open>trusted_wallet/spark/mod.rs\<close>). The SDK of the crate \<open>breez_sdk_spark\<close> is a
  parameter, a record of operations over a world \<open>'w\<close>; the state adds the send tasks this code
  spawns and the signals of successful payments. The listener of the SDK's events acts on the
  event queue and the metadata too.
\<close>

type_synonym SdkError = string

datatype SendPaymentMethod = Spm_Bolt11Invoice u64 | Spm_Other bytes

record PrepareSendPaymentResponse =
  psr_payment_method :: SendPaymentMethod
  psr_rest :: bytes

record 'w breez_sdk =
  bz_get_info :: "'w \<Rightarrow> (SdkError, u64) result \<times> 'w"
  bz_receive_payment :: "u64 option \<Rightarrow> 'w \<Rightarrow> (SdkError, string) result \<times> 'w"
  bz_list_payments :: "'w \<Rightarrow> (SdkError, SparkPayment list) result \<times> 'w"
  bz_prepare_send_payment :: "string \<Rightarrow> u128 option \<Rightarrow> 'w \<Rightarrow>
    (SdkError, PrepareSendPaymentResponse) result \<times> 'w"
  bz_send_payment :: "PrepareSendPaymentResponse \<Rightarrow> string \<Rightarrow> 'w \<Rightarrow> (SdkError, SparkPayment) result \<times> 'w"
  bz_get_lightning_address :: "'w \<Rightarrow> (SdkError, string option) result \<times> 'w"
  bz_register_lightning_address :: "string \<Rightarrow> 'w \<Rightarrow> (SdkError, unit) result \<times> 'w"
  bz_uuid_now_v7 :: "'w \<Rightarrow> bytes \<times> 'w"
  bz_await_success_flag :: "'w \<Rightarrow> 'w"
  bz_uuid_from_str :: "string \<Rightarrow> bytes option"
  bz_uuid_to_string :: "bytes \<Rightarrow> string"
  bz_sdk_error_debug :: "SdkError \<Rightarrow> string"
  bz_bolt11_from_str :: "string \<Rightarrow> string + Bolt11Invoice"
  bz_bolt11_to_string :: "Bolt11Invoice \<Rightarrow> string"
  bz_amounts :: amount_ops

record 'w spark_outside =
  sdk_world :: 'w
  send_tasks :: "(PrepareSendPaymentResponse \<times> string) list"
  spark_success_signals :: nat
  spark_success_receivers :: nat
  spark_shutdown :: bool

definition sdk_call :: "('w \<Rightarrow> 'a \<times> 'w) \<Rightarrow> 'w spark_outside \<Rightarrow> 'a \<times> 'w spark_outside" where
  "sdk_call f w = (case f (sdk_world w) of (r, m) \<Rightarrow> (r, w\<lparr>sdk_world := m\<rparr>))"

definition TrustedError_from_sdk :: "('w, 'b) breez_sdk_scheme \<Rightarrow> SdkError \<Rightarrow> TrustedError" where
  "TrustedError_from_sdk B e = WalletOperationFailed (bz_sdk_error_debug B e)"

abbreviation "sdk_try B f w \<equiv> map_err (TrustedError_from_sdk B) (sdk_call f w)"

subsection \<open>Identifiers and conversions\<close>

definition convert_from_uuid_id :: "bytes \<Rightarrow> bytes32" where
  "convert_from_uuid_id uuid = uuid @ replicate 16 0"

text \<open>\<open>id.split(':').next_back()\<close>, which always yields a part.\<close>

definition last_part :: "string \<Rightarrow> string" where
  "last_part i = rev (takeWhile (\<lambda>c. c \<noteq> CHR '':'') (rev i))"

definition parse_payment_id :: "('w, 'b) breez_sdk_scheme \<Rightarrow> string \<Rightarrow> (TrustedError, bytes32) result" where
  "parse_payment_id B i = (case bz_uuid_from_str B (last_part i) of
     None \<Rightarrow> Err (Other_TrustedError (''Failed to parse payment id: '' @ last_part i))
   | Some uuid \<Rightarrow> Ok (convert_from_uuid_id uuid))"

fun TxStatus_from_spark :: "SparkPaymentStatus \<Rightarrow> TxStatus" where
  "TxStatus_from_spark Sp_Pending = Pending"
| "TxStatus_from_spark Sp_Completed = Completed"
| "TxStatus_from_spark Sp_Failed = Failed"

definition u128_max :: u128 where "u128_max = 340282366920938463463374607431768211455"

text \<open>\<open>(n * 1_000) as u64\<close> of an \<open>n: u128\<close>.\<close>

definition sats_to_msats :: "u128 \<Rightarrow> u64" where
  "sats_to_msats n = as_u64 ((n * 1000) mod (u128_max + 1))"

definition Payment_try_from :: "('w, 'b) breez_sdk_scheme \<Rightarrow> SparkPayment \<Rightarrow>
    (TrustedError, TrustedPayment) result" where
  "Payment_try_from B value =
     and_also (parse_payment_id B (sp_id value)) (\<lambda>i.
     and_also (result_map_err (\<lambda>_. TAmountError) (from_sats (bz_amounts B) (as_u64 (sp_amount value)))) (\<lambda>amount.
     and_also (result_map_err (\<lambda>_. TAmountError) (from_sats (bz_amounts B) (as_u64 (sp_fees value)))) (\<lambda>fee.
       Ok \<lparr>p_id = i, p_amount = amount, p_fee = fee, p_status = TxStatus_from_spark (sp_status value),
           p_outbound = (sp_payment_type value = Sp_Send),
           p_time_since_epoch = from_secs (sp_timestamp value)\<rparr>)))"

subsection \<open>The interface\<close>

definition spark_get_balance :: "('w, 'b) breez_sdk_scheme \<Rightarrow> 'w spark_outside \<Rightarrow>
    (TrustedError, Amount) result \<times> 'w spark_outside" where
  "spark_get_balance B w =
     and_then (sdk_try B (bz_get_info B) w) (\<lambda>balance_sats w.
       (result_map_err (\<lambda>_. TAmountError) (from_sats (bz_amounts B) balance_sats), w))"

definition spark_get_reusable_receive_uri :: "'w spark_outside \<Rightarrow>
    (TrustedError, string) result \<times> 'w spark_outside" where
  "spark_get_reusable_receive_uri w = (Err (UnsupportedOperation ''Spark does not support BOLT 12''), w)"

definition whole_sats :: "('w, 'b) breez_sdk_scheme \<Rightarrow> Amount \<Rightarrow> (TrustedError, u64) result" where
  "whole_sats B a = result_map_err (\<lambda>_. UnsupportedOperation ''msat amounts not supported by spark'')
     (sats (bz_amounts B) a)"

definition spark_get_bolt11_invoice :: "('w, 'b) breez_sdk_scheme \<Rightarrow> Amount option \<Rightarrow> 'w spark_outside \<Rightarrow>
    (TrustedError, Bolt11Invoice) result \<times> 'w spark_outside" where
  "spark_get_bolt11_invoice B amount w =
     and_then (case amount of
         Some a \<Rightarrow> and_then (whole_sats B a, w) (\<lambda>n w. (Ok (Some n), w)) | None \<Rightarrow> (Ok None, w)) (\<lambda>amount_sats w.
     and_then (sdk_try B (bz_receive_payment B amount_sats) w) (\<lambda>payment_request w.
       case bz_bolt11_from_str B payment_request of
         Inl e \<Rightarrow> (Err (Other_TrustedError (''Failed to parse invoice: '' @ e)), w)
       | Inr invoice \<Rightarrow> (Ok invoice, w)))"

definition spark_list_payments :: "('w, 'b) breez_sdk_scheme \<Rightarrow> 'w spark_outside \<Rightarrow>
    (TrustedError, TrustedPayment list) result \<times> 'w spark_outside" where
  "spark_list_payments B w =
     and_then (sdk_try B (bz_list_payments B) w) (\<lambda>payments w. (collect_ok (Payment_try_from B) payments, w))"

definition prepare_bolt11 :: "('w, 'b) breez_sdk_scheme \<Rightarrow> Bolt11Invoice \<Rightarrow> Amount \<Rightarrow> 'w spark_outside \<Rightarrow>
    (TrustedError, PrepareSendPaymentResponse) result \<times> 'w spark_outside" where
  "prepare_bolt11 B invoice amount w =
     and_then (whole_sats B amount, w) (\<lambda>n w.
       sdk_try B (bz_prepare_send_payment B (bz_bolt11_to_string B invoice) (Some n)) w)"

definition spark_estimate_fee :: "('w, 'b) breez_sdk_scheme \<Rightarrow> PaymentMethod \<Rightarrow> Amount \<Rightarrow> 'w spark_outside \<Rightarrow>
    (TrustedError, Amount) result \<times> 'w spark_outside" where
  "spark_estimate_fee B method amount w = (case method of
     LightningBolt11 invoice \<Rightarrow>
       and_then (prepare_bolt11 B invoice amount w) (\<lambda>prepare w.
         case psr_payment_method prepare of
           Spm_Bolt11Invoice lightning_fee_sats \<Rightarrow>
             (result_map_err (\<lambda>_. TAmountError) (from_sats (bz_amounts B) lightning_fee_sats), w)
         | Spm_Other _ \<Rightarrow> (Panic ''internal error: entered unreachable code: we only asked for bolt11'', w))
   | _ \<Rightarrow> (Err (UnsupportedOperation ''Only BOLT 11 is currently supported''), w))"

definition spark_pay :: "('w, 'b) breez_sdk_scheme \<Rightarrow> PaymentMethod \<Rightarrow> Amount \<Rightarrow> 'w spark_outside \<Rightarrow>
    (TrustedError, bytes32) result \<times> 'w spark_outside" where
  "spark_pay B method amount w = (case method of
     LightningBolt11 invoice \<Rightarrow>
       and_then (prepare_bolt11 B invoice amount w) (\<lambda>prepare w.
         case sdk_call (bz_uuid_now_v7 B) w of (uuid, w) \<Rightarrow>
           let w = w\<lparr>send_tasks := send_tasks w @ [(prepare, bz_uuid_to_string B uuid)]\<rparr>
           in (parse_payment_id B (bz_uuid_to_string B uuid), w))
   | _ \<Rightarrow> (Err (UnsupportedOperation ''Only BOLT 11 is currently supported''), w))"

text \<open>The spawned task: the outcome of the send is only logged.\<close>

definition send_task :: "('w, 'b) breez_sdk_scheme \<Rightarrow> PrepareSendPaymentResponse \<times> string \<Rightarrow>
    'w spark_outside \<Rightarrow> (unit, unit) result \<times> 'w spark_outside" where
  "send_task B task w = (case task of (prepare, idempotency_key) \<Rightarrow>
     ignore_error (sdk_call (bz_send_payment B prepare idempotency_key) w))"

definition spark_supports_partial_payments :: bool where
  "spark_supports_partial_payments = False"

definition spark_pay_partial :: "Bolt11Invoice \<Rightarrow> Amount \<Rightarrow> 'w spark_outside \<Rightarrow>
    (TrustedError, bytes32) result \<times> 'w spark_outside" where
  "spark_pay_partial invoice partial_amount w =
     (Err (UnsupportedOperation ''Spark wallet does not support partial payments''), w)"

definition payment_with_hash :: "bytes32 \<Rightarrow> SparkPayment list \<Rightarrow> SparkPayment option" where
  "payment_with_hash payment_hash payments =
     find (\<lambda>p. case sp_details p of
         Some (Spd_Lightning _ htlc_details _) \<Rightarrow> from_hex32 (hd_payment_hash htlc_details) = Some payment_hash
       | _ \<Rightarrow> False) payments"

partial_function (option) spark_await_payment_success :: "('w, 'b) breez_sdk_scheme \<Rightarrow> bytes32 \<Rightarrow>
    'w spark_outside \<Rightarrow>
    ((TrustedError, ReceivedLightningPayment option) result \<times> 'w spark_outside) option" where
  "spark_await_payment_success B payment_hash w =
     (case sdk_call (bz_list_payments B) w of
        (Err e, w) \<Rightarrow> Some (Ok None, w)
      | (Panic m, w) \<Rightarrow> Some (Panic m, w)
      | (Ok payments, w) \<Rightarrow>
          (case payment_with_hash payment_hash payments of
             None \<Rightarrow> Some (Ok None, w)
           | Some tx \<Rightarrow>
               if sp_status tx = Sp_Completed
               then Some (Ok (Some \<lparr>rp_id = payment_hash,
                   rp_fee_paid_msat = Some (sats_to_msats (sp_fees tx))\<rparr>), w)
               else spark_await_payment_success B payment_hash
                 (snd (sdk_call (\<lambda>m. ((), bz_await_success_flag B m)) w))))"

definition spark_get_lightning_address :: "('w, 'b) breez_sdk_scheme \<Rightarrow> 'w spark_outside \<Rightarrow>
    (TrustedError, string option) result \<times> 'w spark_outside" where
  "spark_get_lightning_address B w = sdk_try B (bz_get_lightning_address B) w"

definition spark_register_lightning_address :: "('w, 'b) breez_sdk_scheme \<Rightarrow> string \<Rightarrow> 'w spark_outside \<Rightarrow>
    (TrustedError, unit) result \<times> 'w spark_outside" where
  "spark_register_lightning_address B name w =
     and_then (spark_get_lightning_address B w) (\<lambda>res w.
       if res \<noteq> None then (Err (Other_TrustedError ''Wallet already has a lightning address''), w)
       else sdk_try B (bz_register_lightning_address B name) w)"

definition spark_stop :: "'w spark_outside \<Rightarrow> 'w spark_outside" where
  "spark_stop w = w\<lparr>spark_shutdown := True\<rparr>"

subsection \<open>The listener\<close>

datatype SdkEvent =
    Sdk_Synced
  | Sdk_UnclaimedDeposits bytes
  | Sdk_ClaimedDeposits bytes
  | Sdk_PaymentSucceeded SparkPayment
  | Sdk_PaymentFailed SparkPayment
  | Sdk_PaymentPending SparkPayment
  | Sdk_AutoOptimization bytes
  | Sdk_LightningAddressChanged bytes
  | Sdk_UnilateralExitStateChanged
  | Sdk_NewDeposits bytes

definition spark_signal_success :: "('s, 'w spark_outside, 'x) wallet_state_scheme \<Rightarrow>
    ('e, unit) result \<times> ('s, 'w spark_outside, 'x) wallet_state_scheme" where
  "spark_signal_success s =
     (if spark_success_receivers (outside s) = 0
      then (Panic ''called `Result::unwrap()` on an `Err` value'', s)
      else (Ok (), s\<lparr>outside := (outside s)\<lparr>spark_success_signals :=
          Suc (spark_success_signals (outside s))\<rparr>\<rparr>))"

text \<open>\<open>FromHex::from_hex\<close> at 32 bytes, with the debug text of its error a parameter.\<close>

definition hex32_or_fail :: "string \<Rightarrow> (string \<Rightarrow> string) \<Rightarrow> string \<Rightarrow> 's \<Rightarrow>
    (TrustedError, bytes32) result \<times> 's" where
  "hex32_or_fail msg hex_error text s = (case from_hex32 text of
     Some b \<Rightarrow> (Ok b, s) | None \<Rightarrow> (Err (Other_TrustedError (msg @ hex_error text)), s))"

definition spark_sent :: "('s, 'e) event_env_scheme \<Rightarrow> (string \<Rightarrow> string) \<Rightarrow> SparkPayment \<Rightarrow> HtlcDetails \<Rightarrow>
    PaymentId \<Rightarrow> ('s, 'w spark_outside, 'x) wallet_state_scheme \<Rightarrow>
    (TrustedError, unit) result \<times> ('s, 'w spark_outside, 'x) wallet_state_scheme" where
  "spark_sent E hex_error payment htlc_details payment_id s =
     (if is_rebalance_payment payment_id s then spark_signal_success s
      else
        and_then (case hd_preimage htlc_details of
            Some h \<Rightarrow> (Ok h, s)
          | None \<Rightarrow> (Err (Other_TrustedError ''Payment succeeded but preimage is missing''), s)) (\<lambda>preimage_hex s.
        and_then (hex32_or_fail ''Invalid preimage hex: '' hex_error preimage_hex s) (\<lambda>pre s.
        and_then (hex32_or_fail ''Invalid payment_hash hex: '' hex_error (hd_payment_hash htlc_details) s) (\<lambda>payment_hash s.
        and_then (case ignore_error (set_preimage E payment_id pre s) of
            (Panic m, s) \<Rightarrow> (Panic m, s) | (_, s) \<Rightarrow> (Ok (), s)) (\<lambda>_ s.
        and_then (map_err TrustedError_from_io (add_event E (PaymentSuccessful payment_id payment_hash pre
            (Some (sats_to_msats (sp_fees payment)))) s)) (\<lambda>_ s.
          spark_signal_success s))))))"

definition spark_received :: "('s, 'e) event_env_scheme \<Rightarrow> (string \<Rightarrow> string) \<Rightarrow> SparkPayment \<Rightarrow> HtlcDetails \<Rightarrow>
    PaymentId \<Rightarrow> ('s, 'x) event_queue_scheme \<Rightarrow> (TrustedError, unit) result \<times> ('s, 'x) event_queue_scheme" where
  "spark_received E hex_error payment htlc_details payment_id s =
     and_then (hex32_or_fail ''Invalid payment_hash hex: '' hex_error (hd_payment_hash htlc_details) s) (\<lambda>payment_hash s.
       let lsp_fee_msats = (if sp_fees payment = 0 then None else Some (sats_to_msats (sp_fees payment)))
       in map_err TrustedError_from_io (add_event E (PaymentReceived payment_id payment_hash
            (sats_to_msats (sp_amount payment)) [] lsp_fee_msats) s))"

definition handle_payment_succeeded :: "('s, 'e) event_env_scheme \<Rightarrow> ('w, 'b) breez_sdk_scheme \<Rightarrow>
    (string \<Rightarrow> string) \<Rightarrow> SparkPayment \<Rightarrow> ('s, 'w spark_outside, 'x) wallet_state_scheme \<Rightarrow>
    (TrustedError, unit) result \<times> ('s, 'w spark_outside, 'x) wallet_state_scheme" where
  "handle_payment_succeeded E B hex_error payment s =
     and_then (parse_payment_id B (sp_id payment), s) (\<lambda>i s.
       case (sp_payment_type payment, sp_details payment) of
         (Sp_Send, Some (Spd_Lightning _ htlc_details _)) \<Rightarrow>
           spark_sent E hex_error payment htlc_details (Trusted i) s
       | (Sp_Receive, Some (Spd_Lightning _ htlc_details _)) \<Rightarrow>
           spark_received E hex_error payment htlc_details (Trusted i) s
       | _ \<Rightarrow> (Ok (), s))"

definition handle_payment_failed :: "('s, 'e) event_env_scheme \<Rightarrow> ('w, 'b) breez_sdk_scheme \<Rightarrow>
    (string \<Rightarrow> string) \<Rightarrow> SparkPayment \<Rightarrow> ('s, 'w spark_outside, 'x) wallet_state_scheme \<Rightarrow>
    (TrustedError, unit) result \<times> ('s, 'w spark_outside, 'x) wallet_state_scheme" where
  "handle_payment_failed E B hex_error payment s =
     and_then (parse_payment_id B (sp_id payment), s) (\<lambda>i s.
       case (sp_payment_type payment, sp_details payment) of
         (Sp_Send, Some (Spd_Lightning _ htlc_details _)) \<Rightarrow>
           if is_rebalance_payment (Trusted i) s then (Ok (), s)
           else and_then (hex32_or_fail ''Invalid payment_hash hex: '' hex_error (hd_payment_hash htlc_details) s)
             (\<lambda>payment_hash s. map_err TrustedError_from_io
                (add_event E (PaymentFailed (Trusted i) (Some payment_hash) None) s))
       | _ \<Rightarrow> (Ok (), s))"

definition on_event :: "('s, 'e) event_env_scheme \<Rightarrow> ('w, 'b) breez_sdk_scheme \<Rightarrow>
    (string \<Rightarrow> string) \<Rightarrow> SdkEvent \<Rightarrow> ('s, 'w spark_outside, 'x) wallet_state_scheme \<Rightarrow>
    (unit, unit) result \<times> ('s, 'w spark_outside, 'x) wallet_state_scheme" where
  "on_event E B hex_error event s = (case event of
     Sdk_PaymentSucceeded payment \<Rightarrow> ignore_error (handle_payment_succeeded E B hex_error payment s)
   | Sdk_PaymentFailed payment \<Rightarrow> ignore_error (handle_payment_failed E B hex_error payment s)
   | _ \<Rightarrow> (Ok (), s))"

end
