(* ===== verification/Cashu_Wallet_Facts.thy ===== *)
theory Cashu_Wallet_Facts
  imports Cashu_Wallet
begin

text \<open>
  Lemmas on the Cashu wallet: the loop that keeps one transaction per outgoing quote, with its
  invariant.
\<close>

text \<open>The quote of an outgoing transaction, under which its attempts are one payment.\<close>

definition outgoing_quote :: "CashuTransaction \<Rightarrow> string option" where
  "outgoing_quote tx = (if ct_direction tx = Outgoing then ct_quote_id tx else None)"

text \<open>What holds after the loop has seen the transactions \<open>seen\<close>.\<close>

definition selection :: "CashuTransaction list \<Rightarrow> (string \<rightharpoonup> nat) \<times> CashuTransaction list \<Rightarrow> bool" where
  "selection seen acc \<longleftrightarrow> (case acc of (quotes, selected) \<Rightarrow>
     (\<forall>q i. quotes q = Some i \<longleftrightarrow> i < length selected \<and> outgoing_quote (selected ! i) = Some q)
     \<and> filter (\<lambda>t. outgoing_quote t = None) selected = filter (\<lambda>t. outgoing_quote t = None) seen
     \<and> set selected \<subseteq> set seen
     \<and> (\<forall>u \<in> set seen. \<forall>q. outgoing_quote u = Some q \<longrightarrow>
          (\<exists>i. quotes q = Some i \<and> priority u \<le> priority (selected ! i))))"

lemma selectionI:
  assumes "\<And>q i. quotes q = Some i \<longleftrightarrow> i < length selected \<and> outgoing_quote (selected ! i) = Some q"
    and "filter (\<lambda>t. outgoing_quote t = None) selected = filter (\<lambda>t. outgoing_quote t = None) seen"
    and "set selected \<subseteq> set seen"
    and "\<And>u q. u \<in> set seen \<Longrightarrow> outgoing_quote u = Some q \<Longrightarrow>
      \<exists>i. quotes q = Some i \<and> priority u \<le> priority (selected ! i)"
  shows "selection seen (quotes, selected)"
  unfolding selection_def prod.case using assms by blast

lemma selection_index:
  "selection seen (quotes, selected) \<Longrightarrow>
   quotes q = Some i \<longleftrightarrow> i < length selected \<and> outgoing_quote (selected ! i) = Some q"
  unfolding selection_def prod.case by (elim conjE) (drule spec, erule spec)

lemma selection_best:
  "selection seen (quotes, selected) \<Longrightarrow> u \<in> set seen \<Longrightarrow> outgoing_quote u = Some q \<Longrightarrow>
   \<exists>i. quotes q = Some i \<and> priority u \<le> priority (selected ! i)"
  unfolding selection_def prod.case by (elim conjE) blast

lemma selection_empty: "selection [] (Map.empty, [])"
  by (simp add: selection_def)

lemma selection_push:
  assumes inv: "selection seen (quotes, selected)" and none: "outgoing_quote t = None"
  shows "selection (seen @ [t]) (quotes, selected @ [t])"
  using assms unfolding selection_def by (fastforce simp: nth_append less_Suc_eq)

lemma selection_first:
  assumes inv: "selection seen (quotes, selected)" and q: "outgoing_quote t = Some q" and new: "quotes q = None"
  shows "selection (seen @ [t]) (quotes(q \<mapsto> length selected), selected @ [t])"
proof -
  have at: "quotes p = Some i \<longleftrightarrow> i < length selected \<and> outgoing_quote (selected ! i) = Some p" for p i
    by (rule selection_index [OF inv])
  have new': "outgoing_quote (selected ! i) \<noteq> Some q" if "i < length selected" for i
    using at [of q i] new that by simp
  have best: "\<exists>i. quotes p = Some i \<and> priority u \<le> priority (selected ! i)"
    if "u \<in> set seen" "outgoing_quote u = Some p" for u p
    by (rule selection_best [OF inv that])
  have best': "\<exists>i. (quotes(q \<mapsto> length selected)) p = Some i \<and> priority u \<le> priority ((selected @ [t]) ! i)"
    if u: "u \<in> set (seen @ [t])" "outgoing_quote u = Some p" for u p
  proof (cases "p = q")
    case True
    then have "u = t" using best [of u q] u new by auto
    then show ?thesis using True by simp
  next
    case False
    then have "u \<in> set seen" using u q by auto
    from best [OF this u(2)] obtain i where "quotes p = Some i" "priority u \<le> priority (selected ! i)" by blast
    then show ?thesis using False at [of p i] by (auto simp: nth_append)
  qed
  have "(quotes(q \<mapsto> length selected)) p = Some i \<longleftrightarrow>
      i < length (selected @ [t]) \<and> outgoing_quote ((selected @ [t]) ! i) = Some p" for p i
    using at [of p i] q new' by (auto simp: nth_append less_Suc_eq)
  then show ?thesis
    using inv q best' by (simp add: selection_def subset_insertI2)
qed

lemma selection_again:
  assumes inv: "selection seen (quotes, selected)" and q: "outgoing_quote t = Some q" and at_q: "quotes q = Some k"
  shows "selection (seen @ [t]) (quotes,
      if priority t > priority (selected ! k) then selected[k := t] else selected)"
proof -
  let ?sel = "if priority t > priority (selected ! k) then selected[k := t] else selected"
  have at: "quotes p = Some i \<longleftrightarrow> i < length selected \<and> outgoing_quote (selected ! i) = Some p" for p i
    by (rule selection_index [OF inv])
  have k: "k < length selected" "outgoing_quote (selected ! k) = Some q"
    using at [of q k] at_q by auto
  have same: "outgoing_quote (?sel ! i) = outgoing_quote (selected ! i)" if "i < length selected" for i
    using that k q by (auto simp: nth_list_update)
  have up: "priority (selected ! i) \<le> priority (?sel ! i)" if "i < length selected" for i
    using that k by (auto simp: nth_list_update less_imp_le)
  have top: "priority t \<le> priority (?sel ! k)"
    using k by auto
  have others: "filter (\<lambda>t. outgoing_quote t = None) ?sel = filter (\<lambda>t. outgoing_quote t = None) selected"
  proof (cases "priority t > priority (selected ! k)")
    case True
    have "selected = take k selected @ selected ! k # drop (Suc k) selected"
      by (rule id_take_nth_drop [OF k(1)])
    then have "filter (\<lambda>t. outgoing_quote t = None) selected
        = filter (\<lambda>t. outgoing_quote t = None) (take k selected @ drop (Suc k) selected)"
      using k(2) by (metis (mono_tags, lifting) filter.simps(2) filter_append option.distinct(1))
    then show ?thesis using True k q by (simp add: upd_conv_take_nth_drop)
  qed simp
  show ?thesis
  proof (rule selectionI)
    show "quotes p = Some i \<longleftrightarrow> i < length ?sel \<and> outgoing_quote (?sel ! i) = Some p" for p i
      using at [of p i] same [of i] by auto
    show "filter (\<lambda>t. outgoing_quote t = None) ?sel = filter (\<lambda>t. outgoing_quote t = None) (seen @ [t])"
      using inv q others by (simp add: selection_def)
    show "set ?sel \<subseteq> set (seen @ [t])"
      using inv set_update_subset_insert [of selected k t] by (auto simp: selection_def)
    show "\<exists>i. quotes p = Some i \<and> priority u \<le> priority (?sel ! i)"
      if u: "u \<in> set (seen @ [t])" "outgoing_quote u = Some p" for u p
    proof (cases "u = t")
      case True
      then have "p = q" using u q by simp
      then show ?thesis using True at_q top by blast
    next
      case False
      with u have "u \<in> set seen" by simp
      from selection_best [OF inv this u(2)] obtain i
        where i: "quotes p = Some i" "priority u \<le> priority (selected ! i)" by blast
      then have "priority u \<le> priority (?sel ! i)"
        using up [of i] at [of p i] by (meson order_trans)
      with i(1) show ?thesis by blast
    qed
  qed
qed

lemma selection_step:
  assumes "selection seen acc"
  shows "selection (seen @ [t]) (select_transaction t acc)"
proof (cases acc)
  case (Pair quotes selected)
  show ?thesis
    using assms selection_push [of seen quotes selected t] selection_first [of seen quotes selected t]
      selection_again [of seen quotes selected t]
    by (auto simp: Pair select_transaction_def split: option.split simp flip: outgoing_quote_def)
qed

lemma selection_fold: "selection seen acc \<Longrightarrow> selection (seen @ ts) (fold select_transaction ts acc)"
proof (induction ts arbitrary: seen acc)
  case (Cons t ts)
  from Cons.IH [OF selection_step [OF Cons.prems, of t]] show ?case by simp
qed simp

lemma selected_transactions: "selection ts (fold select_transaction ts (Map.empty, []))"
  using selection_fold [OF selection_empty, of ts] by simp

text \<open>What the loop's result is, without its index.\<close>

lemma selection_covers:
  assumes "selection ts (quotes, selected)" and "u \<in> set ts" and "outgoing_quote u = Some q"
  shows "\<exists>t \<in> set selected. outgoing_quote t = Some q \<and> priority u \<le> priority t"
proof -
  from selection_best [OF assms] obtain i where i: "quotes q = Some i" "priority u \<le> priority (selected ! i)"
    by blast
  then have "i < length selected" "outgoing_quote (selected ! i) = Some q"
    using selection_index [OF assms(1), of q i] by auto
  with i(2) show ?thesis using nth_mem [of i selected] by blast
qed

lemma distinct_quotes:
  assumes "\<And>i j q. i < length xs \<Longrightarrow> j < length xs \<Longrightarrow> f (xs ! i) = Some q \<Longrightarrow> f (xs ! j) = Some q \<Longrightarrow> i = j"
  shows "distinct (map f (filter (\<lambda>t. f t \<noteq> None) xs))"
  using assms
proof (induction xs rule: rev_induct)
  case (snoc t xs)
  have "f u \<noteq> f t" if u: "u \<in> set xs" "f t \<noteq> None" for u
  proof
    assume eq: "f u = f t"
    obtain i where i: "i < length xs" "xs ! i = u" using u(1) unfolding in_set_conv_nth by blast
    from snoc.prems [of i "length xs"] i eq u show False by (auto simp: nth_append)
  qed
  moreover have "distinct (map f (filter (\<lambda>t. f t \<noteq> None) xs))"
    by (rule snoc.IH) (metis snoc.prems length_append_singleton less_SucI nth_append)
  ultimately show ?case by auto
qed simp

lemma selection_distinct:
  assumes "selection ts (quotes, selected)"
  shows "distinct (map outgoing_quote (filter (\<lambda>t. outgoing_quote t \<noteq> None) selected))"
  by (rule distinct_quotes) (metis selection_index [OF assms] option.inject)

lemma selection_others:
  "selection ts (quotes, selected) \<Longrightarrow>
   filter (\<lambda>t. outgoing_quote t = None) selected = filter (\<lambda>t. outgoing_quote t = None) ts
   \<and> set selected \<subseteq> set ts"
  by (simp add: selection_def)

lemma collect_ok_all2: "collect_ok f xs = Ok ys \<Longrightarrow> list_all2 (\<lambda>x y. f x = Ok y) xs ys"
proof (induction xs arbitrary: ys)
  case (Cons x xs)
  then show ?case by (cases "f x"; cases "collect_ok f xs") auto
qed simp

end
