(* ===== verification/Trusted_Props.thy ===== *)
theory Trusted_Props
  imports Spark_Wallet Cashu_Wallet_Facts Event_Reports Sample_Wallet
begin

text \<open>The properties of the two trusted wallets.\<close>

subsection \<open>Payments of the Cashu wallet\<close>

text \<open>
  C27. The Cashu wallet lists one payment per outgoing quote: of the attempts the mint wallet
  recorded under a quote exactly one is listed, an attempt of the highest priority (a completed
  one before any other, then the newest), while every other transaction, such as the receipts of
  a reusable quote, is listed, in order.
\<close>

theorem cashu_one_payment_per_quote:
  assumes "convert_transactions_to_payments C txs = Ok payments"
  shows "\<exists>selected. list_all2 (\<lambda>t p. convert_transaction_to_payment C t = Ok p) selected payments
    \<and> set selected \<subseteq> set txs
    \<and> distinct (map outgoing_quote (filter (\<lambda>t. outgoing_quote t \<noteq> None) selected))
    \<and> (\<forall>u \<in> set txs. outgoing_quote u \<noteq> None \<longrightarrow>
        (\<exists>t \<in> set selected. outgoing_quote t = outgoing_quote u \<and> priority u \<le> priority t))
    \<and> filter (\<lambda>t. outgoing_quote t = None) selected = filter (\<lambda>t. outgoing_quote t = None) txs"
proof -
  obtain quotes selected where sel: "fold select_transaction txs (Map.empty, []) = (quotes, selected)"
    by fastforce
  then have inv: "selection txs (quotes, selected)" using selected_transactions [of txs] by simp
  have "list_all2 (\<lambda>t p. convert_transaction_to_payment C t = Ok p) selected payments"
    using assms sel by (intro collect_ok_all2) (simp add: convert_transactions_to_payments_def)
  moreover have "\<forall>u \<in> set txs. outgoing_quote u \<noteq> None \<longrightarrow>
        (\<exists>t \<in> set selected. outgoing_quote t = outgoing_quote u \<and> priority u \<le> priority t)"
    using selection_covers [OF inv] by fastforce
  ultimately show ?thesis
    using selection_distinct [OF inv] selection_others [OF inv] by (intro exI [of _ selected] conjI) simp_all
qed

definition sample_attempt :: "TransactionStatus \<Rightarrow> u64 \<Rightarrow> CashuTransaction" where
  "sample_attempt status time = \<lparr>ct_mint_url = ''m'', ct_direction = Outgoing, ct_unit = Cu_Msat, ct_ys = [],
     ct_amount = 5, ct_fee = 1, ct_timestamp = time, ct_quote_id = Some ''q'', ct_saga_id = None,
     ct_status = status, ct_metadata = [], ct_rest = []\<rparr>"

definition sample_cashu_wallet :: "unit cashu_wallet" where
  "sample_cashu_wallet = \<lparr>ck_total_balance = (\<lambda>w. (Ok 9, w)), ck_mint_quote = (\<lambda>_ _ w. (Err ''mint'', w)),
     ck_list_transactions = (\<lambda>_ w. (Ok [], w)), ck_melt_quote = (\<lambda>_ _ _ w. (Err ''melt'', w)),
     ck_get_active_melt_quotes = (\<lambda>w. (Ok [], w)), ck_prepare_melt = (\<lambda>_ _ w. (Ok [1], w)),
     ck_confirm = (\<lambda>_ w. (Ok \<lparr>fm_state = Mq_Paid, fm_payment_proof = None, fm_fee_paid = 1\<rparr>, w)),
     ck_proof_stream_next = (\<lambda>_ w. (None, w)), ck_get_unspent_proofs = (\<lambda>w. (Ok [], w)),
     ck_calculate_fee = (\<lambda>n _ w. (Ok n, w)), ck_active_keyset = (\<lambda>w. (Ok [1], w)),
     ck_get_keyset_fees_and_amounts_by_id = (\<lambda>_ w. (Ok [], w)), ck_amount_add = (\<lambda>a b. Ok (a + b)),
     ck_amount_split = (\<lambda>n _. Inr [n]), ck_await_success_flag = (\<lambda>w. w),
     ck_bolt11_from_str = (\<lambda>_. Inl ''invoice''), ck_bolt11_to_string = (\<lambda>_. ''lnbc''),
     ck_offer_to_string = (\<lambda>_. ''lno''), ck_payment_hash_to_string = to_lower_hex_string,
     ck_unit_to_string = (\<lambda>_. ''unit''), ck_unit_debug = (\<lambda>_. ''Unit''), ck_sha256 = (\<lambda>d. d),
     cw_amounts = msat_ops, cw_unit = Cu_Msat, cw_npubcash_url = None, cw_npub = None\<rparr>"

lemma sample_payments:
  "convert_transactions_to_payments sample_cashu_wallet
     [sample_attempt Ts_Failed 7, sample_attempt Ts_Completed 3, sample_attempt Ts_Pending 9]
   = Ok [\<lparr>p_id = id_to_32_byte_array ''q'', p_amount = 5, p_fee = 1, p_status = Completed,
       p_outbound = True, p_time_since_epoch = from_secs 3\<rparr>]"
  by code_simp

theorem cashu_one_payment_per_quote_witness:
  "\<exists>selected. length selected = 1
     \<and> set selected \<subseteq> {sample_attempt Ts_Failed 7, sample_attempt Ts_Completed 3, sample_attempt Ts_Pending 9}"
proof -
  from cashu_one_payment_per_quote [OF sample_payments] obtain selected where
    all: "list_all2 (\<lambda>t p. convert_transaction_to_payment sample_cashu_wallet t = Ok p) selected
      [\<lparr>p_id = id_to_32_byte_array ''q'', p_amount = 5, p_fee = 1, p_status = Completed,
        p_outbound = True, p_time_since_epoch = from_secs 3\<rparr>]"
    and "set selected \<subseteq> set [sample_attempt Ts_Failed 7, sample_attempt Ts_Completed 3, sample_attempt Ts_Pending 9]"
    by (elim exE conjE)
  moreover from all have "length selected = 1" by (simp add: list_all2_lengthD)
  ultimately show ?thesis by (intro exI [of _ selected]) simp
qed

subsection \<open>Melts of the Cashu wallet\<close>

definition melt_paid :: "(CdkError, FinalizedMelt) result \<Rightarrow> bool" where
  "melt_paid outcome = (case outcome of Ok res \<Rightarrow> fm_state res = Mq_Paid | _ \<Rightarrow> False)"

definition melt_failed :: "(CdkError, FinalizedMelt) result \<Rightarrow> bool" where
  "melt_failed outcome = (case outcome of Ok res \<Rightarrow> fm_state res = Mq_Failed | Err _ \<Rightarrow> True | Panic _ \<Rightarrow> False)"

text \<open>
  What an event of a paid melt has to carry: the hash that was to be paid, or else that of the
  preimage; the preimage the mint gave, if it can be read; and the fee times 1000.
\<close>

definition melt_receipt :: "('w, 'c) cashu_wallet_scheme \<Rightarrow> PaymentHash option \<Rightarrow>
    (CdkError, FinalizedMelt) result \<Rightarrow> PaymentHash \<Rightarrow> PaymentPreimage \<Rightarrow> u64 \<Rightarrow> bool" where
  "melt_receipt C h outcome hash pre fee \<longleftrightarrow> (\<exists>res. outcome = Ok res
     \<and> fee = u64_wrapping_mul (fm_fee_paid res) 1000
     \<and> (\<forall>h'. h = Some h' \<longrightarrow> hash = h')
     \<and> (\<forall>p. melt_preimage res = Some p \<longrightarrow> pre = p \<and> (h = None \<longrightarrow> hash = ck_sha256 C p))
     \<and> (melt_preimage res = None \<longrightarrow> pre = replicate 32 0 \<and> (h = None \<longrightarrow> hash = replicate 32 0)))"

lemma snd_ignore_error [simp]: "snd (ignore_error r) = snd r"
  by (cases r; cases "fst r") (simp_all add: ignore_error_def)

lemma ignore_error_Ok: "ignore_error r = (Ok u, t) \<Longrightarrow> t = snd r"
  by (cases r; cases "fst r") (simp_all add: ignore_error_def)

lemma mint_call_frame:
  "cashu_success_signals (snd (mint_call f w)) = cashu_success_signals w"
  by (simp add: mint_call_def split: prod.split)

lemma execute_melt_signals:
  "cashu_success_signals (snd (execute_melt C q h w)) = cashu_success_signals w"
  unfolding execute_melt_def Let_def
  by (rule and_then_state [where P = "\<lambda>v. cashu_success_signals v = cashu_success_signals w"])
    (simp_all add: mint_call_frame)

lemma signal_success_Ok:
  "signal_success s = (Ok u, t) \<Longrightarrow> silent s t
    \<and> cashu_success_signals (outside t) = Suc (cashu_success_signals (outside s))"
  by (auto simp: signal_success_def silent_def split: if_splits)

lemma absorbed_outside: "absorbed e (s\<lparr>outside := w\<rparr>) = absorbed e s"
  by (cases e) (simp_all add: is_mpp_leg_def)

lemma of_leg_outside: "of_leg e (s\<lparr>outside := w\<rparr>) = of_leg e s"
  by (cases e) (simp_all add: is_mpp_leg_def)

lemma held_outside: "held e (s\<lparr>outside := w\<rparr>) = held e s"
  by (intro ext) (simp add: held_def of_leg_outside)

lemma prepared_silent: "reported e s t \<Longrightarrow> silent t u \<Longrightarrow> reported e s u"
  by (auto simp: silent_def intro: reported_after)

lemma report_failed_melt_reports:
  assumes "report_failed_melt E i h s = (Ok u, t)"
  shows "outside t = outside s
    \<and> (if is_rebalance_payment i s then silent s t else reported (PaymentFailed i h None) s t)"
  using assms add_event_reports [OF prepared_refl, of "PaymentFailed i h None" s E]
    local_add_event [OF local_step_refl, of s E "PaymentFailed i h None"]
  by (auto simp: report_failed_melt_def silent_def local_step_def split: if_splits dest!: ignore_error_Ok)

lemma paid_melt_reports:
  assumes run: "finish_melt E C res i h s = (Ok u, t)" and paid: "fm_state res = Mq_Paid"
    and "\<not> is_rebalance_payment i s"
  shows "cashu_success_signals (outside t) = Suc (cashu_success_signals (outside s))
    \<and> (\<exists>hash pre fee. reported (PaymentSuccessful i hash pre (Some fee)) s t \<and> melt_receipt C h (Ok res) hash pre fee)"
proof -
  let ?pre = "case melt_preimage res of Some p \<Rightarrow> p | None \<Rightarrow> replicate 32 0"
  let ?hash = "melt_hash C h (melt_preimage res)" and ?fee = "u64_wrapping_mul (fm_fee_paid res) 1000"
  let ?e = "PaymentSuccessful i ?hash ?pre (Some ?fee)"
  obtain s1 s2 where 1: "ignore_error (set_preimage E i ?pre s) = (Ok (), s1)"
    and 2: "ignore_error (add_event E ?e s1) = (Ok (), s2)" and 3: "signal_success s2 = (Ok u, t)"
    using run paid assms(3) by (auto simp: finish_melt_def Let_def)
  have prep: "prepared s s1" using ignore_error_Ok [OF 1] prepared_set_preimage by metis
  have "reported ?e s s2" using ignore_error_Ok [OF 2] add_event_reports [OF prep, of ?e E] by simp
  with signal_success_Ok [OF 3] have "reported ?e s t" by (blast intro: prepared_silent)
  moreover have "outside s2 = outside s"
    using ignore_error_Ok [OF 2] local_add_event [OF local_step_refl, of s1 E ?e] prep
    by (simp add: local_step_def prepared_def)
  moreover have "melt_receipt C h (Ok res) ?hash ?pre ?fee"
    by (simp add: melt_receipt_def melt_hash_def split: option.split)
  ultimately show ?thesis using signal_success_Ok [OF 3] by auto
qed


definition sample_cashu_outside :: "unit cashu_outside" where
  "sample_cashu_outside = \<lparr>mint_world = (), supports_bolt12 = False, supports_mpp = True, monitor_alive = True,
     quotes_to_monitor = [], melt_tasks = [], cashu_success_signals = 0, cashu_success_receivers = 1,
     cashu_shutdown = False\<rparr>"

definition sample_sat_wallet :: "unit cashu_wallet" where
  "sample_sat_wallet = sample_cashu_wallet\<lparr>cw_unit := Cu_Sat\<rparr>"

lemma sample_melt:
  "fst (melt_task sample_wallet_env sample_sat_wallet (''q'', [7], Some [3]) (sample_state sample_cashu_outside)) = Ok ()"
  "is_rebalance_payment (Trusted [7]) (sample_state sample_cashu_outside) = False"
  "fst (execute_melt sample_sat_wallet ''q'' (Some [3]) (outside (sample_state sample_cashu_outside)))
     = Ok \<lparr>fm_state = Mq_Paid, fm_payment_proof = None, fm_fee_paid = 1\<rparr>"
  "absorbed (PaymentSuccessful (Trusted [7]) hash pre fee) (sample_state sample_cashu_outside) = False"
  "queue (sample_state sample_cashu_outside) = []"
  by code_simp+


subsection \<open>Events of the Spark wallet\<close>

text \<open>
  The events of the Spark SDK that concern the user: the outcome of a lightning payment whose
  identifier and hash can be read; a sent one that is not part of a rebalance, with a preimage that
  can be read if it succeeded; a received one that succeeded.
\<close>

definition readable_payment :: "('w, 'b) breez_sdk_scheme \<Rightarrow> SparkPayment \<Rightarrow> bytes32 \<Rightarrow> HtlcDetails \<Rightarrow>
    PaymentHash \<Rightarrow> bool" where
  "readable_payment B p i htlc h \<longleftrightarrow> parse_payment_id B (sp_id p) = Ok i
     \<and> (\<exists>x y. sp_details p = Some (Spd_Lightning x htlc y)) \<and> from_hex32 (hd_payment_hash htlc) = Some h"

inductive spark_reports :: "('w, 'b) breez_sdk_scheme \<Rightarrow> ('s, 'x) tx_store_scheme \<Rightarrow> SdkEvent \<Rightarrow>
    Event \<Rightarrow> bool" for B s where
  reports_sent: "readable_payment B p i htlc h \<Longrightarrow> sp_payment_type p = Sp_Send \<Longrightarrow>
    \<not> is_rebalance_payment (Trusted i) s \<Longrightarrow> Option.bind (hd_preimage htlc) from_hex32 = Some pre \<Longrightarrow>
    spark_reports B s (Sdk_PaymentSucceeded p)
      (PaymentSuccessful (Trusted i) h pre (Some (sats_to_msats (sp_fees p))))"
| reports_received: "readable_payment B p i htlc h \<Longrightarrow> sp_payment_type p = Sp_Receive \<Longrightarrow>
    spark_reports B s (Sdk_PaymentSucceeded p)
      (PaymentReceived (Trusted i) h (sats_to_msats (sp_amount p)) []
         (if sp_fees p = 0 then None else Some (sats_to_msats (sp_fees p))))"
| reports_failed: "readable_payment B p i htlc h \<Longrightarrow> sp_payment_type p = Sp_Send \<Longrightarrow>
    \<not> is_rebalance_payment (Trusted i) s \<Longrightarrow>
    spark_reports B s (Sdk_PaymentFailed p) (PaymentFailed (Trusted i) (Some h) None)"

inductive_cases spark_reports_succeeded: "spark_reports B s (Sdk_PaymentSucceeded p) e"
inductive_cases spark_reports_failed: "spark_reports B s (Sdk_PaymentFailed p) e"

lemma spark_signal_silent [simp]: "silent s (snd (spark_signal_success t)) = silent s t"
  "reported e s (snd (spark_signal_success t)) = reported e s t"
  by (simp_all add: spark_signal_success_def silent_def reported_def)

lemma silent_refl [simp]: "silent s s"
  by (simp add: silent_def)

lemma hex32_cases:
  "hex32_or_fail msg f x s = (case from_hex32 x of Some b \<Rightarrow> (Ok b, s) | None \<Rightarrow> (Err (Other_TrustedError (msg @ f x)), s))"
  by (simp add: hex32_or_fail_def)

lemma spark_sent_reports:
  assumes h: "from_hex32 (hd_payment_hash htlc) = Some h" and pre: "Option.bind (hd_preimage htlc) from_hex32 = Some pre"
    and reb: "\<not> is_rebalance_payment i s" and "\<not> is_panic (fst (spark_sent E f p htlc i s))"
  shows "reported (PaymentSuccessful i h pre (Some (sats_to_msats (sp_fees p)))) s (snd (spark_sent E f p htlc i s))"
proof -
  let ?e = "PaymentSuccessful i h pre (Some (sats_to_msats (sp_fees p)))"
  obtain r s1 where 1: "set_preimage E i pre s = (r, s1)" by fastforce
  have prep: "prepared s s1" using prepared_set_preimage [of s E i pre] 1 by simp
  have "\<not> is_panic r"
    using assms 1
    by (cases r) (auto simp: spark_sent_def hex32_cases ignore_error_def split: option.splits)
  then have "snd (spark_sent E f p htlc i s) = snd (and_then (map_err TrustedError_from_io (add_event E ?e s1))
      (\<lambda>_ s. spark_signal_success s))"
    using reb h pre 1
    by (cases r) (auto simp: spark_sent_def hex32_cases ignore_error_def split: option.splits)
  moreover have "reported ?e s (snd (and_then (map_err TrustedError_from_io (add_event E ?e s1))
      (\<lambda>_ s. spark_signal_success s)))"
    by (rule and_then_state [where P = "reported ?e s"]) (simp_all add: add_event_reports [OF prep])
  ultimately show ?thesis by simp
qed

lemma spark_sent_silent:
  assumes "is_rebalance_payment i s \<or> from_hex32 (hd_payment_hash htlc) = None
    \<or> Option.bind (hd_preimage htlc) from_hex32 = None"
  shows "silent s (snd (spark_sent E f p htlc i s))"
  using assms by (auto simp: spark_sent_def hex32_cases split: option.split)

lemma handle_succeeded_reports:
  assumes "\<not> is_panic (fst (handle_payment_succeeded E B f p s))"
  shows "(\<forall>e. spark_reports B s (Sdk_PaymentSucceeded p) e \<longrightarrow> reported e s (snd (handle_payment_succeeded E B f p s)))
    \<and> ((\<nexists>e. spark_reports B s (Sdk_PaymentSucceeded p) e) \<longrightarrow> silent s (snd (handle_payment_succeeded E B f p s)))"
proof (intro conjI allI impI)
  fix e assume "spark_reports B s (Sdk_PaymentSucceeded p) e"
  then show "reported e s (snd (handle_payment_succeeded E B f p s))"
  proof (rule spark_reports_succeeded)
    fix i htlc h pre
    assume e: "e = PaymentSuccessful (Trusted i) h pre (Some (sats_to_msats (sp_fees p)))"
      and p: "readable_payment B p i htlc h" "sp_payment_type p = Sp_Send" "\<not> is_rebalance_payment (Trusted i) s"
        "Option.bind (hd_preimage htlc) from_hex32 = Some pre"
    from p(1,2) have run: "handle_payment_succeeded E B f p s = spark_sent E f p htlc (Trusted i) s"
      by (auto simp: readable_payment_def handle_payment_succeeded_def)
    show ?thesis
      using spark_sent_reports [OF _ p(4,3), of h E f p] assms p(1) unfolding run e
      by (simp add: readable_payment_def)
  next
    fix i htlc h
    assume e: "e = PaymentReceived (Trusted i) h (sats_to_msats (sp_amount p)) []
         (if sp_fees p = 0 then None else Some (sats_to_msats (sp_fees p)))"
      and p: "readable_payment B p i htlc h" "sp_payment_type p = Sp_Receive"
    from p have run: "handle_payment_succeeded E B f p s = map_err TrustedError_from_io (add_event E e s)"
      by (auto simp: readable_payment_def handle_payment_succeeded_def spark_received_def hex32_cases e Let_def)
    show ?thesis unfolding run by (simp add: add_event_reports)
  qed
next
  assume none: "\<nexists>e. spark_reports B s (Sdk_PaymentSucceeded p) e"
  show "silent s (snd (handle_payment_succeeded E B f p s))"
  proof (cases "\<exists>i x htlc y. parse_payment_id B (sp_id p) = Ok i \<and> sp_details p = Some (Spd_Lightning x htlc y)")
    case True
    then obtain i x htlc y where p: "parse_payment_id B (sp_id p) = Ok i" "sp_details p = Some (Spd_Lightning x htlc y)"
      by blast
    have read: "readable_payment B p i htlc h \<longleftrightarrow> from_hex32 (hd_payment_hash htlc) = Some h" for h
      using p by (simp add: readable_payment_def)
    show ?thesis
    proof (cases "sp_payment_type p")
      case Sp_Send
      have "is_rebalance_payment (Trusted i) s \<or> from_hex32 (hd_payment_hash htlc) = None
          \<or> Option.bind (hd_preimage htlc) from_hex32 = None"
      proof (rule ccontr)
        assume "\<not> ?thesis"
        then obtain h pre where "readable_payment B p i htlc h" "\<not> is_rebalance_payment (Trusted i) s"
          "Option.bind (hd_preimage htlc) from_hex32 = Some pre" using read by auto
        from reports_sent [OF this(1) Sp_Send this(2,3)] none show False by blast
      qed
      from spark_sent_silent [OF this] show ?thesis by (simp add: handle_payment_succeeded_def p Sp_Send)
    next
      case Sp_Receive
      have "from_hex32 (hd_payment_hash htlc) = None"
        using none reports_received [OF _ Sp_Receive, of B i htlc _ s] read
        by (cases "from_hex32 (hd_payment_hash htlc)") auto
      then show ?thesis by (simp add: handle_payment_succeeded_def p Sp_Receive spark_received_def hex32_cases)
    qed
  next
    case False
    then show ?thesis
      by (cases "parse_payment_id B (sp_id p)"; cases "sp_details p"; cases "sp_payment_type p")
        (auto simp: handle_payment_succeeded_def split: SparkPaymentDetails.splits)
  qed
qed

lemma handle_failed_reports:
  "(\<forall>e. spark_reports B s (Sdk_PaymentFailed p) e \<longrightarrow> reported e s (snd (handle_payment_failed E B f p s)))
    \<and> ((\<nexists>e. spark_reports B s (Sdk_PaymentFailed p) e) \<longrightarrow> silent s (snd (handle_payment_failed E B f p s)))"
proof (intro conjI allI impI)
  fix e assume "spark_reports B s (Sdk_PaymentFailed p) e"
  then show "reported e s (snd (handle_payment_failed E B f p s))"
  proof (rule spark_reports_failed)
    fix i htlc h
    assume e: "e = PaymentFailed (Trusted i) (Some h) None"
      and p: "readable_payment B p i htlc h" "sp_payment_type p = Sp_Send" "\<not> is_rebalance_payment (Trusted i) s"
    from p have run: "handle_payment_failed E B f p s = map_err TrustedError_from_io (add_event E e s)"
      by (auto simp: readable_payment_def handle_payment_failed_def hex32_cases e)
    show ?thesis unfolding run by (simp add: add_event_reports)
  qed
next
  assume none: "\<nexists>e. spark_reports B s (Sdk_PaymentFailed p) e"
  show "silent s (snd (handle_payment_failed E B f p s))"
  proof (cases "\<exists>i x htlc y. parse_payment_id B (sp_id p) = Ok i \<and> sp_payment_type p = Sp_Send
      \<and> sp_details p = Some (Spd_Lightning x htlc y)")
    case True
    then obtain i x htlc y where p: "parse_payment_id B (sp_id p) = Ok i" "sp_payment_type p = Sp_Send"
      "sp_details p = Some (Spd_Lightning x htlc y)" by blast
    have "is_rebalance_payment (Trusted i) s \<or> from_hex32 (hd_payment_hash htlc) = None"
      using none reports_failed [of B p i htlc _ s] p by (auto simp: readable_payment_def)
    then show ?thesis by (auto simp: handle_payment_failed_def p hex32_cases)
  next
    case False
    then show ?thesis
      by (cases "parse_payment_id B (sp_id p)"; cases "sp_details p"; cases "sp_payment_type p")
        (auto simp: handle_payment_failed_def split: SparkPaymentDetails.splits)
  qed
qed


definition sample_breez :: "unit breez_sdk" where
  "sample_breez = \<lparr>bz_get_info = (\<lambda>w. (Ok 9, w)), bz_receive_payment = (\<lambda>_ w. (Err ''sdk'', w)),
     bz_list_payments = (\<lambda>w. (Ok [], w)), bz_prepare_send_payment = (\<lambda>_ _ w. (Err ''sdk'', w)),
     bz_send_payment = (\<lambda>_ _ w. (Err ''sdk'', w)), bz_get_lightning_address = (\<lambda>w. (Ok None, w)),
     bz_register_lightning_address = (\<lambda>_ w. (Ok (), w)), bz_uuid_now_v7 = (\<lambda>w. (replicate 16 1, w)),
     bz_await_success_flag = (\<lambda>w. w),
     bz_uuid_from_str = (\<lambda>i. if length i = 16 then Some (as_bytes i) else None),
     bz_uuid_to_string = bytes_to_text, bz_sdk_error_debug = (\<lambda>e. e),
     bz_bolt11_from_str = (\<lambda>_. Inl ''invoice''), bz_bolt11_to_string = (\<lambda>_. ''lnbc''), bz_amounts = msat_ops\<rparr>"

definition sample_receipt :: SdkEvent where
  "sample_receipt = Sdk_PaymentSucceeded \<lparr>sp_id = ''Spark:0123456789abcdef'', sp_payment_type = Sp_Receive,
     sp_status = Sp_Completed, sp_amount = 2, sp_fees = 0, sp_timestamp = 5,
     sp_details = Some (Spd_Lightning ''lnbc''
       \<lparr>hd_payment_hash = to_lower_hex_string (replicate 32 4), hd_preimage = None\<rparr> []), sp_rest = []\<rparr>"

definition sample_spark_outside :: "unit spark_outside" where
  "sample_spark_outside = \<lparr>sdk_world = (), send_tasks = [], spark_success_signals = 0,
     spark_success_receivers = 1, spark_shutdown = False\<rparr>"

definition sample_receipt_id :: bytes32 where
  "sample_receipt_id = convert_from_uuid_id (as_bytes ''0123456789abcdef'')"

lemma sample_receipt_run:
  "fst (on_event sample_wallet_env sample_breez (\<lambda>e. e) sample_receipt (sample_state sample_spark_outside)) = Ok ()"
  "parse_payment_id sample_breez ''Spark:0123456789abcdef'' = Ok sample_receipt_id"
  "from_hex32 (to_lower_hex_string (replicate 32 4)) = Some (replicate 32 4)"
  "queue (sample_state sample_spark_outside) = []"
  by code_simp+

lemma sample_receipt_reports:
  "spark_reports sample_breez s sample_receipt
     (PaymentReceived (Trusted sample_receipt_id) (replicate 32 4) (sats_to_msats 2) [] None)"
proof -
  let ?p = "\<lparr>sp_id = ''Spark:0123456789abcdef'', sp_payment_type = Sp_Receive,
     sp_status = Sp_Completed, sp_amount = 2, sp_fees = 0, sp_timestamp = 5,
     sp_details = Some (Spd_Lightning ''lnbc''
       \<lparr>hd_payment_hash = to_lower_hex_string (replicate 32 4), hd_preimage = None\<rparr> []), sp_rest = []\<rparr>"
  have "readable_payment sample_breez ?p sample_receipt_id
      \<lparr>hd_payment_hash = to_lower_hex_string (replicate 32 4), hd_preimage = None\<rparr> (replicate 32 4)"
    using sample_receipt_run(2,3) by (simp add: readable_payment_def)
  from reports_received [OF this, of s] show ?thesis by (simp add: sample_receipt_def)
qed


end
