(* ===== verification/Background_Tasks.thy ===== *)
theory Background_Tasks
  imports Main
begin

text \<open>
  The runtime of the wallet (\<open>runtime.rs\<close>) with the tasks spawned on it, the balance mutex of
  the rebalancer they contend for (\<open>graduated-rebalancer/src/lib.rs\<close>), and \<open>Wallet::stop\<close>
  (\<open>lib.rs\<close>) running beside them. A task is seen at its points of suspension. The mutex is
  tokio's: it is handed to the tasks in the order of their requests, and dropping a future or a
  guard gives up its place. An aborted task is dropped at its next point of suspension, and
  until then may still take steps.
\<close>

subsection \<open>The balance mutex\<close>

datatype owner = Task nat | Stopper

record mutex =
  mx_holder :: "owner option"
  mx_queue :: "owner list"

definition mx_free :: mutex where
  "mx_free = \<lparr>mx_holder = None, mx_queue = []\<rparr>"

definition mx_lock :: "owner \<Rightarrow> mutex \<Rightarrow> mutex" where
  "mx_lock i m = (if mx_holder m = None then m\<lparr>mx_holder := Some i\<rparr>
     else m\<lparr>mx_queue := mx_queue m @ [i]\<rparr>)"

definition mx_unlock :: "mutex \<Rightarrow> mutex" where
  "mx_unlock m = (case mx_queue m of
     [] \<Rightarrow> m\<lparr>mx_holder := None\<rparr>
   | i # q \<Rightarrow> m\<lparr>mx_holder := Some i, mx_queue := q\<rparr>)"

definition mx_forget :: "owner \<Rightarrow> mutex \<Rightarrow> mutex" where
  "mx_forget i m = (if mx_holder m = Some i then mx_unlock m
     else m\<lparr>mx_queue := remove1 i (mx_queue m)\<rparr>)"

text \<open>The holder and those behind it, first come first served.\<close>

definition claims :: "mutex \<Rightarrow> owner list" where
  "claims m = (case mx_holder m of None \<Rightarrow> [] | Some i \<Rightarrow> [i]) @ mx_queue m"

definition mx_wf :: "mutex \<Rightarrow> bool" where
  "mx_wf m \<longleftrightarrow> distinct (claims m) \<and> (mx_holder m = None \<longrightarrow> mx_queue m = [])"

lemma claims_lock: "mx_wf m \<Longrightarrow> claims (mx_lock i m) = claims m @ [i]"
  by (auto simp: claims_def mx_lock_def mx_wf_def split: option.split)

lemma claims_unlock: "mx_wf m \<Longrightarrow> claims (mx_unlock m) = tl (claims m)"
  by (auto simp: claims_def mx_unlock_def mx_wf_def split: option.split list.split)

lemma claims_forget: "mx_wf m \<Longrightarrow> claims (mx_forget i m) = remove1 i (claims m)"
  by (auto simp: claims_def mx_forget_def mx_unlock_def mx_wf_def split: option.splits list.split)

lemma mx_wf_lock: "mx_wf m \<Longrightarrow> i \<notin> set (claims m) \<Longrightarrow> mx_wf (mx_lock i m)"
  using claims_lock [of m i] by (auto simp: mx_wf_def) (auto simp: mx_lock_def split: if_splits)

lemma mx_wf_unlock: "mx_wf m \<Longrightarrow> mx_wf (mx_unlock m)"
  using claims_unlock [of m] distinct_tl [of "claims m"]
  by (auto simp: mx_wf_def) (auto simp: mx_unlock_def split: list.splits)

lemma mx_wf_forget: "mx_wf m \<Longrightarrow> mx_wf (mx_forget i m)"
  using claims_forget [of m i] distinct_remove1 [of "claims m" i]
  by (auto simp: mx_wf_def) (auto simp: mx_forget_def mx_unlock_def split: list.splits if_splits)

lemma holder_claims: "mx_wf m \<Longrightarrow> mx_holder m = (case claims m of [] \<Rightarrow> None | i # _ \<Rightarrow> Some i)"
  by (auto simp: claims_def mx_wf_def split: option.split list.split)

lemmas mx_facts = claims_lock claims_unlock claims_forget mx_wf_lock mx_wf_unlock mx_wf_forget

subsection \<open>Tasks and the runtime\<close>

text \<open>
  \<open>Startup_Job\<close> is the task \<open>Wallet::new\<close> spawns: one rebalance of each kind, then on-chain
  rebalances for ever. \<open>Rebalance_Job\<close> is \<open>do_rebalance_if_needed\<close> once. \<open>Other_Job\<close> is any
  task that does not touch the balance mutex.
\<close>

datatype job = Startup_Job | Rebalance_Job | Other_Job

datatype part = Trusted_Part | Onchain_Part

datatype task_pc = Busy | At part | Acquiring part | Holding part | Ended

fun first_pc :: "job \<Rightarrow> task_pc" where
  "first_pc Other_Job = Busy"
| "first_pc _ = At Trusted_Part"

fun next_pc :: "job \<Rightarrow> part \<Rightarrow> task_pc" where
  "next_pc j Trusted_Part = At Onchain_Part"
| "next_pc Startup_Job Onchain_Part = At Onchain_Part"
| "next_pc _ Onchain_Part = Ended"

datatype stop_pc = Not_Stopping | Joining "nat set" | At_Rebalancer | Locking | At_Trusted | At_Node
  | At_Background | Waiting_On "nat set" | Stopped

record runtime =
  jobs :: "nat \<Rightarrow> job"
  pcs :: "nat \<Rightarrow> task_pc"
  spawned :: nat
  background_tasks :: "nat set"
  cancellable_background_tasks :: "nat set"
  aborted :: "nat set"
  balance_mutex :: mutex
  stopping :: stop_pc

definition Runtime_new :: runtime where
  "Runtime_new = \<lparr>jobs = (\<lambda>_. Other_Job), pcs = (\<lambda>_. Ended), spawned = 0, background_tasks = {},
     cancellable_background_tasks = {}, aborted = {}, balance_mutex = mx_free, stopping = Not_Stopping\<rparr>"

definition spawn_task :: "job \<Rightarrow> runtime \<Rightarrow> runtime" where
  "spawn_task j s = s\<lparr>jobs := (jobs s)(spawned s := j), pcs := (pcs s)(spawned s := first_pc j),
     spawned := Suc (spawned s)\<rparr>"

definition spawn_background_task :: "job \<Rightarrow> runtime \<Rightarrow> runtime" where
  "spawn_background_task j s =
     (spawn_task j s)\<lparr>background_tasks := insert (spawned s) (background_tasks s)\<rparr>"

definition spawn_cancellable_background_task :: "job \<Rightarrow> runtime \<Rightarrow> runtime" where
  "spawn_cancellable_background_task j s = (spawn_task j s)
     \<lparr>cancellable_background_tasks := insert (spawned s) (cancellable_background_tasks s)\<rparr>"

text \<open>
  \<open>abort_cancellable_background_tasks\<close> up to its loop, and \<open>wait_on_background_tasks\<close> up to its
  loop: the set is taken; an empty set makes them return at once.
\<close>

definition abort_cancellable_background_tasks :: "runtime \<Rightarrow> runtime" where
  "abort_cancellable_background_tasks s =
     (let tasks = cancellable_background_tasks s; s = s\<lparr>cancellable_background_tasks := {}\<rparr>
      in if tasks = {} then s\<lparr>stopping := At_Rebalancer\<rparr>
         else s\<lparr>aborted := aborted s \<union> tasks, stopping := Joining tasks\<rparr>)"

definition wait_on_background_tasks :: "runtime \<Rightarrow> runtime" where
  "wait_on_background_tasks s =
     (let tasks = background_tasks s; s = s\<lparr>background_tasks := {}\<rparr>
      in if tasks = {} then s\<lparr>stopping := Stopped\<rparr> else s\<lparr>stopping := Waiting_On tasks\<rparr>)"

definition ended :: "runtime \<Rightarrow> nat \<Rightarrow> bool" where
  "ended s t \<longleftrightarrow> pcs s t = Ended"

text \<open>The steps of the tasks, and of the users of the wallet who spawn them.\<close>

inductive task_step :: "runtime \<Rightarrow> runtime \<Rightarrow> bool" where
  spawn_melt: "task_step s (spawn_background_task Other_Job s)"
| spawn_job: "task_step s (spawn_cancellable_background_task j s)"
| request: "pcs s t = At p \<Longrightarrow>
     task_step s (s\<lparr>pcs := (pcs s)(t := Acquiring p),
       balance_mutex := mx_lock (Task t) (balance_mutex s)\<rparr>)"
| acquire: "pcs s t = Acquiring p \<Longrightarrow> mx_holder (balance_mutex s) = Some (Task t) \<Longrightarrow>
     task_step s (s\<lparr>pcs := (pcs s)(t := Holding p)\<rparr>)"
| release: "pcs s t = Holding p \<Longrightarrow>
     task_step s (s\<lparr>pcs := (pcs s)(t := next_pc (jobs s t) p),
       balance_mutex := mx_unlock (balance_mutex s)\<rparr>)"
| finish: "pcs s t = Busy \<Longrightarrow> task_step s (s\<lparr>pcs := (pcs s)(t := Ended)\<rparr>)"

text \<open>The runtime drops a task that was aborted.\<close>

inductive drop_step :: "runtime \<Rightarrow> runtime \<Rightarrow> bool" where
  dropped: "t \<in> aborted s \<Longrightarrow> \<not> ended s t \<Longrightarrow>
     drop_step s (s\<lparr>pcs := (pcs s)(t := Ended),
       balance_mutex := mx_forget (Task t) (balance_mutex s)\<rparr>)"

text \<open>The steps of \<open>Wallet::stop\<close>.\<close>

inductive stop_step :: "runtime \<Rightarrow> runtime \<Rightarrow> bool" where
  call: "stopping s = Not_Stopping \<Longrightarrow> stop_step s (abort_cancellable_background_tasks s)"
| join_next: "stopping s = Joining ts \<Longrightarrow> t \<in> ts \<Longrightarrow> ended s t \<Longrightarrow>
     stop_step s (s\<lparr>stopping := Joining (ts - {t})\<rparr>)"
| joined: "stopping s = Joining {} \<Longrightarrow> stop_step s (s\<lparr>stopping := At_Rebalancer\<rparr>)"
| lock: "stopping s = At_Rebalancer \<Longrightarrow>
     stop_step s (s\<lparr>stopping := Locking, balance_mutex := mx_lock Stopper (balance_mutex s)\<rparr>)"
| locked: "stopping s = Locking \<Longrightarrow> mx_holder (balance_mutex s) = Some Stopper \<Longrightarrow>
     stop_step s (s\<lparr>stopping := At_Trusted, balance_mutex := mx_unlock (balance_mutex s)\<rparr>)"
| trusted: "stopping s = At_Trusted \<Longrightarrow> stop_step s (s\<lparr>stopping := At_Node\<rparr>)"
| node: "stopping s = At_Node \<Longrightarrow> stop_step s (s\<lparr>stopping := At_Background\<rparr>)"
| wait: "stopping s = At_Background \<Longrightarrow> stop_step s (wait_on_background_tasks s)"
| wait_next: "stopping s = Waiting_On ts \<Longrightarrow> t \<in> ts \<Longrightarrow> ended s t \<Longrightarrow>
     stop_step s (s\<lparr>stopping := Waiting_On (ts - {t})\<rparr>)"
| wait_failed: "stopping s = Waiting_On ts \<Longrightarrow> ts \<noteq> {} \<Longrightarrow>
     stop_step s (s\<lparr>stopping := Stopped, aborted := aborted s \<union> ts\<rparr>)"
| waited: "stopping s = Waiting_On {} \<Longrightarrow> stop_step s (s\<lparr>stopping := Stopped\<rparr>)"

inductive_simps stop_step_simps: "stop_step s s'"

inductive rt_reachable :: "runtime \<Rightarrow> bool" where
  rt_start: "rt_reachable Runtime_new"
| rt_task: "rt_reachable s \<Longrightarrow> task_step s s' \<Longrightarrow> rt_reachable s'"
| rt_drop: "rt_reachable s \<Longrightarrow> drop_step s s' \<Longrightarrow> rt_reachable s'"
| rt_stop: "rt_reachable s \<Longrightarrow> stop_step s s' \<Longrightarrow> rt_reachable s'"

subsection \<open>The invariant\<close>

definition wants :: "runtime \<Rightarrow> nat \<Rightarrow> bool" where
  "wants s t \<longleftrightarrow> (\<exists>p. pcs s t = Acquiring p \<or> pcs s t = Holding p)"

definition joining :: "runtime \<Rightarrow> nat set" where
  "joining s = (case stopping s of Joining ts \<Rightarrow> ts | _ \<Rightarrow> {})"

definition waiting_on :: "runtime \<Rightarrow> nat set" where
  "waiting_on s = (case stopping s of Waiting_On ts \<Rightarrow> ts | _ \<Rightarrow> {})"

text \<open>Who is in the mutex, and that a task that may enter it is always within reach of \<open>stop\<close>.\<close>

definition mutex_inv :: "runtime \<Rightarrow> bool" where
  "mutex_inv s \<longleftrightarrow> mx_wf (balance_mutex s)
     \<and> (\<forall>t. Task t \<in> set (claims (balance_mutex s)) \<longleftrightarrow> wants s t)
     \<and> (\<forall>t p. pcs s t = Holding p \<longrightarrow> mx_holder (balance_mutex s) = Some (Task t))
     \<and> (Stopper \<in> set (claims (balance_mutex s)) \<longleftrightarrow> stopping s = Locking)"

definition tasks_inv :: "runtime \<Rightarrow> bool" where
  "tasks_inv s \<longleftrightarrow>
     (\<forall>t. pcs s t \<noteq> Busy \<and> pcs s t \<noteq> Ended \<longrightarrow> t \<in> cancellable_background_tasks s \<union> joining s)
     \<and> joining s \<subseteq> aborted s
     \<and> (\<forall>t \<ge> spawned s. pcs s t = Ended)
     \<and> background_tasks s \<union> cancellable_background_tasks s \<union> joining s \<union> waiting_on s \<subseteq> {..<spawned s}"

lemma stop_cases_simps [simp]:
  "joining (s\<lparr>pcs := f\<rparr>) = joining s" "joining (s\<lparr>balance_mutex := m\<rparr>) = joining s"
  "waiting_on (s\<lparr>pcs := f\<rparr>) = waiting_on s" "waiting_on (s\<lparr>balance_mutex := m\<rparr>) = waiting_on s"
  "joining (s\<lparr>stopping := q\<rparr>) = (case q of Joining ts \<Rightarrow> ts | _ \<Rightarrow> {})"
  "waiting_on (s\<lparr>stopping := q\<rparr>) = (case q of Waiting_On ts \<Rightarrow> ts | _ \<Rightarrow> {})"
  "joining (s\<lparr>aborted := a\<rparr>) = joining s" "waiting_on (s\<lparr>aborted := a\<rparr>) = waiting_on s"
  "joining (s\<lparr>cancellable_background_tasks := b\<rparr>) = joining s"
  "waiting_on (s\<lparr>cancellable_background_tasks := b\<rparr>) = waiting_on s"
  "joining (s\<lparr>background_tasks := b\<rparr>) = joining s"
  "waiting_on (s\<lparr>background_tasks := b\<rparr>) = waiting_on s"
  "joining (spawn_task j s) = joining s" "waiting_on (spawn_task j s) = waiting_on s"
  by (simp_all add: joining_def waiting_on_def spawn_task_def)

lemma first_pc_idle: "first_pc j = Busy \<and> j = Other_Job \<or> first_pc j = At Trusted_Part \<and> j \<noteq> Other_Job"
  by (cases j) simp_all

lemma tasks_inv_spawn:
  assumes "tasks_inv s"
  shows "tasks_inv (spawn_background_task Other_Job s)" "tasks_inv (spawn_cancellable_background_task j s)"
  using assms first_pc_idle [of j]
  by (auto simp: tasks_inv_def spawn_background_task_def spawn_cancellable_background_task_def
      spawn_task_def less_Suc_eq joining_def waiting_on_def)

lemma mutex_inv_spawn:
  assumes "mutex_inv s" "tasks_inv s"
  shows "mutex_inv (spawn_background_task k s)" "mutex_inv (spawn_cancellable_background_task j s)"
proof -
  have "\<not> wants s (spawned s)" using assms(2) by (simp add: tasks_inv_def wants_def)
  then show "mutex_inv (spawn_background_task k s)" "mutex_inv (spawn_cancellable_background_task j s)"
    using assms(1) first_pc_idle [of j] first_pc_idle [of k]
    by (auto simp: mutex_inv_def spawn_background_task_def spawn_cancellable_background_task_def
        spawn_task_def wants_def)
qed

lemma next_pc_idle: "next_pc j p = Ended \<or> next_pc j p = At Onchain_Part"
  by (cases p; cases j) simp_all

lemma tasks_inv_task: "task_step s s' \<Longrightarrow> tasks_inv s \<Longrightarrow> tasks_inv s'"
proof (induction rule: task_step.induct)
  case (release s t p)
  with next_pc_idle [of "jobs s t" p] show ?case by (auto simp: tasks_inv_def not_le)
next
  case (request s t p)
  then show ?case by (auto simp: tasks_inv_def)
next
  case (acquire s t p)
  then show ?case by (auto simp: tasks_inv_def)
next
  case (finish s t)
  then show ?case by (auto simp: tasks_inv_def)
qed (simp_all add: tasks_inv_spawn)

lemma mutex_inv_task: "task_step s s' \<Longrightarrow> mutex_inv s \<Longrightarrow> tasks_inv s \<Longrightarrow> mutex_inv s'"
proof (induction rule: task_step.induct)
  case (request s t p)
  then have "Task t \<notin> set (claims (balance_mutex s))" by (auto simp: mutex_inv_def wants_def)
  moreover from this have "mx_holder (mx_lock (Task t) (balance_mutex s)) = Some i"
    if "mx_holder (balance_mutex s) = Some i" for i using that by (simp add: mx_lock_def)
  ultimately show ?case using request.prems by (auto simp: mutex_inv_def wants_def mx_facts)
next
  case (release s t p)
  let ?m = "balance_mutex s"
  have hold: "mx_holder ?m = Some (Task t)" using release by (simp add: mutex_inv_def)
  have wf: "mx_wf ?m" using release.prems by (simp add: mutex_inv_def)
  obtain q where q: "claims ?m = Task t # q" "Task t \<notin> set q"
    using hold wf by (auto simp: claims_def mx_wf_def)
  have "pcs s u \<noteq> Holding r" if "u \<noteq> t" for u r
    using that release.prems hold by (auto simp: mutex_inv_def)
  with next_pc_idle [of "jobs s t" p] show ?case
    using release.prems wf q by (auto simp: mutex_inv_def wants_def mx_facts)
next
  case (acquire s t p)
  then show ?case by (auto simp: mutex_inv_def wants_def)
next
  case (finish s t)
  then show ?case by (auto simp: mutex_inv_def wants_def)
qed (simp_all add: mutex_inv_spawn)

lemma drop_inv:
  assumes "drop_step s s'" "mutex_inv s" "tasks_inv s"
  shows "mutex_inv s' \<and> tasks_inv s'"
  using assms
proof (induction rule: drop_step.induct)
  case (dropped t s)
  let ?m = "balance_mutex s"
  have "mx_holder (mx_forget (Task t) ?m) = Some (Task u)"
    if "mx_holder ?m = Some (Task u)" "u \<noteq> t" for u using that by (simp add: mx_forget_def)
  moreover have "set (remove1 (Task t) (claims ?m)) = set (claims ?m) - {Task t}"
    using dropped.prems(1) by (simp add: mutex_inv_def mx_wf_def)
  ultimately have "mutex_inv (s\<lparr>pcs := (pcs s)(t := Ended), balance_mutex := mx_forget (Task t) ?m\<rparr>)"
    using dropped.prems by (auto simp: mutex_inv_def wants_def mx_facts)
  with dropped show ?case by (auto simp: tasks_inv_def)
qed

lemma tasks_inv_stop: "stop_step s s' \<Longrightarrow> tasks_inv s \<Longrightarrow> tasks_inv s'"
proof (induction rule: stop_step.induct)
  case (call s)
  then show ?case
    by (auto simp: tasks_inv_def abort_cancellable_background_tasks_def Let_def joining_def waiting_on_def)
next
  case (wait s)
  then show ?case
    by (auto simp: tasks_inv_def wait_on_background_tasks_def Let_def joining_def waiting_on_def)
qed (auto simp: tasks_inv_def joining_def waiting_on_def ended_def)

lemma mutex_inv_stop: "stop_step s s' \<Longrightarrow> mutex_inv s \<Longrightarrow> mutex_inv s'"
proof (induction rule: stop_step.induct)
  case (lock s)
  have "mx_holder (mx_lock Stopper (balance_mutex s)) = Some i"
    if "mx_holder (balance_mutex s) = Some i" for i using that by (simp add: mx_lock_def)
  with lock show ?case by (auto simp: mutex_inv_def wants_def mx_facts)
next
  case (locked s)
  have wf: "mx_wf (balance_mutex s)" using locked by (simp add: mutex_inv_def)
  obtain q where "claims (balance_mutex s) = Stopper # q" "Stopper \<notin> set q"
    using locked wf by (auto simp: claims_def mx_wf_def)
  with locked wf show ?case by (auto simp: mutex_inv_def wants_def mx_facts)
qed (auto simp: mutex_inv_def wants_def abort_cancellable_background_tasks_def
    wait_on_background_tasks_def Let_def)

lemma rt_reachable_inv: "rt_reachable s \<Longrightarrow> mutex_inv s \<and> tasks_inv s"
proof (induction rule: rt_reachable.induct)
  case rt_start
  show ?case
    by (simp add: mutex_inv_def tasks_inv_def Runtime_new_def mx_free_def mx_wf_def claims_def
        wants_def joining_def waiting_on_def)
qed (blast intro: mutex_inv_task tasks_inv_task mutex_inv_stop tasks_inv_stop dest: drop_inv)+

subsection \<open>Stopping\<close>

text \<open>The steps of \<open>stop\<close> and of the runtime on its behalf, without those of any task.\<close>

definition settle_step :: "runtime \<Rightarrow> runtime \<Rightarrow> bool" where
  "settle_step s s' \<longleftrightarrow> stop_step s s' \<or> drop_step s s'"

definition running :: "runtime \<Rightarrow> nat set" where
  "running s = {t. t < spawned s \<and> \<not> ended s t}"

fun stage :: "nat \<Rightarrow> stop_pc \<Rightarrow> nat" where
  "stage n Not_Stopping = 2 * n + 10"
| "stage n (Joining ts) = n + 9 + card ts"
| "stage n At_Rebalancer = n + 8"
| "stage n Locking = n + 7"
| "stage n At_Trusted = n + 6"
| "stage n At_Node = n + 5"
| "stage n At_Background = n + 4"
| "stage n (Waiting_On ts) = 1 + card ts"
| "stage n Stopped = 0"

definition remaining :: "runtime \<Rightarrow> nat" where
  "remaining s = stage (spawned s) (stopping s) + card (running s)"

lemma finite_running [simp]: "finite (running s)"
  by (simp add: running_def)

lemma card_below: "ts \<subseteq> {..<n} \<Longrightarrow> card ts \<le> (n :: nat)"
  using card_mono [of "{..<n}" ts] by simp

lemma card_below_less: "ts \<subseteq> {..<n} \<Longrightarrow> t \<in> ts \<Longrightarrow> card (ts - {t}) < card (ts :: nat set)"
  by (meson card_Diff1_less finite_lessThan finite_subset)

lemma running_cong: "spawned s' = spawned s \<Longrightarrow> pcs s' = pcs s \<Longrightarrow> running s' = running s"
  by (simp add: running_def ended_def)

lemma stop_step_remaining:
  assumes "stop_step s s'" "tasks_inv s"
  shows "remaining s' < remaining s \<and> spawned s' = spawned s"
proof -
  have "stage (spawned s) (stopping s') < stage (spawned s) (stopping s) \<and> spawned s' = spawned s
      \<and> pcs s' = pcs s"
    using assms
  proof (induction rule: stop_step.induct)
    case (call s)
    then have "card (cancellable_background_tasks s) \<le> spawned s"
      by (intro card_below) (simp add: tasks_inv_def)
    with call show ?case by (simp add: abort_cancellable_background_tasks_def Let_def)
  next
    case (join_next s ts t)
    then have "card (ts - {t}) < card ts"
      by (intro card_below_less) (auto simp: tasks_inv_def joining_def)
    with join_next show ?case by simp
  next
    case (wait s)
    then have "card (background_tasks s) \<le> spawned s" by (intro card_below) (simp add: tasks_inv_def)
    with wait show ?case by (simp add: wait_on_background_tasks_def Let_def)
  next
    case (wait_next s ts t)
    then have "card (ts - {t}) < card ts"
      by (intro card_below_less) (auto simp: tasks_inv_def waiting_on_def)
    with wait_next show ?case by simp
  qed simp_all
  moreover from this have "running s' = running s" by (intro running_cong) simp_all
  ultimately show ?thesis by (simp add: remaining_def)
qed

lemma drop_step_remaining:
  assumes "drop_step s s'" "tasks_inv s"
  shows "remaining s' < remaining s \<and> spawned s' = spawned s"
  using assms
proof (induction rule: drop_step.induct)
  case (dropped t s)
  let ?s' = "s\<lparr>pcs := (pcs s)(t := Ended), balance_mutex := mx_forget (Task t) (balance_mutex s)\<rparr>"
  have "t < spawned s" using dropped by (cases "t < spawned s") (simp_all add: tasks_inv_def ended_def)
  then have "t \<in> running s" using dropped by (simp add: running_def)
  moreover have "running ?s' = running s - {t}" by (auto simp: running_def ended_def)
  ultimately have "card (running ?s') < card (running s)" by (metis card_Diff1_less finite_running)
  then show ?case by (simp add: remaining_def)
qed

lemma settle_inv:
  assumes "settle_step s s'" "rt_reachable s"
  shows "rt_reachable s'" "remaining s' < remaining s"
  using assms stop_step_remaining drop_step_remaining rt_reachable_inv [OF assms(2)]
  by (auto simp: settle_step_def intro: rt_stop rt_drop)

lemma settle_cancellable:
  assumes "settle_step s s'" "stopping s = Not_Stopping \<or> cancellable_background_tasks s = {}"
  shows "stopping s' = Not_Stopping \<or> cancellable_background_tasks s' = {}"
  using assms
  by (auto simp: settle_step_def abort_cancellable_background_tasks_def wait_on_background_tasks_def Let_def
      elim!: stop_step.cases drop_step.cases split: if_splits)

lemma settle_bounded:
  "(settle_step ^^ k) s s' \<Longrightarrow> rt_reachable s \<Longrightarrow> k + remaining s' \<le> remaining s"
proof (induction k arbitrary: s')
  case (Suc k)
  then obtain u where u: "(settle_step ^^ k) s u" "settle_step u s'" by auto
  have "rt_reachable u" using u(1) Suc.prems(2)
    by (induction k arbitrary: u) (auto intro: settle_inv(1))
  with Suc.IH [OF u(1) Suc.prems(2)] settle_inv(2) [OF u(2)] show ?case by simp
qed simp

lemma settle_reachable:
  "settle_step\<^sup>*\<^sup>* s s' \<Longrightarrow> rt_reachable s \<Longrightarrow> stopping s = Not_Stopping \<or> cancellable_background_tasks s = {} \<Longrightarrow>
   rt_reachable s' \<and> (stopping s' = Not_Stopping \<or> cancellable_background_tasks s' = {})"
proof (induction rule: rtranclp_induct)
  case (step y z)
  with settle_inv(1) [of y z] settle_cancellable [of y z] show ?case by blast
qed simp

text \<open>Past the join, only a rebalance started since then can be in the mutex.\<close>

lemma holder_is_late:
  assumes "rt_reachable s" "stopping s \<in> {At_Rebalancer, Locking}"
    "Task t \<in> set (claims (balance_mutex s))"
  shows "t \<in> cancellable_background_tasks s"
proof -
  have "wants s t" and "tasks_inv s" using rt_reachable_inv [OF assms(1)] assms(3)
    by (auto simp: mutex_inv_def)
  with assms(2) show ?thesis by (auto simp: tasks_inv_def wants_def joining_def)
qed

lemma mutex_granted:
  assumes "rt_reachable s" "stopping s = Locking" "cancellable_background_tasks s = {}"
  shows "mx_holder (balance_mutex s) = Some Stopper"
proof -
  have wf: "mx_wf (balance_mutex s)" and st: "Stopper \<in> set (claims (balance_mutex s))"
    using rt_reachable_inv [OF assms(1)] assms(2) by (auto simp: mutex_inv_def)
  have "i = Stopper" if "i \<in> set (claims (balance_mutex s))" for i
  proof (cases i)
    case (Task t)
    with that holder_is_late [OF assms(1), of t] assms(2,3) show ?thesis by simp
  qed
  with st show ?thesis unfolding holder_claims [OF wf] by (cases "claims (balance_mutex s)") auto
qed

lemma settle_enabled:
  assumes "rt_reachable s" "stopping s = Not_Stopping \<or> cancellable_background_tasks s = {}"
    "stopping s \<noteq> Stopped"
  shows "\<exists>s'. settle_step s s'"
proof (cases "stopping s")
  case (Joining ts)
  show ?thesis
  proof (cases "ts = {}")
    case False
    then obtain t where t: "t \<in> ts" by auto
    then have "t \<in> aborted s" using rt_reachable_inv [OF assms(1)] Joining
      by (auto simp: tasks_inv_def joining_def)
    then show ?thesis
      using t Joining by (cases "ended s t") (auto simp: settle_step_def intro: join_next dropped)
  qed (use Joining in \<open>auto simp: settle_step_def intro: joined\<close>)
next
  case Locking
  with assms mutex_granted show ?thesis by (auto simp: settle_step_def intro: locked)
next
  case (Waiting_On ts)
  then show ?thesis by (cases "ts = {}") (auto simp: settle_step_def intro: waited wait_failed)
qed (use assms(3) in \<open>auto simp: settle_step_def intro: call lock trusted node wait\<close>)

subsection \<open>The properties\<close>

text \<open>
  C15. Rebalances exclude each other: whatever tasks are spawned, however their steps interleave
  with each other, with aborts and with \<open>stop\<close>, at most one task is inside a rebalance at a time,
  and none while \<open>stop\<close> holds the balance mutex.
\<close>

theorem rebalances_exclusive:
  assumes "rt_reachable s" "pcs s t = Holding p"
  shows "(\<forall>u q. pcs s u = Holding q \<longrightarrow> u = t) \<and> mx_holder (balance_mutex s) = Some (Task t)"
proof -
  have held: "mx_holder (balance_mutex s) = Some (Task u)" if "pcs s u = Holding q" for u q
    using rt_reachable_inv [OF assms(1)] that by (auto simp: mutex_inv_def)
  from held [OF assms(2)] show ?thesis using held by simp
qed

definition late_spawned :: runtime where
  "late_spawned = spawn_cancellable_background_task Rebalance_Job (abort_cancellable_background_tasks Runtime_new)"

definition late_acquiring :: runtime where
  "late_acquiring = late_spawned\<lparr>pcs := (pcs late_spawned)(0 := Acquiring Trusted_Part),
     balance_mutex := mx_lock (Task 0) (balance_mutex late_spawned)\<rparr>"

definition late_rebalance :: runtime where
  "late_rebalance = late_acquiring\<lparr>pcs := (pcs late_acquiring)(0 := Holding Trusted_Part)\<rparr>"

lemmas late_defs = late_rebalance_def late_acquiring_def late_spawned_def
  abort_cancellable_background_tasks_def spawn_cancellable_background_task_def spawn_task_def
  Runtime_new_def mx_lock_def mx_free_def

lemma late_rebalance_reachable: "rt_reachable late_rebalance"
proof -
  have "rt_reachable (abort_cancellable_background_tasks Runtime_new)"
    by (intro rt_stop [OF rt_start] call) (simp add: Runtime_new_def)
  then have "rt_reachable late_spawned"
    unfolding late_spawned_def by (rule rt_task) (rule spawn_job)
  moreover have "task_step late_spawned late_acquiring"
    unfolding late_acquiring_def by (rule request) (simp add: late_defs)
  ultimately have "rt_reachable late_acquiring" by (rule rt_task)
  moreover have "task_step late_acquiring late_rebalance"
    unfolding late_rebalance_def by (rule acquire) (simp_all add: late_defs)
  ultimately show ?thesis by (rule rt_task)
qed

theorem rebalances_exclusive_witness:
  "pcs late_rebalance 0 = Holding Trusted_Part
   \<and> mx_holder (balance_mutex late_rebalance) = Some (Task 0)"
proof -
  have "pcs late_rebalance 0 = Holding Trusted_Part" by (simp add: late_rebalance_def)
  with rebalances_exclusive [OF late_rebalance_reachable this] show ?thesis by simp
qed

text \<open>
  C16. \<open>Wallet::stop\<close> completes without help from any task. From every reachable state in which no
  cancellable task was spawned since the abort, even with rebalances that hang for ever inside the
  balance mutex: the steps of \<open>stop\<close> and of the runtime dropping aborted tasks are at most three
  per task spawned and ten more, and when none of them is left \<open>stop\<close> has returned.
\<close>

theorem wallet_stop_completes:
  assumes "rt_reachable s"
    and "stopping s = Not_Stopping \<or> cancellable_background_tasks s = {}"
  shows "((settle_step ^^ k) s s' \<longrightarrow> k \<le> 3 * spawned s + 10)
    \<and> (settle_step\<^sup>*\<^sup>* s s' \<longrightarrow> (\<nexists>s''. settle_step s' s'') \<longrightarrow> stopping s' = Stopped)"
proof -
  have "tasks_inv s" using rt_reachable_inv [OF assms(1)] by simp
  then have "card (joining s) \<le> spawned s" "card (waiting_on s) \<le> spawned s"
    by (auto simp: tasks_inv_def intro!: card_below)
  then have "stage (spawned s) (stopping s) \<le> 2 * spawned s + 10"
    by (cases "stopping s") (simp_all add: joining_def waiting_on_def)
  moreover have "card (running s) \<le> spawned s" by (rule card_below) (auto simp: running_def)
  ultimately have "remaining s \<le> 3 * spawned s + 10" by (simp add: remaining_def)
  then have "k \<le> 3 * spawned s + 10" if "(settle_step ^^ k) s s'"
    using settle_bounded [OF that assms(1)] by simp
  moreover have "stopping s' = Stopped" if "settle_step\<^sup>*\<^sup>* s s'" "\<nexists>s''. settle_step s' s''"
    using settle_reachable [OF that(1) assms] settle_enabled that(2) by blast
  ultimately show ?thesis by blast
qed

text \<open>A rebalance parked inside the mutex before \<open>stop\<close> is called.\<close>

definition early_rebalance :: runtime where
  "early_rebalance = late_rebalance\<lparr>stopping := Not_Stopping\<rparr>"

lemma early_rebalance_reachable: "rt_reachable early_rebalance"
proof -
  let ?s = "spawn_cancellable_background_task Rebalance_Job Runtime_new"
  let ?t = "?s\<lparr>pcs := (pcs ?s)(0 := Acquiring Trusted_Part), balance_mutex := mx_lock (Task 0) (balance_mutex ?s)\<rparr>"
  have "rt_reachable ?s" by (rule rt_task [OF rt_start spawn_job])
  then have "rt_reachable ?t" by (rule rt_task) (rule request, simp add: late_defs)
  then have "rt_reachable (?t\<lparr>pcs := (pcs ?t)(0 := Holding Trusted_Part)\<rparr>)"
    by (rule rt_task) (rule acquire, simp_all add: late_defs)
  moreover have "?t\<lparr>pcs := (pcs ?t)(0 := Holding Trusted_Part)\<rparr> = early_rebalance"
    by (simp add: early_rebalance_def late_defs)
  ultimately show ?thesis by simp
qed

theorem wallet_stop_completes_witness:
  "stopping early_rebalance = Not_Stopping \<and> pcs early_rebalance 0 = Holding Trusted_Part
   \<and> (\<nexists>s. (settle_step ^^ 14) early_rebalance s)"
proof -
  have st: "stopping early_rebalance = Not_Stopping" "spawned early_rebalance = 1"
    by (simp_all add: early_rebalance_def late_defs)
  have "\<not> (settle_step ^^ 14) early_rebalance s" for s
    using wallet_stop_completes [OF early_rebalance_reachable disjI1 [OF st(1)], of 14 s] st(2)
    by (simp only: not_le) auto
  with st show ?thesis by (simp add: early_rebalance_def late_rebalance_def)
qed

text \<open>
  C17. A rebalance started while \<open>stop\<close> is between its abort and its request for the balance mutex
  (for instance by \<open>event_handled\<close> on another thread) is not aborted, and if it hangs inside the
  mutex \<open>stop\<close> waits for it: no step of \<open>stop\<close> or of the runtime is possible.
\<close>

theorem stop_blocked_by_late_rebalance:
  "\<exists>s t. rt_reachable s \<and> stopping s = Locking \<and> pcs s t = Holding Trusted_Part \<and> t \<notin> aborted s
     \<and> (\<nexists>s'. settle_step s s')"
proof (intro exI conjI)
  let ?s = "late_rebalance\<lparr>stopping := Locking, balance_mutex := mx_lock Stopper (balance_mutex late_rebalance)\<rparr>"
  show "rt_reachable ?s"
    by (rule rt_stop [OF late_rebalance_reachable]) (rule lock, simp add: late_defs)
  show "stopping ?s = Locking" "pcs ?s 0 = Holding Trusted_Part" "0 \<notin> aborted ?s"
    by (simp_all add: late_defs)
  show "\<nexists>s'. settle_step ?s s'"
    by (auto simp: settle_step_def late_defs elim!: stop_step.cases drop_step.cases)
qed

end
