(* ===== verification/Dummy_Wallet.thy ===== *)
theory Dummy_Wallet
  imports Cashu_Wallet Ldk_Events
begin

text \<open>
  The trusted wallet of the test utilities (\<open>trusted_wallet/dummy.rs\<close>): an ldk-node that plays the
  custodian, with a balance and a list of payments kept in memory. The node is the parameter of
  \<open>Lightning_Wallet\<close>, extended by the two calls only this wallet makes. The balance is an atomic
  64-bit counter, whose \<open>fetch_add\<close> and \<open>fetch_sub\<close> wrap. The construction of the node and of its
  channel, which drives a bitcoind, is left out; the loop over the node's events it spawns is
  \<open>dummy_handle_event\<close>, one turn. Payments and events are taken one at a time: in the source a payment
  waits for the lock of the list after it took the amount from the balance, and an event can be
  handled in between.
\<close>

definition u64_wrapping_sub :: "u64 \<Rightarrow> u64 \<Rightarrow> u64" where
  "u64_wrapping_sub a b = (a + (u64_max + 1 - b mod (u64_max + 1))) mod (u64_max + 1)"

record 'w dummy_node = "'w ldk_node_ops" +
  dn_offer_variable_amount :: "'w \<Rightarrow> (NodeError, string) result \<times> 'w"
  dn_flag_changed_in_time :: "'w \<Rightarrow> bool \<times> 'w"
  dn_error_to_string :: "NodeError \<Rightarrow> string"
  dn_amounts :: amount_ops

record 'w dummy_outside =
  dm_world :: 'w
  current_bal_msats :: u64
  dm_payments :: "TrustedPayment list"
  dm_success_signals :: nat
  dm_success_receivers :: nat

definition node_call :: "('w \<Rightarrow> 'a \<times> 'w) \<Rightarrow> 'w dummy_outside \<Rightarrow> 'a \<times> 'w dummy_outside" where
  "node_call f w = (case f (dm_world w) of (r, m) \<Rightarrow> (r, w\<lparr>dm_world := m\<rparr>))"

definition node_unwrap :: "('w \<Rightarrow> (NodeError, 'a) result \<times> 'w) \<Rightarrow> 'w dummy_outside \<Rightarrow>
    ('e, 'a) result \<times> 'w dummy_outside" where
  "node_unwrap f w = expect ''called `Result::unwrap()` on an `Err` value'' (node_call f w)"

text \<open>Seconds since the epoch, as a duration.\<close>

definition dummy_now :: "('w, 'n) dummy_node_scheme \<Rightarrow> 'w dummy_outside \<Rightarrow> duration" where
  "dummy_now N w = from_secs (as_secs (nd_clock N (dm_world w)))"

definition mangle_payment_id :: "bytes32 \<Rightarrow> bytes32" where
  "mangle_payment_id i = map (\<lambda>b. b + 66) i"

subsection \<open>The interface\<close>

definition dummy_get_balance :: "('w, 'n) dummy_node_scheme \<Rightarrow> 'w dummy_outside \<Rightarrow>
    (TrustedError, Amount) result \<times> 'w dummy_outside" where
  "dummy_get_balance N w =
     expect ''valid msats'' (from_milli_sats (dn_amounts N) (current_bal_msats w), w)"

definition dummy_get_reusable_receive_uri :: "('w, 'n) dummy_node_scheme \<Rightarrow> 'w dummy_outside \<Rightarrow>
    (TrustedError, string) result \<times> 'w dummy_outside" where
  "dummy_get_reusable_receive_uri N w =
     map_err (\<lambda>e. WalletOperationFailed (dn_error_to_string N e)) (node_call (dn_offer_variable_amount N) w)"

definition dummy_get_bolt11_invoice :: "('w, 'n) dummy_node_scheme \<Rightarrow> Amount option \<Rightarrow> 'w dummy_outside \<Rightarrow>
    (TrustedError, Bolt11Invoice) result \<times> 'w dummy_outside" where
  "dummy_get_bolt11_invoice N amount w = (case amount of
     Some amt \<Rightarrow> node_unwrap (nd_receive N (milli_sats amt) 300) w
   | None \<Rightarrow> node_unwrap (nd_receive_variable_amount N 300) w)"

definition dummy_list_payments :: "'w dummy_outside \<Rightarrow>
    (TrustedError, TrustedPayment list) result \<times> 'w dummy_outside" where
  "dummy_list_payments w = (Ok (dm_payments w), w)"

definition dummy_estimate_fee :: "PaymentMethod \<Rightarrow> Amount \<Rightarrow> 'w dummy_outside \<Rightarrow>
    (TrustedError, Amount) result \<times> 'w dummy_outside" where
  "dummy_estimate_fee _ _ w = (Ok 0, w)"

text \<open>Both payments end alike: the amount leaves the balance and a pending payment is listed.\<close>

definition record_sent :: "('w, 'n) dummy_node_scheme \<Rightarrow> bytes32 \<Rightarrow> Amount \<Rightarrow> 'w dummy_outside \<Rightarrow>
    'w dummy_outside" where
  "record_sent N i amount w =
     (let w = w\<lparr>current_bal_msats := u64_wrapping_sub (current_bal_msats w) (milli_sats amount)\<rparr>
      in w\<lparr>dm_payments := dm_payments w @ [\<lparr>p_id = i, p_amount = amount, p_fee = 0, p_status = Pending,
           p_outbound = True, p_time_since_epoch = dummy_now N w\<rparr>]\<rparr>)"

definition dummy_send :: "('w, 'n) dummy_node_scheme \<Rightarrow> PaymentMethod \<Rightarrow> Amount \<Rightarrow> 'w dummy_outside \<Rightarrow>
    (TrustedError, bytes32) result \<times> 'w dummy_outside" where
  "dummy_send N method amount w = (case method of
     LightningBolt11 i \<Rightarrow> and_then (node_unwrap (nd_bolt11_send_using_amount N i (milli_sats amount)) w)
       (\<lambda>i w. (Ok (mangle_payment_id i), w))
   | LightningBolt12 offer \<Rightarrow> and_then (node_unwrap (nd_bolt12_send_using_amount N offer (milli_sats amount)) w)
       (\<lambda>i w. (Ok (mangle_payment_id i), w))
   | OnChain address \<Rightarrow> node_unwrap (nd_send_to_address N address (sats_rounding_up (dn_amounts N) amount)) w)"

definition dummy_pay :: "('w, 'n) dummy_node_scheme \<Rightarrow> PaymentMethod \<Rightarrow> Amount \<Rightarrow> 'w dummy_outside \<Rightarrow>
    (TrustedError, bytes32) result \<times> 'w dummy_outside" where
  "dummy_pay N method amount w =
     and_then (dummy_send N method amount w) (\<lambda>i w. (Ok i, record_sent N i amount w))"

definition dummy_pay_partial :: "('w, 'n) dummy_node_scheme \<Rightarrow> Bolt11Invoice \<Rightarrow> Amount \<Rightarrow> 'w dummy_outside \<Rightarrow>
    (TrustedError, bytes32) result \<times> 'w dummy_outside" where
  "dummy_pay_partial N invoice partial_amount w =
     and_then (map_err (\<lambda>e. WalletOperationFailed (dn_error_to_string N e))
         (node_call (nd_bolt11_send_using_amount_underpaying N invoice (milli_sats partial_amount)) w))
       (\<lambda>i w. let i = mangle_payment_id i in (Ok i, record_sent N i partial_amount w))"

text \<open>
  The loop of \<open>await_payment_success\<close>. The node's answer decides as in \<open>Lightning_Wallet\<close>; while the
  payment is unknown or pending the wallet waits for a signal, up to a time limit.
\<close>

partial_function (option) dummy_await_payment_success :: "('w, 'n) dummy_node_scheme \<Rightarrow> bytes32 \<Rightarrow>
    'w dummy_outside \<Rightarrow> (ReceivedLightningPayment option \<times> 'w dummy_outside) option" where
  "dummy_await_payment_success N payment_hash w =
     (case Option.bind (nd_payment N payment_hash (dm_world w)) received_payment of
        Some answer \<Rightarrow> Some (answer, w)
      | None \<Rightarrow>
          (case node_call (dn_flag_changed_in_time N) w of
             (changed, w) \<Rightarrow> if changed then dummy_await_payment_success N payment_hash w else Some (None, w)))"

definition dummy_get_lightning_address :: "'w dummy_outside \<Rightarrow>
    (TrustedError, string option) result \<times> 'w dummy_outside" where
  "dummy_get_lightning_address w = (Ok None, w)"

definition dummy_register_lightning_address :: "string \<Rightarrow> 'w dummy_outside \<Rightarrow>
    (TrustedError, unit) result \<times> 'w dummy_outside" where
  "dummy_register_lightning_address _ w =
     (Err (UnsupportedOperation ''register_lightning_address is not supported in DummyTrustedWallet''), w)"

text \<open>\<open>stop\<close> ignores the node's answer, and returns after ten seconds without one.\<close>

definition dummy_stop :: "('w, 'n) dummy_node_scheme \<Rightarrow> 'w dummy_outside \<Rightarrow> 'w dummy_outside" where
  "dummy_stop N w = snd (node_call (nd_stop N) w)"

subsection \<open>The events of the node\<close>

text \<open>The first payment with the identifier is completed, or taken off the list.\<close>

fun complete_payment :: "amount_ops \<Rightarrow> bytes32 \<Rightarrow> u64 option \<Rightarrow> TrustedPayment list \<Rightarrow>
    (unit, TrustedPayment list) result" where
  "complete_payment A i fee [] = Ok []"
| "complete_payment A i fee (p # ps) =
     (if p_id p = i then
        (case fee of
           None \<Rightarrow> Ok (p\<lparr>p_status := Completed\<rparr> # ps)
         | Some fee \<Rightarrow> (case from_milli_sats A fee of
             Ok fee \<Rightarrow> Ok (p\<lparr>p_status := Completed, p_fee := fee\<rparr> # ps)
           | _ \<Rightarrow> Panic ''valid fee''))
      else (case complete_payment A i fee ps of
              Ok ps \<Rightarrow> Ok (p # ps) | Err e \<Rightarrow> Err e | Panic m \<Rightarrow> Panic m))"

fun remove_payment :: "bytes32 \<Rightarrow> TrustedPayment list \<Rightarrow> TrustedPayment list" where
  "remove_payment i [] = []"
| "remove_payment i (p # ps) = (if p_id p = i then ps else p # remove_payment i ps)"

definition refund_failed :: "bytes32 \<Rightarrow> 'w dummy_outside \<Rightarrow> 'w dummy_outside" where
  "refund_failed i w = (case find (\<lambda>p. p_id p = i) (dm_payments w) of
     Some payment \<Rightarrow> w\<lparr>dm_payments := remove_payment i (dm_payments w),
         current_bal_msats := u64_wrapping_add (current_bal_msats w) (milli_sats (p_amount payment))\<rparr>
   | None \<Rightarrow> w)"

definition add_event_unwrap :: "('s, 'e) event_env_scheme \<Rightarrow> Event \<Rightarrow>
    ('s, 'x) event_queue_scheme \<Rightarrow> (unit, unit) result \<times> ('s, 'x) event_queue_scheme" where
  "add_event_unwrap E event s = expect ''called `Result::unwrap()` on an `Err` value'' (add_event E event s)"

definition dummy_signal_success :: "('s, 'w dummy_outside, 'x) wallet_state_scheme \<Rightarrow>
    (unit, unit) result \<times> ('s, 'w dummy_outside, 'x) wallet_state_scheme" where
  "dummy_signal_success s =
     (if dm_success_receivers (outside s) = 0
      then (Panic ''called `Result::unwrap()` on an `Err` value'', s)
      else (Ok (), s\<lparr>outside := (outside s)\<lparr>dm_success_signals := Suc (dm_success_signals (outside s))\<rparr>\<rparr>))"

definition dummy_sent :: "('s, 'e) event_env_scheme \<Rightarrow> ('w, 'n) dummy_node_scheme \<Rightarrow> bytes32 \<Rightarrow>
    PaymentHash \<Rightarrow> PaymentPreimage option \<Rightarrow> u64 option \<Rightarrow> ('s, 'w dummy_outside, 'x) wallet_state_scheme \<Rightarrow>
    (unit, unit) result \<times> ('s, 'w dummy_outside, 'x) wallet_state_scheme" where
  "dummy_sent E N i payment_hash payment_preimage fee_paid_msat s =
     and_then (complete_payment (dn_amounts N) i fee_paid_msat (dm_payments (outside s)), s) (\<lambda>ps s.
     let s = s\<lparr>outside := (outside s)\<lparr>dm_payments := ps\<rparr>\<rparr> in
     and_then (if is_rebalance_payment (Trusted i) s then (Ok (), s)
       else and_then (unwrap_option payment_preimage, s) (\<lambda>pre s.
         and_then (ignore_error (set_preimage E (Trusted i) pre s)) (\<lambda>_ s.
           add_event_unwrap E (PaymentSuccessful (Trusted i) payment_hash pre fee_paid_msat) s)))
       (\<lambda>_ s. dummy_signal_success s))"

definition dummy_failed :: "('s, 'e) event_env_scheme \<Rightarrow> bytes32 \<Rightarrow> PaymentHash option \<Rightarrow>
    PaymentFailureReason option \<Rightarrow> ('s, 'w dummy_outside, 'x) wallet_state_scheme \<Rightarrow>
    (unit, unit) result \<times> ('s, 'w dummy_outside, 'x) wallet_state_scheme" where
  "dummy_failed E i payment_hash reason s =
     (let s = s\<lparr>outside := refund_failed i (outside s)\<rparr> in
      and_then (if is_rebalance_payment (Trusted i) s then (Ok (), s)
          else add_event_unwrap E (PaymentFailed (Trusted i) payment_hash reason) s)
        (\<lambda>_ s. case dummy_signal_success s of (Ok u, s') \<Rightarrow> (Ok u, s') | _ \<Rightarrow> (Ok (), s)))"

definition dummy_received :: "('s, 'e) event_env_scheme \<Rightarrow> ('w, 'n) dummy_node_scheme \<Rightarrow> bytes32 \<Rightarrow>
    PaymentHash \<Rightarrow> u64 \<Rightarrow> ('s, 'w dummy_outside, 'x) wallet_state_scheme \<Rightarrow>
    (unit, unit) result \<times> ('s, 'w dummy_outside, 'x) wallet_state_scheme" where
  "dummy_received E N i payment_hash amount_msat s =
     and_then (expect ''called `Result::unwrap()` on an `Err` value''
         (from_milli_sats (dn_amounts N) amount_msat, s)) (\<lambda>amount s.
     let w = outside s;
         w = w\<lparr>dm_payments := dm_payments w @ [\<lparr>p_id = i, p_amount = amount, p_fee = 0, p_status = Completed,
           p_outbound = False, p_time_since_epoch = dummy_now N w\<rparr>],
           current_bal_msats := u64_wrapping_add (current_bal_msats w) amount_msat\<rparr>
     in add_event_unwrap E (PaymentReceived (Trusted i) payment_hash amount_msat [] None) (s\<lparr>outside := w\<rparr>))"

definition dummy_process_event :: "('s, 'e) event_env_scheme \<Rightarrow> ('w, 'n) dummy_node_scheme \<Rightarrow> Ldk_Event \<Rightarrow>
    ('s, 'w dummy_outside, 'x) wallet_state_scheme \<Rightarrow>
    (unit, unit) result \<times> ('s, 'w dummy_outside, 'x) wallet_state_scheme" where
  "dummy_process_event E N event s = (case event of
     Ldk_PaymentSuccessful payment_id payment_hash payment_preimage fee_paid_msat \<Rightarrow>
       and_then (unwrap_option payment_id, s) (\<lambda>i s.
         dummy_sent E N (mangle_payment_id i) payment_hash payment_preimage fee_paid_msat s)
   | Ldk_PaymentFailed payment_id payment_hash reason \<Rightarrow>
       and_then (unwrap_option payment_id, s) (\<lambda>i s. dummy_failed E (mangle_payment_id i) payment_hash reason s)
   | Ldk_PaymentReceived payment_id payment_hash amount_msat _ \<Rightarrow>
       and_then (unwrap_option payment_id, s) (\<lambda>i s.
         dummy_received E N (mangle_payment_id i) payment_hash amount_msat s)
   | _ \<Rightarrow> (Ok (), s))"

text \<open>One turn of the event loop: an error of the acknowledgement is printed.\<close>

definition dummy_handle_event :: "('s, 'e) event_env_scheme \<Rightarrow> ('w, 'n) dummy_node_scheme \<Rightarrow> Ldk_Event \<Rightarrow>
    ('s, 'w dummy_outside, 'x) wallet_state_scheme \<Rightarrow>
    (unit, unit) result \<times> ('s, 'w dummy_outside, 'x) wallet_state_scheme" where
  "dummy_handle_event E N event s =
     and_then (dummy_process_event E N event s) (\<lambda>_ s.
       ignore_error (outside_call (node_call (nd_event_handled N)) s))"

definition DummyTrustedWallet :: "('w, 'n) dummy_node_scheme \<Rightarrow>
    (bytes32 \<Rightarrow> 'w dummy_outside \<Rightarrow> ReceivedLightningPayment option \<times> 'w dummy_outside) \<Rightarrow>
    'w dummy_outside trusted_wallet_ops" where
  "DummyTrustedWallet N await =
     \<lparr>tw_get_balance = dummy_get_balance N, tw_get_reusable_receive_uri = dummy_get_reusable_receive_uri N,
      tw_get_bolt11_invoice = dummy_get_bolt11_invoice N, tw_list_payments = dummy_list_payments,
      tw_estimate_fee = dummy_estimate_fee, tw_pay = dummy_pay N, tw_supports_partial_payments = True,
      tw_pay_partial = dummy_pay_partial N, tw_await_payment_success = await,
      tw_get_lightning_address = dummy_get_lightning_address,
      tw_register_lightning_address = dummy_register_lightning_address, tw_stop = dummy_stop N\<rparr>"

end
