(* ===== verification/Dummy_Props.thy ===== *)
theory Dummy_Props
  imports Dummy_Wallet Event_Reports Sample_Wallet
begin

text \<open>The books of the test wallet, and its payment identifiers.\<close>

definition total_amount :: "bool \<Rightarrow> TrustedPayment list \<Rightarrow> nat" where
  "total_amount out ps = sum_list (map p_amount (filter (\<lambda>p. p_outbound p = out) ps))"

lemma total_amount_simps [simp]:
  "total_amount out [] = 0"
  "total_amount out (p # ps) = (if p_outbound p = out then p_amount p else 0) + total_amount out ps"
  "total_amount out (ps @ qs) = total_amount out ps + total_amount out qs"
  by (simp_all add: total_amount_def)

text \<open>The balance and what was sent amount to what was received, modulo the width of the counter.\<close>

definition books :: "'w dummy_outside \<Rightarrow> bool" where
  "books w \<longleftrightarrow> current_bal_msats w \<le> u64_max
     \<and> (current_bal_msats w + total_amount True (dm_payments w)) mod (u64_max + 1)
         = total_amount False (dm_payments w) mod (u64_max + 1)"

text \<open>A payment that fails is, if listed, one that was sent.\<close>

fun refundable :: "Ldk_Event \<Rightarrow> 'w dummy_outside \<Rightarrow> bool" where
  "refundable (Ldk_PaymentFailed (Some i) _ _) w =
     (case find (\<lambda>p. p_id p = mangle_payment_id i) (dm_payments w) of
        Some p \<Rightarrow> p_outbound p | None \<Rightarrow> True)"
| "refundable _ _ = True"

inductive dummy_step :: "('s, 'e) event_env_scheme \<Rightarrow> ('w, 'n) dummy_node_scheme \<Rightarrow>
    ('s, 'w dummy_outside, 'x) wallet_state_scheme \<Rightarrow> ('s, 'w dummy_outside, 'x) wallet_state_scheme \<Rightarrow> bool"
  for E N where
  paid: "dummy_pay N via amount (outside s) = (r, w) \<Longrightarrow> dummy_step E N s (s\<lparr>outside := w\<rparr>)"
| paid_partly: "dummy_pay_partial N invoice amount (outside s) = (r, w) \<Longrightarrow>
     dummy_step E N s (s\<lparr>outside := w\<rparr>)"
| node_event: "refundable event (outside s) \<Longrightarrow> dummy_handle_event E N event s = (r, s') \<Longrightarrow>
     dummy_step E N s s'"
| world: "dummy_step E N s (s\<lparr>outside := (outside s)\<lparr>dm_world := m\<rparr>\<rparr>)"
| others: "outside s' = outside s \<Longrightarrow> dummy_step E N s s'"

subsection \<open>The arithmetic of the counter\<close>

lemma wrap_sub_mod:
  fixes M :: nat
  assumes "0 < M"
  shows "((b + (M - a mod M)) mod M + (x + a)) mod M = (b + x) mod M"
proof -
  have "M - a mod M + a = M + a div M * M"
    using assms mod_le_divisor [of M a] div_mult_mod_eq [of a M] by linarith
  then have "b + (M - a mod M) + (x + a) = b + x + (1 + a div M) * M" by (simp add: algebra_simps)
  then have "(b + (M - a mod M) + (x + a)) mod M = (b + x) mod M" by (metis mod_mult_self1)
  then show ?thesis by (simp add: mod_simps)
qed

lemma books_sent:
  assumes "books w"
  shows "books (record_sent N i amount w)"
proof -
  let ?M = "u64_max + 1"
  have "(u64_wrapping_sub (current_bal_msats w) amount + (total_amount True (dm_payments w) + amount)) mod ?M
      = (current_bal_msats w + total_amount True (dm_payments w)) mod ?M"
    unfolding u64_wrapping_sub_def by (rule wrap_sub_mod) simp
  moreover have "u64_wrapping_sub (current_bal_msats w) amount \<le> u64_max"
    unfolding u64_wrapping_sub_def by (metis Suc_eq_plus1 less_Suc_eq_le mod_less_divisor zero_less_Suc)
  ultimately show ?thesis using assms by (simp add: books_def record_sent_def Let_def)
qed

lemma u64_wrapping_add_le: "u64_wrapping_add a b \<le> u64_max"
  unfolding u64_wrapping_add_def by (metis Suc_eq_plus1 less_Suc_eq_le mod_less_divisor zero_less_Suc)

lemma total_removed:
  "find (\<lambda>p. p_id p = i) ps = Some p \<Longrightarrow> p_outbound p \<Longrightarrow>
   total_amount True ps = total_amount True (remove_payment i ps) + p_amount p
   \<and> total_amount False (remove_payment i ps) = total_amount False ps"
  by (induction ps) (auto split: if_splits)

lemma total_completed:
  "complete_payment A i fee ps = Ok qs \<Longrightarrow> total_amount out qs = total_amount out ps"
  by (induction ps arbitrary: qs) (auto split: if_splits option.splits result.splits)

lemma books_refunded:
  assumes "books w" and "case find (\<lambda>p. p_id p = i) (dm_payments w) of Some p \<Rightarrow> p_outbound p | None \<Rightarrow> True"
  shows "books (refund_failed i w)"
proof (cases "find (\<lambda>p. p_id p = i) (dm_payments w)")
  case (Some p)
  then have out: "p_outbound p" using assms(2) by simp
  let ?M = "u64_max + 1"
  have "(u64_wrapping_add (current_bal_msats w) (p_amount p) + total_amount True (remove_payment i (dm_payments w))) mod ?M
      = (current_bal_msats w + total_amount True (dm_payments w)) mod ?M"
    using total_removed [OF Some out] unfolding u64_wrapping_add_def by (simp add: mod_simps algebra_simps)
  then show ?thesis using assms(1) Some total_removed [OF Some out]
    by (simp add: books_def refund_failed_def u64_wrapping_add_le)
qed (use assms in \<open>simp add: refund_failed_def\<close>)

lemma books_received:
  assumes "books w" and "\<not> p_outbound p"
  shows "books (w\<lparr>dm_payments := dm_payments w @ [p],
     current_bal_msats := u64_wrapping_add (current_bal_msats w) (p_amount p)\<rparr>)"
proof -
  let ?M = "u64_max + 1"
  have "(u64_wrapping_add (current_bal_msats w) (p_amount p) + total_amount True (dm_payments w)) mod ?M
      = ((current_bal_msats w + total_amount True (dm_payments w)) mod ?M + p_amount p) mod ?M"
    unfolding u64_wrapping_add_def by (simp add: mod_simps algebra_simps)
  also have "\<dots> = (total_amount False (dm_payments w) + p_amount p) mod ?M"
    using assms(1) unfolding books_def by (simp add: mod_simps)
  finally show ?thesis using assms by (simp add: books_def u64_wrapping_add_le)
qed

subsection \<open>Every step keeps the books\<close>

lemma books_frame [simp]:
  "books (w\<lparr>dm_world := m\<rparr>) = books w" "books (w\<lparr>dm_success_signals := n\<rparr>) = books w"
  by (simp_all add: books_def)

lemma node_call_frame: "node_call f w = (r, w') \<Longrightarrow> \<exists>m. w' = w\<lparr>dm_world := m\<rparr>"
  by (auto simp: node_call_def split: prod.splits)

lemma books_node_call [simp]: "books (snd (node_call f w)) = books w"
  using node_call_frame [of f w] by (metis books_frame(1) prod.collapse)

lemmas books_and_then = and_then_state [where P = books]
lemmas books_state_and_then = and_then_state [where P = "\<lambda>s. books (outside s)"]
lemmas outside_and_then = and_then_state [where P = "\<lambda>s. outside s = w" for w]

lemma books_node_unwrap: "books (snd (node_unwrap f w)) = books w"
  by (simp add: node_unwrap_def snd_expect)

lemma books_send: "books w \<Longrightarrow> books (snd (dummy_send N via amount w))"
  unfolding dummy_send_def
  by (cases via) (simp_all add: books_node_unwrap books_and_then)

lemma books_pay: "books w \<Longrightarrow> books (snd (dummy_pay N via amount w))"
  unfolding dummy_pay_def by (intro books_and_then books_send) (simp_all add: books_sent)

lemma books_pay_partial: "books w \<Longrightarrow> books (snd (dummy_pay_partial N invoice amount w))"
  unfolding dummy_pay_partial_def by (intro books_and_then) (simp_all add: Let_def books_sent snd_map_err)

lemma add_event_unwrap_outside [simp]: "outside (snd (add_event_unwrap E e s)) = outside s"
  using local_add_event [OF local_step_refl, of s E e] by (simp add: add_event_unwrap_def snd_expect local_step_def)

lemma set_preimage_outside [simp]: "outside (snd (set_preimage E i p s)) = outside s"
  using prepared_set_preimage [of s E i p] by (simp add: prepared_def)

lemma snd_ignore [simp]: "snd (ignore_error r) = snd r"
  by (simp add: ignore_error_def split: prod.split result.split)

lemma books_signal: "books (outside s) \<Longrightarrow> books (outside (snd (dummy_signal_success s)))"
  by (simp add: dummy_signal_success_def)

lemma books_dummy_sent:
  assumes "books (outside s)"
  shows "books (outside (snd (dummy_sent E N i h p fee s)))"
proof (cases "complete_payment (dn_amounts N) i fee (dm_payments (outside s))")
  case (Ok ps)
  let ?t = "s\<lparr>outside := (outside s)\<lparr>dm_payments := ps\<rparr>\<rparr>"
  have t: "books (outside ?t)" using assms total_completed [OF Ok] by (simp add: books_def)
  have "outside (snd (and_then (unwrap_option p, ?t) (\<lambda>pre s.
         and_then (ignore_error (set_preimage E (Trusted i) pre s)) (\<lambda>_ s.
           add_event_unwrap E (PaymentSuccessful (Trusted i) h pre fee) s)))) = outside ?t"
    by (intro outside_and_then) simp_all
  with t show ?thesis
    unfolding dummy_sent_def Let_def Ok and_then.simps
    by (intro books_state_and_then books_signal) simp_all
qed (use assms in \<open>simp_all add: dummy_sent_def\<close>)

lemma books_dummy_failed:
  assumes "books (outside s)" "case find (\<lambda>p. p_id p = i) (dm_payments (outside s)) of Some p \<Rightarrow> p_outbound p | None \<Rightarrow> True"
  shows "books (outside (snd (dummy_failed E i h reason s)))"
  unfolding dummy_failed_def Let_def using books_refunded [OF assms]
  by (intro books_state_and_then) (auto simp: dummy_signal_success_def)

lemma books_dummy_received:
  assumes "amount_laws (dn_amounts N)" "books (outside s)"
  shows "books (outside (snd (dummy_received E N i h n s)))"
proof (cases "n \<le> amount_max")
  case True
  then have "from_milli_sats (dn_amounts N) n = Ok n" using assms(1) by (simp add: amount_laws_def)
  then show ?thesis
    using books_received [OF assms(2), of "\<lparr>p_id = i, p_amount = n, p_fee = 0, p_status = Completed,
      p_outbound = False, p_time_since_epoch = dummy_now N (outside s)\<rparr>"]
    by (simp add: dummy_received_def Let_def)
next
  case False
  then have "from_milli_sats (dn_amounts N) n = Err ()" using assms(1) by (simp add: amount_laws_def)
  then show ?thesis using assms(2) by (simp add: dummy_received_def)
qed

lemma books_event:
  assumes "amount_laws (dn_amounts N)" "books (outside s)" "refundable event (outside s)"
  shows "books (outside (snd (dummy_handle_event E N event s)))"
proof -
  have "books (outside (snd (dummy_process_event E N event s)))"
  proof (cases event)
    case (Ldk_PaymentSuccessful i h p fee)
    with assms show ?thesis by (cases i) (simp_all add: dummy_process_event_def books_dummy_sent)
  next
    case (Ldk_PaymentFailed i h reason)
    with assms show ?thesis by (cases i) (simp_all add: dummy_process_event_def books_dummy_failed)
  next
    case (Ldk_PaymentReceived i h n records)
    with assms show ?thesis by (cases i) (simp_all add: dummy_process_event_def books_dummy_received)
  qed (use assms in \<open>simp_all add: dummy_process_event_def\<close>)
  then show ?thesis unfolding dummy_handle_event_def
    by (intro books_state_and_then) (simp_all add: outside_call_def split: prod.split, metis books_node_call snd_conv)
qed

lemma books_step:
  assumes "dummy_step E N s s'" "amount_laws (dn_amounts N)" "books (outside s)"
  shows "books (outside s')"
  using assms
proof (induction rule: dummy_step.induct)
  case (paid via amount s r w)
  with books_pay [of "outside s" N via amount] show ?case by simp
next
  case (paid_partly invoice amount s r w)
  with books_pay_partial [of "outside s" N invoice amount] show ?case by simp
next
  case (node_event event s r s')
  with books_event [of N s event E] show ?case by simp
qed simp_all

subsection \<open>The properties\<close>

text \<open>
  C39. The books of the test wallet balance. Whatever payments are made, whole or partial, whatever the
  node reports, failures and panics included, and whatever else happens meanwhile: starting from an
  empty wallet, the balance plus the payments sent and not refunded is the sum received, modulo the
  64 bits of the counter; when no more was sent than received, and that fits, the balance is exactly
  the difference.
\<close>

theorem dummy_books_balance:
  assumes "amount_laws (dn_amounts N)" and "(dummy_step E N)\<^sup>*\<^sup>* s s'"
    and "current_bal_msats (outside s) = 0" and "dm_payments (outside s) = []"
    and "w = outside s'"
  shows "(current_bal_msats w + total_amount True (dm_payments w)) mod (u64_max + 1)
      = total_amount False (dm_payments w) mod (u64_max + 1)
    \<and> (total_amount True (dm_payments w) \<le> total_amount False (dm_payments w) \<and>
       total_amount False (dm_payments w) \<le> u64_max \<longrightarrow>
       current_bal_msats w = total_amount False (dm_payments w) - total_amount True (dm_payments w))"
proof -
  have "books (outside s')" using assms(2,1,3,4)
    by (induction rule: rtranclp_induct) (simp_all add: books_def [of "outside s"] books_step)
  then have b: "current_bal_msats w \<le> u64_max"
      "(current_bal_msats w + total_amount True (dm_payments w)) mod (u64_max + 1)
        = total_amount False (dm_payments w) mod (u64_max + 1)"
    by (simp_all add: books_def assms(5))
  moreover have "x = r - t" if "x \<le> m" "(x + t) mod (m + 1) = r mod (m + 1)" "t \<le> r" "r \<le> m" for x t r m :: nat
    using that by (cases "x + t < m + 1") (simp_all add: le_mod_geq)
  ultimately show ?thesis by blast
qed

lemma mangle_payment_id_inject: "mangle_payment_id i = mangle_payment_id j \<longleftrightarrow> i = j"
  unfolding mangle_payment_id_def by (auto intro: map_injective simp: inj_def)

lemma mangle_payment_id_other: "i \<noteq> [] \<Longrightarrow> mangle_payment_id i \<noteq> i"
  by (cases i) (simp_all add: mangle_payment_id_def)

subsection \<open>A run\<close>

definition sample_dummy_node :: "unit dummy_node" where
  "sample_dummy_node = ldk_node_ops.extend
     ((ldk_node_ops.truncate (sample_node 1))\<lparr>nd_bolt11_send_using_amount := \<lambda>_ _ w. (Ok (replicate 32 3), w)\<rparr>)
     (dummy_node.fields (\<lambda>w. (Ok ''lno'', w)) (\<lambda>w. (False, w)) (\<lambda>_. ''error'') msat_ops)"

definition sample_dummy :: "unit dummy_outside" where
  "sample_dummy = \<lparr>dm_world = (), current_bal_msats = 0, dm_payments = [], dm_success_signals = 0,
     dm_success_receivers = 1\<rparr>"

definition dummy_after_receipt :: "(mem_kv, unit dummy_outside) wallet_state" where
  "dummy_after_receipt = snd (dummy_handle_event sample_wallet_env sample_dummy_node
     (Ldk_PaymentReceived (Some (replicate 32 1)) (replicate 32 2) 100 []) (sample_state sample_dummy))"

definition dummy_after_payment :: "(mem_kv, unit dummy_outside) wallet_state" where
  "dummy_after_payment = dummy_after_receipt\<lparr>outside :=
     snd (dummy_pay sample_dummy_node (LightningBolt11 sample_invoice) 30 (outside dummy_after_receipt))\<rparr>"

lemma dummy_run: "(dummy_step sample_wallet_env sample_dummy_node)\<^sup>*\<^sup>* (sample_state sample_dummy) dummy_after_payment"
proof -
  have "dummy_step sample_wallet_env sample_dummy_node (sample_state sample_dummy) dummy_after_receipt"
    unfolding dummy_after_receipt_def by (rule node_event [OF _ prod.collapse [symmetric]]) simp
  moreover have "dummy_step sample_wallet_env sample_dummy_node dummy_after_receipt dummy_after_payment"
    unfolding dummy_after_payment_def by (rule paid [OF prod.collapse [symmetric]])
  ultimately show ?thesis by (meson converse_rtranclp_into_rtranclp r_into_rtranclp)
qed

lemma dummy_run_amounts:
  "current_bal_msats (outside (sample_state sample_dummy)) = 0"
  "dm_payments (outside (sample_state sample_dummy)) = []"
  "map p_amount (dm_payments (outside dummy_after_payment)) = [100, 30]"
  "map p_outbound (dm_payments (outside dummy_after_payment)) = [False, True]"
  by code_simp+

theorem dummy_books_balance_witness:
  "current_bal_msats (outside dummy_after_payment) = 70"
proof -
  have laws: "amount_laws (dn_amounts sample_dummy_node)"
    using msat.amount_laws_axioms by (simp add: sample_dummy_node_def ldk_node_ops.defs dummy_node.defs)
  obtain p q where pq: "dm_payments (outside dummy_after_payment) = [p, q]"
    "p_amount p = 100" "p_amount q = 30" "\<not> p_outbound p" "p_outbound q"
    using dummy_run_amounts(3,4) by (auto simp: map_eq_Cons_conv)
  show ?thesis
    using dummy_books_balance [OF laws dummy_run dummy_run_amounts(1,2) refl] pq by (simp add: u64_max_def)
qed

end
