(* ===== verification/Trusted_Startup.thy ===== *)
theory Trusted_Startup
  imports Cashu_Store Spark_Store Spark_Wallet Payment_Info
begin

text \<open>
  How the two trusted wallets start: \<open>Cashu::init\<close> with the tasks it spawns
  (\<open>trusted_wallet/cashu/mod.rs\<close>) and \<open>Spark::init\<close> (\<open>trusted_wallet/spark/mod.rs\<close>). What cdk, the Breez
  SDK and the cryptographic crates compute is a parameter. The state is the store, the world of the
  SDK, and what this code adds to it: the tasks spawned, in order, and the quotes handed to the
  monitoring task. The effects of cdk on its own database are part of its world.
\<close>

datatype Seed = Mnemonic string "string option" | Seed64 bytes

datatype Network = Bitcoin | Testnet | Testnet4 | Signet | Regtest

subsection \<open>Cashu\<close>

record CashuConfig =
  cc_mint_url :: string
  cc_unit :: CurrencyUnit
  cc_npubcash_url :: "string option"

text \<open>What the mint says it supports: the methods of NUT-04, the methods and units of NUT-15, of those known here.\<close>

record MintNuts =
  nut04_methods :: "CdkPaymentMethod list"
  nut15_methods :: "(CdkPaymentMethod \<times> CurrencyUnit) list"

record ('s, 'w) cdk_start =
  cs_wallet_new :: "string \<Rightarrow> CurrencyUnit \<Rightarrow> 's cashu_db \<Rightarrow> bytes \<Rightarrow> 'w \<Rightarrow> (CdkError, unit) result \<times> 'w"
  cs_recover_incomplete_sagas :: "'w \<Rightarrow> (CdkError, nat) result \<times> 'w"
  cs_fetch_mint_info :: "'w \<Rightarrow> (CdkError, MintNuts option) result \<times> 'w"
  cs_get_active_mint_quotes :: "'w \<Rightarrow> (CdkError, MintQuote list) result \<times> 'w"
  cs_check_all_mint_quotes :: "'w \<Rightarrow> (CdkError, unit) result \<times> 'w"
  cs_restore :: "'w \<Rightarrow> (CdkError, u64) result \<times> 'w"
  cs_enable_npubcash :: "string \<Rightarrow> 'w \<Rightarrow> (CdkError, unit) result \<times> 'w"
  cs_sync_npubcash_quotes :: "'w \<Rightarrow> (CdkError, MintQuote list) result \<times> 'w"
  cs_quote_paid :: "MintQuote \<Rightarrow> bool"
  cs_mnemonic_to_seed :: "string \<Rightarrow> string \<Rightarrow> bytes"
  cs_start_sha256 :: "bytes \<Rightarrow> bytes32"
  cs_x_only_public_key :: "bytes32 \<Rightarrow> string + bytes"
  cs_bech32_encode :: "string \<Rightarrow> bytes \<Rightarrow> string + string"
  cs_unit_text :: "CurrencyUnit \<Rightarrow> string"

datatype cashu_task = Fetch_Mint_Info | Monitor_Quotes | Check_Quotes | Restore_Funds | Poll_Npubcash string

record ('s, 'w) cashu_startup =
  cu_disk :: 's
  cu_world :: 'w
  cu_tasks :: "cashu_task list"
  cu_quotes :: "MintQuote list"

definition cu_call :: "('w \<Rightarrow> 'a \<times> 'w) \<Rightarrow> ('s, 'w) cashu_startup \<Rightarrow> 'a \<times> ('s, 'w) cashu_startup" where
  "cu_call f s = (case f (cu_world s) of (r, w) \<Rightarrow> (r, s\<lparr>cu_world := w\<rparr>))"

definition cu_spawn :: "cashu_task \<Rightarrow> ('s, 'w) cashu_startup \<Rightarrow> ('s, 'w) cashu_startup" where
  "cu_spawn t s = s\<lparr>cu_tasks := cu_tasks s @ [t]\<rparr>"

text \<open>The seed of the wallet: a raw seed is hashed, and the 32 bytes are used twice.\<close>

definition cashu_seed :: "('s, 'w) cdk_start \<Rightarrow> Seed \<Rightarrow> bytes" where
  "cashu_seed X seed = (case seed of
     Seed64 b \<Rightarrow> cs_start_sha256 X b @ cs_start_sha256 X b
   | Mnemonic mnemonic passphrase \<Rightarrow>
       cs_mnemonic_to_seed X mnemonic (case passphrase of Some p \<Rightarrow> p | None \<Rightarrow> ''''))"

definition derive_npub :: "('s, 'w) cdk_start \<Rightarrow> bytes \<Rightarrow> string + string" where
  "derive_npub X seed = (case cs_x_only_public_key X (take 32 seed) of
     Inl e \<Rightarrow> Inl (''Invalid secret key: '' @ e)
   | Inr xonly \<Rightarrow> (case cs_bech32_encode X ''npub'' xonly of
       Inl e \<Rightarrow> Inl (''bech32 encode: '' @ e) | Inr npub \<Rightarrow> Inr npub))"

text \<open>The unit is checked first; then the database, the wallet and the recovery of old operations.\<close>

definition cashu_open :: "('s, 'e) cashu_env_scheme \<Rightarrow> ('s, 'w) cdk_start \<Rightarrow> CashuConfig \<Rightarrow> bytes \<Rightarrow>
    ('s, 'w) cashu_startup \<Rightarrow> (InitFailure, unit) result \<times> ('s, 'w) cashu_startup" where
  "cashu_open C X cfg seed s =
     (case CashuKvDatabase_new C (cu_disk s) of
        (Err e, db) \<Rightarrow> (Err (Init_TrustedFailure (Other_TrustedError
            (''Failed to create Cashu database: '' @ DatabaseError_to_string C e))), s\<lparr>cu_disk := db_store db\<rparr>)
      | (Panic m, db) \<Rightarrow> (Panic m, s\<lparr>cu_disk := db_store db\<rparr>)
      | (Ok _, db) \<Rightarrow>
          (let s = s\<lparr>cu_disk := db_store db\<rparr> in
           and_then (map_err (\<lambda>e. Init_TrustedFailure (Other_TrustedError (''Failed to create Cashu wallet: '' @ e)))
               (cu_call (cs_wallet_new X (cc_mint_url cfg) (cc_unit cfg) db seed) s)) (\<lambda>_ s.
           and_then (map_err (\<lambda>e. Init_TrustedFailure (WalletOperationFailed
                 (''Failed to recover Cashu operations: '' @ e)))
               (cu_call (cs_recover_incomplete_sagas X) s)) (\<lambda>_ s. (Ok (), s)))))"

definition send_active_quotes :: "('s, 'w) cdk_start \<Rightarrow> ('s, 'w) cashu_startup \<Rightarrow>
    (InitFailure, unit) result \<times> ('s, 'w) cashu_startup" where
  "send_active_quotes X s = (case cu_call (cs_get_active_mint_quotes X) s of
     (Ok pending_mints, s) \<Rightarrow> (Ok (), s\<lparr>cu_quotes := cu_quotes s @ pending_mints\<rparr>)
   | (Err _, s) \<Rightarrow> (Ok (), s)
   | (Panic m, s) \<Rightarrow> (Panic m, s))"

definition start_restore :: "('s, 'e) cashu_env_scheme \<Rightarrow> ('s, 'w) cashu_startup \<Rightarrow>
    (InitFailure, unit) result \<times> ('s, 'w) cashu_startup" where
  "start_restore C s = (case read_has_recovered (cashu_kvs C) (cu_disk s) of
     (Ok has_recovered, d) \<Rightarrow>
       (let s = s\<lparr>cu_disk := d\<rparr> in (Ok (), if has_recovered then s else cu_spawn Restore_Funds s))
   | (Err e, d) \<Rightarrow> (Err (InitFailure_from_trusted e), s\<lparr>cu_disk := d\<rparr>)
   | (Panic m, d) \<Rightarrow> (Panic m, s\<lparr>cu_disk := d\<rparr>))"

definition start_npubcash :: "('s, 'w) cdk_start \<Rightarrow> CashuConfig \<Rightarrow> bytes \<Rightarrow> ('s, 'w) cashu_startup \<Rightarrow>
    (InitFailure, string option) result \<times> ('s, 'w) cashu_startup" where
  "start_npubcash X cfg seed s = (case cc_npubcash_url cfg of
     None \<Rightarrow> (Ok None, s)
   | Some url \<Rightarrow> (case derive_npub X seed of
       Inl e \<Rightarrow> (Err (Init_TrustedFailure (WalletOperationFailed (''Failed to derive npub: '' @ e))), s)
     | Inr npub \<Rightarrow> (Ok (Some npub), cu_spawn (Poll_Npubcash url) s)))"

text \<open>\<open>Cashu::init\<close>; the result is the derived npub, the only part of the new wallet it computes.\<close>

definition Cashu_init :: "('s, 'e) cashu_env_scheme \<Rightarrow> ('s, 'w) cdk_start \<Rightarrow> CashuConfig \<Rightarrow> Seed \<Rightarrow>
    ('s, 'w) cashu_startup \<Rightarrow> (InitFailure, string option) result \<times> ('s, 'w) cashu_startup" where
  "Cashu_init C X cfg seed s = (if cc_unit cfg \<noteq> Cu_Sat \<and> cc_unit cfg \<noteq> Cu_Msat
     then (Err (Init_TrustedFailure (Other_TrustedError
         (''Unsupported currency unit '' @ cs_unit_text X (cc_unit cfg) @ '' for Cashu wallet''))), s)
     else
       (let bytes = cashu_seed X seed in
        and_then (cashu_open C X cfg bytes s) (\<lambda>_ s.
        and_then (send_active_quotes X (cu_spawn Monitor_Quotes (cu_spawn Fetch_Mint_Info s))) (\<lambda>_ s.
        and_then (start_restore C (cu_spawn Check_Quotes s)) (\<lambda>_ s.
          start_npubcash X cfg bytes s)))))"

subsection \<open>The tasks of the Cashu wallet\<close>

text \<open>\<open>Fetch_Mint_Info\<close> sets the two flags from what the mint supports; an error leaves them.\<close>

definition fetch_mint_info_task :: "('s, 'w) cdk_start \<Rightarrow> CurrencyUnit \<Rightarrow> 'w cashu_outside \<Rightarrow>
    (unit, unit) result \<times> 'w cashu_outside" where
  "fetch_mint_info_task X u w = (case mint_call (cs_fetch_mint_info X) w of
     (Ok (Some nuts), w) \<Rightarrow> (Ok (), w\<lparr>
         supports_bolt12 := supports_bolt12 w \<or> Cdk_Bolt12 \<in> set (nut04_methods nuts),
         supports_mpp := supports_mpp w \<or> (Cdk_Bolt11, u) \<in> set (nut15_methods nuts)\<rparr>)
   | (Panic m, w) \<Rightarrow> (Panic m, w)
   | (_, w) \<Rightarrow> (Ok (), w))"

text \<open>
  One turn of \<open>Monitor_Quotes\<close>: either the shutdown is seen and the loop ends, or the next quote is
  received and a task is spawned that monitors it.
\<close>

inductive monitor_turn :: "'w cashu_outside \<times> MintQuote list \<Rightarrow> 'w cashu_outside \<times> MintQuote list \<Rightarrow> bool" where
  monitor_shutdown: "monitor_alive w \<Longrightarrow> cashu_shutdown w \<Longrightarrow>
     monitor_turn (w, monitored) (w\<lparr>monitor_alive := False\<rparr>, monitored)"
| monitor_quote: "monitor_alive w \<Longrightarrow> quotes_to_monitor w = q # qs \<Longrightarrow>
     monitor_turn (w, monitored) (w\<lparr>quotes_to_monitor := qs\<rparr>, monitored @ [q])"

text \<open>\<open>Restore_Funds\<close>: the flag is written only after the funds were restored.\<close>

definition restore_task :: "'s kv_ops \<Rightarrow> ('s, 'w) cdk_start \<Rightarrow> ('s, 'w) cashu_startup \<Rightarrow>
    (unit, unit) result \<times> ('s, 'w) cashu_startup" where
  "restore_task K X s = (case cu_call (cs_restore X) s of
     (Err _, s) \<Rightarrow> (Ok (), s)
   | (Panic m, s) \<Rightarrow> (Panic m, s)
   | (Ok _, s) \<Rightarrow> (case write_has_recovered K True (cu_disk s) of
       (Panic m, d) \<Rightarrow> (Panic m, s\<lparr>cu_disk := d\<rparr>) | (_, d) \<Rightarrow> (Ok (), s\<lparr>cu_disk := d\<rparr>)))"

definition check_quotes_task :: "('s, 'w) cdk_start \<Rightarrow> 'w cashu_outside \<Rightarrow> (unit, unit) result \<times> 'w cashu_outside" where
  "check_quotes_task X w = ignore_error (mint_call (cs_check_all_mint_quotes X) w)"

text \<open>\<open>Poll_Npubcash\<close> enables the service, and ends if that fails; the outcome is whether it goes on.\<close>

definition npubcash_enable :: "('s, 'w) cdk_start \<Rightarrow> string \<Rightarrow> 'w cashu_outside \<Rightarrow>
    (unit, bool) result \<times> 'w cashu_outside" where
  "npubcash_enable X url w = (case mint_call (cs_enable_npubcash X url) w of
     (Ok _, w) \<Rightarrow> (Ok True, w) | (Err _, w) \<Rightarrow> (Ok False, w) | (Panic m, w) \<Rightarrow> (Panic m, w))"

text \<open>One tick of \<open>Poll_Npubcash\<close>: the paid quotes are handed to the monitoring task.\<close>

definition npubcash_tick :: "('s, 'w) cdk_start \<Rightarrow> 'w cashu_outside \<Rightarrow> (unit, unit) result \<times> 'w cashu_outside" where
  "npubcash_tick X w = (case mint_call (cs_sync_npubcash_quotes X) w of
     (Ok quotes, w) \<Rightarrow> (Ok (), fold (\<lambda>q w. if cs_quote_paid X q then send_for_monitoring q w else w) quotes w)
   | (Err _, w) \<Rightarrow> (Ok (), w)
   | (Panic m, w) \<Rightarrow> (Panic m, w))"

subsection \<open>Spark\<close>

record SparkWalletConfig =
  sc_sync_interval_secs :: u32
  sc_prefer_spark_over_lightning :: bool
  sc_lnurl_domain :: "string option"

definition SparkWalletConfig_default :: SparkWalletConfig where
  "SparkWalletConfig_default = \<lparr>sc_sync_interval_secs = 60, sc_prefer_spark_over_lightning = False,
     sc_lnurl_domain = Some ''breez.tips''\<rparr>"

datatype BreezNetwork = Bz_Mainnet | Bz_Regtest

text \<open>The fields this code sets; all others are those of \<open>default_config\<close>.\<close>

record BreezConfig =
  bc_network :: BreezNetwork
  bc_sync_interval_secs :: u32
  bc_prefer_spark_over_lightning :: bool
  bc_external_input_parsers :: "bytes option"
  bc_use_default_external_input_parsers :: bool
  bc_real_time_sync_server_url :: "string option"
  bc_api_key :: "string option"
  bc_max_deposit_claim_fee :: "u64 option"
  bc_lnurl_domain :: "string option"
  bc_private_enabled_default :: bool
  bc_leaf_auto_enabled :: bool
  bc_leaf_multiplicity :: nat
  bc_stable_balance_config :: "bytes option"
  bc_max_concurrent_claims :: u32
  bc_spark_config :: "bytes option"
  bc_default :: BreezNetwork

definition into_breez_config :: "string \<Rightarrow> SparkWalletConfig \<Rightarrow> Network \<Rightarrow> (TrustedError, BreezConfig) result" where
  "into_breez_config api_key cfg network =
     (let breez = (\<lambda>n. Ok \<lparr>bc_network = n, bc_sync_interval_secs = sc_sync_interval_secs cfg,
          bc_prefer_spark_over_lightning = sc_prefer_spark_over_lightning cfg,
          bc_external_input_parsers = None, bc_use_default_external_input_parsers = False, bc_real_time_sync_server_url = None,
          bc_api_key = Some api_key, bc_max_deposit_claim_fee = None,
          bc_lnurl_domain = sc_lnurl_domain cfg, bc_private_enabled_default = True,
          bc_leaf_auto_enabled = True, bc_leaf_multiplicity = 1, bc_stable_balance_config = None, bc_max_concurrent_claims = 4,
          bc_spark_config = None, bc_default = n\<rparr>)
      in case network of
           Bitcoin \<Rightarrow> breez Bz_Mainnet
         | Regtest \<Rightarrow> breez Bz_Regtest
         | _ \<Rightarrow> Err InvalidNetwork)"

datatype BreezSeed = Bz_Entropy bytes | Bz_Mnemonic string "string option"

fun breez_seed :: "Seed \<Rightarrow> BreezSeed" where
  "breez_seed (Seed64 b) = Bz_Entropy b"
| "breez_seed (Mnemonic mnemonic passphrase) = Bz_Mnemonic mnemonic passphrase"

record 'w spark_start =
  ss_build :: "BreezConfig \<Rightarrow> BreezSeed \<Rightarrow> 'w \<Rightarrow> (SdkError, unit) result \<times> 'w"
  ss_add_event_listener :: "'w \<Rightarrow> string \<times> 'w"
  ss_remove_event_listener :: "string \<Rightarrow> 'w \<Rightarrow> 'w"
  ss_sdk_error_from_storage :: "StorageError \<Rightarrow> SdkError"
  ss_error_debug :: "SdkError \<Rightarrow> string"
  ss_api_key :: string

text \<open>
  The store, the world of the SDK, and the identifiers of the listeners that a background task will
  remove once the shutdown is signalled.
\<close>

record ('s, 'w) spark_startup =
  su_disk :: 's
  su_world :: 'w
  su_listeners :: "string list"

definition Spark_init :: "('s, 'x) spark_env_scheme \<Rightarrow> 'w spark_start \<Rightarrow> SparkWalletConfig \<Rightarrow> Network \<Rightarrow>
    Seed \<Rightarrow> ('s, 'w) spark_startup \<Rightarrow> (InitFailure, unit) result \<times> ('s, 'w) spark_startup" where
  "Spark_init E X cfg network seed s =
     and_then (map_err InitFailure_from_trusted (into_breez_config (ss_api_key X) cfg network, s)) (\<lambda>config s.
       case migrate_deposit_details E (su_disk s) of
         (Err e, d) \<Rightarrow> (Err (Init_TrustedFailure (WalletOperationFailed
             (ss_error_debug X (ss_sdk_error_from_storage X e)))), s\<lparr>su_disk := d\<rparr>)
       | (Panic m, d) \<Rightarrow> (Panic m, s\<lparr>su_disk := d\<rparr>)
       | (Ok _, d) \<Rightarrow>
           (let s = s\<lparr>su_disk := d\<rparr> in
            case ss_build X config (breez_seed seed) (su_world s) of
              (Err e, w) \<Rightarrow> (Err (Init_TrustedFailure (WalletOperationFailed (ss_error_debug X e))), s\<lparr>su_world := w\<rparr>)
            | (Panic m, w) \<Rightarrow> (Panic m, s\<lparr>su_world := w\<rparr>)
            | (Ok _, w) \<Rightarrow>
                (case ss_add_event_listener X w of
                   (listener_id, w) \<Rightarrow>
                     (Ok (), s\<lparr>su_world := w, su_listeners := su_listeners s @ [listener_id]\<rparr>))))"

text \<open>The background task after the shutdown.\<close>

definition remove_listener_task :: "'w spark_start \<Rightarrow> string \<Rightarrow> ('s, 'w) spark_startup \<Rightarrow> ('s, 'w) spark_startup" where
  "remove_listener_task X listener_id s =
     s\<lparr>su_world := ss_remove_event_listener X listener_id (su_world s),
       su_listeners := remove1 listener_id (su_listeners s)\<rparr>"

end
