(* ===== verification/Wallet_New.thy ===== *)
theory Wallet_New
  imports Trusted_Startup Rebalance_Trigger
begin

text \<open>
  How the wallet starts: the configuration types and \<open>Wallet::new\<close> (\<open>lib.rs\<close>), and the configuration
  and start of the node (\<open>LightningWallet::init\<close>, \<open>lightning_wallet.rs\<close>). Opening a store, building and
  starting the node and the start of the trusted wallets' SDKs are calls into other crates. The
  trusted wallet and the node start concurrently, on separate worlds; only the trusted wallet
  touches the records of this code in the store, so that their interleaving does not matter.
\<close>

subsection \<open>Configuration\<close>

datatype VssAuth =
    LNURLAuthServer string
  | FixedHeaders "(string \<times> string) list"
  | SigsAuth

record VssConfig =
  vss_url :: string
  vss_store_id :: string
  vss_headers :: VssAuth

datatype StorageConfig = LocalSQLite string | Vss VssConfig

datatype ChainSource =
    Electrum string
  | Esplora string "string option" "string option"
  | BitcoindRPC string u16 string string

datatype ExtraConfig = Ex_Spark SparkWalletConfig | Ex_Cashu CashuConfig | Ex_Dummy

datatype LoggerType = LogFacade | LogFile string

record WalletConfig =
  wc_storage_config :: StorageConfig
  wc_logger_type :: LoggerType
  wc_chain_source :: ChainSource
  wc_lsp :: "string \<times> PublicKey \<times> string option"
  wc_scorer_url :: "string option"
  wc_rgs_url :: "string option"
  wc_network :: Network
  wc_seed :: Seed
  wc_tunables :: Tunables
  wc_extra_config :: ExtraConfig

datatype NodeEntropy = Ent_Seed bytes | Ent_Mnemonic string "string option"

fun to_node_entropy :: "Seed \<Rightarrow> NodeEntropy" where
  "to_node_entropy (Seed64 s) = Ent_Seed s"
| "to_node_entropy (Mnemonic mnemonic passphrase) = Ent_Mnemonic mnemonic passphrase"

text \<open>The text \<open>Debug\<close> prints of a seed.\<close>

definition redacted :: string where
  "redacted = CHR 0x22 # ''<redacted>'' @ [CHR 0x22]"

fun Seed_debug :: "Seed \<Rightarrow> string" where
  "Seed_debug (Mnemonic _ _) = ''Mnemonic { mnemonic: '' @ redacted @ '', passphrase: '' @ redacted @ '' }''"
| "Seed_debug (Seed64 _) = ''Seed64('' @ redacted @ '')''"

subsection \<open>The node\<close>

datatype gossip_source = Gossip_Rgs string | Gossip_P2p

record BackgroundSyncConfig =
  bs_onchain_wallet_sync_interval_secs :: u64
  bs_lightning_wallet_sync_interval_secs :: u64
  bs_fee_rate_cache_update_interval_secs :: u64

text \<open>A sync configuration is the one set here or the default of ldk-node.\<close>

datatype sync_config = Sync_Default | Sync_Background BackgroundSyncConfig

datatype chain_config =
    Chain_Esplora string "(string \<times> string) list" sync_config
  | Chain_Electrum string "sync_config option"
  | Chain_Bitcoind string u16 string string

text \<open>What this code sets on the builder of ldk-node.\<close>

record NodeBuilder =
  nb_trusted_peers_no_reserve :: "PublicKey list"
  nb_enable_zero_fee_commitments :: bool
  nb_network :: Network
  nb_gossip_source :: "gossip_source option"
  nb_liquidity_source :: "PublicKey \<times> string \<times> string option \<times> bool"
  nb_chain_source :: chain_config
  nb_pathfinding_scores_source :: "string option"

definition gossip_source_for :: "string option \<Rightarrow> Network \<Rightarrow> gossip_source option" where
  "gossip_source_for rgs_url network = (case rgs_url of
     Some url \<Rightarrow> Some (Gossip_Rgs url)
   | None \<Rightarrow> (case network of
       Bitcoin \<Rightarrow> Some (Gossip_Rgs ''https://rapidsync.lightningdevkit.org/snapshot'')
     | Testnet \<Rightarrow> Some (Gossip_Rgs ''https://rapidsync.lightningdevkit.org/testnet/snapshot'')
     | Testnet4 \<Rightarrow> None
     | Signet \<Rightarrow> None
     | Regtest \<Rightarrow> Some Gossip_P2p))"

definition fast_sync :: sync_config where
  "fast_sync = Sync_Background \<lparr>bs_onchain_wallet_sync_interval_secs = 2,
     bs_lightning_wallet_sync_interval_secs = 2, bs_fee_rate_cache_update_interval_secs = 30\<rparr>"

definition chain_config_for :: "(string \<Rightarrow> string) \<Rightarrow> ChainSource \<Rightarrow> Network \<Rightarrow>
    (InitFailure, chain_config) result" where
  "chain_config_for base64 source network = (case source of
     Esplora url username password \<Rightarrow>
       (let sync_config = (if network = Regtest then fast_sync else Sync_Default) in
        case (username, password) of
          (Some username, Some password) \<Rightarrow> Ok (Chain_Esplora url
              [(''Authorization'', ''Basic '' @ base64 (username @ '':'' @ password))] sync_config)
        | (None, None) \<Rightarrow> Ok (Chain_Esplora url [] sync_config)
        | _ \<Rightarrow> Err (LdkNodeStartFailure NE_WalletOperationFailed))
   | Electrum url \<Rightarrow> Ok (Chain_Electrum url (if network = Regtest then Some fast_sync else None))
   | BitcoindRPC host port user password \<Rightarrow> Ok (Chain_Bitcoind host port user password))"

record ('s, 'n) start_ops =
  so_base64 :: "string \<Rightarrow> string"
  so_set_async_payments_role :: "(BuildError, unit) result"
  so_build_with_store :: "NodeBuilder \<Rightarrow> NodeEntropy \<Rightarrow> 'n \<Rightarrow> (BuildError, unit) result \<times> 'n"
  so_start :: "'n \<Rightarrow> (NodeError, unit) result \<times> 'n"
  so_latest_onchain_sync :: "'n \<Rightarrow> u64 option"
  so_parent_missing :: "string \<Rightarrow> bool"
  so_create_parent_dirs :: "string \<Rightarrow> bool"
  so_open_log_file :: "string \<Rightarrow> bool"
  so_runtime_new :: "(BuildError, unit) result"
  so_sqlite_new :: "string \<Rightarrow> (io_error, 's) result"
  so_vss_with_lnurl :: "NodeEntropy \<Rightarrow> VssConfig \<Rightarrow> Network \<Rightarrow> string \<Rightarrow> (VssStoreBuildError, 's) result"
  so_vss_with_fixed_headers :: "NodeEntropy \<Rightarrow> VssConfig \<Rightarrow> Network \<Rightarrow> (string \<times> string) list \<Rightarrow>
    (VssStoreBuildError, 's) result"
  so_vss_with_sigs :: "NodeEntropy \<Rightarrow> VssConfig \<Rightarrow> Network \<Rightarrow> (VssStoreBuildError, 's) result"

text \<open>The node's world, and whether the loop that handles its events was spawned.\<close>

record 'n node_startup =
  no_world :: 'n
  no_event_loop :: bool

definition no_call :: "('n \<Rightarrow> 'a \<times> 'n) \<Rightarrow> 'n node_startup \<Rightarrow> 'a \<times> 'n node_startup" where
  "no_call f s = (case f (no_world s) of (r, w) \<Rightarrow> (r, s\<lparr>no_world := w\<rparr>))"

definition node_builder_for :: "WalletConfig \<Rightarrow> chain_config \<Rightarrow> NodeBuilder" where
  "node_builder_for cfg chain = (case wc_lsp cfg of (addr, node_id, lsp_token) \<Rightarrow>
     \<lparr>nb_trusted_peers_no_reserve = [node_id], nb_enable_zero_fee_commitments = True,
      nb_network = wc_network cfg, nb_gossip_source = gossip_source_for (wc_rgs_url cfg) (wc_network cfg),
      nb_liquidity_source = (node_id, addr, lsp_token, True),
      nb_chain_source = chain, nb_pathfinding_scores_source = wc_scorer_url cfg\<rparr>)"

text \<open>
  \<open>LightningWallet::init\<close> runs \<open>init_inner\<close> in a task and waits for it; a panic in it aborts the process.
\<close>

definition LightningWallet_init :: "('s, 'n) start_ops \<Rightarrow> WalletConfig \<Rightarrow> 'n node_startup \<Rightarrow>
    (InitFailure, unit) result \<times> 'n node_startup" where
  "LightningWallet_init X cfg s =
     and_then (chain_config_for (so_base64 X) (wc_chain_source cfg) (wc_network cfg), s) (\<lambda>chain s.
     and_then (map_err InitFailure_from_build (so_set_async_payments_role X, s)) (\<lambda>_ s.
     and_then (map_err InitFailure_from_build
         (no_call (so_build_with_store X (node_builder_for cfg chain) (to_node_entropy (wc_seed cfg))) s)) (\<lambda>_ s.
     and_then (map_err InitFailure_from_node (no_call (so_start X) s)) (\<lambda>_ s.
       (Ok (), s\<lparr>no_event_loop := True\<rparr>)))))"

subsection \<open>The wallet\<close>

definition open_store :: "('s, 'n) start_ops \<Rightarrow> WalletConfig \<Rightarrow> (InitFailure, 's) result" where
  "open_store X cfg = (case wc_storage_config cfg of
     LocalSQLite path \<Rightarrow> result_map_err InitFailure_from_io (so_sqlite_new X path)
   | Vss vss \<Rightarrow> result_map_err InitFailure_from_vss
       (let entropy = to_node_entropy (wc_seed cfg) in case vss_headers vss of
          LNURLAuthServer url \<Rightarrow> so_vss_with_lnurl X entropy vss (wc_network cfg) url
        | FixedHeaders h \<Rightarrow> so_vss_with_fixed_headers X entropy vss (wc_network cfg) h
        | SigsAuth \<Rightarrow> so_vss_with_sigs X entropy vss (wc_network cfg)))"

text \<open>Whether \<open>Logger::new\<close> succeeds: the parent directory of the log file is made when it has one that
  does not exist, and then the file is opened for appending.\<close>

definition logger_opens :: "('s, 'n) start_ops \<Rightarrow> LoggerType \<Rightarrow> bool" where
  "logger_opens X logger_type = (case logger_type of
     LogFacade \<Rightarrow> True
   | LogFile path \<Rightarrow>
       if so_parent_missing X path \<and> \<not> so_create_parent_dirs X path then False
       else so_open_log_file X path)"

text \<open>The worlds outside, one per part, and what the start has set going in each.\<close>

record ('s, 'c, 'b, 'n) starting =
  st_disk :: 's
  st_cashu :: 'c
  st_cashu_tasks :: "cashu_task list"
  st_cashu_quotes :: "MintQuote list"
  st_spark :: 'b
  st_listeners :: "string list"
  st_node :: "'n node_startup"

definition start_cashu :: "('s, 'e) cashu_env_scheme \<Rightarrow> ('s, 'c) cdk_start \<Rightarrow> CashuConfig \<Rightarrow> Seed \<Rightarrow>
    ('s, 'c, 'b, 'n) starting \<Rightarrow> (InitFailure, string option) result \<times> ('s, 'c, 'b, 'n) starting" where
  "start_cashu C X cashu seed s =
     (case Cashu_init C X cashu seed \<lparr>cu_disk = st_disk s, cu_world = st_cashu s,
        cu_tasks = st_cashu_tasks s, cu_quotes = st_cashu_quotes s\<rparr> of
        (r, u) \<Rightarrow> (r, s\<lparr>st_disk := cu_disk u, st_cashu := cu_world u, st_cashu_tasks := cu_tasks u,
          st_cashu_quotes := cu_quotes u\<rparr>))"

definition start_spark :: "('s, 'x) spark_env_scheme \<Rightarrow> 'b spark_start \<Rightarrow> SparkWalletConfig \<Rightarrow> Network \<Rightarrow> Seed \<Rightarrow>
    ('s, 'c, 'b, 'n) starting \<Rightarrow> (InitFailure, unit) result \<times> ('s, 'c, 'b, 'n) starting" where
  "start_spark E X spark network seed s =
     (case Spark_init E X spark network seed \<lparr>su_disk = st_disk s, su_world = st_spark s,
        su_listeners = st_listeners s\<rparr> of
        (r, u) \<Rightarrow> (r, s\<lparr>st_disk := su_disk u, st_spark := su_world u, st_listeners := su_listeners u\<rparr>))"

definition start_node :: "('s, 'n) start_ops \<Rightarrow> WalletConfig \<Rightarrow> ('s, 'c, 'b, 'n) starting \<Rightarrow>
    (InitFailure, unit) result \<times> ('s, 'c, 'b, 'n) starting" where
  "start_node X cfg s =
     (case LightningWallet_init X cfg (st_node s) of (r, u) \<Rightarrow> (r, s\<lparr>st_node := u\<rparr>))"

text \<open>
  \<open>tokio::join!\<close> waits for both, and the error of the trusted wallet is reported first. The test wallet
  cannot fail.
\<close>

definition start_both :: "('s, 'x) spark_env_scheme \<Rightarrow> 'b spark_start \<Rightarrow> ('s, 'n) start_ops \<Rightarrow> WalletConfig \<Rightarrow>
    ('s, 'c, 'b, 'n) starting \<Rightarrow> (InitFailure, unit) result \<times> ('s, 'c, 'b, 'n) starting" where
  "start_both E B X cfg s =
     (case (case wc_extra_config cfg of
              Ex_Spark sp \<Rightarrow> start_spark E B sp (wc_network cfg) (wc_seed cfg) s | _ \<Rightarrow> (Ok (), s)) of
        (Panic m, s) \<Rightarrow> (Panic m, s)
      | (trusted, s) \<Rightarrow> (case start_node X cfg s of
          (Panic m, s) \<Rightarrow> (Panic m, s)
        | (node, s) \<Rightarrow> (case trusted of Err e \<Rightarrow> (Err e, s) | _ \<Rightarrow> (node, s))))"

text \<open>
  The result is the state of the queue, the metadata and the trigger; the task that rebalances is
  spawned at the end (\<open>Background_Tasks\<close>).
\<close>

definition Wallet_new :: "('s, 'e) store_env_scheme \<Rightarrow> (nat \<Rightarrow> nat) \<Rightarrow> ('s, 'f) cashu_env_scheme \<Rightarrow>
    ('s, 'c) cdk_start \<Rightarrow> ('s, 'x) spark_env_scheme \<Rightarrow> 'b spark_start \<Rightarrow> ('s, 'n) start_ops \<Rightarrow> WalletConfig \<Rightarrow>
    ('s, 'c, 'b, 'n) starting \<Rightarrow>
    (InitFailure, 's trigger_state) result \<times> ('s, 'c, 'b, 'n) starting" where
  "Wallet_new E sched C K S B X cfg s =
     (if \<not> logger_opens X (wc_logger_type cfg) then (Panic ''Failed to open log file'', s) else
      and_then (map_err InitFailure_from_build (so_runtime_new X, s)) (\<lambda>_ s.
      and_then (open_store X cfg, s) (\<lambda>store s.
        case TxMetadataStore_new E sched store of
          (Err _, d) \<Rightarrow> (Panic ''unreachable'', s\<lparr>st_disk := d\<rparr>)
        | (Panic m, d) \<Rightarrow> (Panic m, s\<lparr>st_disk := d\<rparr>)
        | (Ok md, d) \<Rightarrow>
            and_then (case wc_extra_config cfg of
                Ex_Cashu cashu \<Rightarrow> and_then (start_cashu C K cashu (wc_seed cfg) (s\<lparr>st_disk := d\<rparr>)) (\<lambda>_ s. (Ok (), s))
              | _ \<Rightarrow> (Ok (), s\<lparr>st_disk := d\<rparr>)) (\<lambda>_ s.
            and_then (start_both S B X cfg s) (\<lambda>_ s.
              (Ok (OrangeTrigger_new (so_latest_onchain_sync X (no_world (st_node s)))
                 (EventQueue_new (st_disk s) (tx_metadata md))), s))))))"

end
