(* ===== verification/Startup_Props.thy ===== *)
theory Startup_Props
  imports Wallet_New Cashu_Props Spark_Props Event_Props
begin

text \<open>What holds when the wallet starts, and after it was restarted.\<close>

subsection \<open>Parts of the start and what they leave alone\<close>

lemma cu_call_frame [simp]:
  "cu_tasks (snd (cu_call f s)) = cu_tasks s" "cu_quotes (snd (cu_call f s)) = cu_quotes s"
  "cu_disk (snd (cu_call f s)) = cu_disk s"
  by (simp_all add: cu_call_def split: prod.split)

lemma cu_spawn_simps [simp]:
  "cu_tasks (cu_spawn t s) = cu_tasks s @ [t]" "cu_disk (cu_spawn t s) = cu_disk s"
  "cu_world (cu_spawn t s) = cu_world s" "cu_quotes (cu_spawn t s) = cu_quotes s"
  by (simp_all add: cu_spawn_def)

lemmas tasks_and_then = and_then_state [where P = "\<lambda>s. cu_tasks s = ts" for ts]

lemma cashu_open_tasks: "cu_tasks (snd (cashu_open C X cfg seed s)) = cu_tasks s"
  unfolding cashu_open_def
  by (auto simp: Let_def snd_map_err split: prod.split result.split intro!: tasks_and_then)

lemma send_active_quotes_tasks:
  "cu_tasks (snd (send_active_quotes X s)) = cu_tasks s" "cu_disk (snd (send_active_quotes X s)) = cu_disk s"
  by (auto simp: send_active_quotes_def cu_call_def split: prod.splits result.splits)

text \<open>The flag that says that the funds of the seed were restored once.\<close>

definition restored :: "kv_view \<Rightarrow> bool" where
  "restored v \<longleftrightarrow> (case v (CASHU_PRIMARY_KEY, [], HAS_RECOVERED_KEY) of
     Some (b # _) \<Rightarrow> b \<noteq> 0 | _ \<Rightarrow> False)"

definition restore_wanted :: "('s, 'e) cashu_env_scheme \<Rightarrow> 's \<Rightarrow> bool" where
  "restore_wanted C d \<longleftrightarrow> fst (read_has_recovered (cashu_kvs C) d) = Ok False"

lemma start_restore_tasks:
  "\<exists>new. cu_tasks (snd (start_restore C s)) = cu_tasks s @ new
     \<and> (fst (start_restore C s) = Ok () \<longrightarrow>
        new = (if restore_wanted C (cu_disk s) then [Restore_Funds] else []))"
  by (auto simp: start_restore_def restore_wanted_def Let_def split: prod.split result.split)

lemma start_npubcash_tasks:
  "\<exists>new. cu_tasks (snd (start_npubcash X cfg seed s)) = cu_tasks s @ new
     \<and> (\<forall>npub. fst (start_npubcash X cfg seed s) = Ok npub \<longrightarrow>
        new = (case cc_npubcash_url cfg of Some url \<Rightarrow> [Poll_Npubcash url] | None \<Rightarrow> [])
        \<and> (npub = None \<longleftrightarrow> cc_npubcash_url cfg = None))"
  by (auto simp: start_npubcash_def split: option.split sum.split)

subsection \<open>The Cashu wallet\<close>

lemma cashu_tasks_new:
  assumes "Cashu_init C X cfg seed s = (r, t)" and "s0 = cashu_open C X cfg (cashu_seed X seed) s"
  shows "\<exists>new. cu_tasks t = cu_tasks s @ new
    \<and> (new = [] \<or> (cc_unit cfg = Cu_Sat \<or> cc_unit cfg = Cu_Msat) \<and> fst s0 = Ok ())
    \<and> (\<forall>npub. r = Ok npub \<longrightarrow>
         new = [Fetch_Mint_Info, Monitor_Quotes, Check_Quotes]
           @ (if restore_wanted C (cu_disk (snd s0)) then [Restore_Funds] else [])
           @ (case cc_npubcash_url cfg of Some url \<Rightarrow> [Poll_Npubcash url] | None \<Rightarrow> [])
         \<and> (npub = None \<longleftrightarrow> cc_npubcash_url cfg = None))"
proof (cases "cc_unit cfg \<noteq> Cu_Sat \<and> cc_unit cfg \<noteq> Cu_Msat \<or> fst s0 \<noteq> Ok ()")
  case True
  obtain r0 t0 where op: "cashu_open C X cfg (cashu_seed X seed) s = (r0, t0)" by fastforce
  then have "cu_tasks t0 = cu_tasks s" using cashu_open_tasks [of C X cfg "cashu_seed X seed" s] by simp
  with True op have "cu_tasks t = cu_tasks s \<and> (\<forall>npub. r \<noteq> Ok npub)"
    using assms by (cases "cc_unit cfg"; cases r0) (auto simp: Cashu_init_def Let_def)
  then show ?thesis by simp
next
  case False
  obtain s1 where s1: "s0 = (Ok (), s1)" using False by (cases s0) auto
  then have op: "cashu_open C X cfg (cashu_seed X seed) s = (Ok (), s1)" using assms(2) by simp
  have t1: "cu_tasks s1 = cu_tasks s"
    using cashu_open_tasks [of C X cfg "cashu_seed X seed" s] op by simp
  let ?q = "send_active_quotes X (cu_spawn Monitor_Quotes (cu_spawn Fetch_Mint_Info s1))"
  have t2: "cu_tasks (snd ?q) = cu_tasks s @ [Fetch_Mint_Info, Monitor_Quotes]" "cu_disk (snd ?q) = cu_disk s1"
    by (simp_all add: send_active_quotes_tasks t1)
  have unit: "cc_unit cfg = Cu_Sat \<or> cc_unit cfg = Cu_Msat" using False by (cases "cc_unit cfg") auto
  have run: "and_then ?q (\<lambda>_ s. and_then (start_restore C (cu_spawn Check_Quotes s))
      (\<lambda>_ s. start_npubcash X cfg (cashu_seed X seed) s)) = (r, t)"
    using assms(1) op unit by (auto simp: Cashu_init_def Let_def)
  obtain qr q where q: "?q = (qr, q)" by fastforce
  obtain rr u where u: "start_restore C (cu_spawn Check_Quotes q) = (rr, u)" by fastforce
  obtain n1 where n1: "cu_tasks u = cu_tasks q @ [Check_Quotes] @ n1"
      "rr = Ok () \<longrightarrow> n1 = (if restore_wanted C (cu_disk q) then [Restore_Funds] else [])"
    using start_restore_tasks [of C "cu_spawn Check_Quotes q"] u by auto
  obtain n2 where n2: "cu_tasks (snd (start_npubcash X cfg (cashu_seed X seed) u)) = cu_tasks u @ n2"
      "\<forall>npub. fst (start_npubcash X cfg (cashu_seed X seed) u) = Ok npub \<longrightarrow>
        n2 = (case cc_npubcash_url cfg of Some url \<Rightarrow> [Poll_Npubcash url] | None \<Rightarrow> [])
        \<and> (npub = None \<longleftrightarrow> cc_npubcash_url cfg = None)"
    using start_npubcash_tasks [of X cfg "cashu_seed X seed" u] by blast
  show ?thesis
    using run q u n1 n2 t2 s1 unit by (cases qr; cases rr) auto
qed

lemma cashu_tasks_spawned:
  assumes "Cashu_init C X cfg seed s = (Ok npub, t)"
  shows "\<exists>new. cu_tasks t = cu_tasks s @ new \<and> (Restore_Funds \<in> set new \<longleftrightarrow>
    restore_wanted C (cu_disk (snd (cashu_open C X cfg (cashu_seed X seed) s))))"
  using cashu_tasks_new [OF assms refl] by (auto split: option.splits)

text \<open>
  The order of the start of the Cashu wallet. The tasks it spawns begin only after its database was
  opened and the operations an earlier run left unfinished were recovered; if either fails, or the
  unit is not supported, nothing was spawned. When it succeeds, the tasks are, in order, the query of
  the mint, the monitoring of quotes, the check of old quotes, the restoration of funds exactly when
  the flag on disk says it is still to be done, and the polling of npub.cash exactly when it is
  configured, which is when the wallet has an npub.
\<close>

theorem cashu_startup_order:
  assumes "Cashu_init C X cfg seed s = (r, t)" and "s0 = cashu_open C X cfg (cashu_seed X seed) s"
  shows "\<exists>new. cu_tasks t = cu_tasks s @ new
    \<and> (new = [] \<or> (cc_unit cfg = Cu_Sat \<or> cc_unit cfg = Cu_Msat) \<and> fst s0 = Ok ())
    \<and> (\<forall>npub. r = Ok npub \<longrightarrow>
         new = [Fetch_Mint_Info, Monitor_Quotes, Check_Quotes]
           @ (if restore_wanted C (cu_disk (snd s0)) then [Restore_Funds] else [])
           @ (case cc_npubcash_url cfg of Some url \<Rightarrow> [Poll_Npubcash url] | None \<Rightarrow> [])
         \<and> (npub = None \<longleftrightarrow> cc_npubcash_url cfg = None))"
  using cashu_tasks_new [OF assms] .

lemma cashu_init_reads_flag:
  assumes "Cashu_init C X cfg seed s = (Ok npub, t)"
  shows "\<exists>b. read_has_recovered (cashu_kvs C) (cu_disk (snd (cashu_open C X cfg (cashu_seed X seed) s)))
      = (Ok b, cu_disk t)"
proof -
  obtain s1 where s1: "cashu_open C X cfg (cashu_seed X seed) s = (Ok (), s1)"
    and run: "and_then (send_active_quotes X (cu_spawn Monitor_Quotes (cu_spawn Fetch_Mint_Info s1)))
      (\<lambda>_ s. and_then (start_restore C (cu_spawn Check_Quotes s))
        (\<lambda>_ s. start_npubcash X cfg (cashu_seed X seed) s)) = (Ok npub, t)"
    using assms by (cases "cc_unit cfg") (auto simp: Cashu_init_def Let_def and_then_eq_Ok)
  obtain q u where q: "send_active_quotes X (cu_spawn Monitor_Quotes (cu_spawn Fetch_Mint_Info s1)) = (Ok (), q)"
    and u: "start_restore C (cu_spawn Check_Quotes q) = (Ok (), u)"
    and n: "start_npubcash X cfg (cashu_seed X seed) u = (Ok npub, t)"
    using run by (auto simp: and_then_eq_Ok)
  have "cu_disk q = cu_disk s1"
    using send_active_quotes_tasks(2) [of X "cu_spawn Monitor_Quotes (cu_spawn Fetch_Mint_Info s1)"] q by simp
  moreover have "\<exists>b. read_has_recovered (cashu_kvs C) (cu_disk q) = (Ok b, cu_disk u)"
    using u by (auto simp: start_restore_def Let_def split: prod.splits result.splits if_splits)
  moreover have "cu_disk t = cu_disk u"
    using n by (auto simp: start_npubcash_def split: option.splits sum.splits)
  ultimately show ?thesis using s1 by simp
qed

lemma read_has_recovered_view:
  assumes "kv_store K view" "read_has_recovered K d = (Ok b, d')"
  shows "b = restored (view d) \<and> view d' = view d"
proof -
  obtain r d1 where r: "kv_read K d CASHU_PRIMARY_KEY [] HAS_RECOVERED_KEY = (r, d1)" by fastforce
  then have "view d1 = view d"
    using kv_store.read_keeps [OF assms(1), of d CASHU_PRIMARY_KEY "[]" HAS_RECOVERED_KEY] by simp
  moreover have "r = Ok x \<Longrightarrow> view d (CASHU_PRIMARY_KEY, [], HAS_RECOVERED_KEY) = Some x" for x
    using kv_store.read_Ok [OF assms(1), of d CASHU_PRIMARY_KEY "[]" HAS_RECOVERED_KEY] r by simp
  moreover have "r = Err NotFound \<Longrightarrow> view d (CASHU_PRIMARY_KEY, [], HAS_RECOVERED_KEY) = None"
    using kv_store.read_NotFound [OF assms(1), of d CASHU_PRIMARY_KEY "[]" HAS_RECOVERED_KEY] r by simp
  ultimately show ?thesis using assms(2) r
    by (auto simp: read_has_recovered_def restored_def split: result.splits io_error.splits list.splits)
qed

text \<open>
  What happens to the disk of a Cashu wallet over its life: starts, whatever their outcome, runs of
  the restoration task, and the operations of the database that CDK performs.
\<close>

inductive cashu_life :: "('s, 'e) cashu_env_scheme \<Rightarrow> ('s, 'w) cdk_start \<Rightarrow>
    ('s, 'w) cashu_startup \<Rightarrow> ('s, 'w) cashu_startup \<Rightarrow> bool" for C X where
  life_start: "cashu_life C X s (snd (Cashu_init C X cfg seed s))"
| life_restore: "cashu_life C X s (snd (restore_task (cashu_kvs C) X s))"
| life_database: "cashu_step C db db' \<Longrightarrow> db_store db = cu_disk s \<Longrightarrow>
    cashu_life C X s (s\<lparr>cu_disk := db_store db', cu_world := w\<rparr>)"

definition flag_of :: "kv_view \<Rightarrow> bytes option" where
  "flag_of v = v (CASHU_PRIMARY_KEY, [], HAS_RECOVERED_KEY)"

lemma restored_flag: "flag_of v = flag_of v' \<Longrightarrow> restored v = restored v'"
  by (simp add: restored_def flag_of_def)

context cashu_ctx
begin

lemma read_flag_keeps: "view (snd (read_has_recovered (cashu_kvs C) d)) = view d"
  using kv.read_keeps [of d CASHU_PRIMARY_KEY "[]" HAS_RECOVERED_KEY]
  by (auto simp: read_has_recovered_def split: prod.split result.split io_error.split)

lemma cashu_open_flag: "flag_of (view (cu_disk (snd (cashu_open C X cfg seed s)))) = flag_of (view (cu_disk s))"
proof -
  obtain r db where db: "CashuKvDatabase_new C (cu_disk s) = (r, db)" by fastforce
  from open_keeps_flag [OF db] have "flag_of (view (db_store db)) = flag_of (view (cu_disk s))"
    by (simp add: flag_of_def)
  with db show ?thesis
    by (cases r) (auto simp: cashu_open_def Let_def
      intro!: and_then_state [where P = "\<lambda>u. flag_of (view (cu_disk u)) = flag_of (view (cu_disk s))"])
qed

lemma cashu_init_flag: "flag_of (view (cu_disk (snd (Cashu_init C X cfg seed s)))) = flag_of (view (cu_disk s))"
proof -
  let ?P = "\<lambda>u. flag_of (view (cu_disk u)) = flag_of (view (cu_disk s))"
  have restore: "?P u \<Longrightarrow> ?P (snd (start_restore C u))" for u
    using read_flag_keeps [of "cu_disk u"]
    by (auto simp: start_restore_def Let_def split: prod.split result.split)
  have npub: "?P u \<Longrightarrow> ?P (snd (start_npubcash X cfg b u))" for u b
    by (auto simp: start_npubcash_def split: option.split sum.split)
  show ?thesis
    unfolding Cashu_init_def Let_def
    using cashu_open_flag [of X cfg "cashu_seed X seed" s] restore npub
    by (auto simp: send_active_quotes_tasks intro!: and_then_state [where P = ?P])
qed

lemma restore_task_flag:
  "restored (view (cu_disk s)) \<Longrightarrow> restored (view (cu_disk (snd (restore_task (cashu_kvs C) X s))))"
  "restored (view (cu_disk (snd (restore_task (cashu_kvs C) X s)))) \<Longrightarrow>
     restored (view (cu_disk s)) \<or> is_ok (fst (cs_restore X (cu_world s)))"
  "reliable_kv_store (cashu_kvs C) view \<Longrightarrow> is_ok (fst (cs_restore X (cu_world s))) \<Longrightarrow>
     restored (view (cu_disk (snd (restore_task (cashu_kvs C) X s))))"
proof -
  let ?K = "cashu_kvs C"
  obtain r w where r: "cs_restore X (cu_world s) = (r, w)" by fastforce
  obtain q d where q: "kv_write ?K (cu_disk s) CASHU_PRIMARY_KEY [] HAS_RECOVERED_KEY [1] = (q, d)" by fastforce
  have end_disk: "cu_disk (snd (restore_task ?K X s)) = (if is_ok r then d else cu_disk s)"
    using r q by (cases r; cases q)
      (auto simp: restore_task_def cu_call_def write_has_recovered_def)
  have any: "view d = view (cu_disk s) \<or> restored (view d)"
    using kv.write_any [of "cu_disk s" CASHU_PRIMARY_KEY "[]" HAS_RECOVERED_KEY "[1]"] q
    by (auto simp: restored_def)
  show "restored (view (cu_disk s)) \<Longrightarrow> restored (view (cu_disk (snd (restore_task ?K X s))))"
    using end_disk any by auto
  show "restored (view (cu_disk (snd (restore_task ?K X s)))) \<Longrightarrow>
     restored (view (cu_disk s)) \<or> is_ok (fst (cs_restore X (cu_world s)))"
    using end_disk r by auto
  assume rel: "reliable_kv_store ?K view" and ok: "is_ok (fst (cs_restore X (cu_world s)))"
  have "q = Ok ()" using reliable_kv_store.write_total [OF rel, of "cu_disk s" CASHU_PRIMARY_KEY "[]" HAS_RECOVERED_KEY "[1]"] q
    by simp
  then have "restored (view d)"
    using kv.write_Ok [of "cu_disk s" CASHU_PRIMARY_KEY "[]" HAS_RECOVERED_KEY "[1]"] q by (simp add: restored_def)
  with ok end_disk r show "restored (view (cu_disk (snd (restore_task ?K X s))))" by simp
qed

lemma life_flag:
  assumes "cashu_life C X s t"
  shows "(restored (view (cu_disk s)) \<longrightarrow> restored (view (cu_disk t)))
    \<and> (restored (view (cu_disk t)) \<longrightarrow> restored (view (cu_disk s)) \<or> is_ok (fst (cs_restore X (cu_world s))))"
  using assms
proof cases
  case (life_start cfg seed)
  with restored_flag [OF cashu_init_flag [of X cfg seed s]] show ?thesis by simp
next
  case life_restore
  with restore_task_flag [where s = s and X = X] show ?thesis by auto
next
  case (life_database db db' w)
  with cashu_step_flags [of db db' HAS_RECOVERED_KEY] have "flag_of (view (cu_disk t)) = flag_of (view (cu_disk s))"
    by (simp add: flag_of_def)
  from restored_flag [OF this] show ?thesis by simp
qed

lemma lives_flag:
  assumes "(cashu_life C X)\<^sup>*\<^sup>* s t"
  shows "(restored (view (cu_disk s)) \<longrightarrow> restored (view (cu_disk t)))
    \<and> (restored (view (cu_disk t)) \<longrightarrow> restored (view (cu_disk s)) \<or>
        (\<exists>u. (cashu_life C X)\<^sup>*\<^sup>* s u \<and> is_ok (fst (cs_restore X (cu_world u)))))"
  using assms by (induction rule: rtranclp_induct) (use life_flag in blast)+

lemma restore_spawned:
  assumes "Cashu_init C X cfg seed s = (Ok npub, t)"
  shows "Restore_Funds \<in> set (drop (length (cu_tasks s)) (cu_tasks t)) \<longleftrightarrow> \<not> restored (view (cu_disk s))"
proof -
  let ?open = "snd (cashu_open C X cfg (cashu_seed X seed) s)"
  obtain b where b: "read_has_recovered (cashu_kvs C) (cu_disk ?open) = (Ok b, cu_disk t)"
    using cashu_init_reads_flag [OF assms] by blast
  from read_has_recovered_view [OF store b] restored_flag [OF cashu_open_flag [of X cfg "cashu_seed X seed" s]]
  have "restore_wanted C (cu_disk ?open) = (\<not> restored (view (cu_disk s)))"
    using b by (simp add: restore_wanted_def)
  with cashu_tasks_spawned [OF assms] show ?thesis by auto
qed

end

text \<open>
  C24. The funds of a seed are restored until it has worked once. Take any life of the wallet: any
  starts, successful or not, runs of the restoration task and operations of the database. A start
  that succeeds then asks for a restoration exactly when the flag on disk was not set before it. Once
  the flag is set it stays, so that no later start asks again; it was set by then only if the mint
  restored the funds on the way, so that a failed restoration is repeated at the next start. The task
  sets the flag once the mint restored the funds on a store that accepts the write; where the write
  fails, the restoration is repeated too.
\<close>

theorem cashu_restore_until_done:
  assumes "cashu_ctx C view" and "(cashu_life C X)\<^sup>*\<^sup>* s0 s" and "Cashu_init C X cfg seed s = (Ok npub, t)"
  shows "(Restore_Funds \<in> set (drop (length (cu_tasks s)) (cu_tasks t)) \<longleftrightarrow> \<not> restored (view (cu_disk s)))
    \<and> (restored (view (cu_disk s0)) \<longrightarrow> restored (view (cu_disk s)))
    \<and> (restored (view (cu_disk s)) \<longrightarrow> restored (view (cu_disk s0)) \<or>
         (\<exists>u. (cashu_life C X)\<^sup>*\<^sup>* s0 u \<and> is_ok (fst (cs_restore X (cu_world u)))))
    \<and> (reliable_kv_store (cashu_kvs C) view \<and> is_ok (fst (cs_restore X (cu_world s))) \<longrightarrow>
         restored (view (cu_disk (snd (restore_task (cashu_kvs C) X s)))))"
  using cashu_ctx.restore_spawned [OF assms(1,3)] cashu_ctx.lives_flag [OF assms(1,2)]
    cashu_ctx.restore_task_flag(3) [OF assms(1), where s = s and X = X] by blast

subsection \<open>The wallet\<close>

lemma start_node_frame:
  "start_node X cfg s = (r, s') \<Longrightarrow> st_cashu_tasks s' = st_cashu_tasks s \<and> (r = Ok () \<longrightarrow> no_event_loop (st_node s'))"
  by (auto simp: start_node_def LightningWallet_init_def and_then_eq_Ok split: prod.splits)

lemma start_both_frame:
  assumes "start_both E B X cfg s = (r, s')"
  shows "st_cashu_tasks s' = st_cashu_tasks s \<and> (r = Ok () \<longrightarrow> no_event_loop (st_node s'))"
proof -
  obtain tr u where u: "(case wc_extra_config cfg of
      Ex_Spark sp \<Rightarrow> start_spark E B sp (wc_network cfg) (wc_seed cfg) s | _ \<Rightarrow> (Ok (), s)) = (tr, u)" by fastforce
  then have "st_cashu_tasks u = st_cashu_tasks s"
    by (auto simp: start_spark_def split: ExtraConfig.splits prod.splits)
  moreover obtain nr v where v: "start_node X cfg u = (nr, v)" by fastforce
  ultimately show ?thesis
    using assms u start_node_frame [OF v] by (cases tr; cases nr) (auto simp: start_both_def)
qed

text \<open>
  C23. A restart. When \<open>Wallet::new\<close> succeeds, the metadata in memory is what the opened store holds and
  the node is running with its event loop; but the queue of events is empty whatever the store holds,
  although every event was written there before it was acknowledged to the node: events the user had
  not yet handled are not delivered after a restart.
\<close>

theorem wallet_restart_state:
  assumes "tx_env E view" and "open_store X cfg = Ok store" and "persisted E (view store) M"
    and "Wallet_new E sched C K S B X cfg s = (Ok w, s')"
  shows "tx_metadata w = M \<and> no_event_loop (st_node s') \<and> queue w = [] \<and> pending_mpp_events w = Map.empty"
proof -
  obtain tr d where new: "TxMetadataStore_new E sched store = (tr, d)" by fastforce
  obtain md where md: "tr = Ok md" using assms(2,4) new
    by (cases tr) (auto simp: Wallet_new_def and_then_eq_Ok split: if_splits)
  have M: "tx_metadata md = M" using tx_env.new_loads [OF assms(1,3) new] md by simp
  obtain t u where b: "start_both S B X cfg t = (Ok (), u)" "s' = u"
      "w = OrangeTrigger_new (so_latest_onchain_sync X (no_world (st_node u))) (EventQueue_new (st_disk u) (tx_metadata md))"
    using assms(2,4) new md by (auto simp: Wallet_new_def and_then_eq_Ok split: if_splits)
  have "tx_metadata w = M \<and> queue w = [] \<and> pending_mpp_events w = Map.empty"
    unfolding b(3) M [symmetric] by (simp add: OrangeTrigger_new_def EventQueue_new_def event_queue.defs trigger_state.defs)
  with start_both_frame [OF b(1)] b(2) show ?thesis by simp
qed

text \<open>A start that succeeds, or that reaches the node, has opened the log, the store and the metadata.\<close>

lemma Wallet_new_opened:
  assumes "Wallet_new E sched C K S B X cfg s = (r, s')" and "is_ok r \<or> st_node s' \<noteq> st_node s"
  shows "\<exists>store md d. logger_opens X (wc_logger_type cfg) \<and> so_runtime_new X = Ok () \<and> open_store X cfg = Ok store
    \<and> TxMetadataStore_new E sched store = (Ok md, d)"
proof -
  obtain store tr d where new: "logger_opens X (wc_logger_type cfg)" "so_runtime_new X = Ok ()" "open_store X cfg = Ok store"
      "TxMetadataStore_new E sched store = (tr, d)"
    using assms by (cases "so_runtime_new X"; cases "open_store X cfg") (fastforce simp: Wallet_new_def split: if_splits)+
  then show ?thesis using assms by (cases tr) (auto simp: Wallet_new_def)
qed

text \<open>
  The Cashu wallet starts before the node: with a Cashu configuration, if \<open>Wallet::new\<close> touched the
  node at all, whatever it returned, the Cashu wallet was up, with its tasks spawned.
\<close>

theorem cashu_starts_before_node:
  assumes "Wallet_new E sched C K S B X cfg s = (r, s')" and "wc_extra_config cfg = Ex_Cashu c"
    and "st_node s' \<noteq> st_node s"
  shows "\<exists>new. st_cashu_tasks s' = st_cashu_tasks s @ [Fetch_Mint_Info, Monitor_Quotes, Check_Quotes] @ new"
proof -
  obtain store md d where new: "logger_opens X (wc_logger_type cfg)" "so_runtime_new X = Ok ()" "open_store X cfg = Ok store"
      "TxMetadataStore_new E sched store = (Ok md, d)"
    using Wallet_new_opened [OF assms(1)] assms(3) by blast
  let ?s = "s\<lparr>st_disk := d\<rparr>"
  obtain cr u where u: "Cashu_init C K c (wc_seed cfg) \<lparr>cu_disk = st_disk ?s, cu_world = st_cashu ?s,
        cu_tasks = st_cashu_tasks ?s, cu_quotes = st_cashu_quotes ?s\<rparr> = (cr, u)" by fastforce
  let ?t = "?s\<lparr>st_disk := cu_disk u, st_cashu := cu_world u, st_cashu_tasks := cu_tasks u, st_cashu_quotes := cu_quotes u\<rparr>"
  have sc: "start_cashu C K c (wc_seed cfg) ?s = (cr, ?t)" using u by (simp add: start_cashu_def)
  obtain npub where npub: "cr = Ok npub" using assms new sc by (cases cr) (auto simp: Wallet_new_def)
  obtain br v where v: "start_both S B X cfg ?t = (br, v)" by fastforce
  have "st_cashu_tasks v = cu_tasks u" using start_both_frame [OF v] by simp
  moreover have "s' = v" using assms(1,2) new sc npub v by (cases br) (auto simp: Wallet_new_def)
  ultimately show ?thesis using cashu_tasks_new [OF u refl] npub by auto
qed

subsection \<open>A start\<close>

definition sample_cdk :: "(mem_kv, unit) cdk_start" where
  "sample_cdk = \<lparr>cs_wallet_new = (\<lambda>_ _ _ _ w. (Ok (), w)), cs_recover_incomplete_sagas = (\<lambda>w. (Ok 0, w)),
     cs_fetch_mint_info = (\<lambda>w. (Ok None, w)), cs_get_active_mint_quotes = (\<lambda>w. (Ok [], w)),
     cs_check_all_mint_quotes = (\<lambda>w. (Ok (), w)), cs_restore = (\<lambda>w. (Ok 5, w)),
     cs_enable_npubcash = (\<lambda>_ w. (Ok (), w)), cs_sync_npubcash_quotes = (\<lambda>w. (Ok [], w)),
     cs_quote_paid = (\<lambda>_. False), cs_mnemonic_to_seed = (\<lambda>_ _. replicate 64 1),
     cs_start_sha256 = (\<lambda>b. replicate 32 2), cs_x_only_public_key = (\<lambda>k. Inr k),
     cs_bech32_encode = (\<lambda>hrp _. Inr hrp), cs_unit_text = (\<lambda>_. ''unit'')\<rparr>"

definition sample_cashu_config :: CashuConfig where
  "sample_cashu_config = \<lparr>cc_mint_url = ''mint'', cc_unit = Cu_Sat, cc_npubcash_url = Some ''npub.cash''\<rparr>"

definition sample_cashu_start :: "(mem_kv, unit) cashu_startup" where
  "sample_cashu_start = \<lparr>cu_disk = [], cu_world = (), cu_tasks = [], cu_quotes = []\<rparr>"

definition sample_breez_start :: "unit spark_start" where
  "sample_breez_start = \<lparr>ss_build = (\<lambda>_ _ w. (Ok (), w)), ss_add_event_listener = (\<lambda>w. (''listener'', w)),
     ss_remove_event_listener = (\<lambda>_ w. w), ss_sdk_error_from_storage = (\<lambda>_. ''storage''),
     ss_error_debug = (\<lambda>e. e), ss_api_key = ''key''\<rparr>"

text \<open>A store that holds a queue of events from an earlier run, and nothing else.\<close>

definition sample_old_store :: mem_kv where
  "sample_old_store = [(queue_key, [0, 1])]"

definition sample_start_ops :: "(mem_kv, unit) start_ops" where
  "sample_start_ops = \<lparr>so_base64 = (\<lambda>t. t), so_set_async_payments_role = Ok (),
     so_build_with_store = (\<lambda>_ _ w. (Ok (), w)), so_start = (\<lambda>w. (Ok (), w)),
     so_latest_onchain_sync = (\<lambda>_. Some 9), so_parent_missing = (\<lambda>_. True),
     so_create_parent_dirs = (\<lambda>_. True), so_open_log_file = (\<lambda>_. True), so_runtime_new = Ok (),
     so_sqlite_new = (\<lambda>_. Ok sample_old_store), so_vss_with_lnurl = (\<lambda>_ _ _ _. Ok []),
     so_vss_with_fixed_headers = (\<lambda>_ _ _ _. Ok []), so_vss_with_sigs = (\<lambda>_ _ _. Ok [])\<rparr>"

definition sample_config :: WalletConfig where
  "sample_config = \<lparr>wc_storage_config = LocalSQLite ''orange'', wc_logger_type = LogFacade, wc_chain_source = Electrum ''electrum'',
     wc_lsp = (''lsp'', [2], None), wc_scorer_url = None, wc_rgs_url = None, wc_network = Regtest,
     wc_seed = Seed64 (replicate 64 3),
     wc_tunables = \<lparr>trusted_balance_limit = 100000, rebalance_min = 5, onchain_receive_threshold = 10000,
       enable_amountless_receive_on_chain = True\<rparr>, wc_extra_config = Ex_Cashu sample_cashu_config\<rparr>"

definition sample_starting :: "(mem_kv, unit, unit, unit) starting" where
  "sample_starting = \<lparr>st_disk = [], st_cashu = (), st_cashu_tasks = [], st_cashu_quotes = [], st_spark = (),
     st_listeners = [], st_node = \<lparr>no_world = (), no_event_loop = False\<rparr>\<rparr>"

definition sample_cashu_run :: "(InitFailure, string option) result \<times> (mem_kv, unit) cashu_startup" where
  "sample_cashu_run = Cashu_init sample_cashu sample_cdk sample_cashu_config (Seed64 []) sample_cashu_start"

definition sample_new_run :: "(InitFailure, mem_kv trigger_state) result \<times> (mem_kv, unit, unit, unit) starting" where
  "sample_new_run = Wallet_new sample_env (\<lambda>_. 0) sample_cashu sample_cdk sample_spark sample_breez_start
     sample_start_ops sample_config sample_starting"

lemma sample_cashu_run_ok:
  "is_ok (fst sample_cashu_run)" "restore_wanted sample_cashu (cu_disk (snd (cashu_open sample_cashu sample_cdk sample_cashu_config
     (cashu_seed sample_cdk (Seed64 [])) sample_cashu_start)))"
  by code_simp+

lemma sample_new_run_ok:
  "is_ok (fst sample_new_run)" "no_event_loop (st_node (snd sample_new_run))"
  by code_simp+

lemma sample_cashu_runE: obtains npub where "Cashu_init sample_cashu sample_cdk sample_cashu_config (Seed64 []) sample_cashu_start
    = (Ok npub, snd sample_cashu_run)"
  using sample_cashu_run_ok(1) unfolding sample_cashu_run_def by (metis is_ok.elims(2) prod.collapse)

theorem cashu_startup_order_witness:
  "cu_tasks (snd sample_cashu_run) =
     [Fetch_Mint_Info, Monitor_Quotes, Check_Quotes, Restore_Funds, Poll_Npubcash ''npub.cash'']"
proof -
  obtain npub where "Cashu_init sample_cashu sample_cdk sample_cashu_config (Seed64 []) sample_cashu_start
    = (Ok npub, snd sample_cashu_run)" by (rule sample_cashu_runE)
  from cashu_startup_order [OF this refl] sample_cashu_run_ok(2) show ?thesis
    by (auto simp: sample_cashu_config_def sample_cashu_start_def)
qed

theorem cashu_restore_until_done_witness:
  "\<exists>npub t. Cashu_init sample_cashu sample_cdk sample_cashu_config (Seed64 []) sample_cashu_start = (Ok npub, t)
   \<and> Restore_Funds \<in> set (cu_tasks t) \<and> \<not> restored (mem_view (cu_disk sample_cashu_start))
   \<and> restored (mem_view (cu_disk (snd (restore_task (cashu_kvs sample_cashu) sample_cdk sample_cashu_start))))"
proof -
  obtain npub where run: "Cashu_init sample_cashu sample_cdk sample_cashu_config (Seed64 []) sample_cashu_start
    = (Ok npub, snd sample_cashu_run)" by (rule sample_cashu_runE)
  have rel: "reliable_kv_store (cashu_kvs sample_cashu) mem_view"
    using dyn_mem.reliable_kv_store_axioms by (simp add: sample_cashu_def)
  have "Restore_Funds \<in> set (cu_tasks (snd sample_cashu_run))" "cu_tasks sample_cashu_start = []" by code_simp+
  moreover have "is_ok (fst (cs_restore sample_cdk (cu_world sample_cashu_start)))" by (simp add: sample_cdk_def)
  ultimately show ?thesis
    using cashu_restore_until_done [OF sample_cashu.cashu_ctx_axioms rtranclp.rtrancl_refl run] rel run by auto
qed

lemma sample_new_runE: obtains w where "Wallet_new sample_env (\<lambda>_. 0) sample_cashu sample_cdk sample_spark sample_breez_start
    sample_start_ops sample_config sample_starting = (Ok w, snd sample_new_run)" "fst sample_new_run = Ok w"
  using sample_new_run_ok(1) unfolding sample_new_run_def by (metis is_ok.elims(2) prod.collapse)

theorem wallet_restart_state_witness:
  "\<exists>w. fst sample_new_run = Ok w \<and> queue w = [] \<and> mem_view sample_old_store queue_key = Some [0, 1]"
proof -
  obtain w where w: "Wallet_new sample_env (\<lambda>_. 0) sample_cashu sample_cdk sample_spark sample_breez_start
    sample_start_ops sample_config sample_starting = (Ok w, snd sample_new_run)" "fst sample_new_run = Ok w"
    by (rule sample_new_runE)
  have st: "open_store sample_start_ops sample_config = Ok sample_old_store"
    by (simp add: open_store_def sample_config_def sample_start_ops_def)
  have "persisted sample_env (mem_view sample_old_store) Map.empty"
    by (simp add: persisted_def mem_view_def sample_old_store_def)
  from wallet_restart_state [OF sample.tx_env_axioms st this w(1)] w(2) show ?thesis
    by (simp add: mem_view_def sample_old_store_def)
qed

theorem cashu_starts_before_node_witness:
  "\<exists>new. st_cashu_tasks (snd sample_new_run) = [Fetch_Mint_Info, Monitor_Quotes, Check_Quotes] @ new"
proof -
  obtain w where w: "Wallet_new sample_env (\<lambda>_. 0) sample_cashu sample_cdk sample_spark sample_breez_start
    sample_start_ops sample_config sample_starting = (Ok w, snd sample_new_run)"
    by (rule sample_new_runE)
  have ex: "wc_extra_config sample_config = Ex_Cashu sample_cashu_config" by (simp add: sample_config_def)
  have "st_node (snd sample_new_run) \<noteq> st_node sample_starting"
    using sample_new_run_ok(2) by (auto simp: sample_starting_def)
  from cashu_starts_before_node [OF w ex this] show ?thesis by (simp add: sample_starting_def)
qed

end
