(* ===== verification/Ffi_Types.thy ===== *)
theory Ffi_Types
  imports Wallet_New Wallet_Api
begin

text \<open>
  The types the wallet shows to other languages (\<open>ffi/\<close>) and the conversions between them and the
  wallet's own: identifiers, transactions and events on the way out, the configuration on the way
  in, and the errors of both. How the crates print and parse their types is a parameter.
  Wrapper objects around one value (\<open>impl_from_core_type!\<close>, \<open>impl_into_core_type!\<close>) are that value.
\<close>

subsection \<open>Transactions\<close>

datatype FfiPaymentId = F_Lightning string | F_Trusted string

fun FfiPaymentId_from :: "PaymentId \<Rightarrow> FfiPaymentId" where
  "FfiPaymentId_from (SelfCustodial hash) = F_Lightning (to_lower_hex_string hash)"
| "FfiPaymentId_from (Trusted hash) = F_Trusted (to_lower_hex_string hash)"

datatype FfiTxStatus = F_Pending | F_Completed | F_Failed

fun FfiTxStatus_from :: "TxStatus \<Rightarrow> FfiTxStatus" where
  "FfiTxStatus_from Pending = F_Pending"
| "FfiTxStatus_from Completed = F_Completed"
| "FfiTxStatus_from Failed = F_Failed"

datatype FfiPaymentType =
    F_OutgoingLightningBolt12 "bytes option"
  | F_OutgoingLightningBolt11 "bytes option"
  | F_OutgoingOnChain "bytes option"
  | F_IncomingOnChain "bytes option"
  | F_IncomingLightning
  | F_TrustedInternal

fun FfiPaymentType_from :: "PaymentType \<Rightarrow> FfiPaymentType" where
  "FfiPaymentType_from (OutgoingLightningBolt12 payment_preimage) = F_OutgoingLightningBolt12 payment_preimage"
| "FfiPaymentType_from (OutgoingLightningBolt11 payment_preimage) = F_OutgoingLightningBolt11 payment_preimage"
| "FfiPaymentType_from (OutgoingOnChain txid) = F_OutgoingOnChain txid"
| "FfiPaymentType_from (IncomingOnChain txid) = F_IncomingOnChain txid"
| "FfiPaymentType_from IncomingLightning = F_IncomingLightning"
| "FfiPaymentType_from TrustedInternal = F_TrustedInternal"

text \<open>What can be read of a transaction object, by its accessors.\<close>

record FfiTransaction =
  ftx_id :: FfiPaymentId
  ftx_status :: FfiTxStatus
  ftx_outbound :: bool
  ftx_amount :: "Amount option"
  ftx_fee :: "Amount option"
  ftx_secs_since_epoch :: u64
  ftx_payment_type :: FfiPaymentType

definition FfiTransaction_from :: "Transaction \<Rightarrow> FfiTransaction" where
  "FfiTransaction_from tx = \<lparr>ftx_id = FfiPaymentId_from (tx_id tx), ftx_status = FfiTxStatus_from (tx_status tx),
     ftx_outbound = tx_outbound tx, ftx_amount = tx_amount tx, ftx_fee = tx_fee tx,
     ftx_secs_since_epoch = as_secs (tx_time_since_epoch tx),
     ftx_payment_type = FfiPaymentType_from (tx_payment_type tx)\<rparr>"

subsection \<open>Events\<close>

datatype FfiEvent =
    F_PaymentSuccessful FfiPaymentId bytes bytes "u64 option"
  | F_PaymentFailed FfiPaymentId "bytes option" "string option"
  | F_PaymentReceived FfiPaymentId bytes u64 "bytes list" "u64 option"
  | F_OnchainPaymentReceived FfiPaymentId bytes u64
  | F_ChannelOpened bytes bytes bytes string
  | F_ChannelClosed bytes bytes bytes "string option"
  | F_RebalanceInitiated FfiPaymentId bytes u64
  | F_RebalanceSuccessful FfiPaymentId bytes bytes u64 u64
  | F_SplicePending bytes bytes bytes string

text \<open>How the crates print the values the bindings pass on as text.\<close>

record ffi_texts =
  txt_failure_reason :: "PaymentFailureReason \<Rightarrow> string"
  txt_closure_reason :: "ClosureReason \<Rightarrow> string"
  txt_outpoint :: "OutPoint \<Rightarrow> string"
  txt_io_error :: "io_error \<Rightarrow> string"
  txt_build_error :: "BuildError \<Rightarrow> string"
  txt_node_error :: "NodeError \<Rightarrow> string"
  txt_trusted_error :: "TrustedError \<Rightarrow> string"
  txt_vss_error :: "VssStoreBuildError \<Rightarrow> string"
  txt_public_key :: "PublicKey \<Rightarrow> string"
  txt_payment_hash :: "PaymentHash \<Rightarrow> string"

definition u128_to_be_bytes :: "u128 \<Rightarrow> bytes" where
  "u128_to_be_bytes n = map (\<lambda>i. word_of_nat (n div 256 ^ i)) (rev [0..<16])"

fun FfiEvent_from :: "ffi_texts \<Rightarrow> Event \<Rightarrow> FfiEvent" where
  "FfiEvent_from T (PaymentSuccessful payment_id payment_hash payment_preimage fee_paid_msat) =
     F_PaymentSuccessful (FfiPaymentId_from payment_id) payment_hash payment_preimage fee_paid_msat"
| "FfiEvent_from T (PaymentFailed payment_id payment_hash reason) =
     F_PaymentFailed (FfiPaymentId_from payment_id) payment_hash (map_option (txt_failure_reason T) reason)"
| "FfiEvent_from T (PaymentReceived payment_id payment_hash amount_msat custom_records lsp_fee_msats) =
     F_PaymentReceived (FfiPaymentId_from payment_id) payment_hash amount_msat (map snd custom_records) lsp_fee_msats"
| "FfiEvent_from T (OnchainPaymentReceived payment_id txid amount_sat _) =
     F_OnchainPaymentReceived (FfiPaymentId_from payment_id) txid amount_sat"
| "FfiEvent_from T (ChannelOpened channel_id user_channel_id counterparty_node_id funding_txo) =
     F_ChannelOpened channel_id (u128_to_be_bytes user_channel_id) counterparty_node_id (txt_outpoint T funding_txo)"
| "FfiEvent_from T (ChannelClosed channel_id user_channel_id counterparty_node_id reason) =
     F_ChannelClosed channel_id (u128_to_be_bytes user_channel_id) counterparty_node_id
       (map_option (txt_closure_reason T) reason)"
| "FfiEvent_from T (RebalanceInitiated trigger_payment_id trusted_rebalance_payment_id amount_msat) =
     F_RebalanceInitiated (FfiPaymentId_from trigger_payment_id) trusted_rebalance_payment_id amount_msat"
| "FfiEvent_from T (RebalanceSuccessful trigger_payment_id trusted_rebalance_payment_id ln_rebalance_payment_id
       amount_msat fee_msat) =
     F_RebalanceSuccessful (FfiPaymentId_from trigger_payment_id) trusted_rebalance_payment_id
       ln_rebalance_payment_id amount_msat fee_msat"
| "FfiEvent_from T (SplicePending channel_id user_channel_id counterparty_node_id new_funding_txo) =
     F_SplicePending channel_id (u128_to_be_bytes user_channel_id) counterparty_node_id (txt_outpoint T new_funding_txo)"

subsection \<open>Errors\<close>

datatype ConfigError =
    InvalidEntropySize u32
  | InvalidMnemonic
  | InvalidLspAddress string
  | InvalidLspNodeId string

fun ConfigError_to_string :: "ConfigError \<Rightarrow> string" where
  "ConfigError_to_string (InvalidEntropySize n) =
     ''Invalid entropy size: '' @ decimal n @ ''. Entropy must be 64 bytes.''"
| "ConfigError_to_string InvalidMnemonic = ''Invalid mnemonic phrase''"
| "ConfigError_to_string (InvalidLspAddress address) = ''Invalid LSP address: '' @ address"
| "ConfigError_to_string (InvalidLspNodeId node_id) = ''Invalid LSP node ID: '' @ node_id"

datatype FfiInitFailure =
    F_IoError string
  | F_ConfigError string
  | F_LdkNodeBuildFailure string
  | F_LdkNodeStartFailure string
  | F_InitTrustedFailure string
  | F_VssStoreBuildFailure string

fun FfiInitFailure_to_string :: "FfiInitFailure \<Rightarrow> string" where
  "FfiInitFailure_to_string (F_IoError e) = ''I/O error: '' @ e"
| "FfiInitFailure_to_string (F_ConfigError e) = ''Config error: '' @ e"
| "FfiInitFailure_to_string (F_LdkNodeBuildFailure e) = ''Failed to build the LDK node: '' @ e"
| "FfiInitFailure_to_string (F_LdkNodeStartFailure e) = ''Failed to start the LDK node: '' @ e"
| "FfiInitFailure_to_string (F_InitTrustedFailure e) = ''Failed to create the trusted wallet: '' @ e"
| "FfiInitFailure_to_string (F_VssStoreBuildFailure e) = ''Failed to build the VSS store: '' @ e"

definition FfiInitFailure_from_io :: "ffi_texts \<Rightarrow> io_error \<Rightarrow> FfiInitFailure" where
  "FfiInitFailure_from_io T e = F_IoError (txt_io_error T e)"

fun FfiInitFailure_from :: "ffi_texts \<Rightarrow> InitFailure \<Rightarrow> FfiInitFailure" where
  "FfiInitFailure_from T (IoError e) = F_IoError (txt_io_error T e)"
| "FfiInitFailure_from T (LdkNodeBuildFailure e) = F_LdkNodeBuildFailure (txt_build_error T e)"
| "FfiInitFailure_from T (LdkNodeStartFailure e) = F_LdkNodeStartFailure (txt_node_error T e)"
| "FfiInitFailure_from T (Init_TrustedFailure e) = F_InitTrustedFailure (txt_trusted_error T e)"
| "FfiInitFailure_from T (VssStoreBuildFailure e) = F_VssStoreBuildFailure (txt_vss_error T e)"

definition FfiInitFailure_from_config :: "ConfigError \<Rightarrow> FfiInitFailure" where
  "FfiInitFailure_from_config e = F_ConfigError (ConfigError_to_string e)"

datatype FfiWalletError =
    F_LdkNodeFailure string
  | F_TrustedFailure string
  | F_PaymentInstructionsParseError
  | F_PaymentInfoBuildError

fun FfiWalletError_to_string :: "FfiWalletError \<Rightarrow> string" where
  "FfiWalletError_to_string (F_LdkNodeFailure e) = ''Failure from LDK node: '' @ e"
| "FfiWalletError_to_string (F_TrustedFailure e) = ''Failure from trusted wallet: '' @ e"
| "FfiWalletError_to_string F_PaymentInstructionsParseError = ''Failure to parse payment instructions''"
| "FfiWalletError_to_string F_PaymentInfoBuildError = ''Failure to build payment info''"

fun FfiWalletError_from :: "ffi_texts \<Rightarrow> WalletError \<Rightarrow> FfiWalletError" where
  "FfiWalletError_from T (LdkNodeFailure e) = F_LdkNodeFailure (txt_node_error T e)"
| "FfiWalletError_from T (TrustedFailure e) = F_TrustedFailure (txt_trusted_error T e)"

end
