(* ===== verification/Ffi_Config.thy ===== *)
theory Ffi_Config
  imports Ffi_Types
begin

text \<open>
  What comes in through the bindings: the configuration of the wallet (\<open>ffi/orange/config.rs\<close>,
  \<open>ffi/cashu.rs\<close>, \<open>ffi/spark.rs\<close>, \<open>ffi/ldk_node.rs\<close>), checked as it is converted, and the payment
  instructions (\<open>ffi/bitcoin_payment_instructions.rs\<close>).
\<close>

subsection \<open>The parts of a configuration\<close>

datatype FfiNetwork = F_Mainnet | F_Regtest | F_Testnet | F_Signet

fun Network_from_ffi :: "FfiNetwork \<Rightarrow> Network" where
  "Network_from_ffi F_Mainnet = Bitcoin"
| "Network_from_ffi F_Regtest = Regtest"
| "Network_from_ffi F_Testnet = Testnet"
| "Network_from_ffi F_Signet = Signet"

text \<open>What is used of bip39 and of the types that are given as text: a parser errs with the text of its error.\<close>

record ffi_parsers =
  bip39_from_entropy :: "bytes \<Rightarrow> string option"
  bip39_from_str :: "string \<Rightarrow> string option"
  public_key_from_str :: "string \<Rightarrow> (string, PublicKey) result"
  socket_address_from_str :: "string \<Rightarrow> (string, string) result"

text \<open>\<open>as u32\<close> keeps the low 32 bits.\<close>

definition as_u32 :: "nat \<Rightarrow> u32" where
  "as_u32 n = n mod 2 ^ 32"

definition Mnemonic_from_entropy :: "ffi_parsers \<Rightarrow> bytes \<Rightarrow> (ConfigError, string) result" where
  "Mnemonic_from_entropy P entropy = (case bip39_from_entropy P entropy of
     Some mnemonic \<Rightarrow> Ok mnemonic
   | None \<Rightarrow> Err (InvalidEntropySize (as_u32 (length entropy))))"

definition Mnemonic_from_str :: "ffi_parsers \<Rightarrow> string \<Rightarrow> (ConfigError, string) result" where
  "Mnemonic_from_str P str = (case bip39_from_str P str of Some mnemonic \<Rightarrow> Ok mnemonic | None \<Rightarrow> Err InvalidMnemonic)"

text \<open>The random generator fills 16 bytes.\<close>

definition Mnemonic_generate :: "ffi_parsers \<Rightarrow> (nat \<Rightarrow> u8) \<Rightarrow> (ConfigError, string) result" where
  "Mnemonic_generate P random = Mnemonic_from_entropy P (map random [0..<16])"

datatype FfiSeed = F_MnemonicSeed string "string option" | F_Seed64 bytes

fun FfiSeed_debug :: "FfiSeed \<Rightarrow> string" where
  "FfiSeed_debug (F_MnemonicSeed _ _) =
     ''MnemonicSeed { mnemonic: '' @ redacted @ '', passphrase: '' @ redacted @ '' }''"
| "FfiSeed_debug (F_Seed64 _) = ''Seed64('' @ redacted @ '')''"

fun Seed_try_from_ffi :: "FfiSeed \<Rightarrow> (ConfigError, Seed) result" where
  "Seed_try_from_ffi (F_MnemonicSeed mnemonic passphrase) = Ok (Mnemonic mnemonic passphrase)"
| "Seed_try_from_ffi (F_Seed64 bytes) =
     (if length bytes = 64 then Ok (Seed64 bytes) else Err (InvalidEntropySize (as_u32 (length bytes))))"

datatype FfiVssAuth =
    F_LNURLAuthServer string
  | F_FixedHeaders "(string \<times> string) list"
  | F_SigsAuth

fun VssAuth_from_ffi :: "FfiVssAuth \<Rightarrow> VssAuth" where
  "VssAuth_from_ffi (F_LNURLAuthServer url) = LNURLAuthServer url"
| "VssAuth_from_ffi (F_FixedHeaders headers) = FixedHeaders headers"
| "VssAuth_from_ffi F_SigsAuth = SigsAuth"

fun FfiVssAuth_from :: "VssAuth \<Rightarrow> FfiVssAuth" where
  "FfiVssAuth_from (LNURLAuthServer url) = F_LNURLAuthServer url"
| "FfiVssAuth_from (FixedHeaders headers) = F_FixedHeaders headers"
| "FfiVssAuth_from SigsAuth = F_SigsAuth"

record FfiVssConfig =
  fv_vss_url :: string
  fv_store_id :: string
  fv_headers :: FfiVssAuth

definition VssConfig_from_ffi :: "FfiVssConfig \<Rightarrow> VssConfig" where
  "VssConfig_from_ffi config = \<lparr>vss_url = fv_vss_url config, vss_store_id = fv_store_id config,
     vss_headers = VssAuth_from_ffi (fv_headers config)\<rparr>"

definition FfiVssConfig_from :: "VssConfig \<Rightarrow> FfiVssConfig" where
  "FfiVssConfig_from config = \<lparr>fv_vss_url = vss_url config, fv_store_id = vss_store_id config,
     fv_headers = FfiVssAuth_from (vss_headers config)\<rparr>"

datatype FfiStorageConfig = F_LocalSQLite string | F_Vss FfiVssConfig

fun StorageConfig_from_ffi :: "FfiStorageConfig \<Rightarrow> StorageConfig" where
  "StorageConfig_from_ffi (F_LocalSQLite path) = LocalSQLite path"
| "StorageConfig_from_ffi (F_Vss vss_config) = Vss (VssConfig_from_ffi vss_config)"

datatype FfiChainSource =
    F_Electrum string
  | F_Esplora string "string option" "string option"
  | F_BitcoindRPC string u16 string string

fun ChainSource_from_ffi :: "FfiChainSource \<Rightarrow> ChainSource" where
  "ChainSource_from_ffi (F_Electrum url) = Electrum url"
| "ChainSource_from_ffi (F_Esplora url username password) = Esplora url username password"
| "ChainSource_from_ffi (F_BitcoindRPC host port user password) = BitcoindRPC host port user password"

definition ffi_Tunables_new :: "Amount \<Rightarrow> Amount \<Rightarrow> Amount \<Rightarrow> bool \<Rightarrow> Tunables" where
  "ffi_Tunables_new limit minimum threshold amountless = \<lparr>trusted_balance_limit = limit, rebalance_min = minimum,
     onchain_receive_threshold = threshold, enable_amountless_receive_on_chain = amountless\<rparr>"

datatype FfiCurrencyUnit = F_Sat | F_Msat | F_Usd | F_Eur | F_Auth | F_Custom string

fun FfiCurrencyUnit_from :: "CurrencyUnit \<Rightarrow> FfiCurrencyUnit" where
  "FfiCurrencyUnit_from Cu_Sat = F_Sat"
| "FfiCurrencyUnit_from Cu_Msat = F_Msat"
| "FfiCurrencyUnit_from Cu_Usd = F_Usd"
| "FfiCurrencyUnit_from Cu_Eur = F_Eur"
| "FfiCurrencyUnit_from Cu_Auth = F_Auth"
| "FfiCurrencyUnit_from (Cu_Custom u) = F_Custom u"
| "FfiCurrencyUnit_from (Cu_Other _) = F_Sat"

fun CurrencyUnit_from_ffi :: "FfiCurrencyUnit \<Rightarrow> CurrencyUnit" where
  "CurrencyUnit_from_ffi F_Sat = Cu_Sat"
| "CurrencyUnit_from_ffi F_Msat = Cu_Msat"
| "CurrencyUnit_from_ffi F_Usd = Cu_Usd"
| "CurrencyUnit_from_ffi F_Eur = Cu_Eur"
| "CurrencyUnit_from_ffi F_Auth = Cu_Auth"
| "CurrencyUnit_from_ffi (F_Custom u) = Cu_Custom u"

record FfiCashuConfig =
  fc_mint_url :: string
  fc_unit :: FfiCurrencyUnit
  fc_npubcash_url :: "string option"

definition CashuConfig_from_ffi :: "FfiCashuConfig \<Rightarrow> CashuConfig" where
  "CashuConfig_from_ffi config = \<lparr>cc_mint_url = fc_mint_url config,
     cc_unit = CurrencyUnit_from_ffi (fc_unit config), cc_npubcash_url = fc_npubcash_url config\<rparr>"

definition FfiCashuConfig_from :: "CashuConfig \<Rightarrow> FfiCashuConfig" where
  "FfiCashuConfig_from config = \<lparr>fc_mint_url = cc_mint_url config,
     fc_unit = FfiCurrencyUnit_from (cc_unit config), fc_npubcash_url = cc_npubcash_url config\<rparr>"

text \<open>The Spark configuration is an object that can only be the default.\<close>

definition ffi_SparkWalletConfig_default_config :: SparkWalletConfig where
  "ffi_SparkWalletConfig_default_config = SparkWalletConfig_default"

datatype FfiExtraConfig = F_ExSpark SparkWalletConfig | F_ExCashu FfiCashuConfig

fun ExtraConfig_from_ffi :: "FfiExtraConfig \<Rightarrow> ExtraConfig" where
  "ExtraConfig_from_ffi (F_ExSpark config) = Ex_Spark config"
| "ExtraConfig_from_ffi (F_ExCashu config) = Ex_Cashu (CashuConfig_from_ffi config)"

subsection \<open>The configuration\<close>

record FfiWalletConfig =
  fw_storage_config :: FfiStorageConfig
  fw_log_file :: string
  fw_chain_source :: FfiChainSource
  fw_lsp_address :: string
  fw_lsp_node_id :: string
  fw_lsp_token :: "string option"
  fw_scorer_url :: "string option"
  fw_rgs_url :: "string option"
  fw_network :: FfiNetwork
  fw_seed :: FfiSeed
  fw_tunables :: Tunables
  fw_extra_config :: FfiExtraConfig

fun try_then :: "('e, 'a) result \<Rightarrow> ('a \<Rightarrow> ('e, 'b) result) \<Rightarrow> ('e, 'b) result" where
  "try_then (Ok a) f = f a"
| "try_then (Err e) f = Err e"
| "try_then (Panic m) f = Panic m"

definition WalletConfig_try_from :: "ffi_parsers \<Rightarrow> FfiWalletConfig \<Rightarrow> (ConfigError, WalletConfig) result" where
  "WalletConfig_try_from P config =
     try_then (result_map_err InvalidLspNodeId (public_key_from_str P (fw_lsp_node_id config))) (\<lambda>node_id.
     try_then (result_map_err InvalidLspAddress (socket_address_from_str P (fw_lsp_address config))) (\<lambda>address.
     try_then (Seed_try_from_ffi (fw_seed config)) (\<lambda>seed.
       Ok \<lparr>wc_storage_config = StorageConfig_from_ffi (fw_storage_config config),
           wc_logger_type = LogFile (fw_log_file config),
           wc_chain_source = ChainSource_from_ffi (fw_chain_source config),
           wc_lsp = (address, node_id, fw_lsp_token config),
           wc_scorer_url = fw_scorer_url config, wc_rgs_url = fw_rgs_url config,
           wc_network = Network_from_ffi (fw_network config), wc_seed = seed,
           wc_tunables = fw_tunables config,
           wc_extra_config = ExtraConfig_from_ffi (fw_extra_config config)\<rparr>)))"

subsection \<open>Amounts and payment instructions\<close>

fun AmountError_to_string :: "AmountError \<Rightarrow> string" where
  "AmountError_to_string (FractionalAmountOfSats n) = ''Not exactly a whole number of sats: '' @ decimal n"
| "AmountError_to_string (MoreThanTwentyOneMillionBitcoin n) = ''More than 21 million bitcoin: '' @ decimal n"

text \<open>The errors of \<open>bitcoin_payment_instructions\<close>, with the text their payload prints as.\<close>

datatype BPIParseError =
    B_InvalidBolt11 string
  | B_InvalidBolt12 string
  | B_InvalidOnChain string
  | B_WrongNetwork
  | B_InconsistentInstructions string
  | B_InvalidInstructions string
  | B_UnknownPaymentInstructions
  | B_UnknownRequiredParameter
  | B_HrnResolutionError string
  | B_InstructionsExpired
  | B_InvalidLnurl string

datatype ParseError =
    InvalidBolt11 string
  | InvalidBolt12 string
  | InvalidOnChain string
  | WrongNetwork
  | InconsistentInstructions string
  | InvalidInstructions string
  | UnknownPaymentInstructions
  | UnknownRequiredParameter
  | HrnResolutionError string
  | InstructionsExpired
  | InvalidLnurl string

fun ParseError_from :: "BPIParseError \<Rightarrow> ParseError" where
  "ParseError_from (B_InvalidBolt11 e) = InvalidBolt11 e"
| "ParseError_from (B_InvalidBolt12 e) = InvalidBolt12 e"
| "ParseError_from (B_InvalidOnChain e) = InvalidOnChain e"
| "ParseError_from B_WrongNetwork = WrongNetwork"
| "ParseError_from (B_InconsistentInstructions msg) = InconsistentInstructions msg"
| "ParseError_from (B_InvalidInstructions msg) = InvalidInstructions msg"
| "ParseError_from B_UnknownPaymentInstructions = UnknownPaymentInstructions"
| "ParseError_from B_UnknownRequiredParameter = UnknownRequiredParameter"
| "ParseError_from (B_HrnResolutionError msg) = HrnResolutionError msg"
| "ParseError_from B_InstructionsExpired = InstructionsExpired"
| "ParseError_from (B_InvalidLnurl msg) = InvalidLnurl msg"

fun ParseError_to_string :: "ParseError \<Rightarrow> string" where
  "ParseError_to_string (InvalidBolt11 e) = ''Invalid BOLT 11 invoice: '' @ e"
| "ParseError_to_string (InvalidBolt12 e) = ''Invalid BOLT 12 offer: '' @ e"
| "ParseError_to_string (InvalidOnChain e) = ''Invalid on-chain address: '' @ e"
| "ParseError_to_string WrongNetwork = ''Wrong network for payment instructions''"
| "ParseError_to_string (InconsistentInstructions e) = ''Inconsistent payment instructions: '' @ e"
| "ParseError_to_string (InvalidInstructions e) = ''Invalid payment instructions: '' @ e"
| "ParseError_to_string UnknownPaymentInstructions = ''Unknown payment instruction format''"
| "ParseError_to_string UnknownRequiredParameter = ''Unknown required parameter in BIP 21 URI''"
| "ParseError_to_string (HrnResolutionError e) = ''Human readable name resolution error: '' @ e"
| "ParseError_to_string InstructionsExpired = ''Payment instructions have expired''"
| "ParseError_to_string (InvalidLnurl e) = ''Invalid LNURL: '' @ e"

fun ffi_is_configurable_amount :: "PaymentInstructions \<Rightarrow> bool" where
  "ffi_is_configurable_amount (ConfigurableAmount _) = True"
| "ffi_is_configurable_amount (FixedAmount _) = False"

fun ffi_is_fixed_amount :: "PaymentInstructions \<Rightarrow> bool" where
  "ffi_is_fixed_amount (ConfigurableAmount _) = False"
| "ffi_is_fixed_amount (FixedAmount _) = True"

fun ffi_min_amount :: "PaymentInstructions \<Rightarrow> Amount option" where
  "ffi_min_amount (ConfigurableAmount conf) = min_amt conf"
| "ffi_min_amount (FixedAmount _) = None"

text \<open>The largest amount of fixed instructions is computed by the crate.\<close>

fun ffi_max_amount :: "(FixedAmountInstructions \<Rightarrow> Amount option) \<Rightarrow> PaymentInstructions \<Rightarrow> Amount option" where
  "ffi_max_amount fixed_max (ConfigurableAmount conf) = max_amt conf"
| "ffi_max_amount fixed_max (FixedAmount fixed) = fixed_max fixed"

fun ffi_ln_payment_amount :: "PaymentInstructions \<Rightarrow> Amount option" where
  "ffi_ln_payment_amount (ConfigurableAmount _) = None"
| "ffi_ln_payment_amount (FixedAmount fixed) = ln_payment_amount fixed"

fun ffi_onchain_payment_amount :: "PaymentInstructions \<Rightarrow> Amount option" where
  "ffi_onchain_payment_amount (ConfigurableAmount _) = None"
| "ffi_onchain_payment_amount (FixedAmount fixed) = onchain_payment_amount fixed"

datatype FfiPaymentInfoBuildError =
    F_AmountMismatch Amount "Amount option" "Amount option"
  | F_MissingAmount
  | F_AmountOutOfRange Amount "Amount option" "Amount option"

fun FfiPaymentInfoBuildError_from :: "PaymentInfoBuildError \<Rightarrow> FfiPaymentInfoBuildError" where
  "FfiPaymentInfoBuildError_from (AmountMismatch given ln_amount onchain_amount) =
     F_AmountMismatch given ln_amount onchain_amount"
| "FfiPaymentInfoBuildError_from MissingAmount = F_MissingAmount"
| "FfiPaymentInfoBuildError_from (AmountOutOfRange given lo hi) = F_AmountOutOfRange given lo hi"

definition optional_msats :: "string \<Rightarrow> Amount option \<Rightarrow> string" where
  "optional_msats label a = (case a of Some a \<Rightarrow> label @ decimal (milli_sats a) | None \<Rightarrow> '''')"

fun FfiPaymentInfoBuildError_to_string :: "FfiPaymentInfoBuildError \<Rightarrow> string" where
  "FfiPaymentInfoBuildError_to_string (F_AmountMismatch given ln_amount onchain_amount) =
     ''Amount mismatch: given '' @ decimal (milli_sats given)
       @ optional_msats '', lightning amount '' ln_amount
       @ optional_msats '', on-chain amount '' onchain_amount"
| "FfiPaymentInfoBuildError_to_string F_MissingAmount = ''Amount is required but was not provided''"
| "FfiPaymentInfoBuildError_to_string (F_AmountOutOfRange given lo hi) =
     ''Amount '' @ decimal (milli_sats given) @ '' is out of range''
       @ optional_msats '', minimum '' lo @ optional_msats '', maximum '' hi"

definition ffi_PaymentInfo_build :: "PaymentInstructions \<Rightarrow> Amount option \<Rightarrow>
    (FfiPaymentInfoBuildError, PaymentInfo) result" where
  "ffi_PaymentInfo_build instructions amount =
     result_map_err FfiPaymentInfoBuildError_from (PaymentInfo_build instructions amount)"

end
