(* ===== verification/Ffi_Wallet.thy ===== *)
theory Ffi_Wallet
  imports Ffi_Config Transactions
begin

text \<open>
  The wallet object of the bindings (\<open>ffi/orange/wallet.rs\<close>): every call is one of the wallet, with
  its result and its error converted. An asynchronous call is polled by a thread of the foreign
  language, inside the context of the object's own runtime (\<open>RTPoller\<close>); entering and leaving it
  is part of the world outside.
\<close>

subsection \<open>Polling inside the runtime\<close>

record 'w runtime_ctx =
  rt_enter :: "'w \<Rightarrow> 'w"
  rt_leave :: "'w \<Rightarrow> 'w"

text \<open>The guard is dropped however the call ends.\<close>

definition RTPoller_poll :: "'w runtime_ctx \<Rightarrow> (('s, 'w, 'x) wallet_state_scheme \<Rightarrow>
    'a \<times> ('s, 'w, 'x) wallet_state_scheme) \<Rightarrow> ('s, 'w, 'x) wallet_state_scheme \<Rightarrow>
    'a \<times> ('s, 'w, 'x) wallet_state_scheme" where
  "RTPoller_poll R f s = (case f (s\<lparr>outside := rt_enter R (outside s)\<rparr>) of
     (r, s) \<Rightarrow> (r, s\<lparr>outside := rt_leave R (outside s)\<rparr>))"

definition map_ok :: "('a \<Rightarrow> 'b) \<Rightarrow> ('e, 'a) result \<times> 's \<Rightarrow> ('e, 'b) result \<times> 's" where
  "map_ok f r = and_then r (\<lambda>a s. (Ok (f a), s))"

definition ffi_call :: "ffi_texts \<Rightarrow> 'w runtime_ctx \<Rightarrow> ('a \<Rightarrow> 'b) \<Rightarrow> (('s, 'w, 'x) wallet_state_scheme \<Rightarrow>
    (WalletError, 'a) result \<times> ('s, 'w, 'x) wallet_state_scheme) \<Rightarrow> ('s, 'w, 'x) wallet_state_scheme \<Rightarrow>
    (FfiWalletError, 'b) result \<times> ('s, 'w, 'x) wallet_state_scheme" where
  "ffi_call T R convert f s = map_ok convert (map_err (FfiWalletError_from T) (RTPoller_poll R f s))"

subsection \<open>Balances and addresses as objects\<close>

definition ffi_Balances_new :: "Amount \<Rightarrow> Amount \<Rightarrow> Amount \<Rightarrow> Balances" where
  "ffi_Balances_new lightning trusted_amount pending_balance =
     \<lparr>bal_trusted = trusted_amount, bal_lightning = lightning, bal_pending_balance = pending_balance\<rparr>"

definition ffi_available_balance :: "amount_ops \<Rightarrow> Balances \<Rightarrow> Amount" where
  "ffi_available_balance A b = available_balance A b"

text \<open>What can be read of a receive URI, by its accessors.\<close>

record FfiSingleUseReceiveUri =
  fu_address :: "string option"
  fu_invoice :: string
  fu_amount :: "Amount option"
  fu_from_trusted :: bool
  fu_bip21_uri :: string
  fu_payment_hash :: string

definition FfiSingleUseReceiveUri_from :: "ffi_texts \<Rightarrow> uri_texts \<Rightarrow> SingleUseReceiveUri \<Rightarrow> FfiSingleUseReceiveUri" where
  "FfiSingleUseReceiveUri_from T U uri = \<lparr>fu_address = map_option (address_text U) (uri_address uri),
     fu_invoice = invoice_text U (uri_invoice uri), fu_amount = uri_amount uri,
     fu_from_trusted = uri_from_trusted uri, fu_bip21_uri = SingleUseReceiveUri_to_string U uri,
     fu_payment_hash = txt_payment_hash T (inv_payment_hash (uri_invoice uri))\<rparr>"

subsection \<open>The wallet\<close>

text \<open>The runtime is built first, then the configuration is checked, and only then does the wallet start.\<close>

definition ffi_Wallet_new :: "ffi_texts \<Rightarrow> ffi_parsers \<Rightarrow> (io_error, unit) result \<Rightarrow>
    ('s, 'e) store_env_scheme \<Rightarrow> (nat \<Rightarrow> nat) \<Rightarrow> ('s, 'f) cashu_env_scheme \<Rightarrow>
    ('s, 'c) cdk_start \<Rightarrow> ('s, 'x) spark_env_scheme \<Rightarrow> 'b spark_start \<Rightarrow> ('s, 'n) start_ops \<Rightarrow> FfiWalletConfig \<Rightarrow>
    ('s, 'c, 'b, 'n) starting \<Rightarrow>
    (FfiInitFailure, 's trigger_state) result \<times> ('s, 'c, 'b, 'n) starting" where
  "ffi_Wallet_new T P runtime E sched C K S B X config s =
     and_then (map_err (FfiInitFailure_from_io T) (runtime, s)) (\<lambda>_ s.
     and_then (map_err FfiInitFailure_from_config (WalletConfig_try_from P config, s)) (\<lambda>config s.
       map_err (FfiInitFailure_from T) (Wallet_new E sched C K S B X config s)))"

definition ffi_get_balance :: "ffi_texts \<Rightarrow> 'w runtime_ctx \<Rightarrow> 'w wallet \<Rightarrow> ('s, 'w, 'x) wallet_state_scheme \<Rightarrow>
    (FfiWalletError, Balances) result \<times> ('s, 'w, 'x) wallet_state_scheme" where
  "ffi_get_balance T R X s = ffi_call T R (\<lambda>balance. balance) (get_balance X) s"

definition ffi_is_connected_to_lsp :: "'w wallet \<Rightarrow> ('s, 'w, 'x) wallet_state_scheme \<Rightarrow> bool" where
  "ffi_is_connected_to_lsp X s = is_connected_to_lsp (ln_wallet X) (outside s)"

definition ffi_set_rebalance_enabled :: "'w runtime_ctx \<Rightarrow> ('s, 'e) wallet_env_scheme \<Rightarrow> bool \<Rightarrow>
    ('s, 'w, 'x) wallet_state_scheme \<Rightarrow> (unit, unit) result \<times> ('s, 'w, 'x) wallet_state_scheme" where
  "ffi_set_rebalance_enabled R E value s = RTPoller_poll R (wallet_set_rebalance_enabled E value) s"

definition ffi_get_rebalance_enabled :: "'w runtime_ctx \<Rightarrow> ('s, 'e) wallet_env_scheme \<Rightarrow>
    ('s, 'w, 'x) wallet_state_scheme \<Rightarrow> (unit, bool) result \<times> ('s, 'w, 'x) wallet_state_scheme" where
  "ffi_get_rebalance_enabled R E s = RTPoller_poll R (wallet_get_rebalance_enabled E) s"

definition ffi_list_transactions :: "ffi_texts \<Rightarrow> 'w runtime_ctx \<Rightarrow> ('s, 'e) wallet_env_scheme \<Rightarrow> 'w wallet \<Rightarrow>
    (PaymentId list \<Rightarrow> PaymentId list) \<Rightarrow> ('s, 'w, 'x) wallet_state_scheme \<Rightarrow>
    (FfiWalletError, FfiTransaction list) result \<times> ('s, 'w, 'x) wallet_state_scheme" where
  "ffi_list_transactions T R E X order s =
     ffi_call T R (map FfiTransaction_from) (list_transactions E X order) s"

text \<open>Parsing is done by \<open>bitcoin_payment_instructions\<close> and may ask the network.\<close>

definition ffi_parse_payment_instructions :: "'w runtime_ctx \<Rightarrow>
    (string \<Rightarrow> 'w \<Rightarrow> (BPIParseError, PaymentInstructions) result \<times> 'w) \<Rightarrow> string \<Rightarrow>
    ('s, 'w, 'x) wallet_state_scheme \<Rightarrow>
    (ParseError, PaymentInstructions) result \<times> ('s, 'w, 'x) wallet_state_scheme" where
  "ffi_parse_payment_instructions R parse instructions s =
     map_err ParseError_from (RTPoller_poll R (outside_call (parse instructions)) s)"

definition ffi_pay :: "ffi_texts \<Rightarrow> 'w runtime_ctx \<Rightarrow> ('s, 'e) wallet_env_scheme \<Rightarrow> 'w wallet \<Rightarrow> PaymentInfo \<Rightarrow>
    ('s, 'w, 'x) wallet_state_scheme \<Rightarrow>
    (FfiWalletError, FfiPaymentId) result \<times> ('s, 'w, 'x) wallet_state_scheme" where
  "ffi_pay T R E X info s = ffi_call T R FfiPaymentId_from (pay E X info) s"

definition ffi_estimate_fee :: "ffi_texts \<Rightarrow> 'w runtime_ctx \<Rightarrow> PaymentInfo \<Rightarrow> ('s, 'w, 'x) wallet_state_scheme \<Rightarrow>
    (FfiWalletError, Amount) result \<times> ('s, 'w, 'x) wallet_state_scheme" where
  "ffi_estimate_fee T R info s =
     ffi_call T R (\<lambda>fee. fee) (\<lambda>s. (Ok (estimate_fee (PaymentInfo_instructions info)), s)) s"

definition ffi_stop :: "'w runtime_ctx \<Rightarrow> 'w wallet \<Rightarrow> ('s, 'w, 'x) wallet_state_scheme \<Rightarrow>
    ('s, 'w, 'x) wallet_state_scheme" where
  "ffi_stop R X s = snd (RTPoller_poll R (\<lambda>s. ((), wallet_stop X s)) s)"

definition ffi_get_single_use_receive_uri :: "ffi_texts \<Rightarrow> uri_texts \<Rightarrow> 'w runtime_ctx \<Rightarrow> 'w wallet \<Rightarrow> Amount option \<Rightarrow>
    ('s, 'w, 'x) wallet_state_scheme \<Rightarrow>
    (FfiWalletError, FfiSingleUseReceiveUri) result \<times> ('s, 'w, 'x) wallet_state_scheme" where
  "ffi_get_single_use_receive_uri T U R X amount s =
     ffi_call T R (FfiSingleUseReceiveUri_from T U) (get_single_use_receive_uri X amount) s"

definition ffi_list_channels :: "'w wallet \<Rightarrow> ('s, 'w, 'x) wallet_state_scheme \<Rightarrow> ChannelDetails list" where
  "ffi_list_channels X s = channels X s"

definition ffi_close_channels :: "ffi_texts \<Rightarrow> 'w runtime_ctx \<Rightarrow> ('s, 'e) wallet_env_scheme \<Rightarrow> 'w wallet \<Rightarrow>
    ('s, 'w, 'x) wallet_state_scheme \<Rightarrow>
    (FfiWalletError, unit) result \<times> ('s, 'w, 'x) wallet_state_scheme" where
  "ffi_close_channels T R E X s = ffi_call T R (\<lambda>_. ()) (close_channels E X) s"

definition ffi_get_tunables :: "'w wallet \<Rightarrow> Tunables" where
  "ffi_get_tunables X = get_tunables X"

definition ffi_next_event :: "ffi_texts \<Rightarrow> ('s, 'w, 'x) wallet_state_scheme \<Rightarrow> FfiEvent option" where
  "ffi_next_event T s = map_option (FfiEvent_from T) (wallet_next_event s)"

text \<open>\<open>next_event_async\<close> and \<open>wait_next_event\<close> convert what a consumer of the queue that is ready has.\<close>

fun ffi_ready_event :: "ffi_texts \<Rightarrow> consumer \<Rightarrow> FfiEvent option" where
  "ffi_ready_event T (Ready e) = Some (FfiEvent_from T e)"
| "ffi_ready_event T _ = None"

definition ffi_event_handled :: "('s, 'e) wallet_env_scheme \<Rightarrow> ('s, 'w, 'x) wallet_state_scheme \<Rightarrow>
    (unit, bool) result \<times> ('s, 'w, 'x) wallet_state_scheme" where
  "ffi_event_handled E s = (case wallet_event_handled E s of
     (Ok _, s) \<Rightarrow> (Ok True, s) | (Err _, s) \<Rightarrow> (Ok False, s) | (Panic m, s) \<Rightarrow> (Panic m, s))"

text \<open>These two are awaited as they are, outside the runtime.\<close>

definition ffi_get_lightning_address :: "ffi_texts \<Rightarrow> 'w wallet \<Rightarrow> ('s, 'w, 'x) wallet_state_scheme \<Rightarrow>
    (FfiWalletError, string option) result \<times> ('s, 'w, 'x) wallet_state_scheme" where
  "ffi_get_lightning_address T X s = map_err (FfiWalletError_from T) (get_lightning_address X s)"

definition ffi_register_lightning_address :: "ffi_texts \<Rightarrow> 'w wallet \<Rightarrow> string \<Rightarrow>
    ('s, 'w, 'x) wallet_state_scheme \<Rightarrow>
    (FfiWalletError, unit) result \<times> ('s, 'w, 'x) wallet_state_scheme" where
  "ffi_register_lightning_address T X name s =
     map_err (FfiWalletError_from T) (register_lightning_address X name s)"

end
