(* ===== verification/Ffi_Props.thy ===== *)
theory Ffi_Props
  imports Ffi_Wallet Startup_Props Sample_Wallet
begin

text \<open>
  What the bindings keep and what they lose: which events look alike from outside, that a client
  sees every event once and in order (an interpretation of \<open>event_source\<close>), that the conversions
  of the configuration lose nothing but units they do not know, and what a wallet that was
  started through the bindings has been checked for.
\<close>

subsection \<open>Identifiers\<close>

lemma FfiPaymentId_from_inject [simp]: "FfiPaymentId_from i = FfiPaymentId_from j \<longleftrightarrow> i = j"
  by (cases i; cases j) simp_all

lemma FfiTxStatus_from_inject: "FfiTxStatus_from a = FfiTxStatus_from b \<longleftrightarrow> a = b"
  by (cases a; cases b) simp_all

lemma FfiPaymentType_from_inject: "FfiPaymentType_from a = FfiPaymentType_from b \<longleftrightarrow> a = b"
  by (cases a; cases b) simp_all

text \<open>Two transactions look alike exactly when they differ in the fraction of a second only.\<close>

theorem FfiTransaction_from_eq:
  "FfiTransaction_from (a :: Transaction) = FfiTransaction_from b \<longleftrightarrow>
   as_secs (tx_time_since_epoch a) = as_secs (tx_time_since_epoch b)
   \<and> a\<lparr>tx_time_since_epoch := tx_time_since_epoch b\<rparr> = b"
  by (cases a; cases b)
    (auto simp: FfiTransaction_from_def FfiTxStatus_from_inject FfiPaymentType_from_inject)

lemma be_bytes_mod:
  fixes m n :: nat
  assumes "\<And>i. i < k \<Longrightarrow> (word_of_nat (m div 256 ^ i) :: u8) = word_of_nat (n div 256 ^ i)"
  shows "m mod 256 ^ k = n mod 256 ^ k"
  using assms
proof (induction k)
  case (Suc k)
  from Suc.prems [of k] have "m div 256 ^ k mod 256 = n div 256 ^ k mod 256"
    by (simp add: word_of_nat_eq_iff take_bit_eq_mod)
  with Suc.IH Suc.prems show ?case
    using mod_mult2_eq [of m "256 ^ k" 256] mod_mult2_eq [of n "256 ^ k" 256] by (simp add: mult.commute)
qed simp

lemma u128_to_be_bytes_inject:
  assumes "m < 2 ^ 128" "n < 2 ^ 128"
  shows "u128_to_be_bytes m = u128_to_be_bytes n \<longleftrightarrow> m = n"
proof
  assume "u128_to_be_bytes m = u128_to_be_bytes n"
  then have "(word_of_nat (m div 256 ^ i) :: u8) = word_of_nat (n div 256 ^ i)" if "i < 16" for i
    using that by (simp add: u128_to_be_bytes_def)
  from be_bytes_mod [of 16 m n, OF this] show "m = n" using assms by simp
qed simp

subsection \<open>Events\<close>

text \<open>
  Events that a client cannot tell apart: the types of custom records and the confirmation
  status are dropped, and reasons are known by the text they print as.
\<close>

definition ffi_alike :: "ffi_texts \<Rightarrow> Event \<Rightarrow> Event \<Rightarrow> bool" where
  "ffi_alike T e e' = (case e of
     PaymentReceived i h a records fee \<Rightarrow>
       (\<exists>records'. e' = PaymentReceived i h a records' fee \<and> map snd records' = map snd records)
   | OnchainPaymentReceived i txid a _ \<Rightarrow> (\<exists>status. e' = OnchainPaymentReceived i txid a status)
   | PaymentFailed i h reason \<Rightarrow> (\<exists>reason'. e' = PaymentFailed i h reason'
       \<and> map_option (txt_failure_reason T) reason' = map_option (txt_failure_reason T) reason)
   | ChannelClosed c u n reason \<Rightarrow> (\<exists>reason'. e' = ChannelClosed c u n reason'
       \<and> map_option (txt_closure_reason T) reason' = map_option (txt_closure_reason T) reason)
   | _ \<Rightarrow> e' = e)"

text \<open>A \<open>u128\<close> is below \<open>2 ^ 128\<close>.\<close>

fun event_in_range :: "Event \<Rightarrow> bool" where
  "event_in_range (ChannelOpened _ u _ _) = (u < 2 ^ 128)"
| "event_in_range (ChannelClosed _ u _ _) = (u < 2 ^ 128)"
| "event_in_range (SplicePending _ u _ _) = (u < 2 ^ 128)"
| "event_in_range _ = True"

lemma FfiEvent_from_eq:
  assumes "inj (txt_outpoint T)" and "event_in_range e" "event_in_range e'"
  shows "FfiEvent_from T e' = FfiEvent_from T e \<longleftrightarrow> ffi_alike T e e'"
  using assms
  by (cases e; cases e') (auto simp: ffi_alike_def u128_to_be_bytes_inject inj_eq)

lemma ffi_event_handled_state [simp]: "snd (ffi_event_handled E s) = snd (wallet_event_handled E s)"
  by (simp add: ffi_event_handled_def split: prod.split result.split)

lemma wallet_event_handled_queue [simp]: "queue (snd (wallet_event_handled E s)) = tl (queue s)"
proof -
  obtain r t where "event_handled E s = (r, t)" by fastforce
  with event_handled_queue [of E s] show ?thesis
    by (cases r) (simp_all add: wallet_event_handled_def spawn_rebalance_def)
qed

interpretation ffi_events: event_source
  "ffi_next_event T" "\<lambda>s. snd (ffi_event_handled E s)" "\<lambda>s. map (FfiEvent_from T) (queue s)"
  for T :: ffi_texts and E :: "('s, 'e) wallet_env_scheme"
  by unfold_locales
    (auto simp: ffi_next_event_def wallet_next_event_def next_event_def map_tl split: list.split)

text \<open>
  C35. A client of the bindings that looks at the next event, handles it and confirms it sees every
  event of the queue once and in order. Confirming removes the event from the queue in memory
  whatever it answers: where it answers false, as the store did not take the shorter queue, the
  next event is a new one all the same (the documentation says that the same event is returned
  until handling is confirmed). What the client sees of two queues is equal exactly when their
  events agree one by one, but for the types of custom records, the confirmation status of an
  on-chain payment, and reasons that print alike.
\<close>

theorem ffi_event_stream:
  assumes "inj (txt_outpoint T)" and "\<forall>e\<in>set (queue s) \<union> set (queue s'). event_in_range e"
  shows "fst (drain (ffi_next_event T) (\<lambda>s. snd (ffi_event_handled E s)) (length (queue s)) s)
      = map (FfiEvent_from T) (queue s)
    \<and> ffi_next_event T (snd (ffi_event_handled E s))
      = (case queue s of _ # e # _ \<Rightarrow> Some (FfiEvent_from T e) | _ \<Rightarrow> None)
    \<and> (map (FfiEvent_from T) (queue s') = map (FfiEvent_from T) (queue s)
       \<longleftrightarrow> list_all2 (ffi_alike T) (queue s) (queue s'))"
proof (intro conjI)
  show "fst (drain (ffi_next_event T) (\<lambda>s. snd (ffi_event_handled E s)) (length (queue s)) s)
      = map (FfiEvent_from T) (queue s)"
    using ffi_events.drain_takes [of T E "length (queue s)" s] by simp
  show "ffi_next_event T (snd (ffi_event_handled E s))
      = (case queue s of _ # e # _ \<Rightarrow> Some (FfiEvent_from T e) | _ \<Rightarrow> None)"
    using ffi_events.front_contents [of T "snd (ffi_event_handled E s)"]
    by (auto split: list.split)
  have "map (FfiEvent_from T) es' = map (FfiEvent_from T) es \<longleftrightarrow> list_all2 (ffi_alike T) es es'"
    if "\<forall>e\<in>set es \<union> set es'. event_in_range e" for es es'
    using that
  proof (induction es arbitrary: es')
    case (Cons e es)
    then show ?case by (cases es') (auto simp: FfiEvent_from_eq [OF assms(1)])
  qed simp
  with assms(2) show "map (FfiEvent_from T) (queue s') = map (FfiEvent_from T) (queue s)
      \<longleftrightarrow> list_all2 (ffi_alike T) (queue s) (queue s')" by blast
qed

subsection \<open>Configuration\<close>

lemma CurrencyUnit_roundtrip [simp]: "FfiCurrencyUnit_from (CurrencyUnit_from_ffi u) = u"
  by (cases u) simp_all

text \<open>A unit that the bindings do not know comes back as satoshis.\<close>

theorem CurrencyUnit_kept: "CurrencyUnit_from_ffi (FfiCurrencyUnit_from u) = u \<longleftrightarrow> (\<forall>n. u \<noteq> Cu_Other n)"
  by (cases u) simp_all

theorem CashuConfig_roundtrip: "FfiCashuConfig_from (CashuConfig_from_ffi c) = c"
  by (simp add: FfiCashuConfig_from_def CashuConfig_from_ffi_def)

lemma VssAuth_roundtrip [simp]: "FfiVssAuth_from (VssAuth_from_ffi a) = a" "VssAuth_from_ffi (FfiVssAuth_from b) = b"
  by (cases a, simp_all) (cases b, simp_all)

theorem VssConfig_roundtrip:
  "FfiVssConfig_from (VssConfig_from_ffi c) = c \<and> VssConfig_from_ffi (FfiVssConfig_from d) = d"
  by (simp add: FfiVssConfig_from_def VssConfig_from_ffi_def)

lemma try_then_eq_Ok: "try_then r f = Ok b \<longleftrightarrow> (\<exists>a. r = Ok a \<and> f a = Ok b)"
  by (cases r) simp_all

lemma result_map_err_eq_Ok: "result_map_err f r = Ok a \<longleftrightarrow> r = Ok a"
  by (cases r) simp_all

fun ffi_seed_ok :: "FfiSeed \<Rightarrow> bool" where
  "ffi_seed_ok (F_MnemonicSeed _ _) = True"
| "ffi_seed_ok (F_Seed64 bytes) = (length bytes = 64)"

lemma Seed_try_from_ffi_ok: "(\<exists>seed. Seed_try_from_ffi s = Ok seed) \<longleftrightarrow> ffi_seed_ok s"
  by (cases s) simp_all

definition ffi_config_ok :: "ffi_parsers \<Rightarrow> FfiWalletConfig \<Rightarrow> bool" where
  "ffi_config_ok P config \<longleftrightarrow> is_ok (public_key_from_str P (fw_lsp_node_id config))
     \<and> is_ok (socket_address_from_str P (fw_lsp_address config)) \<and> ffi_seed_ok (fw_seed config)"

lemma WalletConfig_try_from_ok: "is_ok (WalletConfig_try_from P config) \<longleftrightarrow> ffi_config_ok P config"
  by (auto simp: is_ok_iff WalletConfig_try_from_def ffi_config_ok_def try_then_eq_Ok result_map_err_eq_Ok
      Seed_try_from_ffi_ok [symmetric])

lemma WalletConfig_try_from_extra:
  "WalletConfig_try_from P config = Ok cfg \<Longrightarrow> wc_extra_config cfg = ExtraConfig_from_ffi (fw_extra_config config)"
  by (auto simp: WalletConfig_try_from_def try_then_eq_Ok)

text \<open>A wallet that started with a Cashu configuration has a unit the Cashu wallet supports.\<close>

lemma Wallet_new_cashu_unit:
  assumes "Wallet_new E sched C K S B X cfg s = (Ok w, s')" and "wc_extra_config cfg = Ex_Cashu c"
  shows "cc_unit c = Cu_Sat \<or> cc_unit c = Cu_Msat"
proof (rule ccontr)
  assume unit: "\<not> ?thesis"
  obtain store md d where new: "logger_opens X (wc_logger_type cfg)" "so_runtime_new X = Ok ()" "open_store X cfg = Ok store"
      "TxMetadataStore_new E sched store = (Ok md, d)"
    using Wallet_new_opened [OF assms(1)] by auto
  obtain e t where "start_cashu C K c (wc_seed cfg) (s\<lparr>st_disk := d\<rparr>) = (Err e, t)"
    using unit by (simp add: start_cashu_def Cashu_init_def)
  with assms new show False by (simp add: Wallet_new_def)
qed

fun ffi_cashu_unit_ok :: "FfiExtraConfig \<Rightarrow> bool" where
  "ffi_cashu_unit_ok (F_ExSpark _) = True"
| "ffi_cashu_unit_ok (F_ExCashu c) = (fc_unit c = F_Sat \<or> fc_unit c = F_Msat)"

text \<open>
  C25. What starting through the bindings checks. A configuration whose node id or address of the LSP
  does not parse, or whose seed is not 64 bytes, is refused before anything was touched: no store
  was opened, no task spawned. If the wallet starts, the configuration passed these checks and the
  unit of a Cashu wallet is one it supports; and the wallet that starts is the one \<open>Wallet::new\<close> gives.
\<close>

theorem ffi_wallet_start:
  assumes "ffi_Wallet_new T P runtime E sched C K S B X config s = (r, s')"
  shows "(\<not> ffi_config_ok P config \<longrightarrow> \<not> is_ok r \<and> s' = s)
    \<and> (is_ok r \<longrightarrow> ffi_config_ok P config \<and> ffi_cashu_unit_ok (fw_extra_config config)
        \<and> (\<exists>cfg w. WalletConfig_try_from P config = Ok cfg \<and> r = Ok w
             \<and> Wallet_new E sched C K S B X cfg s = (Ok w, s')))"
proof (cases "WalletConfig_try_from P config")
  case (Ok cfg)
  then have ok: "ffi_config_ok P config" by (simp flip: WalletConfig_try_from_ok)
  have "ffi_cashu_unit_ok (fw_extra_config config) \<and> Wallet_new E sched C K S B X cfg s = (Ok w, s')" if "r = Ok w" for w
  proof -
    have new: "Wallet_new E sched C K S B X cfg s = (Ok w, s')"
      using assms that Ok by (auto simp: ffi_Wallet_new_def and_then_eq_Ok map_err_eq_Ok)
    have "ffi_cashu_unit_ok (fw_extra_config config)"
    proof (cases "fw_extra_config config")
      case (F_ExCashu c)
      with WalletConfig_try_from_extra [OF Ok] have "wc_extra_config cfg = Ex_Cashu (CashuConfig_from_ffi c)" by simp
      from Wallet_new_cashu_unit [OF new this] F_ExCashu show ?thesis
        by (cases "fc_unit c") (auto simp: CashuConfig_from_ffi_def)
    qed simp
    with new show ?thesis by simp
  qed
  with ok Ok show ?thesis by (auto simp: is_ok_iff)
next
  case (Err e)
  with assms WalletConfig_try_from_ok [of P config] show ?thesis
    by (cases runtime) (auto simp: ffi_Wallet_new_def)
next
  case (Panic m)
  with assms WalletConfig_try_from_ok [of P config] show ?thesis
    by (cases runtime) (auto simp: ffi_Wallet_new_def)
qed

subsection \<open>A client\<close>

definition sample_texts :: ffi_texts where
  "sample_texts = \<lparr>txt_failure_reason = (\<lambda>_. ''reason''), txt_closure_reason = (\<lambda>_. ''closed''),
     txt_outpoint = (\<lambda>o'. decimal (op_vout o') @ CHR 0x3A # to_lower_hex_string (op_txid o')),
     txt_io_error = (\<lambda>_. ''io''), txt_build_error = (\<lambda>_. ''build''), txt_node_error = (\<lambda>_. ''node''),
     txt_trusted_error = (\<lambda>_. ''trusted''), txt_vss_error = (\<lambda>_. ''vss''), txt_public_key = to_lower_hex_string,
     txt_payment_hash = to_lower_hex_string\<rparr>"

lemma decimal_before_colon: "takeWhile (\<lambda>c. c \<noteq> CHR 0x3A) (decimal n @ CHR 0x3A # cs) = decimal n"
proof -
  have "CHR 0x3A \<notin> set (decimal n)" using decimal_digit [of "CHR 0x3A" n] by auto
  then have "\<forall>c\<in>set (decimal n). c \<noteq> CHR 0x3A" by blast
  then show ?thesis by (simp add: takeWhile_append2)
qed

lemma sample_texts_inj: "inj (txt_outpoint sample_texts)"
proof (rule injI)
  fix a b :: OutPoint
  assume "txt_outpoint sample_texts a = txt_outpoint sample_texts b"
  then have eq: "decimal (op_vout a) @ CHR 0x3A # to_lower_hex_string (op_txid a)
      = decimal (op_vout b) @ CHR 0x3A # to_lower_hex_string (op_txid b)" by (simp add: sample_texts_def)
  from arg_cong [OF this, of "takeWhile (\<lambda>c. c \<noteq> CHR 0x3A)"]
  have "op_vout a = op_vout b" unfolding decimal_before_colon by (metis decimal_value_decimal)
  with eq show "a = b" by (cases a; cases b) simp
qed

definition sample_queue_state :: "ConfirmationStatus \<Rightarrow> (mem_kv, unit) wallet_state" where
  "sample_queue_state status = (sample_state ())\<lparr>queue := [OnchainPaymentReceived (SelfCustodial [1]) [2] 7 status,
     ChannelOpened [3] 4 [5] \<lparr>op_txid = [6], op_vout = 0\<rparr>]\<rparr>"

theorem ffi_event_stream_witness:
  "length (fst (drain (ffi_next_event sample_texts) (\<lambda>s. snd (ffi_event_handled sample_wallet_env s)) 2
     (sample_queue_state Unconfirmed))) = 2
   \<and> map (FfiEvent_from sample_texts) (queue (sample_queue_state (Confirmed [] 1 2)))
     = map (FfiEvent_from sample_texts) (queue (sample_queue_state Unconfirmed))"
proof -
  let ?s = "sample_queue_state Unconfirmed" and ?t = "sample_queue_state (Confirmed [] 1 2)"
  have "\<forall>e\<in>set (queue ?s) \<union> set (queue ?t). event_in_range e" by (simp add: sample_queue_state_def)
  note stream = ffi_event_stream [OF sample_texts_inj this, of sample_wallet_env]
  have n: "length (queue ?s) = 2" by (simp add: sample_queue_state_def)
  have "list_all2 (ffi_alike sample_texts) (queue ?s) (queue ?t)"
    by (simp add: sample_queue_state_def ffi_alike_def)
  with stream show ?thesis unfolding n by (simp add: n)
qed

definition sample_parsers :: ffi_parsers where
  "sample_parsers = \<lparr>bip39_from_entropy = (\<lambda>_. None), bip39_from_str = (\<lambda>_. None),
     public_key_from_str = (\<lambda>t. if t = ''lsp'' then Ok [2] else Err ''key''),
     socket_address_from_str = (\<lambda>t. Ok t)\<rparr>"

definition sample_ffi_config :: "nat \<Rightarrow> FfiWalletConfig" where
  "sample_ffi_config n = \<lparr>fw_storage_config = F_LocalSQLite ''orange'', fw_log_file = ''log'',
     fw_chain_source = F_Electrum ''electrum'', fw_lsp_address = ''lsp:1'', fw_lsp_node_id = ''lsp'', fw_lsp_token = None,
     fw_scorer_url = None, fw_rgs_url = None, fw_network = F_Regtest, fw_seed = F_Seed64 (replicate n 3),
     fw_tunables = wc_tunables sample_config,
     fw_extra_config = F_ExCashu \<lparr>fc_mint_url = ''mint'', fc_unit = F_Sat, fc_npubcash_url = None\<rparr>\<rparr>"

definition sample_ffi_run :: "nat \<Rightarrow> (FfiInitFailure, mem_kv trigger_state) result \<times> (mem_kv, unit, unit, unit) starting" where
  "sample_ffi_run n = ffi_Wallet_new sample_texts sample_parsers (Ok ()) sample_env (\<lambda>_. 0) sample_cashu sample_cdk
     sample_spark sample_breez_start sample_start_ops (sample_ffi_config n) sample_starting"

lemma sample_ffi_run_ok: "is_ok (fst (sample_ffi_run 64))"
  by code_simp

theorem ffi_wallet_start_witness:
  "\<not> is_ok (fst (sample_ffi_run 32)) \<and> snd (sample_ffi_run 32) = sample_starting
   \<and> is_ok (fst (sample_ffi_run 64)) \<and> ffi_config_ok sample_parsers (sample_ffi_config 64)"
proof -
  have run: "ffi_Wallet_new sample_texts sample_parsers (Ok ()) sample_env (\<lambda>_. 0) sample_cashu sample_cdk
     sample_spark sample_breez_start sample_start_ops (sample_ffi_config n) sample_starting
     = (fst (sample_ffi_run n), snd (sample_ffi_run n))" for n by (simp add: sample_ffi_run_def)
  have "\<not> ffi_config_ok sample_parsers (sample_ffi_config 32)"
    by (simp add: ffi_config_ok_def sample_ffi_config_def)
  with ffi_wallet_start [OF run, of 32] ffi_wallet_start [OF run, of 64] sample_ffi_run_ok show ?thesis by simp
qed

end
