(* ===== verification/Spec2Isabelle.thy ===== *)
theory Spec2Isabelle
  imports Orange_Prelude Rebalance_Props Cashu_Records Wallet_Props Node_Props Transaction_Props Spark_Props
    Trusted_Props Background_Tasks Dummy_Props Startup_Props Ffi_Props
begin

text \<open>
  A verification development of \<^emph>\<open>orange-sdk\<close>, a bitcoin wallet with graduated custody: small
  amounts are kept by a trusted wallet (Cashu or Spark), larger ones in the user's own lightning
  channels, and a rebalancer moves funds from the former to the latter. The theories translate
  the Rust sources under \<open>src/\<close>; each says at its beginning which file it models.

  \<^bold>\<open>The program and its parts.\<close> \<open>Wallet\<close> (\<open>orange-sdk/src/lib.rs\<close>) is the entry point. It holds a
  trusted wallet behind the trait \<open>TrustedWalletInterface\<close> (\<open>trusted_wallet/mod.rs\<close>), a
  \<open>LightningWallet\<close> over an ldk-node (\<open>lightning_wallet.rs\<close>), an \<open>EventQueue\<close> for its user
  (\<open>event.rs\<close>), a \<open>TxMetadataStore\<close> that says what each payment was for (\<open>store.rs\<close>), and a
  \<open>GraduatedRebalancer\<close> (the crate \<open>graduated-rebalancer\<close>) driven by a trigger and reporting to a
  handler (\<open>rebalancer.rs\<close>). Everything durable goes through a key-value store
  (\<open>dyn_store.rs\<close>), whose operations may fail. Background tasks run on \<open>runtime.rs\<close>.

  \<^bold>\<open>Conventions.\<close> A function that returns \<open>Result\<close> is a function to \<open>result\<close>, with \<open>Ok\<close>, \<open>Err\<close> and
  \<open>Panic\<close>; \<open>and_then\<close> is the \<open>?\<close> operator with the state passed along, so that a failing call
  leaves the state it had reached. The state of a component is a record, and a component that
  shares another's state extends its record: \<open>tx_store\<close>, \<open>rebalance_cache\<close>, \<open>event_queue\<close>,
  \<open>node_state\<close>, \<open>wallet_state\<close>. A block under a lock is one step, and an operation that takes locks
  one after the other is one function: its claims are about operations one at a time, as it runs
  when no other comes in between (\<open>add_event\<close> and its legs, \<open>add_outgoing_change\<close> and its revision, the
  payments of the test wallet and their list; each of these theories says so, and \<open>Event_Props\<close>
  shows what the gap in \<open>add_event\<close> can lose). Where a claim depends on
  interleaving (the waker of the event future, the splice inbox, the bounded reads, the balance
  mutex and \<open>stop\<close>) the component is a step relation over any number of tasks. Release
  builds are modelled: \<open>debug_assert\<close> does nothing and integers wrap where the source does not
  check. A \<open>u64\<close> is a natural number with its width written out where arithmetic can leave it. A
  string is its UTF-8 bytes. The iteration order of a hash map is an argument that permutes.
  Logging is left out. Code of other crates (ldk-node, cdk, the Breez SDK, the amounts and
  instructions of bitcoin-payment-instructions, encodings, SHA-256) is a parameter: a record of
  operations over a world or of functions, with what their documentation promises as the
  assumptions of a locale. The mutex, the join sets and the watch channels of tokio are modelled by
  their documented behaviour.

  \<^bold>\<open>Theories.\<close>
  \<^item> \<open>Orange_Prelude\<close>: outcomes, integers, strings and hexadecimal text, shared lemmas.
  \<^item> \<open>Amounts\<close>: \<open>Amount\<close> with the laws of its crate (locale \<open>amount_laws\<close>) and the bindings' wrapper.
  \<^item> \<open>Kv_Store\<close>: the persistence contract (locale \<open>kv_store\<close>, interpreted on the forwarding layers of
    \<open>dyn_store.rs\<close>) and \<open>read_keys_bounded\<close>, at most ten reads at a time, in any order of completion.
  \<^item> \<open>Tx_Store\<close>, \<open>Tx_Store_Facts\<close>, \<open>Tx_Store_Props\<close>: identifiers, metadata, the merge of the two legs of
    a multi-path payment and every operation of \<open>TxMetadataStore\<close>. Memory and disk agree after every
    operation that returns; a crash leaves the old or the new record; a multi-path payment surfaces
    at most once over restarts.
  \<^item> \<open>Ldk_Types\<close>, \<open>Event_Queue\<close>, \<open>Event_Queue_Facts\<close>, \<open>Mpp_Events\<close>, \<open>Splice_Inbox\<close>, \<open>Event_Props\<close>: the queue
    as a first-in first-out queue (locale \<open>event_fifo\<close>, interpreted on the queue and on the splice
    inbox), its persistence, one combined event per multi-path payment, lost and kept wake-ups.
  \<^item> \<open>Graduated_Rebalancer\<close>, \<open>Trusted_Interface\<close>, \<open>Rebalance_Trigger\<close>, \<open>Rebalance_Facts\<close>,
    \<open>Rebalance_Props\<close>: when a rebalance is started, within which amounts, which calls it makes in
    which order, and that the handler records what the trigger asked for without a panic.
  \<^item> \<open>Background_Tasks\<close>: the runtime, the balance mutex and \<open>Wallet::stop\<close> beside any tasks. Rebalances
    exclude each other, which is why the rebalancer's theory may treat one as one step; \<open>stop\<close>
    completes though tasks hang, unless a rebalance is started during it.
  \<^item> \<open>Lightning_Wallet\<close>, \<open>Ldk_Events\<close>, \<open>Node_Props\<close>: the wallet over the node and the handler of its
    events: where the event for the user goes and when the node is told, which for a received payment
    is also where the queue could not be written.
  \<^item> \<open>Payment_Info\<close>, \<open>Wallet_Pay\<close>, \<open>Wallet_Pay_Facts\<close>, \<open>Wallet_Pay_Log\<close>, \<open>Wallet_Api\<close>, \<open>Wallet_Props\<close>:
    the operations of \<open>Wallet\<close>. On any two wallets \<open>pay\<close> moves the amount once, in one payment or in
    two parts that add up, after at most one abandoned split for each BOLT 11 invoice, and every
    payment made has its metadata.
  \<^item> \<open>Transactions\<close>, \<open>Transaction_Facts\<close>, \<open>Transaction_Props\<close>: \<open>list_transactions\<close> lists each payment,
    each transfer and each multi-path payment once, in order.
  \<^item> \<open>Cashu_Types\<close>, \<open>Cashu_Store\<close>, \<open>Cashu_Facts\<close>, \<open>Cashu_Proofs\<close>, \<open>Cashu_Props\<close>, \<open>Cashu_Records\<close>: the
    database of the Cashu wallet, with the locale \<open>cashu_frame\<close> for what an operation leaves alone.
    What a caller reads is what is durable; a proof is reserved by one operation; the proof set refines a map; quotes do not lose updates; counters advance; the
    migration loses nothing.
  \<^item> \<open>Spark_Types\<close>, \<open>Spark_Store\<close>, \<open>Spark_Sync\<close>, \<open>Spark_Keys\<close>, \<open>Spark_Facts\<close>, \<open>Spark_Queue\<close>, \<open>Spark_Props\<close>:
    the storage of the Spark wallet, with every operation as a step (\<open>spark_step\<close>). A final status
    stays; the outgoing queue is first in, first out.
  \<^item> \<open>Cashu_Wallet\<close>, \<open>Cashu_Wallet_Facts\<close>, \<open>Spark_Wallet\<close>, \<open>Event_Reports\<close>, \<open>Trusted_Props\<close>: the two
    trusted wallets over their SDKs; which outcomes are reported to the user, each with one event,
    and that nothing else is.
  \<^item> \<open>Dummy_Wallet\<close>, \<open>Dummy_Props\<close>: the trusted wallet of the test utilities (\<open>trusted_wallet/dummy.rs\<close>); its
    balance and its list of payments agree, modulo the width of its counter.
  \<^item> \<open>Trusted_Startup\<close>, \<open>Wallet_New\<close>, \<open>Startup_Props\<close>: \<open>Wallet::new\<close>, the start of the node and of the two
    trusted wallets, and their configuration. What is started in which order, that funds are
    restored until it has worked once, and what a restart brings back and what it loses.
  \<^item> \<open>Ffi_Types\<close>, \<open>Ffi_Config\<close>, \<open>Ffi_Wallet\<close>, \<open>Ffi_Props\<close>: the foreign-language bindings (\<open>ffi/\<close>): their types,
    the conversions in both directions, the wallet object. Which events a client can tell apart, that it sees
    each once and in order (locale \<open>event_source\<close>), and what a start through the bindings checks first.
  \<^item> \<open>Sample_Env\<close>, \<open>Sample_Wallet\<close>: concrete environments on which the hypotheses of the properties are
    evaluated.

  \<^bold>\<open>Bounds and fuel.\<close> The loop of \<open>read_keys_bounded\<close> has a measure, so it returns under every order of
  completion. Loops that wait for other components, such as
  \<open>await_payment_receipt\<close>, are partial functions whose result \<open>None\<close> means waiting for ever. The
  only fuel is in \<open>trim_start_matches\<close>, whose fuel is the length of the text, which every turn
  shortens. All other functions are total.

  \<^bold>\<open>Not modelled.\<close> The logger, which only writes; the accessors of the bindings that read one field of another
  crate's type; the construction of the test wallet's
  node and channel, which drives a bitcoind; the command line example and the tests. The code of
  ldk-node, cdk and the Breez SDK is not in the repository: what it does to the store in its own
  namespaces is part of its world.
\<close>

end
